(* ===== verification/Rust_Prelude.thy ===== *)
theory Rust_Prelude
  imports Main "HOL-Library.Word"
begin

text \<open>
  The part of the Rust language that every component shares: fallible results with panics,
  the \<^verbatim>\<open>?\<close> operator, \<^verbatim>\<open>usize\<close> arithmetic in both build profiles, slices, and little-endian
  integers.

  A Rust function that returns \<^verbatim>\<open>Result<T, E>\<close> is a HOL function into \<open>('e, 'a) result\<close>. Its
  error side is either \<open>Err e\<close> (the function returned an error value) or \<open>Panic msg\<close> (the
  thread panicked: an out-of-range index, an \<^verbatim>\<open>unwrap\<close> on \<^verbatim>\<open>None\<close>, a checked overflow). An
  \<^verbatim>\<open>anyhow\<close> error is a \<open>string\<close>: the static text of its outermost message.

  \<^verbatim>\<open>usize\<close> values are natural numbers below \<open>2 ^ 64\<close>. Cargo compiles with overflow checks in
  the debug profile and without them in the release profile, so an operation that can
  overflow takes a flag \<open>oc\<close> (overflow checks on) and panics or wraps accordingly.
\<close>

named_theorems result_simps \<open>rewriting with results, slices and usize arithmetic\<close>
named_theorems result_dest \<open>inversion of successful results\<close>

subsection \<open>Types\<close>

type_synonym byte = "8 word"
type_synonym bytes = "8 word list"
type_synonym u16 = "16 word"
type_synonym u32 = "32 word"
type_synonym u64 = "64 word"
type_synonym usize = nat

datatype 'e failure = Err (err_value: 'e) | Panic string

type_synonym ('e, 'a) result = "'e failure + 'a"
type_synonym 'a anyhow = "(string, 'a) result"

subsection \<open>Results\<close>

text \<open>\<open>and_then m k\<close> is \<^verbatim>\<open>let x = m?; k(x)\<close>: an error or a panic of \<open>m\<close> ends the function.\<close>

definition and_then :: "('e, 'a) result \<Rightarrow> ('a \<Rightarrow> ('e, 'b) result) \<Rightarrow> ('e, 'b) result" where
  "and_then m k = (case m of Inl f \<Rightarrow> Inl f | Inr x \<Rightarrow> k x)"

definition bail :: "'e \<Rightarrow> ('e, 'a) result" where
  "bail e = Inl (Err e)"

definition panic :: "string \<Rightarrow> ('e, 'a) result" where
  "panic msg = Inl (Panic msg)"

definition ok_or :: "'a option \<Rightarrow> 'e \<Rightarrow> ('e, 'a) result" where
  "ok_or x e = (case x of None \<Rightarrow> Inl (Err e) | Some v \<Rightarrow> Inr v)"

text \<open>A guard that returns early with an error.\<close>

definition ensure :: "bool \<Rightarrow> 'e \<Rightarrow> ('e, unit) result" where
  "ensure b e = (if b then Inr () else bail e)"

text \<open>\<^verbatim>\<open>Result::map_err\<close>, and anyhow's \<^verbatim>\<open>.context\<close>, which replaces the outermost message.\<close>

definition map_err :: "('e \<Rightarrow> 'f) \<Rightarrow> ('e, 'a) result \<Rightarrow> ('f, 'a) result" where
  "map_err f m = (case m of Inl (Err e) \<Rightarrow> Inl (Err (f e)) | Inl (Panic s) \<Rightarrow> Inl (Panic s) | Inr x \<Rightarrow> Inr x)"

definition with_context :: "string \<Rightarrow> 'a anyhow \<Rightarrow> 'a anyhow" where
  "with_context msg m = map_err (\<lambda>_. msg) m"

text \<open>\<^verbatim>\<open>Result::unwrap_or_else\<close>: an error is replaced, a panic is not.\<close>

definition unwrap_or_else :: "('e, 'a) result \<Rightarrow> ('e \<Rightarrow> 'a) \<Rightarrow> ('f, 'a) result" where
  "unwrap_or_else m g =
     (case m of Inl (Err e) \<Rightarrow> Inr (g e) | Inl (Panic s) \<Rightarrow> Inl (Panic s) | Inr x \<Rightarrow> Inr x)"

definition panics :: "('e, 'a) result \<Rightarrow> bool" where
  "panics m = (case m of Inl (Panic _) \<Rightarrow> True | _ \<Rightarrow> False)"

text \<open>The outcome of a computation without the text of its panic.\<close>

definition outcome :: "('e, 'a) result \<Rightarrow> ('e, 'a) result" where
  "outcome m = (if panics m then panic '''' else m)"

subsection \<open>Arithmetic on usize\<close>

definition usize_bound :: nat where
  "usize_bound = 2 ^ 64"

definition usize_add :: "bool \<Rightarrow> usize \<Rightarrow> usize \<Rightarrow> ('e, usize) result" where
  "usize_add oc a b =
     (if a + b < usize_bound then Inr (a + b)
      else if oc then panic ''attempt to add with overflow''
      else Inr ((a + b) mod usize_bound))"

definition usize_sub :: "bool \<Rightarrow> usize \<Rightarrow> usize \<Rightarrow> ('e, usize) result" where
  "usize_sub oc a b =
     (if b \<le> a then Inr (a - b)
      else if oc then panic ''attempt to subtract with overflow''
      else Inr ((usize_bound + a - b) mod usize_bound))"

text \<open>\<^verbatim>\<open>usize::checked_add\<close> and \<^verbatim>\<open>u64::checked_mul\<close>.\<close>

definition checked_add :: "usize \<Rightarrow> usize \<Rightarrow> usize option" where
  "checked_add a b = (if a + b < usize_bound then Some (a + b) else None)"

definition checked_mul :: "usize \<Rightarrow> usize \<Rightarrow> usize option" where
  "checked_mul a b = (if a * b < usize_bound then Some (a * b) else None)"

subsection \<open>Slices\<close>

text \<open>\<^verbatim>\<open>xs.get(a..b)\<close>, \<^verbatim>\<open>&xs[a..b]\<close>, \<^verbatim>\<open>&xs[a..]\<close> and \<^verbatim>\<open>xs[i]\<close>.\<close>

definition slice_get :: "'a list \<Rightarrow> usize \<Rightarrow> usize \<Rightarrow> 'a list option" where
  "slice_get xs a b = (if a \<le> b \<and> b \<le> length xs then Some (take (b - a) (drop a xs)) else None)"

definition slice :: "'a list \<Rightarrow> usize \<Rightarrow> usize \<Rightarrow> ('e, 'a list) result" where
  "slice xs a b =
     (case slice_get xs a b of None \<Rightarrow> panic ''slice index out of range'' | Some ys \<Rightarrow> Inr ys)"

definition slice_from :: "'a list \<Rightarrow> usize \<Rightarrow> ('e, 'a list) result" where
  "slice_from xs a = slice xs a (length xs)"

definition index_at :: "'a list \<Rightarrow> usize \<Rightarrow> ('e, 'a) result" where
  "index_at xs i = (if i < length xs then Inr (xs ! i) else panic ''index out of bounds'')"

text \<open>\<^verbatim>\<open>xs.chunks_exact(2)\<close>: an incomplete last chunk is dropped.\<close>

fun chunks2 :: "'a list \<Rightarrow> 'a list list" where
  "chunks2 (a # b # xs) = [a, b] # chunks2 xs"
| "chunks2 _ = []"

subsection \<open>Little-endian integers\<close>

primrec le_val :: "bytes \<Rightarrow> nat" where
  "le_val [] = 0"
| "le_val (b # bs) = unat b + 256 * le_val bs"

definition from_le_bytes :: "bytes \<Rightarrow> 'a::len word" where
  "from_le_bytes bs = of_nat (le_val bs)"

primrec le_enc :: "nat \<Rightarrow> nat \<Rightarrow> bytes" where
  "le_enc 0 v = []"
| "le_enc (Suc n) v = of_nat (v mod 256) # le_enc n (v div 256)"

subsection \<open>Association lists as the program's ordered maps\<close>

text \<open>Insertion that replaces the value of an existing key in place and appends a new key.\<close>

fun assoc_insert :: "'k \<Rightarrow> 'v \<Rightarrow> ('k \<times> 'v) list \<Rightarrow> ('k \<times> 'v) list" where
  "assoc_insert k v [] = [(k, v)]"
| "assoc_insert k v ((k', v') # xs) =
     (if k = k' then (k, v) # xs else (k', v') # assoc_insert k v xs)"

subsection \<open>Lemmas\<close>

lemma and_then_simps [simp]:
  "and_then (Inl f) k = Inl f"
  "and_then (Inr x) k = k x"
  by (simp_all add: and_then_def)

lemma and_then_eq_Inr_iff [result_simps]:
  "and_then m k = Inr y \<longleftrightarrow> (\<exists>x. m = Inr x \<and> k x = Inr y)"
  by (cases m) auto

lemma and_then_eq_Inl_iff [result_simps]:
  "and_then m k = Inl f \<longleftrightarrow> m = Inl f \<or> (\<exists>x. m = Inr x \<and> k x = Inl f)"
  by (cases m) auto

lemma and_then_InrE [result_dest]:
  assumes "and_then m k = Inr y"
  obtains x where "m = Inr x" and "k x = Inr y"
  using assms by (auto simp: and_then_eq_Inr_iff)

lemma and_then_assoc: "and_then (and_then m k) l = and_then m (\<lambda>x. and_then (k x) l)"
  by (cases m) auto

lemma and_then_cong [fundef_cong]:
  "m = m' \<Longrightarrow> (\<And>x. m' = Inr x \<Longrightarrow> k x = k' x) \<Longrightarrow> and_then m k = and_then m' k'"
  by (cases m') auto

lemma bail_simps [simp]:
  "and_then (bail e) k = bail e" "bail e \<noteq> Inr x" "Inr x \<noteq> bail e"
  "bail e = bail e' \<longleftrightarrow> e = e'"
  by (simp_all add: bail_def)

lemma panic_simps [simp]:
  "and_then (panic s) k = panic s" "panic s \<noteq> Inr x" "Inr x \<noteq> panic s"
  "panic s \<noteq> bail e" "bail e \<noteq> panic s" "panic s = panic s' \<longleftrightarrow> s = s'"
  by (simp_all add: panic_def bail_def)

lemma ok_or_simps [simp]: "ok_or None e = bail e" "ok_or (Some x) e = Inr x"
  by (simp_all add: ok_or_def bail_def)

lemma ok_or_eq_Inr_iff [simp]: "ok_or x e = Inr y \<longleftrightarrow> x = Some y"
  by (cases x) auto

lemma ensure_simps [simp]:
  "ensure True e = Inr ()" "ensure False e = bail e" "ensure b e = Inr u \<longleftrightarrow> b"
  by (simp_all add: ensure_def)

lemma map_err_simps [simp]:
  "map_err f (Inr x) = Inr x" "map_err f (bail e) = bail (f e)" "map_err f (panic s) = panic s"
  by (simp_all add: map_err_def bail_def panic_def)

lemma map_err_eq_Inr_iff [simp]: "map_err f m = Inr y \<longleftrightarrow> m = Inr y"
  by (auto simp: map_err_def split: sum.splits failure.splits)

lemma with_context_simps [simp]:
  "with_context s (Inr x) = Inr x" "with_context s (bail e) = bail s"
  "with_context s (panic p) = panic p" "with_context s m = Inr y \<longleftrightarrow> m = Inr y"
  by (simp_all add: with_context_def)

lemma unwrap_or_else_simps [simp]:
  "unwrap_or_else (Inr x) g = Inr x" "unwrap_or_else (bail e) g = Inr (g e)"
  "unwrap_or_else (panic s) g = panic s"
  by (simp_all add: unwrap_or_else_def bail_def panic_def)

lemma panics_simps [simp]:
  "panics (Inr x) \<longleftrightarrow> False" "panics (bail e) \<longleftrightarrow> False" "panics (panic s)"
  by (simp_all add: panics_def bail_def panic_def)

lemma panics_and_then [simp]:
  "panics (and_then m k) \<longleftrightarrow> panics m \<or> (\<exists>x. m = Inr x \<and> panics (k x))"
  by (cases m) (auto simp: panics_def split: failure.splits)

lemma panics_map_err [simp]: "panics (map_err f m) \<longleftrightarrow> panics m"
  by (auto simp: panics_def map_err_def split: sum.splits failure.splits)

lemma panics_with_context [simp]: "panics (with_context s m) \<longleftrightarrow> panics m"
  by (simp add: with_context_def)

lemma panics_ok_or [simp]: "\<not> panics (ok_or x e)"
  by (cases x) auto

lemma panics_ensure [simp]: "\<not> panics (ensure b e)"
  by (simp add: ensure_def)

lemma panics_unwrap_or_else [simp]: "panics (unwrap_or_else m g) \<longleftrightarrow> panics m"
  by (auto simp: panics_def unwrap_or_else_def split: sum.splits failure.splits)

lemma outcome_simps [simp]:
  "outcome (Inr x) = Inr x" "outcome (bail e) = bail e" "outcome (panic s) = panic ''''"
  by (simp_all add: outcome_def)

lemma result_cases [case_names Ok Error Crash]:
  assumes "\<And>x. m = Inr x \<Longrightarrow> P" and "\<And>e. m = bail e \<Longrightarrow> P" and "\<And>s. m = panic s \<Longrightarrow> P"
  shows P
proof (cases m)
  case (Inl f)
  then show P using assms(2,3) by (cases f) (auto simp: bail_def panic_def)
next
  case (Inr x)
  then show P using assms(1) by blast
qed

lemma usize_add_small [simp]: "a + b < usize_bound \<Longrightarrow> usize_add oc a b = Inr (a + b)"
  by (simp add: usize_add_def)

lemma usize_sub_ge [simp]: "b \<le> a \<Longrightarrow> usize_sub oc a b = Inr (a - b)"
  by (simp add: usize_sub_def)

lemma slice_get_eq_Some_iff [result_simps]:
  "slice_get xs a b = Some ys \<longleftrightarrow> a \<le> b \<and> b \<le> length xs \<and> ys = take (b - a) (drop a xs)"
  by (auto simp: slice_get_def)

lemma slice_eq_Inr_iff [result_simps]:
  "slice xs a b = Inr ys \<longleftrightarrow> a \<le> b \<and> b \<le> length xs \<and> ys = take (b - a) (drop a xs)"
  by (auto simp: slice_def slice_get_def)

lemma panics_slice [simp]: "panics (slice xs a b) \<longleftrightarrow> \<not> (a \<le> b \<and> b \<le> length xs)"
  by (simp add: slice_def slice_get_def)

lemma slice_in_range:
  "a \<le> b \<Longrightarrow> b \<le> length xs \<Longrightarrow> slice xs a b = Inr (take (b - a) (drop a xs))"
  by (simp add: slice_eq_Inr_iff)

lemma slice_from_in_range [simp]: "a \<le> length xs \<Longrightarrow> slice_from xs a = Inr (drop a xs)"
  by (simp add: slice_from_def slice_eq_Inr_iff)

lemma index_at_eq_Inr_iff [result_simps]: "index_at xs i = Inr x \<longleftrightarrow> i < length xs \<and> x = xs ! i"
  by (auto simp: index_at_def)

lemma panics_index_at [simp]: "panics (index_at xs i) \<longleftrightarrow> length xs \<le> i"
  by (simp add: index_at_def)

lemma unat_byte_less: "unat (b :: 8 word) < 256"
  using unsigned_less [of b] by simp

lemma unat_ucast_u16: "unat (ucast (n :: 16 word) :: 32 word) = unat n"
proof -
  have "unat n < 2 ^ 32" using unsigned_less [where 'a = nat, of n] by simp
  then show ?thesis by (simp add: unsigned_ucast_eq take_bit_nat_eq_self)
qed

lemma unat_u32_less: "unat (n :: 32 word) < 4294967296"
  using unsigned_less [where 'a = nat, of n] by simp

lemma unat_u64_less: "unat (n :: 64 word) < 18446744073709551616"
  using unsigned_less [where 'a = nat, of n] by simp

lemma length_chunks2: "length (chunks2 xs) = length xs div 2"
  by (induction xs rule: chunks2.induct) auto

lemma length_le_enc [simp]: "length (le_enc n v) = n"
  by (induction n arbitrary: v) auto

lemma le_enc_2: "le_enc 2 v = [of_nat (v mod 256), of_nat (v div 256 mod 256)]"
  by (simp add: numeral_2_eq_2)

lemma le_enc_4:
  "le_enc 4 v = [of_nat (v mod 256), of_nat (v div 256 mod 256), of_nat (v div 65536 mod 256),
     of_nat (v div 16777216 mod 256)]"
proof -
  have four: "4 = Suc (Suc (Suc (Suc 0)))" by simp
  show ?thesis by (subst four) (simp add: div_mult2_eq [symmetric])
qed

lemma le_val_le_enc: "le_val (le_enc n v) = v mod 256 ^ n"
proof (induction n arbitrary: v)
  case 0
  then show ?case by simp
next
  case (Suc n)
  have "unat (word_of_nat (v mod 256) :: 8 word) = v mod 256"
    by (simp add: unat_of_nat)
  with Suc show ?case
    by (simp add: mod_mult2_eq)
qed

lemma le_val_append: "le_val (xs @ ys) = le_val xs + 256 ^ length xs * le_val ys"
  by (induction xs) (simp_all add: algebra_simps)

lemma le_val_bound: "le_val bs < 256 ^ length bs"
proof (induction bs)
  case Nil
  then show ?case by simp
next
  case (Cons b bs)
  have "unat b < 256" by (rule unat_byte_less)
  with Cons show ?case by simp
qed

lemma le_enc_le_val: "le_enc (length bs) (le_val bs) = bs"
proof (induction bs)
  case Nil
  then show ?case by simp
next
  case (Cons b bs)
  have "unat b < 256" by (rule unat_byte_less)
  with Cons show ?case by simp
qed

lemma from_le_bytes_le_enc:
  fixes w :: "'a::len word"
  assumes "LENGTH('a) = 8 * n"
  shows "from_le_bytes (le_enc n (unat w)) = w"
proof -
  have "(256::nat) ^ n = 2 ^ LENGTH('a)"
    using assms by (simp add: power_mult)
  then show ?thesis
    by (simp add: from_le_bytes_def le_val_le_enc)
qed

lemma unat_from_le_bytes:
  assumes "length bs = n" and "LENGTH('a::len) = 8 * n"
  shows "unat (from_le_bytes bs :: 'a word) = le_val bs"
proof -
  have "(256::nat) ^ n = 2 ^ LENGTH('a)"
    using assms by (simp add: power_mult)
  then have "le_val bs < 2 ^ LENGTH('a)"
    using le_val_bound [of bs] assms(1) by simp
  then show ?thesis
    by (simp add: from_le_bytes_def unat_of_nat)
qed

lemma unat_from_le_bytes_le_enc:
  assumes "LENGTH('a::len) = 8 * n" and "v < 256 ^ n"
  shows "unat (from_le_bytes (le_enc n v) :: 'a word) = v"
  using assms by (simp add: unat_from_le_bytes [of _ n] le_val_le_enc)

lemma map_of_assoc_insert: "map_of (assoc_insert k v xs) = (map_of xs)(k \<mapsto> v)"
  by (induction xs) auto

lemma keys_assoc_insert: "fst ` set (assoc_insert k v xs) = insert k (fst ` set xs)"
  by (induction k v xs rule: assoc_insert.induct) auto

lemma distinct_assoc_insert:
  "distinct (map fst xs) \<Longrightarrow> distinct (map fst (assoc_insert k v xs))"
proof (induction k v xs rule: assoc_insert.induct)
  case (1 k v)
  then show ?case by simp
next
  case (2 k v k' v' xs)
  then show ?case
    using keys_assoc_insert [of k v xs] by (simp flip: set_map)
qed

end
