(* ===== verification/Rust_Text.thy ===== *)
theory Rust_Text
  imports Rust_Prelude
begin

text \<open>
  The text functions of Rust's standard library that the parsers use: UTF-8 and UTF-16
  decoding, strict and lossy, and the integer formats of \<^verbatim>\<open>format!\<close>.

  A Rust \<^verbatim>\<open>String\<close> is a sequence of UTF-8 bytes and is modelled as a HOL \<open>string\<close> with one
  \<open>char\<close> per byte. A Rust \<^verbatim>\<open>char\<close> is a Unicode scalar value and is modelled as a \<open>nat\<close>.
\<close>

subsection \<open>Bytes and characters\<close>

definition char_of_byte :: "byte \<Rightarrow> char" where
  "char_of_byte b = char_of (unat b)"

definition as_bytes :: "string \<Rightarrow> bytes" where
  "as_bytes s = map of_char s"

definition string_of_bytes :: "bytes \<Rightarrow> string" where
  "string_of_bytes bs = map char_of_byte bs"

subsection \<open>UTF-8\<close>

definition is_scalar :: "nat \<Rightarrow> bool" where
  "is_scalar c \<longleftrightarrow> c < 0xD800 \<or> (0xDFFF < c \<and> c < 0x110000)"

definition is_cont :: "byte \<Rightarrow> bool" where
  "is_cont b \<longleftrightarrow> 0x80 \<le> unat b \<and> unat b \<le> 0xBF"

text \<open>The number of bytes a lead byte announces; 0 for a byte that cannot lead a sequence.\<close>

definition utf8_width :: "byte \<Rightarrow> nat" where
  "utf8_width b =
     (if unat b < 0x80 then 1
      else if 0xC2 \<le> unat b \<and> unat b \<le> 0xDF then 2
      else if 0xE0 \<le> unat b \<and> unat b \<le> 0xEF then 3
      else if 0xF0 \<le> unat b \<and> unat b \<le> 0xF4 then 4
      else 0)"

text \<open>The second byte of a three or four byte sequence is restricted so that overlong forms,
  surrogates and values above \<open>0x10FFFF\<close> are excluded.\<close>

definition second_ok :: "byte \<Rightarrow> byte \<Rightarrow> bool" where
  "second_ok b c \<longleftrightarrow> is_cont c \<and>
     (unat b = 0xE0 \<longrightarrow> 0xA0 \<le> unat c) \<and> (unat b = 0xED \<longrightarrow> unat c \<le> 0x9F) \<and>
     (unat b = 0xF0 \<longrightarrow> 0x90 \<le> unat c) \<and> (unat b = 0xF4 \<longrightarrow> unat c \<le> 0x8F)"

text \<open>
  One step of the decoder: the next scalar value and its width, or no value and the length of
  the maximal ill-formed prefix, which the lossy decoder replaces by one \<open>U+FFFD\<close>.
\<close>

definition utf8_next :: "bytes \<Rightarrow> nat option \<times> nat" where
  "utf8_next bs = (case bs of [] \<Rightarrow> (None, 0) | b # r \<Rightarrow>
     (if utf8_width b = 0 then (None, 1)
      else if utf8_width b = 1 then (Some (unat b), 1)
      else (case r of [] \<Rightarrow> (None, 1) | c # r1 \<Rightarrow>
        (if \<not> second_ok b c then (None, 1)
         else if utf8_width b = 2 then (Some ((unat b - 0xC0) * 64 + (unat c - 0x80)), 2)
         else (case r1 of [] \<Rightarrow> (None, 2) | d # r2 \<Rightarrow>
           (if \<not> is_cont d then (None, 2)
            else if utf8_width b = 3
            then (Some ((unat b - 0xE0) * 4096 + (unat c - 0x80) * 64 + (unat d - 0x80)), 3)
            else (case r2 of [] \<Rightarrow> (None, 3) | e # r3 \<Rightarrow>
              (if \<not> is_cont e then (None, 3)
               else (Some ((unat b - 0xF0) * 262144 + (unat c - 0x80) * 4096 +
                           (unat d - 0x80) * 64 + (unat e - 0x80)), 4)))))))))"

lemma utf8_next_length:
  "bs \<noteq> [] \<Longrightarrow> 1 \<le> snd (utf8_next bs) \<and> snd (utf8_next bs) \<le> length bs"
  by (auto simp: utf8_next_def split: list.splits if_splits)

function utf8_decode :: "bytes \<Rightarrow> nat list option" where
  "utf8_decode bs =
     (if bs = [] then Some []
      else case fst (utf8_next bs) of None \<Rightarrow> None
         | Some c \<Rightarrow> map_option (Cons c) (utf8_decode (drop (snd (utf8_next bs)) bs)))"
  by pat_completeness auto
termination
proof (relation "measure length")
  fix bs :: bytes and c
  assume "bs \<noteq> []"
  then show "(drop (snd (utf8_next bs)) bs, bs) \<in> measure length"
    using utf8_next_length [of bs] by simp
qed auto

function utf8_decode_lossy :: "bytes \<Rightarrow> nat list" where
  "utf8_decode_lossy bs =
     (if bs = [] then []
      else (case fst (utf8_next bs) of None \<Rightarrow> 0xFFFD | Some c \<Rightarrow> c) #
           utf8_decode_lossy (drop (snd (utf8_next bs)) bs))"
  by pat_completeness auto
termination
proof (relation "measure length")
  fix bs :: bytes
  assume "bs \<noteq> []"
  then show "(drop (snd (utf8_next bs)) bs, bs) \<in> measure length"
    using utf8_next_length [of bs] by simp
qed auto

declare utf8_decode.simps [simp del] utf8_decode_lossy.simps [simp del]

definition utf8_encode_char :: "nat \<Rightarrow> bytes" where
  "utf8_encode_char c =
     (if c < 0x80 then [of_nat c]
      else if c < 0x800 then [of_nat (0xC0 + c div 64), of_nat (0x80 + c mod 64)]
      else if c < 0x10000 then
        [of_nat (0xE0 + c div 4096), of_nat (0x80 + c div 64 mod 64), of_nat (0x80 + c mod 64)]
      else
        [of_nat (0xF0 + c div 262144), of_nat (0x80 + c div 4096 mod 64),
         of_nat (0x80 + c div 64 mod 64), of_nat (0x80 + c mod 64)])"

definition utf8_encode :: "nat list \<Rightarrow> bytes" where
  "utf8_encode cs = concat (map utf8_encode_char cs)"

text \<open>\<^verbatim>\<open>String::from_utf8\<close> (and \<^verbatim>\<open>std::str::from_utf8\<close>), \<^verbatim>\<open>String::from_utf8_lossy\<close>,
  \<^verbatim>\<open>str::chars\<close> and the collection of \<^verbatim>\<open>char\<close>s into a \<^verbatim>\<open>String\<close>.\<close>

definition from_utf8 :: "bytes \<Rightarrow> string option" where
  "from_utf8 bs = (if utf8_decode bs = None then None else Some (string_of_bytes bs))"

definition from_utf8_lossy :: "bytes \<Rightarrow> string" where
  "from_utf8_lossy bs = string_of_bytes (utf8_encode (utf8_decode_lossy bs))"

definition chars_of :: "string \<Rightarrow> nat list" where
  "chars_of s = utf8_decode_lossy (as_bytes s)"

definition string_of_chars :: "nat list \<Rightarrow> string" where
  "string_of_chars cs = string_of_bytes (utf8_encode cs)"

text \<open>\<^verbatim>\<open>char::is_control\<close>: general category Cc.\<close>

definition is_control :: "nat \<Rightarrow> bool" where
  "is_control c \<longleftrightarrow> c \<le> 0x1F \<or> (0x7F \<le> c \<and> c \<le> 0x9F)"

subsection \<open>UTF-16\<close>

text \<open>\<^verbatim>\<open>std::char::decode_utf16\<close>: \<open>None\<close> stands for an unpaired surrogate.\<close>

fun decode_utf16 :: "u16 list \<Rightarrow> nat option list" where
  "decode_utf16 [] = []"
| "decode_utf16 [u] =
     (if 0xD800 \<le> unat u \<and> unat u \<le> 0xDFFF then [None] else [Some (unat u)])"
| "decode_utf16 (u # v # us) =
     (if \<not> (0xD800 \<le> unat u \<and> unat u \<le> 0xDFFF) then Some (unat u) # decode_utf16 (v # us)
      else if 0xDC00 \<le> unat u then None # decode_utf16 (v # us)
      else if \<not> (0xDC00 \<le> unat v \<and> unat v \<le> 0xDFFF) then None # decode_utf16 (v # us)
      else Some ((unat u mod 1024) * 1024 + unat v mod 1024 + 0x10000) # decode_utf16 us)"

definition from_utf16 :: "u16 list \<Rightarrow> string option" where
  "from_utf16 us =
     (if None \<in> set (decode_utf16 us) then None
      else Some (string_of_chars (map the (decode_utf16 us))))"

definition from_utf16_lossy :: "u16 list \<Rightarrow> string" where
  "from_utf16_lossy us =
     string_of_chars (map (\<lambda>c. case c of None \<Rightarrow> 0xFFFD | Some x \<Rightarrow> x) (decode_utf16 us))"

subsection \<open>Integer formats\<close>

function nat_digits :: "nat \<Rightarrow> nat \<Rightarrow> nat list" where
  "nat_digits b n = (if b < 2 \<or> n < b then [n] else nat_digits b (n div b) @ [n mod b])"
  by pat_completeness auto
termination
  by (relation "measure snd") auto

declare nat_digits.simps [simp del]

definition digit_char :: "bool \<Rightarrow> nat \<Rightarrow> char" where
  "digit_char upper d =
     (if d < 10 then char_of (48 + d) else char_of ((if upper then 55 else 87) + d))"

definition pad_zero :: "nat \<Rightarrow> string \<Rightarrow> string" where
  "pad_zero w s = replicate (w - length s) (CHR ''0'') @ s"

text \<open>\<^verbatim>\<open>{}\<close>, \<^verbatim>\<open>{:x}\<close> and \<^verbatim>\<open>{:X}\<close> of an unsigned integer.\<close>

definition fmt_dec :: "nat \<Rightarrow> string" where
  "fmt_dec n = map (digit_char False) (nat_digits 10 n)"

definition fmt_hex :: "nat \<Rightarrow> string" where
  "fmt_hex n = map (digit_char False) (nat_digits 16 n)"

definition fmt_HEX :: "nat \<Rightarrow> string" where
  "fmt_HEX n = map (digit_char True) (nat_digits 16 n)"

text \<open>\<^verbatim>\<open>str::find(char)\<close>, \<^verbatim>\<open>str::trim_end_matches(char)\<close> and \<^verbatim>\<open>to_uppercase\<close> on ASCII text.\<close>

definition find_char :: "char \<Rightarrow> string \<Rightarrow> nat option" where
  "find_char c s = (if c \<in> set s then Some (length (takeWhile (\<lambda>x. x \<noteq> c) s)) else None)"

definition trim_end_matches :: "char \<Rightarrow> string \<Rightarrow> string" where
  "trim_end_matches c s = rev (dropWhile (\<lambda>x. x = c) (rev s))"

definition ascii_upper :: "char \<Rightarrow> char" where
  "ascii_upper c =
     (if 97 \<le> (of_char c :: nat) \<and> (of_char c :: nat) \<le> 122 then char_of ((of_char c :: nat) - 32) else c)"

text \<open>\<^verbatim>\<open>str::starts_with\<close>, \<^verbatim>\<open>str::trim\<close> (by the Unicode property White_Space) and \<^verbatim>\<open>str::split\<close> by a non-empty
  string.\<close>

definition starts_with :: "string \<Rightarrow> string \<Rightarrow> bool" where
  "starts_with pre s \<longleftrightarrow> take (length pre) s = pre"

definition is_whitespace :: "nat \<Rightarrow> bool" where
  "is_whitespace c \<longleftrightarrow> 9 \<le> c \<and> c \<le> 13 \<or> 0x2000 \<le> c \<and> c \<le> 0x200A \<or>
     c \<in> {32, 0x85, 0xA0, 0x1680, 0x2028, 0x2029, 0x202F, 0x205F, 0x3000}"

definition trim :: "string \<Rightarrow> string" where
  "trim s = string_of_chars (rev (dropWhile is_whitespace (rev (dropWhile is_whitespace (chars_of s)))))"

fun split_str_aux :: "string \<Rightarrow> nat \<Rightarrow> string \<Rightarrow> string \<Rightarrow> string list" where
  "split_str_aux pat skip acc [] = [rev acc]"
| "split_str_aux pat (Suc n) acc (x # xs) = split_str_aux pat n acc xs"
| "split_str_aux pat 0 acc (x # xs) =
     (if starts_with pat (x # xs) then rev acc # split_str_aux pat (length pat - 1) [] xs
      else split_str_aux pat 0 (x # acc) xs)"

definition split_str :: "string \<Rightarrow> string \<Rightarrow> string list" where
  "split_str pat s = split_str_aux pat 0 [] s"

text \<open>\<^verbatim>\<open>str::split\<close> by a character.\<close>

fun split_on :: "char \<Rightarrow> string \<Rightarrow> string list" where
  "split_on c [] = [[]]"
| "split_on c (x # xs) =
     (if x = c then [] # split_on c xs
      else (case split_on c xs of [] \<Rightarrow> [[x]] | y # ys \<Rightarrow> (x # y) # ys))"

subsection \<open>Lemmas\<close>

lemma unat_of_char: "unat (of_char c :: byte) = of_char c"
proof -
  have "(of_char c :: byte) = of_nat (of_char c)" by (simp only: of_nat_of_char)
  then have "unat (of_char c :: byte) = of_char c mod 256" by (simp only: unat_of_nat) simp
  then show ?thesis by (simp only: of_char_mod_256)
qed

lemma string_of_bytes_as_bytes [simp]: "string_of_bytes (as_bytes s) = s"
proof -
  have "char_of_byte (of_char c :: byte) = c" for c :: char
    by (simp add: char_of_byte_def unat_of_char)
  then show ?thesis
    by (simp add: as_bytes_def string_of_bytes_def comp_def map_idI)
qed

lemma as_bytes_string_of_bytes [simp]: "as_bytes (string_of_bytes bs) = bs"
proof -
  have "(of_char (char_of (unat b) :: char) :: byte) = b" for b :: byte
  proof -
    have "(of_char (char_of (unat b) :: char) :: byte) = of_nat (of_char (char_of (unat b) :: char))"
      by (simp only: of_nat_of_char)
    also have "\<dots> = of_nat (unat b mod 256)" by (simp only: of_char_of)
    also have "unat b mod 256 = unat b" by (simp add: unat_byte_less)
    finally show ?thesis by simp
  qed
  then show ?thesis
    by (simp add: as_bytes_def string_of_bytes_def char_of_byte_def comp_def map_idI)
qed

lemma utf8_decode_Nil [simp]: "utf8_decode [] = Some []"
  by (simp add: utf8_decode.simps)

lemma utf8_decode_lossy_Nil [simp]: "utf8_decode_lossy [] = []"
  by (simp add: utf8_decode_lossy.simps)

lemma unat_byte_of_nat: "n < 256 \<Longrightarrow> unat (of_nat n :: byte) = n"
  by (simp add: unat_of_nat)

text \<open>A value as base-64 digits: the continuation bytes of its encoding.\<close>

lemma base64_digits:
  fixes c :: nat
  obtains a d e where "c = a * 4096 + d * 64 + e" and "d < 64" and "e < 64"
    and "c div 4096 = a" and "c div 64 mod 64 = d" and "c mod 64 = e"
proof
  show "c = c div 4096 * 4096 + c div 64 mod 64 * 64 + c mod 64"
    using div_mult_mod_eq [of c 64] div_mult_mod_eq [of "c div 64" 64]
      div_mult2_eq [of c 64 64, simplified]
    by linarith
qed simp_all

lemma base64_digits_unique:
  fixes a d e :: nat
  assumes "d < 64" and "e < 64"
  shows "(a * 4096 + d * 64 + e) div 4096 = a" and "(a * 4096 + d * 64 + e) div 64 mod 64 = d"
    and "(a * 4096 + d * 64 + e) mod 64 = e"
proof -
  have q: "(a * 4096 + d * 64 + e) div 64 = a * 64 + d" using assms by simp
  then show "(a * 4096 + d * 64 + e) div 64 mod 64 = d" using assms by simp
  show "(a * 4096 + d * 64 + e) div 4096 = a"
    using q div_mult2_eq [of "a * 4096 + d * 64 + e" 64 64] assms by simp
  show "(a * 4096 + d * 64 + e) mod 64 = e" using assms by (simp add: mod_add_left_eq [symmetric])
qed

lemma utf8_next_encode:
  assumes "is_scalar c"
  shows "utf8_next (utf8_encode_char c @ bs) = (Some c, length (utf8_encode_char c))"
proof -
  note defs = utf8_encode_char_def utf8_next_def utf8_width_def second_ok_def is_cont_def
    unat_byte_of_nat
  consider "c < 0x80" | "0x80 \<le> c" "c < 0x800" | "0x800 \<le> c" "c < 0x10000" | "0x10000 \<le> c"
    by linarith
  then show ?thesis
  proof cases
    case 1
    then show ?thesis by (simp add: defs)
  next
    case 2
    then have "c div 64 < 32" "2 \<le> c div 64" by auto
    then show ?thesis using 2 by (simp add: defs del: of_nat_add)
  next
    case 3
    obtain a d e where c: "c = a * 4096 + d * 64 + e" and b: "d < 64" "e < 64"
      and eqs: "c div 4096 = a" "c div 64 mod 64 = d" "c mod 64 = e"
      by (rule base64_digits)
    have enc: "utf8_encode_char c = [of_nat (0xE0 + a), of_nat (0x80 + d), of_nat (0x80 + e)]"
      using 3 by (simp add: utf8_encode_char_def eqs)
    have "a < 16" "a = 0 \<Longrightarrow> 32 \<le> d" using 3 c b by linarith+
    moreover have "a = 13 \<Longrightarrow> d \<le> 31" using assms c b by (auto simp: is_scalar_def)
    ultimately show ?thesis
      unfolding enc using b by (simp add: defs c del: of_nat_add)
  next
    case 4
    obtain a' d e where c: "c = a' * 4096 + d * 64 + e" and b: "d < 64" "e < 64"
      and eqs: "c div 4096 = a'" "c div 64 mod 64 = d" "c mod 64 = e"
      by (rule base64_digits)
    have s: "c div 262144 = a' div 64" using eqs(1) div_mult2_eq [of c 4096 64] by simp
    have a': "a' = a' div 64 * 64 + a' mod 64" "a' mod 64 < 64" by simp_all
    define f g where "f = a' div 64" and "g = a' mod 64"
    have enc: "utf8_encode_char c =
        [of_nat (0xF0 + f), of_nat (0x80 + g), of_nat (0x80 + d), of_nat (0x80 + e)]"
      using 4 by (simp add: utf8_encode_char_def eqs s f_def g_def)
    have c': "c = f * 262144 + g * 4096 + d * 64 + e" "g < 64"
      using c a' unfolding f_def g_def by linarith+
    have "c < 0x110000" using 4 assms by (simp add: is_scalar_def)
    then have "f < 5" "f = 0 \<Longrightarrow> 16 \<le> g" "f = 4 \<Longrightarrow> g \<le> 15" using 4 c' b by linarith+
    then show ?thesis
      unfolding enc using b c'(2) by (simp add: defs c'(1) del: of_nat_add)
  qed
qed

lemma utf8_encode_char_nonempty [simp]: "utf8_encode_char c \<noteq> []"
  by (simp add: utf8_encode_char_def)

lemma utf8_decode_encode:
  assumes "\<forall>c \<in> set cs. is_scalar c"
  shows "utf8_decode (utf8_encode cs) = Some cs"
  using assms
proof (induction cs)
  case Nil
  then show ?case by (simp add: utf8_encode_def)
next
  case (Cons c cs)
  then show ?case
    by (simp add: utf8_encode_def utf8_decode.simps [of "_ @ _"] utf8_next_encode)
qed

lemma utf8_next_scalar:
  assumes "utf8_next bs = (Some c, n)"
  shows "is_scalar c \<and> take n bs = utf8_encode_char c"
proof -
  from assms obtain b r where bs: "bs = b # r" by (cases bs) (auto simp: utf8_next_def)
  note defs = bs utf8_next_def utf8_width_def second_ok_def is_cont_def
  consider "utf8_width b = 1" | "utf8_width b = 2" | "utf8_width b = 3" | "utf8_width b = 4"
    using assms by (auto simp: bs utf8_next_def utf8_width_def split: if_splits)
  then show ?thesis
  proof cases
    case 1
    with assms show ?thesis
      by (auto simp: bs utf8_next_def utf8_width_def is_scalar_def utf8_encode_char_def split: if_splits)
  next
    case 2
    with assms obtain y r1 where "r = y # r1" "n = 2" "second_ok b y"
      and c: "c = (unat b - 0xC0) * 64 + (unat y - 0x80)"
      by (auto simp: bs utf8_next_def split: list.splits if_splits)
    define a d where "a = unat b - 0xC0" and "d = unat y - 0x80"
    have u: "unat b = 0xC0 + a" "2 \<le> a" "a < 32" using 2
      by (auto simp: a_def utf8_width_def split: if_splits)
    have v: "unat y = 0x80 + d" "d < 64"
      using \<open>second_ok b y\<close> by (auto simp: d_def second_ok_def is_cont_def)
    have c': "c = a * 64 + d" using c by (simp add: a_def d_def)
    have "0x80 \<le> c" "c < 0x800" using u(2,3) v(2) unfolding c' by linarith+
    moreover have "[of_nat (0xC0 + a), of_nat (0x80 + d)] = [b, y]"
      by (simp only: u(1) [symmetric] v(1) [symmetric]) simp
    ultimately show ?thesis
      using \<open>r = y # r1\<close> \<open>n = 2\<close> v(2)
      by (simp add: bs is_scalar_def utf8_encode_char_def c' del: of_nat_add)
  next
    case 3
    with assms obtain y z r2 where "r = y # z # r2" "n = 3" "second_ok b y" "is_cont z"
      and c: "c = (unat b - 0xE0) * 4096 + (unat y - 0x80) * 64 + (unat z - 0x80)"
      by (auto simp: bs utf8_next_def split: list.splits if_splits)
    define a d e where "a = unat b - 0xE0" and "d = unat y - 0x80" and "e = unat z - 0x80"
    have u: "unat b = 0xE0 + a" "a < 16" using 3
      by (auto simp: a_def utf8_width_def split: if_splits)
    have v: "unat y = 0x80 + d" "d < 64" "unat z = 0x80 + e" "e < 64"
      "a = 0 \<Longrightarrow> 32 \<le> d" "a = 13 \<Longrightarrow> d \<le> 31"
      using \<open>second_ok b y\<close> \<open>is_cont z\<close> u by (auto simp: d_def e_def second_ok_def is_cont_def)
    have c': "c = a * 4096 + d * 64 + e" using c by (simp add: a_def d_def e_def)
    have "0x800 \<le> c" "c < 0x10000" "is_scalar c"
      using u(2) v(2,4,5,6) unfolding c' is_scalar_def by (cases "a = 0"; cases "a = 13"; linarith)+
    moreover have "[of_nat (0xE0 + a), of_nat (0x80 + d), of_nat (0x80 + e)] = [b, y, z]"
      by (simp only: u(1) [symmetric] v(1,3) [symmetric]) simp
    ultimately show ?thesis
      using base64_digits_unique [OF v(2,4), of a] \<open>r = y # z # r2\<close> \<open>n = 3\<close>
      by (simp add: bs utf8_encode_char_def c' del: of_nat_add)
  next
    case 4
    with assms obtain y z w r3 where "r = y # z # w # r3" "n = 4" "second_ok b y" "is_cont z" "is_cont w"
      and c: "c = (unat b - 0xF0) * 262144 + (unat y - 0x80) * 4096 + (unat z - 0x80) * 64 + (unat w - 0x80)"
      by (auto simp: bs utf8_next_def split: list.splits if_splits)
    define f g d e where "f = unat b - 0xF0" and "g = unat y - 0x80" and "d = unat z - 0x80"
      and "e = unat w - 0x80"
    have u: "unat b = 0xF0 + f" "f < 5" using 4
      by (auto simp: f_def utf8_width_def split: if_splits)
    have v: "unat y = 0x80 + g" "g < 64" "unat z = 0x80 + d" "d < 64" "unat w = 0x80 + e" "e < 64"
      "f = 0 \<Longrightarrow> 16 \<le> g" "f = 4 \<Longrightarrow> g \<le> 15"
      using \<open>second_ok b y\<close> \<open>is_cont z\<close> \<open>is_cont w\<close> u
      by (auto simp: g_def d_def e_def second_ok_def is_cont_def)
    have c': "c = (f * 64 + g) * 4096 + d * 64 + e" using c by (simp add: f_def g_def d_def e_def)
    have "16 \<le> f * 64 + g" using v(7) by (cases f) auto
    then have lo: "0x10000 \<le> c" unfolding c' by simp
    have "f * 64 + g \<le> 271"
    proof (cases "f = 4")
      case True
      then show ?thesis using v(8) by simp
    next
      case False
      then have "f \<le> 3" using u(2) by simp
      then show ?thesis using v(2) by linarith
    qed
    then have hi: "c < 0x110000" using v(4,6) unfolding c' by simp
    have "is_scalar c" using lo hi by (simp add: is_scalar_def)
    moreover note lo
    moreover have "c div 262144 = f" "c div 4096 mod 64 = g"
      using base64_digits_unique(1) [OF v(4,6), of "f * 64 + g"] div_mult2_eq [of c 4096 64] v(2)
      by (simp_all add: c')
    moreover have "[of_nat (0xF0 + f), of_nat (0x80 + g), of_nat (0x80 + d), of_nat (0x80 + e)] = [b, y, z, w]"
      by (simp only: u(1) [symmetric] v(1,3,5) [symmetric]) simp
    ultimately show ?thesis
      using base64_digits_unique [OF v(4,6), of "f * 64 + g"] \<open>r = y # z # w # r3\<close> \<open>n = 4\<close>
      by (simp add: bs utf8_encode_char_def c' del: of_nat_add)
  qed
qed

text \<open>Strict decoding inverts encoding, and lossy decoding agrees with it on well-formed input.\<close>

lemma utf8_decode_Some:
  "utf8_decode bs = Some cs \<Longrightarrow>
     utf8_encode cs = bs \<and> (\<forall>c \<in> set cs. is_scalar c) \<and> utf8_decode_lossy bs = cs"
proof (induction bs arbitrary: cs rule: utf8_decode.induct)
  case (1 bs)
  show ?case
  proof (cases "bs = []")
    case True
    with "1.prems" show ?thesis by (simp add: utf8_encode_def)
  next
    case False
    with "1.prems" obtain c cs' where c: "fst (utf8_next bs) = Some c" "cs = c # cs'"
      and d: "utf8_decode (drop (snd (utf8_next bs)) bs) = Some cs'"
      by (auto simp: utf8_decode.simps [of bs] split: option.splits)
    from "1.IH" [OF False c(1) d] utf8_next_scalar [of bs c "snd (utf8_next bs)"] c False
    show ?thesis
      by (auto simp: utf8_encode_def utf8_decode_lossy.simps [of bs] prod_eq_iff)
        (metis append_take_drop_id)
  qed
qed

lemma from_utf8_lossy_valid: "from_utf8 bs = Some s \<Longrightarrow> from_utf8_lossy bs = s"
  by (auto simp: from_utf8_def from_utf8_lossy_def dest!: utf8_decode_Some split: if_splits)

lemma from_utf8_as_bytes: "from_utf8 bs = Some s \<Longrightarrow> as_bytes s = bs"
  by (auto simp: from_utf8_def split: if_splits)

end
