(* ===== verification/Json.thy ===== *)
theory Json
  imports Rust_Text "HOL-Library.List_Lexorder" "HOL-Library.Char_ord"
begin

text \<open>
  The data type of \<^verbatim>\<open>serde_json::Value\<close>. The workspace does not enable serde_json's
  \<^verbatim>\<open>preserve_order\<close> feature, so an object is a \<^verbatim>\<open>BTreeMap<String, Value>\<close>: here an association
  list kept sorted by key (Rust compares strings by their UTF-8 bytes, HOL by their chars in
  the same order).
\<close>

datatype json_num = PosInt u64 | NegInt u64 | Float u64

datatype json =
    JNull
  | JBool bool
  | JNumber json_num
  | JString string
  | JArray "json list"
  | JObject "(string \<times> json) list"

text \<open>\<^verbatim>\<open>Map::insert\<close>, \<^verbatim>\<open>Map::get\<close> and \<^verbatim>\<open>Map::remove\<close>.\<close>

fun obj_insert :: "string \<Rightarrow> json \<Rightarrow> (string \<times> json) list \<Rightarrow> (string \<times> json) list" where
  "obj_insert k v [] = [(k, v)]"
| "obj_insert k v ((k', v') # xs) =
     (if k < k' then (k, v) # (k', v') # xs
      else if k = k' then (k, v) # xs
      else (k', v') # obj_insert k v xs)"

definition obj_get :: "(string \<times> json) list \<Rightarrow> string \<Rightarrow> json option" where
  "obj_get m k = map_of m k"

definition obj_remove :: "string \<Rightarrow> (string \<times> json) list \<Rightarrow> (string \<times> json) list" where
  "obj_remove k m = filter (\<lambda>p. fst p \<noteq> k) m"

text \<open>\<^verbatim>\<open>json!({ k: v, ... })\<close> and a derived \<^verbatim>\<open>Serialize\<close> of a struct insert the fields in order.\<close>

definition json_object :: "(string \<times> json) list \<Rightarrow> json" where
  "json_object kvs = JObject (fold (\<lambda>(k, v). obj_insert k v) kvs [])"

definition as_str :: "json \<Rightarrow> string option" where
  "as_str v = (case v of JString s \<Rightarrow> Some s | _ \<Rightarrow> None)"

definition as_bool :: "json \<Rightarrow> bool option" where
  "as_bool v = (case v of JBool b \<Rightarrow> Some b | _ \<Rightarrow> None)"

definition as_object :: "json \<Rightarrow> (string \<times> json) list option" where
  "as_object v = (case v of JObject m \<Rightarrow> Some m | _ \<Rightarrow> None)"

definition sorted_object :: "(string \<times> json) list \<Rightarrow> bool" where
  "sorted_object m \<longleftrightarrow> sorted_wrt (<) (map fst m)"

lemma map_of_obj_insert: "sorted_object m \<Longrightarrow> map_of (obj_insert k v m) = (map_of m)(k \<mapsto> v)"
proof (induction k v m rule: obj_insert.induct)
  case (1 k v)
  then show ?case by simp
next
  case (2 k v k' v' xs)
  then show ?case by (auto simp: sorted_object_def fun_eq_iff)
qed

lemma keys_obj_insert: "fst ` set (obj_insert k v m) = insert k (fst ` set m)"
  by (induction k v m rule: obj_insert.induct) auto

lemma sorted_obj_insert: "sorted_object m \<Longrightarrow> sorted_object (obj_insert k v m)"
proof (induction k v m rule: obj_insert.induct)
  case (1 k v)
  then show ?case by (simp add: sorted_object_def)
next
  case (2 k v k' v' xs)
  show ?case
  proof (cases "k < k'")
    case True
    with "2.prems" show ?thesis by (auto simp: sorted_object_def)
  next
    case False
    with 2 show ?thesis
      using keys_obj_insert [of k v xs]
      by (auto simp: sorted_object_def not_less simp flip: set_map)
  qed
qed

lemma sorted_obj_remove: "sorted_object m \<Longrightarrow> sorted_object (obj_remove k m)"
  by (induction m) (auto simp: sorted_object_def obj_remove_def)

lemma map_of_obj_remove: "map_of (obj_remove k m) = (map_of m)(k := None)"
  by (induction m) (auto simp: obj_remove_def fun_eq_iff)

lemma sorted_fold_obj_insert:
  "sorted_object m \<Longrightarrow> sorted_object (fold (\<lambda>(k, v). obj_insert k v) kvs m)"
  by (induction kvs arbitrary: m) (auto simp: sorted_obj_insert)

text \<open>A series of \<^verbatim>\<open>Map::insert\<close>.\<close>

definition insert_all :: "(string \<times> json) list \<Rightarrow> (string \<times> json) list \<Rightarrow> (string \<times> json) list" where
  "insert_all kvs m = fold (\<lambda>(k, v). obj_insert k v) kvs m"

lemma sorted_insert_all: "sorted_object m \<Longrightarrow> sorted_object (insert_all kvs m)"
  by (simp add: insert_all_def sorted_fold_obj_insert)

lemma map_of_insert_all: "sorted_object m \<Longrightarrow> map_of (insert_all kvs m) = map_of m ++ map_of (rev kvs)"
  unfolding insert_all_def
proof (induction kvs arbitrary: m)
  case (Cons kv kvs)
  obtain k v where kv: "kv = (k, v)" by (cases kv)
  have "map_of (obj_insert k v m) ++ map_of (rev kvs) = map_of m ++ ([k \<mapsto> v] ++ map_of (rev kvs))"
    by (simp only: map_of_obj_insert [OF Cons.prems] map_add_assoc map_add_upd map_add_empty)
  then show ?case using Cons.IH [OF sorted_obj_insert [OF Cons.prems]] by (simp add: kv)
qed simp

lemma sorted_object_Nil [simp]: "sorted_object []"
  by (simp add: sorted_object_def)

lemma keys_insert_all: "fst ` set (insert_all kvs m) = fst ` set kvs \<union> fst ` set m"
  unfolding insert_all_def by (induction kvs arbitrary: m) (simp_all add: keys_obj_insert split_def)

lemma map_of_rev_sorted: "sorted_object m \<Longrightarrow> map_of (rev m) = map_of m"
  by (subst map_of_inject_set) (auto simp: sorted_object_def strict_sorted_iff rev_map [symmetric])

end
