(* ===== verification/Tcg_Enum.thy ===== *)
theory Tcg_Enum
  imports Json
begin

text \<open>
  The data of the CC event log (\<^verbatim>\<open>deps/eventlog/src/lib.rs\<close>, \<^verbatim>\<open>ccel/tcg_enum.rs\<close>): hash algorithms,
  event types, digests and event details, and the third-party functions the parsers call.

  \<^verbatim>\<open>scroll\<close>, \<^verbatim>\<open>byteorder\<close>, \<^verbatim>\<open>hex\<close>, \<^verbatim>\<open>base64\<close>, \<^verbatim>\<open>sha2\<close>, \<^verbatim>\<open>sm3\<close> and \<^verbatim>\<open>serde_json\<close> are not part of the
  repository. The record \<open>crates\<close> holds the functions the code calls; every definition that
  calls one takes the record as its argument \<open>c\<close>. What the code relies on is stated by the
  predicates \<open>scroll_le\<close> and \<open>digest_sizes\<close>.
\<close>

subsection \<open>Algorithms\<close>

datatype tcg_algorithm = Rsa | Tdes | Sha1 | Sha256 | Sha384 | Sha512 | Sm3

definition tcg_algorithm_discr :: "tcg_algorithm \<Rightarrow> nat" where
  "tcg_algorithm_discr a =
     (case a of Rsa \<Rightarrow> 0x1 | Tdes \<Rightarrow> 0x3 | Sha1 \<Rightarrow> 0x4 | Sha256 \<Rightarrow> 0xB | Sha384 \<Rightarrow> 0xC
      | Sha512 \<Rightarrow> 0xD | Sm3 \<Rightarrow> 0x12)"

definition get_digest_size :: "tcg_algorithm \<Rightarrow> usize anyhow" where
  "get_digest_size a =
     (case a of Sha1 \<Rightarrow> Inr 20 | Sha256 \<Rightarrow> Inr 32 | Sha384 \<Rightarrow> Inr 48 | Sha512 \<Rightarrow> Inr 64 | Sm3 \<Rightarrow> Inr 32
      | _ \<Rightarrow> bail ''Failed to get digest size for unsupported algorithm'')"

definition tcg_algorithm_try_from :: "u32 \<Rightarrow> tcg_algorithm option" where
  "tcg_algorithm_try_from value =
     map_of [(0x1, Rsa), (0x3, Tdes), (0x4, Sha1), (0xB, Sha256), (0xC, Sha384), (0xD, Sha512),
             (0x12, Sm3)] (unat value)"

subsection \<open>Event types\<close>

datatype tcg_event_type =
    EvPrebootCert | EvPostCode | EvUnused | EvNoAction | EvSeparator | EvAction | EvEventTag
  | EvSCrtmContents | EvSCrtmVersion | EvCpuMicrocode | EvPlatformConfigFlags | EvTableOfDevices
  | EvCompactHash | EvIpl | EvIplPartitionData | EvNonhostCode | EvNonhostConfig | EvNonhostInfo
  | EvOmitBootDeviceEvents | EvEfiEventBase | EvEfiVariableDriverConfig | EvEfiVariableBoot
  | EvEfiBootServicesApplication | EvEfiBootServicesDriver | EvEfiRuntimeServicesDriver
  | EvEfiGptEvent | EvEfiAction | EvEfiPlatformFirmwareBlob | EvEfiHandoffTables
  | EvEfiPlatformFirmwareBlob2 | EvEfiHandoffTables2 | EvEfiVariableBoot2 | EvEfiHcrtmEvent
  | EvEfiVariableAuthority | EvEfiSpdmFirmwareBlob | EvEfiSpdmFirmwareConfig

definition tcg_event_type_discr :: "tcg_event_type \<Rightarrow> nat" where
  "tcg_event_type_discr t =
     (case t of EvPrebootCert \<Rightarrow> 0x0 | EvPostCode \<Rightarrow> 0x1 | EvUnused \<Rightarrow> 0x2 | EvNoAction \<Rightarrow> 0x3
      | EvSeparator \<Rightarrow> 0x4 | EvAction \<Rightarrow> 0x5 | EvEventTag \<Rightarrow> 0x6 | EvSCrtmContents \<Rightarrow> 0x7
      | EvSCrtmVersion \<Rightarrow> 0x8 | EvCpuMicrocode \<Rightarrow> 0x9 | EvPlatformConfigFlags \<Rightarrow> 0xA
      | EvTableOfDevices \<Rightarrow> 0xB | EvCompactHash \<Rightarrow> 0xC | EvIpl \<Rightarrow> 0xD | EvIplPartitionData \<Rightarrow> 0xE
      | EvNonhostCode \<Rightarrow> 0xF | EvNonhostConfig \<Rightarrow> 0x10 | EvNonhostInfo \<Rightarrow> 0x11
      | EvOmitBootDeviceEvents \<Rightarrow> 0x12 | EvEfiEventBase \<Rightarrow> 0x80000000
      | EvEfiVariableDriverConfig \<Rightarrow> 0x80000001 | EvEfiVariableBoot \<Rightarrow> 0x80000002
      | EvEfiBootServicesApplication \<Rightarrow> 0x80000003 | EvEfiBootServicesDriver \<Rightarrow> 0x80000004
      | EvEfiRuntimeServicesDriver \<Rightarrow> 0x80000005 | EvEfiGptEvent \<Rightarrow> 0x80000006
      | EvEfiAction \<Rightarrow> 0x80000007 | EvEfiPlatformFirmwareBlob \<Rightarrow> 0x80000008
      | EvEfiHandoffTables \<Rightarrow> 0x80000009 | EvEfiPlatformFirmwareBlob2 \<Rightarrow> 0x8000000A
      | EvEfiHandoffTables2 \<Rightarrow> 0x8000000B | EvEfiVariableBoot2 \<Rightarrow> 0x8000000C
      | EvEfiHcrtmEvent \<Rightarrow> 0x80000010 | EvEfiVariableAuthority \<Rightarrow> 0x800000E0
      | EvEfiSpdmFirmwareBlob \<Rightarrow> 0x800000E1 | EvEfiSpdmFirmwareConfig \<Rightarrow> 0x800000E2)"

definition tcg_event_type_try_from :: "u32 \<Rightarrow> tcg_event_type option" where
  "tcg_event_type_try_from value =
     map_of [(0x0, EvPrebootCert), (0x1, EvPostCode), (0x2, EvUnused), (0x3, EvNoAction),
       (0x4, EvSeparator), (0x5, EvAction), (0x6, EvEventTag), (0x7, EvSCrtmContents),
       (0x8, EvSCrtmVersion), (0x9, EvCpuMicrocode), (0xA, EvPlatformConfigFlags),
       (0xB, EvTableOfDevices), (0xC, EvCompactHash), (0xD, EvIpl), (0xE, EvIplPartitionData),
       (0xF, EvNonhostCode), (0x10, EvNonhostConfig), (0x11, EvNonhostInfo),
       (0x12, EvOmitBootDeviceEvents), (0x80000000, EvEfiEventBase),
       (0x80000001, EvEfiVariableDriverConfig), (0x80000002, EvEfiVariableBoot),
       (0x80000003, EvEfiBootServicesApplication), (0x80000004, EvEfiBootServicesDriver),
       (0x80000005, EvEfiRuntimeServicesDriver), (0x80000006, EvEfiGptEvent),
       (0x80000007, EvEfiAction), (0x80000008, EvEfiPlatformFirmwareBlob),
       (0x80000009, EvEfiHandoffTables), (0x8000000A, EvEfiPlatformFirmwareBlob2),
       (0x8000000B, EvEfiHandoffTables2), (0x8000000C, EvEfiVariableBoot2),
       (0x80000010, EvEfiHcrtmEvent), (0x800000E0, EvEfiVariableAuthority),
       (0x800000E1, EvEfiSpdmFirmwareBlob), (0x800000E2, EvEfiSpdmFirmwareConfig)] (unat value)"

subsection \<open>Digests and event details\<close>

record el_digest =
  alg :: tcg_algorithm
  digest :: bytes

record event_details =
  ed_string :: "string option"
  unicode_name :: "string option"
  unicode_name_length :: "u64 option"
  variable_data :: "string option"
  variable_data_length :: "u64 option"
  variable_name :: "string option"
  device_paths :: "string list option"
  ed_data :: "json option"

definition details_empty :: event_details where
  "details_empty = \<lparr>ed_string = None, unicode_name = None, unicode_name_length = None,
     variable_data = None, variable_data_length = None, variable_name = None,
     device_paths = None, ed_data = None\<rparr>"

definition details_from_string :: "string \<Rightarrow> event_details" where
  "details_from_string s = \<lparr>ed_string = Some s, unicode_name = None, unicode_name_length = None,
     variable_data = None, variable_data_length = None, variable_name = None,
     device_paths = None, ed_data = None\<rparr>"

subsection \<open>Third-party functions\<close>

text \<open>
  \<open>gread_uN c d i\<close> is scroll's \<^verbatim>\<open>d.gread_with::<uN>(&mut i, LE)\<close>: the value and the new offset,
  or \<open>None\<close> for an error.
\<close>

record crates =
  gread_u8 :: "bytes \<Rightarrow> usize \<Rightarrow> (byte \<times> usize) option"
  gread_u16 :: "bytes \<Rightarrow> usize \<Rightarrow> (u16 \<times> usize) option"
  gread_u32 :: "bytes \<Rightarrow> usize \<Rightarrow> (u32 \<times> usize) option"
  gread_u64 :: "bytes \<Rightarrow> usize \<Rightarrow> (u64 \<times> usize) option"
  read_u16 :: "bytes \<Rightarrow> u16"
  hex_encode :: "bytes \<Rightarrow> string"
  base64_encode :: "bytes \<Rightarrow> string"
  sha256_digest :: "bytes \<Rightarrow> bytes"
  sha384_digest :: "bytes \<Rightarrow> bytes"
  sha512_digest :: "bytes \<Rightarrow> bytes"
  sm3_digest :: "bytes \<Rightarrow> bytes"
  json_from_str :: "string \<Rightarrow> json option"

definition gread_le :: "nat \<Rightarrow> bytes \<Rightarrow> usize \<Rightarrow> ('a::len word \<times> usize) option" where
  "gread_le n d i =
     (if i + n \<le> length d then Some (from_le_bytes (take n (drop i d)), i + n) else None)"

text \<open>scroll and byteorder read little-endian integers and scroll advances the offset by the
  size of the integer; a read that does not fit is an error.\<close>

definition scroll_le :: "crates \<Rightarrow> bool" where
  "scroll_le c \<longleftrightarrow> gread_u8 c = gread_le 1 \<and> gread_u16 c = gread_le 2 \<and>
     gread_u32 c = gread_le 4 \<and> gread_u64 c = gread_le 8 \<and>
     read_u16 c = from_le_bytes"

definition digest_sizes :: "crates \<Rightarrow> bool" where
  "digest_sizes c \<longleftrightarrow> (\<forall>d. length (sha256_digest c d) = 32 \<and> length (sha384_digest c d) = 48 \<and>
     length (sha512_digest c d) = 64 \<and> length (sm3_digest c d) = 32)"

text \<open>
  A concrete instance, which shows that the laws can hold: the readers the law describes, hex
  in lower case, and digests that fold the input into a byte and pad it to the right size.
\<close>

definition sample_hex :: "bytes \<Rightarrow> string" where
  "sample_hex bs = concat (map (\<lambda>b. pad_zero 2 (fmt_hex (unat b))) bs)"

definition sample_digest :: "nat \<Rightarrow> bytes \<Rightarrow> bytes" where
  "sample_digest n bs = foldl (\<lambda>acc b. 31 * acc + b + 7) (of_nat n) bs # replicate (n - 1) 0"

definition sample_crates :: crates where
  "sample_crates = \<lparr>gread_u8 = gread_le 1, gread_u16 = gread_le 2, gread_u32 = gread_le 4,
     gread_u64 = gread_le 8, read_u16 = from_le_bytes, hex_encode = sample_hex,
     base64_encode = sample_hex, sha256_digest = sample_digest 32, sha384_digest = sample_digest 48,
     sha512_digest = sample_digest 64, sm3_digest = sample_digest 32, json_from_str = (\<lambda>s. None)\<rparr>"

subsection \<open>Lemmas\<close>

lemma scroll_le_simps [simp]:
  "scroll_le c \<Longrightarrow> gread_u8 c = gread_le 1" "scroll_le c \<Longrightarrow> gread_u16 c = gread_le 2"
  "scroll_le c \<Longrightarrow> gread_u32 c = gread_le 4" "scroll_le c \<Longrightarrow> gread_u64 c = gread_le 8"
  "scroll_le c \<Longrightarrow> read_u16 c = from_le_bytes"
  by (simp_all add: scroll_le_def)

lemma gread_le_eq_Some_iff [result_simps]:
  "gread_le n d i = Some (v, j) \<longleftrightarrow>
     i + n \<le> length d \<and> v = from_le_bytes (take n (drop i d)) \<and> j = i + n"
  by (auto simp: gread_le_def)

lemma sample_crates_laws: "scroll_le sample_crates" "digest_sizes sample_crates"
  by (simp_all add: scroll_le_def digest_sizes_def sample_crates_def sample_digest_def)

lemma tcg_algorithm_try_from_discr:
  "tcg_algorithm_try_from v = Some a \<longleftrightarrow> unat v = tcg_algorithm_discr a"
  by (cases a) (auto simp: tcg_algorithm_try_from_def tcg_algorithm_discr_def split: if_splits)

lemma tcg_event_type_try_from_discr:
  "tcg_event_type_try_from v = Some t \<longleftrightarrow> unat v = tcg_event_type_discr t"
  by (cases t) (simp_all add: tcg_event_type_try_from_def tcg_event_type_discr_def)

lemma tcg_event_type_discr_bound: "tcg_event_type_discr t < 2 ^ 32"
  by (cases t) (simp_all add: tcg_event_type_discr_def)

lemma tcg_event_type_discr_eq_0: "tcg_event_type_discr t = 0 \<longleftrightarrow> t = EvPrebootCert"
  by (cases t) (simp_all add: tcg_event_type_discr_def)

lemma tcg_event_type_discr_max: "tcg_event_type_discr t < 0xFFFFFFFF"
  by (cases t) (simp_all add: tcg_event_type_discr_def)

lemma tcg_algorithm_discr_bound: "tcg_algorithm_discr a < 2 ^ 16"
  by (cases a) (simp_all add: tcg_algorithm_discr_def)

end
