(* ===== verification/Event_Parsers.thy ===== *)
theory Event_Parsers
  imports Tcg_Enum
begin

text \<open>
  The event data parsers of \<^verbatim>\<open>deps/eventlog/src/ccel/\<close> other than the UEFI device paths: one
  definition per \<^verbatim>\<open>impl EventDataParser\<close>, with its slices and its arithmetic as the source has
  them. The lemmas say for every parser whether and when it panics.
\<close>

definition guid_size :: nat where
  "guid_size = 16"

subsection \<open>compare\_digests\<close>

text \<open>The default method of the trait: the loop returns at the first digest that differs and
  fails at the first algorithm it does not support.\<close>

definition compute_digest :: "crates \<Rightarrow> tcg_algorithm \<Rightarrow> bytes \<Rightarrow> bytes anyhow" where
  "compute_digest c a d =
     (case a of
        Sha256 \<Rightarrow> Inr (sha256_digest c d)
      | Sha384 \<Rightarrow> Inr (sha384_digest c d)
      | Sha512 \<Rightarrow> Inr (sha512_digest c d)
      | Sm3 \<Rightarrow> Inr (sm3_digest c d)
      | _ \<Rightarrow> bail ''Digest comparison failed: Digest hash algorithm not supported'')"

fun compare_digests :: "crates \<Rightarrow> bytes \<Rightarrow> el_digest list \<Rightarrow> bool anyhow" where
  "compare_digests c d [] = Inr True"
| "compare_digests c d (x # xs) =
     and_then (compute_digest c (alg x) d) (\<lambda>computed.
       if computed \<noteq> digest x then Inr False else compare_digests c d xs)"

subsection \<open>Blank, simple, simple string\<close>

definition ev_blank_parse :: "bytes \<Rightarrow> event_details anyhow" where
  "ev_blank_parse d = Inr details_empty"

definition ev_simple_parse :: "bytes \<Rightarrow> event_details anyhow" where
  "ev_simple_parse d =
     and_then (ok_or (from_utf8 d) ''invalid utf-8 sequence'') (\<lambda>s. Inr (details_from_string s))"

definition simple_string_parse :: "bool \<Rightarrow> bytes \<Rightarrow> event_details anyhow" where
  "simple_string_parse oc d =
     (if d = [] then bail ''Data is too short: expected at least 1 byte''
      else and_then (index_at d 0) (\<lambda>b.
        let len = unat b; start = 1 in
        and_then (usize_add oc start len) (\<lambda>e1.
        and_then (usize_sub oc e1 start) (\<lambda>fin.
          if length d < fin then bail ''Data is too short''
          else and_then (slice d start fin) (\<lambda>description_bytes.
            and_then (ok_or (from_utf8 description_bytes) ''invalid utf-8 sequence'') (\<lambda>event_desc.
              Inr (details_from_string event_desc)))))))"

subsection \<open>Platform config flags\<close>

text \<open>\<^verbatim>\<open>unwrap_or_default()\<close> turns ill-formed UTF-8 into the empty string; U+0010 becomes a space,
  then every control character is dropped.\<close>

definition platform_config_flags_parse :: "bytes \<Rightarrow> event_details anyhow" where
  "platform_config_flags_parse d =
     (let raw = (case from_utf8 d of None \<Rightarrow> '''' | Some s \<Rightarrow> s);
          replaced = map (\<lambda>ch. if ch = 0x10 then 0x20 else ch) (chars_of raw);
          cleaned = string_of_chars (filter (\<lambda>ch. \<not> is_control ch) replaced)
      in Inr (details_from_string cleaned))"

subsection \<open>Event tag\<close>

definition AAEL_TAGGED_EVENT_ID :: u32 where
  "AAEL_TAGGED_EVENT_ID = 0x4141454c"

record aael_event_entry =
  domain :: string
  operation :: string
  content :: json

definition aael_from_bytes :: "crates \<Rightarrow> string \<Rightarrow> aael_event_entry anyhow" where
  "aael_from_bytes c s =
     and_then (ok_or (find_char (CHR '' '') s) ''No space found in event string'') (\<lambda>first_sp.
     and_then (slice_from s (first_sp + 1)) (\<lambda>after_first.
     and_then (ok_or (find_char (CHR '' '') after_first) ''No second space found in event string'')
       (\<lambda>second_sp_rel.
       let second_sp = first_sp + 1 + second_sp_rel in
       and_then (slice s 0 first_sp) (\<lambda>dm.
       and_then (slice s (first_sp + 1) second_sp) (\<lambda>opn.
       and_then (slice_from s (second_sp + 1)) (\<lambda>content_str.
         Inr \<lparr>domain = dm, operation = opn,
              content = (case json_from_str c content_str of
                           Some j \<Rightarrow> j | None \<Rightarrow> JString content_str)\<rparr>))))))"

definition aael_to_value :: "aael_event_entry \<Rightarrow> json" where
  "aael_to_value a =
     json_object [(''domain'', JString (domain a)), (''operation'', JString (operation a)),
                  (''content'', content a)]"

definition event_tag_parse :: "crates \<Rightarrow> bool \<Rightarrow> bytes \<Rightarrow> event_details anyhow" where
  "event_tag_parse c oc d =
     and_then (ok_or (gread_u32 c d 0) ''Cannot read event id'') (\<lambda>(event_id, i).
     and_then (ok_or (gread_u32 c d i) ''Cannot read length'') (\<lambda>(data_size, i).
     and_then (usize_add oc i (unat data_size)) (\<lambda>e.
     and_then (ok_or (slice_get d i e) ''Failed to read description'') (\<lambda>event_data.
       let event_desc = from_utf8_lossy event_data;
           details = details_from_string (filter (\<lambda>ch. ch \<noteq> CHR 0x00) event_desc)
       in if event_id = AAEL_TAGGED_EVENT_ID
          then and_then (ok_or (from_utf8 event_data) ''Illegal AAEL event data'') (\<lambda>s.
               and_then (aael_from_bytes c s) (\<lambda>aael.
                 Inr (details\<lparr>ed_data := Some (aael_to_value aael), unicode_name := Some ''AAEL''\<rparr>)))
          else Inr details))))"

subsection \<open>IPL\<close>

definition GCE_IPL_PREFIX :: bytes where
  "GCE_IPL_PREFIX = [0x2e, 0x00]"

definition ipl_parse :: "crates \<Rightarrow> bytes \<Rightarrow> event_details anyhow" where
  "ipl_parse c d =
     (if length d < 2 then bail ''Data is too short: expected at least 2 bytes''
      else and_then (slice d 0 2) (\<lambda>head.
        and_then
          (if GCE_IPL_PREFIX = head then
             let prefix_len = length GCE_IPL_PREFIX; len_minus_stop = length d - prefix_len in
             if len_minus_stop = 0 \<or> len_minus_stop mod 2 \<noteq> 0
             then bail ''Data is too short or not UTF-16 string''
             else and_then (slice d prefix_len len_minus_stop) (\<lambda>body.
                    Inr (from_utf16_lossy (map (read_u16 c) (chunks2 body))))
           else
             let cut = takeWhile (\<lambda>b. b \<noteq> 0) d in
             (case from_utf8 cut of
                Some s \<Rightarrow> Inr s
              | None \<Rightarrow> Inr (hex_encode c d)))
          (\<lambda>event_desc. Inr (details_from_string event_desc))))"

subsection \<open>EFI variable\<close>

definition format_guid :: "crates \<Rightarrow> bytes \<Rightarrow> string anyhow" where
  "format_guid c g =
     and_then (slice g 0 4) (\<lambda>p1. and_then (slice g 4 6) (\<lambda>p2. and_then (slice g 6 8) (\<lambda>p3.
     and_then (slice g 8 10) (\<lambda>p4. and_then (slice g 10 16) (\<lambda>p5.
       Inr (hex_encode c p1 @ ''-'' @ hex_encode c p2 @ ''-'' @ hex_encode c p3 @ ''-'' @
            hex_encode c p4 @ ''-'' @ hex_encode c p5))))))"

definition efi_variable_parse :: "crates \<Rightarrow> bool \<Rightarrow> bytes \<Rightarrow> event_details anyhow" where
  "efi_variable_parse c oc d =
     and_then (ok_or (slice_get d 0 guid_size) ''Failed to read GUID'') (\<lambda>guid.
     and_then (ok_or (gread_u64 c d guid_size) ''Failed to read unicode name length'')
       (\<lambda>(uname_length, i).
     and_then (ok_or (gread_u64 c d i) ''Failed to read variable data length'')
       (\<lambda>(var_data_length, i).
     and_then (ok_or (checked_mul (unat uname_length) 2)
                 ''Out of bounds while reading description length'') (\<lambda>desc_byte_len.
     and_then (usize_add oc i desc_byte_len) (\<lambda>j.
     and_then (ok_or (slice_get d i j) ''Out of bounds while reading description bytes'')
       (\<lambda>description_bytes.
     and_then (usize_add oc i desc_byte_len) (\<lambda>i.
     and_then (ok_or (from_utf16 (map (read_u16 c) (chunks2 description_bytes)))
                 ''invalid utf-16: lone surrogate found'') (\<lambda>uname.
     and_then
       (if 0 < unat var_data_length
        then and_then (usize_add oc i (unat var_data_length)) (\<lambda>k.
               and_then (ok_or (slice_get d i k) ''Out of bounds while reading variable_data'')
                 (\<lambda>bs. Inr (base64_encode c bs)))
        else Inr '''') (\<lambda>vdata.
     and_then (format_guid c guid) (\<lambda>vname.
       Inr \<lparr>ed_string = None, unicode_name = Some uname, unicode_name_length = Some uname_length,
            variable_data = Some vdata, variable_data_length = Some var_data_length,
            variable_name = Some vname, device_paths = None, ed_data = None\<rparr>))))))))))"

subsection \<open>Lemmas\<close>

lemma compute_digest_no_panic [simp]: "\<not> panics (compute_digest c a d)"
  by (cases a) (auto simp: compute_digest_def)

lemma compare_digests_no_panic [simp]: "\<not> panics (compare_digests c d xs)"
  by (induction xs) auto

text \<open>The comparison accepts exactly when every digest is the digest of the data.\<close>

lemma compare_digests_True_iff:
  "compare_digests c d xs = Inr True \<longleftrightarrow> (\<forall>x \<in> set xs. compute_digest c (alg x) d = Inr (digest x))"
proof (induction xs)
  case Nil
  then show ?case by simp
next
  case (Cons x xs)
  then show ?case by (cases "compute_digest c (alg x) d") auto
qed

lemma simple_string_range:
  "and_then (usize_add oc (Suc 0) (unat (b :: byte))) (\<lambda>e. usize_sub oc e (Suc 0)) = Inr (unat b)"
  using unat_byte_less [of b] by (simp add: usize_add_def usize_sub_def usize_bound_def)

lemma simple_string_parse_Cons:
  "simple_string_parse oc (b # bs) =
     (if Suc (length bs) < unat b then bail ''Data is too short''
      else and_then (slice (b # bs) 1 (unat b)) (\<lambda>description_bytes.
        and_then (ok_or (from_utf8 description_bytes) ''invalid utf-8 sequence'') (\<lambda>event_desc.
          Inr (details_from_string event_desc))))"
  by (simp add: simple_string_parse_def Let_def index_at_def
      and_then_assoc [symmetric] simple_string_range)

lemma simple_string_parse_Nil:
  "simple_string_parse oc [] = bail ''Data is too short: expected at least 1 byte''"
  by (simp add: simple_string_parse_def)

lemma panics_simple_string_parse:
  "panics (simple_string_parse oc d) \<longleftrightarrow> d \<noteq> [] \<and> d ! 0 = 0"
  by (cases d) (auto simp: simple_string_parse_Cons simple_string_parse_Nil Suc_le_eq unat_gt_0)

lemma simple_string_parse_Inr:
  assumes "simple_string_parse oc d = Inr r"
  obtains b bs s where "d = b # bs" and "0 < unat b" and "unat b \<le> length d"
    and "from_utf8 (take (unat b - 1) bs) = Some s" and "r = details_from_string s"
proof (cases d)
  case Nil
  with assms show ?thesis by (simp add: simple_string_parse_Nil)
next
  case (Cons b bs)
  with assms that show ?thesis
    by (auto simp: simple_string_parse_Cons result_simps split: if_splits)
qed

lemma aael_find_bounds:
  assumes "find_char ch s = Some i"
  shows "i < length s \<and> s = take i s @ ch # drop (Suc i) s \<and> ch \<notin> set (take i s)"
proof -
  have i: "i = length (takeWhile (\<lambda>x. x \<noteq> ch) s)" and mem: "ch \<in> set s"
    using assms by (auto simp: find_char_def split: if_splits)
  from mem have lt: "i < length s"
    unfolding i by (metis (mono_tags, lifting) length_append length_greater_0_conv less_add_same_cancel1
        takeWhile_dropWhile_id dropWhile_eq_Nil_conv)
  moreover have "s ! i = ch" using nth_length_takeWhile [of "\<lambda>x. x \<noteq> ch" s] lt i by simp
  moreover have "take i s = takeWhile (\<lambda>x. x \<noteq> ch) s" unfolding i by (simp add: takeWhile_eq_take [symmetric])
  ultimately show ?thesis
    by (metis id_take_nth_drop set_takeWhileD)
qed

lemma aael_from_bytes_no_panic [simp]: "\<not> panics (aael_from_bytes c s)"
proof -
  have "first_sp + 1 \<le> length s \<and>
      (\<forall>rel. find_char (CHR '' '') (drop (first_sp + 1) s) = Some rel \<longrightarrow>
         first_sp + 1 + rel + 1 \<le> length s)"
    if "find_char (CHR '' '') s = Some first_sp" for first_sp
    using aael_find_bounds [OF that] aael_find_bounds [of "CHR '' ''" "drop (first_sp + 1) s"]
    by fastforce
  then show ?thesis
    by (auto simp: aael_from_bytes_def Let_def slice_from_def result_simps)
qed

lemma ipl_parse_no_panic [simp]: "\<not> panics (ipl_parse c d)"
proof -
  have "2 \<le> length d - 2" if "length d - 2 \<noteq> 0" "(length d - 2) mod 2 = 0"
    using that by presburger
  then show ?thesis
    by (auto simp: ipl_parse_def Let_def GCE_IPL_PREFIX_def split: option.splits)
qed

lemma event_tag_parse_no_panic:
  assumes "scroll_le c"
  shows "\<not> panics (event_tag_parse c oc d)"
proof -
  have "usize_add oc 8 (unat (n :: u32)) = (Inr (8 + unat n) :: usize anyhow)" for n
    using unat_u32_less [of n] by (intro usize_add_small) (simp add: usize_bound_def)
  then show ?thesis
    using assms by (auto simp: event_tag_parse_def Let_def result_simps)
qed

lemma format_guid_no_panic: "length g = 16 \<Longrightarrow> \<not> panics (format_guid c g)"
  by (auto simp: format_guid_def)

end
