(* ===== verification/Device_Paths.thy ===== *)
theory Device_Paths
  imports Event_Parsers
begin

text \<open>
  The UEFI device paths (\<^verbatim>\<open>ccel/device_paths/\<close>) and the boot services application event that
  holds a list of them (\<^verbatim>\<open>ccel/boot_services_app.rs\<close>). Every formatter is a function from the node's
  payload to its text; \<open>print_path\<close> dispatches on type and subtype and falls back to hexadecimal
  text on an error, so that only a panic of a formatter gets out of it. The lemmas at the end find
  the one node that makes it panic, and show that the list of nodes is decoded as it was encoded.
\<close>

unbundle bit_operations_syntax

subsection \<open>Formats\<close>

text \<open>\<^verbatim>\<open>{:#04x}\<close>, \<^verbatim>\<open>{:#010x}\<close> and \<^verbatim>\<open>{:#x}\<close>: the width counts the prefix.\<close>

definition fmt_alt_hex :: "nat \<Rightarrow> nat \<Rightarrow> string" where
  "fmt_alt_hex w n = ''0x'' @ pad_zero (w - 2) (fmt_hex n)"

text \<open>\<^verbatim>\<open>Ipv4Addr::from_bits\<close> takes the octets from the most significant byte down.\<close>

definition fmt_ipv4 :: "u32 \<Rightarrow> string" where
  "fmt_ipv4 a =
     fmt_dec (unat (drop_bit 24 a AND 255)) @ ''.'' @ fmt_dec (unat (drop_bit 16 a AND 255)) @ ''.'' @
     fmt_dec (unat (drop_bit 8 a AND 255)) @ ''.'' @ fmt_dec (unat (a AND 255))"

subsection \<open>Hardware and ACPI\<close>

definition pci_parse :: "bytes \<Rightarrow> string anyhow" where
  "pci_parse d =
     (if length d < 2 then bail ''PCI data is too short''
      else and_then (index_at d 0) (\<lambda>func_num. and_then (index_at d 1) (\<lambda>device_num.
        Inr (''Pci('' @ fmt_dec (unat func_num) @ '','' @ fmt_dec (unat device_num) @ '')''))))"

definition hardware_parse :: "byte \<Rightarrow> bytes \<Rightarrow> string anyhow" where
  "hardware_parse sub_type d =
     (if sub_type = 0x01 then pci_parse d else bail ''Unknown Hardware subtype'')"

definition vendor_char :: "u32 \<Rightarrow> char" where
  "vendor_char v = char_of_byte (ucast (v AND 0x1F) + 0x40)"

definition acpi_sub_type_parse :: "crates \<Rightarrow> bytes \<Rightarrow> string anyhow" where
  "acpi_sub_type_parse c d =
     (if length d < 8 then bail ''ACPI sub type data length must be at least 8 bytes''
      else
        and_then (ok_or (gread_u32 c d 0) ''Failed to read hid'') (\<lambda>(hid, i).
        and_then (ok_or (gread_u32 c d i) ''Failed to read uid'') (\<lambda>(uid, i).
          let vendor = hid AND 0xFFFF;
              vendor1 = vendor_char (drop_bit 10 vendor);
              vendor2 = vendor_char (drop_bit 5 vendor);
              vendor3 = vendor_char vendor;
              device = drop_bit 16 hid;
              hid_formatted = [vendor1, vendor2, vendor3] @ pad_zero 4 (fmt_HEX (unat device))
          in Inr (''ACPI('' @ hid_formatted @ '','' @ fmt_dec (unat uid) @ '')''))))"

definition acpi_parse :: "crates \<Rightarrow> byte \<Rightarrow> bytes \<Rightarrow> string anyhow" where
  "acpi_parse c sub_type d =
     (if sub_type = 0x01 then acpi_sub_type_parse c d else bail ''Unknown ACPI subtype'')"

subsection \<open>Messaging\<close>

definition fibre_channel_ex_parse :: "crates \<Rightarrow> bytes \<Rightarrow> string anyhow" where
  "fibre_channel_ex_parse c d =
     (if length d < 16 then bail ''Fibre channel data is too short''
      else and_then (slice d 0 8) (\<lambda>wwn. and_then (slice d 8 16) (\<lambda>lun.
        Inr (''FibreEx(0x'' @ hex_encode c wwn @ '',0x'' @ hex_encode c lun @ '')''))))"

definition usb_parse :: "bytes \<Rightarrow> string anyhow" where
  "usb_parse d =
     (if length d < 2 then bail ''USB data is too short''
      else and_then (index_at d 0) (\<lambda>parent. and_then (index_at d 1) (\<lambda>ctrl.
        Inr (''USB('' @ fmt_dec (unat parent) @ '','' @ fmt_dec (unat ctrl) @ '')''))))"

definition mac_parse :: "crates \<Rightarrow> bytes \<Rightarrow> string anyhow" where
  "mac_parse c d =
     (if length d \<noteq> 33 then bail ''MAC data is too short''
      else and_then (slice d 0 31) (\<lambda>mac_address_padded.
        let binding = hex_encode c mac_address_padded;
            mac_address = map ascii_upper (trim_end_matches (CHR ''0'') binding) in
        and_then (index_at d 32) (\<lambda>if_type.
          Inr (''Mac('' @ mac_address @ '','' @ fmt_alt_hex 4 (unat if_type) @ '')''))))"

definition ipv4_parse :: "crates \<Rightarrow> bytes \<Rightarrow> string anyhow" where
  "ipv4_parse c d =
     and_then (ok_or (gread_u32 c d 0) ''Failed to read IPv4 local address'') (\<lambda>(local_ip, i).
     and_then (ok_or (gread_u32 c d i) ''Failed to read IPv4 remote address'') (\<lambda>(remote_ip, i).
     and_then (ok_or (gread_u16 c d i) ''Failed to read IPv4 local port'') (\<lambda>(_, i).
     and_then (ok_or (gread_u16 c d i) ''Failed to read IPv4 remote port'') (\<lambda>(_, i).
     and_then (ok_or (gread_u16 c d i) ''Failed to read IPv4 protocol'') (\<lambda>(proto, i).
     let protocol = (if proto = 6 then ''TCP'' else if proto = 17 then ''UDP'' else '''') in
     and_then (ok_or (gread_u8 c d i) ''Failed to read IPv4 address type'') (\<lambda>(ty, i).
     let ip_addr_type = (if ty = 0 then ''DHCP'' else if ty = 1 then ''Static'' else '''') in
     and_then (ok_or (gread_u32 c d i) ''Failed to read IPv4 gateway'') (\<lambda>(gateway, i).
     and_then (ok_or (gread_u32 c d i) ''Failed to read IPv4 subnet'') (\<lambda>(subnet, i).
     let gateway_subnet =
       (if gateway \<noteq> 0 \<or> subnet \<noteq> 0
        then '','' @ fmt_dec (unat gateway) @ '','' @ fmt_dec (unat subnet) else '''') in
     Inr (''IPv4('' @ fmt_ipv4 remote_ip @ '','' @ protocol @ '','' @ ip_addr_type @ '','' @
          fmt_ipv4 local_ip @ gateway_subnet @ '')'')))))))))"

definition messaging_parse :: "crates \<Rightarrow> byte \<Rightarrow> bytes \<Rightarrow> string anyhow" where
  "messaging_parse c sub_type d =
     (if sub_type = 0x15 then fibre_channel_ex_parse c d
      else if sub_type = 0x05 then usb_parse d
      else if sub_type = 0x0B then mac_parse c d
      else if sub_type = 0x0C then ipv4_parse c d
      else bail ''Unknown Messaging subtype'')"

subsection \<open>Media\<close>

definition format_uefi_guid :: "bytes \<Rightarrow> string anyhow" where
  "format_uefi_guid g =
     and_then (slice g 0 4) (\<lambda>b1. and_then (slice g 4 6) (\<lambda>b2. and_then (slice g 6 8) (\<lambda>b3.
     and_then (slice_from g 8) (\<lambda>data4. and_then (slice data4 0 8) (\<lambda>b4.
       let hex2 = (\<lambda>b :: byte. pad_zero 2 (fmt_HEX (unat b))) in
       Inr (pad_zero 8 (fmt_HEX (unat (from_le_bytes b1 :: u32))) @ ''-'' @
            pad_zero 4 (fmt_HEX (unat (from_le_bytes b2 :: u16))) @ ''-'' @
            pad_zero 4 (fmt_HEX (unat (from_le_bytes b3 :: u16))) @ ''-'' @
            concat (map hex2 (take 2 b4)) @ ''-'' @ concat (map hex2 (drop 2 b4))))))))"

definition hard_drive_parse :: "bytes \<Rightarrow> string anyhow" where
  "hard_drive_parse d =
     (if length d < 37 then bail ''Hard drive data is too short''
      else
        and_then (slice d 0 4) (\<lambda>b1. and_then (slice d 4 12) (\<lambda>b2. and_then (slice d 12 20) (\<lambda>b3.
        and_then (slice d 20 36) (\<lambda>signature.
        and_then (index_at d 36) (\<lambda>partition_format.
        and_then (index_at d 37) (\<lambda>_.
        let partition_number = (from_le_bytes b1 :: u32);
            partition_start_lba = (from_le_bytes b2 :: u64);
            partition_size_lba = (from_le_bytes b3 :: u64) in
        and_then
          (if partition_format = 0x01 then
             and_then (slice signature 0 4) (\<lambda>s4.
               Inr (''MBR'', fmt_alt_hex 10 (unat (from_le_bytes s4 :: u32))))
           else if partition_format = 0x02 then
             and_then (format_uefi_guid signature) (\<lambda>g. Inr (''GPT'', g))
           else bail ''Unknown partition format'') (\<lambda>(prefix, sig).
        let partition_details =
          (if partition_number \<noteq> 0
           then '','' @ fmt_alt_hex 0 (unat partition_start_lba) @ '','' @
                fmt_alt_hex 0 (unat partition_size_lba)
           else '''')
        in Inr (''HD('' @ fmt_dec (unat partition_number) @ '','' @ prefix @ '','' @ sig @
                partition_details @ '')'')))))))))"

definition media_vendor_parse :: "crates \<Rightarrow> bytes \<Rightarrow> string anyhow" where
  "media_vendor_parse c d =
     (if length d < guid_size then bail ''Vendor media data is too short''
      else and_then (slice d 0 guid_size) (\<lambda>guid. and_then (slice_from d guid_size) (\<lambda>vendor_data.
        and_then (format_uefi_guid guid) (\<lambda>g.
          Inr (''VenMedia('' @ g @ '','' @ hex_encode c vendor_data @ '')'')))))"

definition file_path_parse :: "crates \<Rightarrow> bytes \<Rightarrow> string anyhow" where
  "file_path_parse c d =
     (if d = [] \<or> length d mod 2 \<noteq> 0 then bail ''File path is too short''
      else and_then (slice d 0 (length d - 2)) (\<lambda>body.
        Inr (''File('' @ from_utf16_lossy (map (read_u16 c) (chunks2 body)) @ '')'')))"

definition media_parse :: "crates \<Rightarrow> byte \<Rightarrow> bytes \<Rightarrow> string anyhow" where
  "media_parse c sub_type d =
     (if sub_type = 0x01 then hard_drive_parse d
      else if sub_type = 0x03 then media_vendor_parse c d
      else if sub_type = 0x04 then file_path_parse c d
      else bail ''Unknown Media subtype'')"

subsection \<open>BIOS boot specification\<close>

definition bbs_device_type :: "u16 \<Rightarrow> string" where
  "bbs_device_type t =
     (if t = 0x01 then ''FLOPPY'' else if t = 0x02 then ''HARD_DRIVE'' else if t = 0x03 then ''CDROM''
      else if t = 0x04 then ''PCMCIA'' else if t = 0x05 then ''USB''
      else if t = 0x06 then ''EMBEDDED_NETWORK'' else if t = 0x80 then ''DEV''
      else if t = 0xFF then ''UNKNOWN'' else fmt_dec (unat t))"

definition bbs_parse :: "crates \<Rightarrow> bytes \<Rightarrow> string anyhow" where
  "bbs_parse c d =
     and_then (ok_or (gread_u16 c d 0) ''Failed to read device type'') (\<lambda>(ty, i).
     and_then (ok_or (gread_u16 c d i) ''Failed to read status flag'') (\<lambda>(status_flag, i).
     and_then (slice_from d i) (\<lambda>desc_bytes.
       let desc = takeWhile (\<lambda>b. b \<noteq> 0) desc_bytes in
       and_then (ok_or (from_utf8 desc) ''Failed to parse description'') (\<lambda>description.
         Inr (''BBS('' @ bbs_device_type ty @ '','' @ description @ '','' @
              fmt_dec (unat status_flag) @ '')'')))))"

definition bios_boot_spec_parse :: "crates \<Rightarrow> byte \<Rightarrow> bytes \<Rightarrow> string anyhow" where
  "bios_boot_spec_parse c sub_type d =
     (if sub_type = 0x01 then bbs_parse c d else bail ''Unknown Bios Boot Specification subtype'')"

subsection \<open>DevicePath\<close>

datatype device_path = Hardware | Acpi | Messaging | Media | BiosBootSpec

definition device_path_from_u8 :: "byte \<Rightarrow> device_path anyhow" where
  "device_path_from_u8 t =
     (if t = 0x01 then Inr Hardware else if t = 0x02 then Inr Acpi else if t = 0x03 then Inr Messaging
      else if t = 0x04 then Inr Media else if t = 0x05 then Inr BiosBootSpec
      else bail ''Unknown Device Path Type'')"

definition device_path_parse :: "crates \<Rightarrow> device_path \<Rightarrow> byte \<Rightarrow> bytes \<Rightarrow> string anyhow" where
  "device_path_parse c p sub_type d =
     (case p of
        Hardware \<Rightarrow> hardware_parse sub_type d
      | Acpi \<Rightarrow> acpi_parse c sub_type d
      | Messaging \<Rightarrow> messaging_parse c sub_type d
      | Media \<Rightarrow> media_parse c sub_type d
      | BiosBootSpec \<Rightarrow> bios_boot_spec_parse c sub_type d)"

subsection \<open>Boot services application\<close>

definition print_path :: "crates \<Rightarrow> byte \<Rightarrow> byte \<Rightarrow> bytes \<Rightarrow> string anyhow" where
  "print_path c efi_type efi_sub_type vendor_data =
     unwrap_or_else
       (and_then (device_path_from_u8 efi_type) (\<lambda>p. device_path_parse c p efi_sub_type vendor_data))
       (\<lambda>_. ''Path('' @ fmt_dec (unat efi_type) @ '','' @ fmt_dec (unat efi_sub_type) @ '','' @
             hex_encode c vendor_data @ '')'')"

definition push_device_path :: "string \<Rightarrow> event_details \<Rightarrow> event_details" where
  "push_device_path p r =
     r\<lparr>device_paths := Some ((case device_paths r of None \<Rightarrow> [] | Some ps \<Rightarrow> ps) @ [p])\<rparr>"

function get_nested_paths :: "crates \<Rightarrow> bytes \<Rightarrow> event_details \<Rightarrow> event_details anyhow" where
  "get_nested_paths c d r =
     and_then (index_at d 0) (\<lambda>efi_type.
     and_then (index_at d 1) (\<lambda>efi_sub_type.
     and_then (slice d 2 4) (\<lambda>len_bytes.
     if length d < unat (from_le_bytes len_bytes :: u16) then bail ''Data is too short''
     else
       and_then (slice d 4 (unat (from_le_bytes len_bytes :: u16))) (\<lambda>vendor_data_raw.
       and_then (slice_from d (unat (from_le_bytes len_bytes :: u16))) (\<lambda>rest.
       and_then (print_path c efi_type efi_sub_type vendor_data_raw) (\<lambda>p.
         if rest = [] then Inr (push_device_path p r)
         else get_nested_paths c rest (push_device_path p r)))))))"
  by pat_completeness auto
termination
  by (relation "measure (\<lambda>(c, d, r). length d)") (auto simp: slice_from_def result_simps)

declare get_nested_paths.simps [simp del]

definition boot_services_app_parse :: "crates \<Rightarrow> bool \<Rightarrow> bytes \<Rightarrow> event_details anyhow" where
  "boot_services_app_parse c oc d =
     (let dev_path_offset_start = 8 * 3; dev_path_offset_end = dev_path_offset_start + 8 in
      if length d < dev_path_offset_end then bail ''Data is too short''
      else and_then (slice d dev_path_offset_start dev_path_offset_end) (\<lambda>len_bytes.
        let dev_path_len = (from_le_bytes len_bytes :: u64) in
        if dev_path_len = 0 then Inr details_empty
        else
          and_then (usize_sub oc (unat dev_path_len) 4) (\<lambda>n.
          and_then (usize_add oc dev_path_offset_end n) (\<lambda>dev_path_end.
          if length d < dev_path_end then bail ''Data is shorter than claimed by dev_path_offset''
          else and_then (slice d dev_path_offset_end dev_path_end) (\<lambda>device_path_bytes.
            if length device_path_bytes < 4
            then bail ''Remaining device path is shorter than 4 bytes''
            else get_nested_paths c device_path_bytes details_empty)))))"

subsection \<open>Which nodes panic\<close>

lemma hardware_parse_no_panic [simp]: "\<not> panics (hardware_parse t d)"
  by (auto simp: hardware_parse_def pci_parse_def)

lemma acpi_parse_no_panic [simp]: "\<not> panics (acpi_parse c t d)"
  by (auto simp: acpi_parse_def acpi_sub_type_parse_def Let_def split: prod.splits)

lemma messaging_parse_no_panic [simp]: "\<not> panics (messaging_parse c t d)"
  by (auto simp: messaging_parse_def fibre_channel_ex_parse_def usb_parse_def mac_parse_def
      ipv4_parse_def Let_def split: prod.splits)

lemma bios_boot_spec_parse_no_panic [simp]:
  "scroll_le c \<Longrightarrow> \<not> panics (bios_boot_spec_parse c t d)"
  by (auto simp: bios_boot_spec_parse_def bbs_parse_def slice_from_def Let_def result_simps
      split: prod.splits)

lemma format_uefi_guid_no_panic: "length g = 16 \<Longrightarrow> \<not> panics (format_uefi_guid g)"
  by (auto simp: format_uefi_guid_def slice_from_def Let_def result_simps)

lemma panics_hard_drive_parse: "panics (hard_drive_parse d) \<longleftrightarrow> length d = 37"
proof -
  have "\<not> panics (format_uefi_guid (take 16 (drop 20 d)))" if "37 \<le> length d"
    using that by (intro format_uefi_guid_no_panic) simp
  then show ?thesis
    by (auto simp: hard_drive_parse_def Let_def result_simps split: prod.splits)
qed

lemma panics_media_parse: "panics (media_parse c t d) \<longleftrightarrow> t = 0x01 \<and> length d = 37"
proof -
  have "\<not> panics (format_uefi_guid (take 16 d))" if "16 \<le> length d"
    using that by (intro format_uefi_guid_no_panic) simp
  then have "\<not> panics (media_vendor_parse c d)"
    by (auto simp: media_vendor_parse_def slice_from_def guid_size_def result_simps)
  moreover have "\<not> panics (file_path_parse c d)"
    by (auto simp: file_path_parse_def)
  ultimately show ?thesis by (auto simp: media_parse_def panics_hard_drive_parse)
qed

lemma panics_print_path:
  assumes "scroll_le c"
  shows "panics (print_path c t st d) \<longleftrightarrow> t = 0x04 \<and> st = 0x01 \<and> length d = 37"
  using assms
  by (auto simp: print_path_def device_path_from_u8_def device_path_parse_def panics_media_parse
      split: device_path.splits)

lemma print_path_total:
  assumes "scroll_le c" and "\<not> (t = 0x04 \<and> st = 0x01 \<and> length d = 37)"
  obtains p where "print_path c t st d = Inr p"
proof -
  have "\<not> panics (print_path c t st d)" using assms by (simp add: panics_print_path)
  moreover have "print_path c t st d \<noteq> bail e" for e
    by (auto simp: print_path_def unwrap_or_else_def bail_def split: sum.splits failure.splits)
  ultimately show ?thesis
    using that by (cases "print_path c t st d" rule: result_cases) auto
qed

subsection \<open>The list of nodes is decoded as it was encoded\<close>

type_synonym node = "byte \<times> byte \<times> bytes"

definition enc_node :: "node \<Rightarrow> bytes" where
  "enc_node n = (case n of (t, st, d) \<Rightarrow> [t, st] @ le_enc 2 (length d + 4) @ d)"

definition node_ok :: "node \<Rightarrow> bool" where
  "node_ok n = (case n of (t, st, d) \<Rightarrow>
     length d + 4 < 65536 \<and> \<not> (t = 0x04 \<and> st = 0x01 \<and> length d = 37))"

definition node_text :: "crates \<Rightarrow> node \<Rightarrow> string" where
  "node_text c n = (case n of (t, st, d) \<Rightarrow>
     (case print_path c t st d of Inr p \<Rightarrow> p | Inl _ \<Rightarrow> ''''))"

lemma get_nested_paths_step:
  assumes "scroll_le c" and "node_ok n"
  shows "get_nested_paths c (enc_node n @ rest) r =
    (if rest = [] then Inr (push_device_path (node_text c n) r)
     else get_nested_paths c rest (push_device_path (node_text c n) r))"
proof -
  obtain t st d where n: "n = (t, st, d)" by (cases n)
  let ?l = "length d + 4"
  have l: "?l < 65536" and ok: "\<not> (t = 0x04 \<and> st = 0x01 \<and> length d = 37)"
    using assms(2) by (auto simp: node_ok_def n)
  obtain p where p: "print_path c t st d = Inr p"
    using print_path_total [OF assms(1) ok] .
  have enc: "enc_node n @ rest = t # st # le_enc 2 ?l @ d @ rest" by (simp add: enc_node_def n)
  have len: "unat (from_le_bytes (le_enc 2 ?l) :: u16) = ?l"
    using l by (intro unat_from_le_bytes_le_enc) simp_all
  have sl: "slice (t # st # le_enc 2 ?l @ d @ rest) 2 4 = (Inr (le_enc 2 ?l) :: bytes anyhow)"
    by (simp add: slice_in_range)
  have dr: "drop ?l (t # st # le_enc 2 ?l @ d @ rest) = rest"
    by (simp add: drop_Cons')
  show ?thesis
    unfolding enc
    by (subst get_nested_paths.simps)
      (simp add: index_at_def sl len slice_in_range dr p node_text_def n)
qed

lemma push_device_path_twice:
  "push_device_path q (push_device_path p r) =
     r\<lparr>device_paths := Some ((case device_paths r of None \<Rightarrow> [] | Some ps \<Rightarrow> ps) @ [p, q])\<rparr>"
  by (simp add: push_device_path_def)

lemma enc_node_ne [simp]: "enc_node n \<noteq> []"
  by (simp add: enc_node_def split: prod.splits)

lemma get_nested_paths_enc:
  assumes "scroll_le c" and "ns \<noteq> []" and "list_all node_ok ns"
  shows "get_nested_paths c (concat (map enc_node ns)) r =
    Inr (r\<lparr>device_paths :=
      Some ((case device_paths r of None \<Rightarrow> [] | Some ps \<Rightarrow> ps) @ map (node_text c) ns)\<rparr>)"
  using assms(2,3)
proof (induction ns arbitrary: r)
  case Nil
  then show ?case by simp
next
  case (Cons n ns)
  show ?case
  proof (cases ns)
    case Nil
    with Cons show ?thesis
      using get_nested_paths_step [OF assms(1), of n "[]" r] by (simp add: push_device_path_def)
  next
    case (Cons m ms)
    then show ?thesis
      using Cons.IH [of "push_device_path (node_text c n) r"] Cons.prems
        get_nested_paths_step [OF assms(1), of n "concat (map enc_node ns)" r]
      by (simp add: push_device_path_def)
  qed
qed

subsection \<open>The boot services event\<close>

definition boot_path_len :: "bytes \<Rightarrow> nat" where
  "boot_path_len d = le_val (take 8 (drop 24 d))"

text \<open>\<^verbatim>\<open>dev_path_start + (dev_path_len - 4)\<close>: where it overflows, the wrapped value is below
  the start, so that the slice panics instead of the arithmetic.\<close>

lemma boot_range:
  assumes "n < usize_bound"
  shows "and_then (usize_sub oc n 4) (usize_add oc 32) =
    (if n < 4 then if oc then panic ''attempt to subtract with overflow'' else Inr (n + 28)
     else if n + 28 < usize_bound then Inr (n + 28)
     else if oc then panic ''attempt to add with overflow''
     else Inr (n + 28 - usize_bound) :: usize anyhow)"
proof (cases "n < 4")
  case True
  then have "(usize_bound + n - 4) mod usize_bound = usize_bound + n - 4"
    by (intro mod_less) (simp add: usize_bound_def)
  moreover have "32 + (usize_bound + n - 4) = n + 28 + usize_bound"
    by (simp add: usize_bound_def)
  moreover have "(n + 28 + usize_bound) mod usize_bound = n + 28"
    using True by (subst mod_add_self2, intro mod_less) (simp add: usize_bound_def)
  ultimately have "usize_sub oc n 4 = (if oc then panic ''attempt to subtract with overflow''
      else Inr (usize_bound + n - 4) :: usize anyhow)"
    and "usize_add False 32 (usize_bound + n - 4) = (Inr (n + 28) :: usize anyhow)"
    using True by (simp_all only: usize_sub_def usize_add_def) simp_all
  with True show ?thesis by (cases oc) simp_all
next
  case False
  have "(28 + n) mod usize_bound = n + 28 - usize_bound" if "usize_bound \<le> n + 28"
    using that assms by (simp add: mod_if usize_bound_def)
  with False show ?thesis
    by (auto simp: usize_sub_def usize_add_def)
qed

definition boot_message :: "bool \<Rightarrow> nat \<Rightarrow> string" where
  "boot_message oc n =
     (if \<not> oc then ''slice index out of range''
      else if n < 4 then ''attempt to subtract with overflow'' else ''attempt to add with overflow'')"

lemma boot_services_app_parse_cases:
  assumes "32 \<le> length d"
  shows "boot_services_app_parse c oc d =
    (let n = boot_path_len d in
     if n = 0 then Inr details_empty
     else if n < 4 \<or> usize_bound \<le> n + 28 then panic (boot_message oc n)
     else if length d < n + 28 then bail ''Data is shorter than claimed by dev_path_offset''
     else if n < 8 then bail ''Remaining device path is shorter than 4 bytes''
     else get_nested_paths c (take (n - 4) (drop 32 d)) details_empty)"
proof -
  define w where "w = (from_le_bytes (take 8 (drop 24 d)) :: u64)"
  define n where "n = boot_path_len d"
  have w: "unat w = n"
    unfolding w_def n_def boot_path_len_def
    using assms(1) by (intro unat_from_le_bytes [of _ 8]) simp_all
  then have w0: "w = 0 \<longleftrightarrow> n = 0" by (metis unat_eq_zero)
  have bound: "n < usize_bound" using unat_u64_less [of w] w by (simp add: usize_bound_def)
  have sl: "slice d 24 32 = (Inr (take 8 (drop 24 d)) :: bytes anyhow)"
    using assms(1) by (simp add: slice_in_range)
  have "boot_services_app_parse c oc d =
    (if n = 0 then Inr details_empty
     else and_then (and_then (usize_sub oc n 4) (usize_add oc 32)) (\<lambda>e.
       if length d < e then bail ''Data is shorter than claimed by dev_path_offset''
       else and_then (slice d 32 e) (\<lambda>bs.
         if length bs < 4 then bail ''Remaining device path is shorter than 4 bytes''
         else get_nested_paths c bs details_empty)))"
    using assms
    by (simp add: boot_services_app_parse_def sl w_def [symmetric] w w0 and_then_assoc)
  also have "\<dots> = (let n = n in
     if n = 0 then Inr details_empty
     else if n < 4 \<or> usize_bound \<le> n + 28 then panic (boot_message oc n)
     else if length d < n + 28 then bail ''Data is shorter than claimed by dev_path_offset''
     else if n < 8 then bail ''Remaining device path is shorter than 4 bytes''
     else get_nested_paths c (take (n - 4) (drop 32 d)) details_empty)"
  proof (cases "n < 4 \<or> usize_bound \<le> n + 28")
    case True
    have "n + 28 - usize_bound < 28" "usize_bound \<noteq> 0" using bound by (simp_all add: usize_bound_def)
    then show ?thesis
      using True assms
      by (auto simp: boot_range [OF bound] boot_message_def slice_def slice_get_def)
  next
    case False
    then show ?thesis
      by (auto simp: boot_range [OF bound] slice_def slice_get_def min_def)
  qed
  finally show ?thesis by (simp only: n_def)
qed

subsection \<open>Properties\<close>

text \<open>Printing a device path node fails on one kind of node only: it returns a text for every
  type, subtype and payload except a hard drive node (type 4, subtype 1) with a payload of exactly
  37 bytes, where the formatter reads byte 37 after checking for 37 bytes, and panics.\<close>

theorem print_path_panics_iff:
  assumes "scroll_le c"
  shows "panics (print_path c t st d) = (t = 0x04 \<and> st = 0x01 \<and> length d = 37) \<and>
    ((\<exists>p. print_path c t st d = Inr p) = (\<not> (t = 0x04 \<and> st = 0x01 \<and> length d = 37)))"
  using panics_print_path [OF assms, of t st d] print_path_total [OF assms, of t st d]
  by (metis panics_simps(1))

theorem print_path_panics_iff_witness:
  "panics (print_path sample_crates 4 1 (replicate 37 0)) \<and>
   (\<exists>p. print_path sample_crates 4 1 (replicate 38 0) = Inr p)"
  using print_path_panics_iff [OF sample_crates_laws(1), of 4 1 "replicate 37 0"]
    print_path_panics_iff [OF sample_crates_laws(1), of 4 1 "replicate 38 0"] by simp

text \<open>C25. The list of device path nodes round trips: reading the concatenation of encoded nodes
  (type, subtype, 16-bit length counting the four header bytes, payload) appends the text of each
  node, in order, to the device paths of the details, as long as every length fits its field and no
  node is the one that panics.\<close>

theorem get_nested_paths_roundtrip:
  assumes "scroll_le c" and "ns \<noteq> []" and "list_all node_ok ns"
  shows "get_nested_paths c (concat (map enc_node ns)) r =
    Inr (r\<lparr>device_paths :=
      Some ((case device_paths r of None \<Rightarrow> [] | Some ps \<Rightarrow> ps) @ map (node_text c) ns)\<rparr>)"
  using assms by (rule get_nested_paths_enc)

theorem get_nested_paths_roundtrip_witness:
  "get_nested_paths sample_crates ([1, 1, 6, 0, 2, 31] @ [9, 7, 4, 0]) details_empty =
     Inr (details_empty\<lparr>device_paths := Some [''Pci(2,31)'', ''Path(9,7,)'']\<rparr>)"
proof -
  let ?ns = "[(1, 1, [2, 31]), (9, 7, [])] :: node list"
  have "concat (map enc_node ?ns) = [1, 1, 6, 0, 2, 31] @ [9, 7, 4, 0]"
    by (simp add: enc_node_def numeral_2_eq_2)
  moreover have "map (node_text sample_crates) ?ns = [''Pci(2,31)'', ''Path(9,7,)'']"
    by code_simp
  moreover have "list_all node_ok ?ns" by (simp add: node_ok_def)
  ultimately show ?thesis
    using get_nested_paths_roundtrip [OF sample_crates_laws(1), of ?ns details_empty]
    by (simp add: details_empty_def)
qed

text \<open>The boot services parser does not depend on the build profile: with and without overflow
  checks it returns the same details and the same errors and panics on the same inputs, although
  two of its operations on \<^verbatim>\<open>usize\<close> overflow on some of them.\<close>

theorem boot_services_profile_independent:
  "outcome (boot_services_app_parse c True d) = outcome (boot_services_app_parse c False d)"
proof (cases "32 \<le> length d")
  case True
  then show ?thesis by (simp add: boot_services_app_parse_cases Let_def)
next
  case False
  then show ?thesis by (simp add: boot_services_app_parse_def)
qed

end
