(* ===== verification/Event_Log.thy ===== *)
theory Event_Log
  imports Device_Paths
begin

text \<open>
  The confidential computing event log (\<^verbatim>\<open>deps/eventlog/src/lib.rs\<close>): its parser, which reads the
  digest sizes from the first event and then one entry after another until a stop flag, and the
  replay of the log against reference measurements. The properties: the parser returns on every
  input and decodes what the TCG format encodes; the replay accepts exactly the references that are
  the hash chain of the log, and that chain determines the digests up to a hash collision.
\<close>

subsection \<open>Data\<close>

record eventlog_entry =
  details :: event_details
  digest_matches_event :: bool
  digests :: "el_digest list"
  event :: string
  index :: u32
  event_type :: tcg_event_type

record cc_event_log =
  log :: "eventlog_entry list"

record reference_measurement =
  rm_index :: u32
  algorithm :: tcg_algorithm
  reference :: bytes

type_synonym digest_size_map = "tcg_algorithm \<rightharpoonup> u16"

definition get_parser :: "crates \<Rightarrow> bool \<Rightarrow> tcg_event_type \<Rightarrow> bytes \<Rightarrow> event_details anyhow" where
  "get_parser c oc t =
     (case t of
        EvPostCode \<Rightarrow> ev_simple_parse
      | EvSeparator \<Rightarrow> ev_blank_parse
      | EvAction \<Rightarrow> ev_simple_parse
      | EvEventTag \<Rightarrow> event_tag_parse c oc
      | EvPlatformConfigFlags \<Rightarrow> platform_config_flags_parse
      | EvCompactHash \<Rightarrow> ev_simple_parse
      | EvIpl \<Rightarrow> ipl_parse c
      | EvOmitBootDeviceEvents \<Rightarrow> ev_simple_parse
      | EvEfiVariableDriverConfig \<Rightarrow> efi_variable_parse c oc
      | EvEfiVariableBoot \<Rightarrow> efi_variable_parse c oc
      | EvEfiBootServicesApplication \<Rightarrow> boot_services_app_parse c oc
      | EvEfiAction \<Rightarrow> ev_simple_parse
      | EvEfiPlatformFirmwareBlob2 \<Rightarrow> simple_string_parse oc
      | EvEfiHandoffTables2 \<Rightarrow> simple_string_parse oc
      | EvEfiVariableBoot2 \<Rightarrow> efi_variable_parse c oc
      | EvEfiVariableAuthority \<Rightarrow> efi_variable_parse c oc
      | _ \<Rightarrow> ev_blank_parse)"

subsection \<open>Replay\<close>

definition collect_digests_by_index :: "eventlog_entry list \<Rightarrow> u32 \<rightharpoonup> el_digest list" where
  "collect_digests_by_index ccel =
     foldl (\<lambda>m e. m(index e \<mapsto> (case m (index e) of None \<Rightarrow> [] | Some ds \<Rightarrow> ds) @ digests e))
       Map.empty ccel"

definition hash_with :: "(bytes \<Rightarrow> bytes) \<Rightarrow> bytes \<Rightarrow> bytes \<Rightarrow> bytes" where
  "hash_with hasher materials dg = hasher (materials @ dg)"

definition accumulate_hash :: "crates \<Rightarrow> tcg_algorithm \<Rightarrow> bytes \<Rightarrow> bytes \<Rightarrow> bytes anyhow" where
  "accumulate_hash c a materials dg =
     (case a of
        Sha256 \<Rightarrow> Inr (hash_with (sha256_digest c) materials dg)
      | Sha384 \<Rightarrow> Inr (hash_with (sha384_digest c) materials dg)
      | Sha512 \<Rightarrow> Inr (hash_with (sha512_digest c) materials dg)
      | Sm3 \<Rightarrow> Inr (hash_with (sm3_digest c) materials dg)
      | _ \<Rightarrow> bail ''Unsupported Hash algorithm'')"

fun accumulate_all :: "crates \<Rightarrow> tcg_algorithm \<Rightarrow> bytes \<Rightarrow> el_digest list \<Rightarrow> bytes anyhow" where
  "accumulate_all c a materials [] = Inr materials"
| "accumulate_all c a materials (x # xs) =
     and_then (accumulate_hash c a materials (digest x)) (\<lambda>m. accumulate_all c a m xs)"

definition replay :: "crates \<Rightarrow> (u32 \<rightharpoonup> el_digest list) \<Rightarrow> u32 \<Rightarrow> tcg_algorithm \<Rightarrow> bytes anyhow" where
  "replay c digest_map i a =
     and_then (get_digest_size a) (\<lambda>digest_size.
       let materials = replicate digest_size 0 in
       (case digest_map i of
          Some ds \<Rightarrow> accumulate_all c a materials (filter (\<lambda>d. alg d = a) ds)
        | None \<Rightarrow> Inr materials))"

fun match_references ::
  "crates \<Rightarrow> (u32 \<rightharpoonup> el_digest list) \<Rightarrow> reference_measurement list \<Rightarrow> unit anyhow" where
  "match_references c digest_map [] = Inr ()"
| "match_references c digest_map (item # items) =
     and_then (replay c digest_map (rm_index item) (algorithm item)) (\<lambda>calculated.
       if calculated \<noteq> reference item then bail ''CCEL eventlog does not pass RTMR check''
       else match_references c digest_map items)"

definition replay_and_match :: "crates \<Rightarrow> cc_event_log \<Rightarrow> reference_measurement list \<Rightarrow> unit anyhow" where
  "replay_and_match c self items = match_references c (collect_digests_by_index (log self)) items"

subsection \<open>Parsing\<close>

fun parse_algorithms ::
  "crates \<Rightarrow> bytes \<Rightarrow> nat \<Rightarrow> usize \<Rightarrow> digest_size_map \<Rightarrow> (usize \<times> digest_size_map) anyhow" where
  "parse_algorithms c d 0 i m = Inr (i, m)"
| "parse_algorithms c d (Suc n) i m =
     and_then (ok_or (gread_u16 c d i) ''Cannot read algorithm id'') (\<lambda>(algo_id, i).
     and_then (ok_or (gread_u16 c d i) ''Cannot read algorithm size'') (\<lambda>(size, i).
     and_then (ok_or (tcg_algorithm_try_from (ucast algo_id)) ''Unknown algorithm type detected'')
       (\<lambda>algorithm. parse_algorithms c d n i (m(algorithm \<mapsto> size)))))"

definition parse_digest_sizes ::
  "crates \<Rightarrow> bool \<Rightarrow> bytes \<Rightarrow> digest_size_map \<Rightarrow> (usize \<times> digest_size_map) anyhow" where
  "parse_digest_sizes c oc d m =
     and_then (ok_or (gread_u32 c d 24) ''Cannot read algorithm array size'') (\<lambda>(algo_size, i).
     and_then (parse_algorithms c d (unat algo_size) i m) (\<lambda>(i, m).
     and_then (index_at d i) (\<lambda>vendor_size.
     and_then (usize_add oc i (unat vendor_size + 1)) (\<lambda>i. Inr (i, m)))))"

definition parse_initial_entry ::
  "crates \<Rightarrow> bool \<Rightarrow> bytes \<Rightarrow> usize \<Rightarrow> digest_size_map \<Rightarrow> (usize \<times> digest_size_map) anyhow" where
  "parse_initial_entry c oc d i m =
     and_then (ok_or (gread_u32 c d i) ''Cannot read PCR index'') (\<lambda>(_, i).
     and_then (ok_or (gread_u32 c d i) ''Cannot read event type number'') (\<lambda>(event_type_num, i).
     and_then (ok_or (tcg_event_type_try_from event_type_num) ''Unknown event type detected'')
       (\<lambda>event_type.
     and_then (usize_add oc i 20) (\<lambda>i.
     and_then (ok_or (gread_u32 c d i) ''Cannot read event data size'') (\<lambda>(event_data_size, i).
     if EvNoAction = event_type then
       let start = i in
       and_then (ok_or (checked_add start (unat event_data_size))
                   ''Overflow in calculating digest_data range'') (\<lambda>fin.
       and_then (ok_or (slice_get d start fin) ''Out of bounds while reading digest_data'')
         (\<lambda>digest_data.
       let i = fin in
       and_then (parse_digest_sizes c oc digest_data m) (\<lambda>(actual_size, m).
         if actual_size \<noteq> unat event_data_size
         then bail ''Unexpected data size consumed for detecting digests''
         else Inr (i, m))))
     else Inr (i, m))))))"

fun parse_digest_list ::
  "crates \<Rightarrow> bool \<Rightarrow> bytes \<Rightarrow> digest_size_map \<Rightarrow> nat \<Rightarrow> usize \<Rightarrow> (el_digest list \<times> usize) anyhow" where
  "parse_digest_list c oc d m 0 i = Inr ([], i)"
| "parse_digest_list c oc d m (Suc n) i =
     and_then (ok_or (gread_u16 c d i) ''Cannot read algorithm id'') (\<lambda>(algo_id, i).
     and_then (ok_or (tcg_algorithm_try_from (ucast algo_id)) ''Unknown algorithm type detected'')
       (\<lambda>algorithm.
     and_then (ok_or (m algorithm) ''Missing digest size for algorithm'') (\<lambda>size16.
     let size = unat size16 in
     and_then (usize_add oc i size) (\<lambda>e.
     and_then (slice d i e) (\<lambda>dg.
     and_then (usize_add oc i size) (\<lambda>i.
     and_then (parse_digest_list c oc d m n i) (\<lambda>(ds, i).
       Inr (\<lparr>alg = algorithm, digest = dg\<rparr> # ds, i))))))))"

definition parse_digests ::
  "crates \<Rightarrow> bool \<Rightarrow> bytes \<Rightarrow> usize \<Rightarrow> digest_size_map \<Rightarrow> (el_digest list \<times> usize) anyhow" where
  "parse_digests c oc d i m =
     and_then (ok_or (gread_u32 c d i) ''Cannot read digest count'') (\<lambda>(digest_count, i).
       parse_digest_list c oc d m (unat digest_count) i)"

definition parse_eventlog_entry ::
  "crates \<Rightarrow> bool \<Rightarrow> bytes \<Rightarrow> usize \<Rightarrow> digest_size_map \<Rightarrow> (eventlog_entry option \<times> usize) anyhow" where
  "parse_eventlog_entry c oc d i m =
     and_then (ok_or (gread_u64 c d i) ''Failed to read potential stop flag'') (\<lambda>(stop_flag, i).
     and_then (usize_sub oc i 8) (\<lambda>i.
     if stop_flag = 0xFFFFFFFFFFFFFFFF \<or> stop_flag = 0x0000000000000000 then Inr (None, 0)
     else
       and_then (ok_or (gread_u32 c d i) ''Cannot read target measurement registry'')
         (\<lambda>(target_measurement_registry, i).
       and_then (ok_or (gread_u32 c d i) ''Cannot read event type number'') (\<lambda>(event_type_num, i).
       and_then (ok_or (tcg_event_type_try_from event_type_num) ''Unknown event type detected'') (\<lambda>ty.
       and_then (parse_digests c oc d i m) (\<lambda>(ds, i).
       and_then (ok_or (gread_u32 c d i) ''Cannot read event data size'') (\<lambda>(event_data_size, i).
       if length d < unat event_data_size then bail ''Data is too short''
       else
         and_then (usize_add oc i (unat event_data_size)) (\<lambda>e.
         and_then (slice d i e) (\<lambda>event_data_raw.
         and_then (usize_add oc i (unat event_data_size)) (\<lambda>i.
         let ev = base64_encode c event_data_raw in
         and_then (compare_digests c event_data_raw ds) (\<lambda>matches.
         and_then (get_parser c oc ty event_data_raw) (\<lambda>event_result.
           Inr (Some \<lparr>details = event_result, digest_matches_event = matches, digests = ds,
                      event = ev, index = target_measurement_registry, event_type = ty\<rparr>, i)))))))))))))"

text \<open>The \<^verbatim>\<open>while\<close> loop of \<^verbatim>\<open>CcEventLog::try_from\<close>. That it ends depends on the reader, which is
  not code of this repository, so the loop is partial and its termination is a lemma.\<close>

partial_function (option) parse_entries ::
  "crates \<Rightarrow> bool \<Rightarrow> bytes \<Rightarrow> usize \<Rightarrow> digest_size_map \<Rightarrow> eventlog_entry list \<Rightarrow> cc_event_log anyhow option"
where
  "parse_entries c oc d i m event_log =
     (if i < length d then
        (case parse_eventlog_entry c oc d i m of
           Inl f \<Rightarrow> Some (Inl f)
         | Inr (entry_opt, j) \<Rightarrow>
             (case entry_opt of
                Some entry \<Rightarrow> parse_entries c oc d j m (event_log @ [entry])
              | None \<Rightarrow>
                  if j = 0 then Some (Inr \<lparr>log = event_log\<rparr>)
                  else parse_entries c oc d j m event_log))
      else Some (Inr \<lparr>log = event_log\<rparr>))"

declare parse_entries.simps [code]

definition cc_event_log_try_from :: "crates \<Rightarrow> bool \<Rightarrow> bytes \<Rightarrow> cc_event_log anyhow option" where
  "cc_event_log_try_from c oc d =
     (case parse_initial_entry c oc d 0 Map.empty of
        Inl f \<Rightarrow> Some (Inl f)
      | Inr (i, m) \<Rightarrow> parse_entries c oc d i m [])"

subsection \<open>The parser returns\<close>

lemma parse_digest_list_bounds:
  assumes "scroll_le c" and "parse_digest_list c oc d m n i = Inr (ds, j)" and "i \<le> length d"
  shows "i \<le> j \<and> j \<le> length d"
  using assms(2,3)
proof (induction n arbitrary: i ds j)
  case 0
  then show ?case by simp
next
  case (Suc n)
  from Suc.prems(1) obtain e ds' where
    rest: "parse_digest_list c oc d m n e = Inr (ds', j)" and e: "i + 2 \<le> e" "e \<le> length d"
    using assms(1) by (auto simp: Let_def result_simps)
  show ?case using Suc.IH [OF rest e(2)] e(1) by simp
qed

lemma parse_eventlog_entry_advances:
  assumes "scroll_le c" and "parse_eventlog_entry c oc d i m = Inr (Some e, j)"
  shows "i + 8 < j \<and> j \<le> length d"
proof -
  from assms obtain n k ds l where n: "parse_digest_list c oc d m n (12 + i) = Inr (ds, k)"
    and i: "12 + i \<le> length d" and l: "k + 4 \<le> j" "j \<le> length d"
    by (auto simp: parse_eventlog_entry_def parse_digests_def Let_def usize_sub_ge result_simps
        split: if_splits)
  show ?thesis using parse_digest_list_bounds [OF assms(1) n i] l by simp
qed

lemma parse_eventlog_entry_stop:
  "parse_eventlog_entry c oc d i m = Inr (None, j) \<Longrightarrow> j = 0"
  by (auto simp: parse_eventlog_entry_def Let_def result_simps split: if_splits prod.splits)

lemma parse_entries_returns:
  assumes "scroll_le c"
  shows "\<exists>r. parse_entries c oc d i m es = Some r"
proof (induction "length d - i" arbitrary: i es rule: less_induct)
  case less
  show ?case
  proof (cases "parse_eventlog_entry c oc d i m")
    case (Inl f)
    then show ?thesis by (subst parse_entries.simps) simp
  next
    case (Inr x)
    obtain o' j where x: "x = (o', j)" by (cases x)
    show ?thesis
    proof (cases o')
      case None
      with Inr x show ?thesis
        by (subst parse_entries.simps) (auto dest: parse_eventlog_entry_stop)
    next
      case (Some e)
      have "i < length d \<Longrightarrow> \<exists>r. parse_entries c oc d j m (es @ [e]) = Some r"
        using parse_eventlog_entry_advances [OF assms, of oc d i m e j] Inr x Some
        by (intro less) auto
      with Inr x Some show ?thesis by (subst parse_entries.simps) simp
    qed
  qed
qed

subsection \<open>Reading at a position\<close>

definition rest_at :: "'a list \<Rightarrow> nat \<Rightarrow> 'a list \<Rightarrow> bool" where
  "rest_at d i xs \<longleftrightarrow> i \<le> length d \<and> drop i d = xs"

lemma rest_at_append: "rest_at d i (xs @ ys) \<Longrightarrow> rest_at d (i + length xs) ys"
  unfolding rest_at_def
  by (metis append_eq_conv_conj drop_drop length_append length_drop le_add1 le_diff_conv2 add.commute)

lemma rest_at_gread:
  fixes w :: "'a::len word"
  assumes "rest_at d i (le_enc n (unat w) @ ys)" and "LENGTH('a) = 8 * n"
  shows "gread_le n d i = Some (w, i + n)" and "rest_at d (i + n) ys"
proof -
  show r: "rest_at d (i + n) ys" using rest_at_append [OF assms(1)] by simp
  have "take n (drop i d) = le_enc n (unat w)" using assms(1) by (simp add: rest_at_def)
  with r show "gread_le n d i = Some (w, i + n)"
    using assms(2) by (simp add: gread_le_def rest_at_def from_le_bytes_le_enc)
qed

lemma rest_at_slice:
  assumes "rest_at d i (xs @ ys)"
  shows "slice_get d i (i + length xs) = Some xs" and "rest_at d (i + length xs) ys"
proof -
  show r: "rest_at d (i + length xs) ys" using rest_at_append [OF assms] .
  show "slice_get d i (i + length xs) = Some xs"
    using assms r by (simp add: rest_at_def slice_get_def)
qed

subsection \<open>The format\<close>

text \<open>What the TCG format writes for a digest, an entry and the specification event, which carries
  the digest sizes.\<close>

record log_event =
  le_index :: u32
  le_type :: tcg_event_type
  le_digests :: "el_digest list"
  le_data :: bytes

definition enc_digest :: "el_digest \<Rightarrow> bytes" where
  "enc_digest x = le_enc 2 (tcg_algorithm_discr (alg x)) @ digest x"

definition enc_event_head :: "log_event \<Rightarrow> bytes" where
  "enc_event_head e =
     le_enc 4 (unat (le_index e)) @ le_enc 4 (tcg_event_type_discr (le_type e)) @
     le_enc 4 (length (le_digests e)) @ concat (map enc_digest (le_digests e))"

definition enc_event :: "log_event \<Rightarrow> bytes" where
  "enc_event e = enc_event_head e @ le_enc 4 (length (le_data e)) @ le_data e"

definition digest_ok :: "digest_size_map \<Rightarrow> el_digest \<Rightarrow> bool" where
  "digest_ok m x = (case m (alg x) of None \<Rightarrow> False | Some n \<Rightarrow> length (digest x) = unat n)"

text \<open>An entry the parser accepts: its fields fit, its digests have the announced sizes, its
  first eight bytes are not a stop flag, and the parser of its type accepts its data.\<close>

definition event_head_ok :: "digest_size_map \<Rightarrow> log_event \<Rightarrow> bool" where
  "event_head_ok m e \<longleftrightarrow> length (le_digests e) < 2 ^ 32 \<and> list_all (digest_ok m) (le_digests e) \<and>
     \<not> (le_index e = 0 \<and> le_type e = EvPrebootCert)"

definition event_ok :: "crates \<Rightarrow> bool \<Rightarrow> digest_size_map \<Rightarrow> log_event \<Rightarrow> bool" where
  "event_ok c oc m e \<longleftrightarrow>
     event_head_ok m e \<and> length (le_data e) < 2 ^ 32 \<and>
     isl (compare_digests c (le_data e) (le_digests e)) = False \<and>
     isl (get_parser c oc (le_type e) (le_data e)) = False"

definition entry_of :: "crates \<Rightarrow> bool \<Rightarrow> log_event \<Rightarrow> eventlog_entry" where
  "entry_of c oc e =
     \<lparr>details = projr (get_parser c oc (le_type e) (le_data e)),
      digest_matches_event = projr (compare_digests c (le_data e) (le_digests e)),
      digests = le_digests e, event = base64_encode c (le_data e), index = le_index e,
      event_type = le_type e\<rparr>"

lemma parse_digest_list_enc:
  assumes "scroll_le c" and "list_all (digest_ok m) xs" and "length d < usize_bound"
    and "rest_at d i (concat (map enc_digest xs) @ ys)"
  shows "parse_digest_list c oc d m (length xs) i =
      Inr (xs, i + length (concat (map enc_digest xs))) \<and>
    rest_at d (i + length (concat (map enc_digest xs))) ys"
  using assms(2,4)
proof (induction xs arbitrary: i)
  case Nil
  then show ?case by simp
next
  case (Cons x xs)
  let ?a = "of_nat (tcg_algorithm_discr (alg x)) :: u16"
  have a: "unat ?a = tcg_algorithm_discr (alg x)"
    using tcg_algorithm_discr_bound [of "alg x"] by (simp add: unat_of_nat)
  have at: "rest_at d i (le_enc 2 (unat ?a) @ digest x @ concat (map enc_digest xs) @ ys)"
    using Cons.prems(2) by (simp add: a enc_digest_def [of x])
  note g = rest_at_gread [OF at]
  note sl = rest_at_slice [OF g(2)]
  have bound: "i + 2 + length (digest x) < usize_bound"
    using sl(2) assms(3) by (simp add: rest_at_def)
  have try_from: "tcg_algorithm_try_from (ucast ?a) = Some (alg x)"
    by (simp only: tcg_algorithm_try_from_discr unat_ucast_u16 a)
  obtain n where n: "m (alg x) = Some n" "unat n = length (digest x)"
    using Cons.prems(1) by (auto simp: digest_ok_def split: option.splits)
  show ?case
    using Cons.IH [of "i + 2 + length (digest x)"] Cons.prems(1) sl g(1) bound assms(1)
    by (simp add: try_from n usize_add_small slice_def enc_digest_def [of x] add.assoc)
qed

definition stop_flag_at :: "bytes \<Rightarrow> nat \<Rightarrow> u64" where
  "stop_flag_at d i = from_le_bytes (take 8 (drop i d))"

lemma stop_flag_event:
  assumes "rest_at d i (le_enc 4 (unat (w :: u32)) @ le_enc 4 (tcg_event_type_discr t) @ ys)"
    and "\<not> (w = 0 \<and> t = EvPrebootCert)"
  shows "stop_flag_at d i \<noteq> 0xFFFFFFFFFFFFFFFF" and "stop_flag_at d i \<noteq> 0"
proof -
  let ?bs = "le_enc 4 (unat w) @ le_enc 4 (tcg_event_type_discr t)"
  have "take 8 (drop i d) = ?bs" using assms(1) by (simp add: rest_at_def)
  then have "unat (stop_flag_at d i) = le_val ?bs"
    by (simp only: stop_flag_at_def) (rule unat_from_le_bytes [of _ 8]; simp)
  also have "\<dots> = unat w + 4294967296 * tcg_event_type_discr t"
    using tcg_event_type_discr_max [of t] unat_u32_less [of w]
    by (simp add: le_val_append le_val_le_enc)
  finally have flag: "unat (stop_flag_at d i) = unat w + 4294967296 * tcg_event_type_discr t" .
  show "stop_flag_at d i \<noteq> 0xFFFFFFFFFFFFFFFF"
  proof
    assume "stop_flag_at d i = 0xFFFFFFFFFFFFFFFF"
    with flag show False
      using tcg_event_type_discr_max [of t] unat_u32_less [of w] by simp
  qed
  show "stop_flag_at d i \<noteq> 0"
  proof
    assume "stop_flag_at d i = 0"
    with flag have "unat w = 0" "tcg_event_type_discr t = 0" by simp_all
    then show False using assms(2) by (simp add: tcg_event_type_discr_eq_0 unat_eq_zero)
  qed
qed

lemma unat_of_nat_u32: "n < 2 ^ 32 \<Longrightarrow> unat (of_nat n :: u32) = n"
  by (simp add: unat_of_nat)

text \<open>The parser after the head of an encoded entry: what is left is to read the data.\<close>

definition parse_event_tail ::
  "crates \<Rightarrow> bool \<Rightarrow> bytes \<Rightarrow> u32 \<Rightarrow> tcg_event_type \<Rightarrow> el_digest list \<Rightarrow> usize \<Rightarrow>
   (eventlog_entry option \<times> usize) anyhow" where
  "parse_event_tail c oc d idx ty ds i =
     and_then (ok_or (gread_u32 c d i) ''Cannot read event data size'') (\<lambda>(event_data_size, i).
       if length d < unat event_data_size then bail ''Data is too short''
       else
         and_then (usize_add oc i (unat event_data_size)) (\<lambda>e.
         and_then (slice d i e) (\<lambda>event_data_raw.
         and_then (usize_add oc i (unat event_data_size)) (\<lambda>i.
         and_then (compare_digests c event_data_raw ds) (\<lambda>matches.
         and_then (get_parser c oc ty event_data_raw) (\<lambda>event_result.
           Inr (Some \<lparr>details = event_result, digest_matches_event = matches, digests = ds,
                      event = base64_encode c event_data_raw, index = idx, event_type = ty\<rparr>, i)))))))"

lemma parse_event_head:
  assumes "scroll_le c" and "length d < usize_bound" and ok: "event_head_ok m e"
    and at: "rest_at d i (enc_event_head e @ ys)"
  shows "parse_eventlog_entry c oc d i m =
    parse_event_tail c oc d (le_index e) (le_type e) (le_digests e) (i + length (enc_event_head e))"
proof -
  let ?t = "of_nat (tcg_event_type_discr (le_type e)) :: u32"
  let ?n = "of_nat (length (le_digests e)) :: u32"
  let ?ds = "concat (map enc_digest (le_digests e))"
  have small: "unat ?t = tcg_event_type_discr (le_type e)" "unat ?n = length (le_digests e)"
    using ok tcg_event_type_discr_bound [of "le_type e"]
    by (simp_all only: event_head_ok_def unat_of_nat_u32)
  have enc: "enc_event_head e @ ys = le_enc 4 (unat (le_index e)) @ le_enc 4 (unat ?t) @
      le_enc 4 (unat ?n) @ ?ds @ ys"
    by (simp only: small enc_event_head_def append_assoc)
  have L: "LENGTH(32) = 8 * 4" by simp
  have ds: "list_all (digest_ok m) (le_digests e)" using ok by (simp add: event_head_ok_def)
  note g1 = rest_at_gread [OF at [unfolded enc] L]
  note g2 = rest_at_gread [OF g1(2) L]
  note g3 = rest_at_gread [OF g2(2) L]
  note pd = parse_digest_list_enc [OF assms(1) ds assms(2) g3(2), of oc]
  define p1 p2 p3 p4 where "p1 = i + 4" and "p2 = p1 + 4" and "p3 = p2 + 4" and "p4 = p3 + length ?ds"
  note ps = p1_def p2_def p3_def p4_def
  have reads: "gread_le 4 d i = Some (le_index e, p1)" "gread_le 4 d p1 = Some (?t, p2)"
    "gread_le 4 d p2 = Some (?n, p3)"
    "parse_digest_list c oc d m (length (le_digests e)) p3 = Inr (le_digests e, p4)"
    using g1(1) g2(1) g3(1) conjunct1 [OF pd] by (simp_all only: ps)
  have p4: "i + length (enc_event_head e) = p4" by (simp add: ps enc_event_head_def)
  have stop: "stop_flag_at d i \<noteq> 0xFFFFFFFFFFFFFFFF" "stop_flag_at d i \<noteq> 0"
    using at ok by (simp_all add: enc_event_head_def event_head_ok_def stop_flag_event)
  have g8: "gread_le 8 d i = Some (stop_flag_at d i, i + 8)"
    using g2(2) by (simp add: gread_le_def stop_flag_at_def rest_at_def)
  have ty: "tcg_event_type_try_from ?t = Some (le_type e)"
    by (simp only: tcg_event_type_try_from_discr small)
  show ?thesis
    using stop unfolding parse_eventlog_entry_def parse_event_tail_def Let_def
    by (simp add: parse_digests_def assms(1) g8 reads small ty p4)
qed

lemma parse_eventlog_entry_enc:
  assumes "scroll_le c" and "length d < usize_bound" and ok: "event_ok c oc m e"
    and at: "rest_at d i (enc_event e @ ys)"
  shows "parse_eventlog_entry c oc d i m = Inr (Some (entry_of c oc e), i + length (enc_event e)) \<and>
    rest_at d (i + length (enc_event e)) ys"
proof -
  let ?l = "of_nat (length (le_data e)) :: u32"
  have l: "unat ?l = length (le_data e)" using ok by (simp only: event_ok_def unat_of_nat_u32)
  have head: "event_head_ok m e" using ok by (simp add: event_ok_def)
  have at': "rest_at d i (enc_event_head e @ le_enc 4 (unat ?l) @ le_data e @ ys)"
    using at by (simp only: enc_event_def l append_assoc)
  define p4 p5 p6 where "p4 = i + length (enc_event_head e)" and "p5 = p4 + 4"
    and "p6 = p5 + length (le_data e)"
  have "rest_at d p4 (le_enc 4 (unat ?l) @ le_data e @ ys)"
    using rest_at_append [OF at'] by (simp only: p4_def)
  then have g: "gread_le 4 d p4 = Some (?l, p5)" "rest_at d p5 (le_data e @ ys)"
    using rest_at_gread [of d p4 4 ?l] by (simp_all add: p5_def)
  note sl = rest_at_slice [OF g(2), folded p6_def]
  have p6: "i + length (enc_event e) = p6" by (simp add: p4_def p5_def p6_def enc_event_def)
  have add: "usize_add oc p5 (length (le_data e)) = (Inr p6 :: usize anyhow)"
    and len: "\<not> length d < length (le_data e)"
    using sl(2) assms(2) by (simp_all add: rest_at_def p6_def)
  obtain b r where br: "compare_digests c (le_data e) (le_digests e) = Inr b"
    "get_parser c oc (le_type e) (le_data e) = Inr r"
    using ok by (cases "compare_digests c (le_data e) (le_digests e)";
      cases "get_parser c oc (le_type e) (le_data e)") (simp_all add: event_ok_def)
  show ?thesis
    using parse_event_head [OF assms(1,2) head at', of oc] sl(2)
    by (simp add: parse_event_tail_def p4_def [symmetric] p6 assms(1) g(1) l len add br sl(1)
        slice_def entry_of_def)
qed

text \<open>A size that overruns the log but not its length passes the check of the code.\<close>

lemma parse_eventlog_entry_overrun:
  assumes "scroll_le c" and "length d < usize_bound" and "event_head_ok m e"
    and "rest_at d i (enc_event_head e @ le_enc 4 (unat sz) @ ys)"
    and "length ys < unat (sz :: u32)" and "unat sz \<le> length d" and "length d < 2 ^ 63"
  shows "panics (parse_eventlog_entry c oc d i m)"
proof -
  define p4 where "p4 = i + length (enc_event_head e)"
  have "rest_at d p4 (le_enc 4 (unat sz) @ ys)"
    using rest_at_append [OF assms(4)] by (simp only: p4_def)
  then have g: "gread_le 4 d p4 = Some (sz, p4 + 4)" "rest_at d (p4 + 4) ys"
    using rest_at_gread [of d p4 4 sz] by simp_all
  have "p4 + 4 + unat sz < usize_bound"
    using g(2) assms(7) unat_u32_less [of sz] by (simp add: rest_at_def usize_bound_def)
  moreover have "length d < p4 + 4 + unat sz"
    using g(2) assms(5) by (auto simp: rest_at_def)
  ultimately show ?thesis
    using parse_event_head [OF assms(1-4), of oc] assms(6)
    by (simp add: parse_event_tail_def p4_def [symmetric] assms(1) g(1))
qed

lemma stop_flag_bytes:
  "(from_le_bytes (replicate 8 0) :: u64) = 0"
  "(from_le_bytes (replicate 8 255) :: u64) = 0xFFFFFFFFFFFFFFFF"
proof -
  have "replicate 8 b = [b, b, b, b, b, b, b, b]" for b :: byte
    by (simp add: numeral_eq_Suc)
  then show "(from_le_bytes (replicate 8 0) :: u64) = 0"
    "(from_le_bytes (replicate 8 255) :: u64) = 0xFFFFFFFFFFFFFFFF"
    by (simp_all add: from_le_bytes_def)
qed

lemma parse_entries_enc:
  assumes "scroll_le c" and "length d < usize_bound" and "list_all (event_ok c oc m) es"
    and "rest_at d i (concat (map enc_event es) @ ys)"
    and "ys = [] \<or> (\<exists>b zs. b \<in> {0, 255} \<and> ys = replicate 8 b @ zs)"
  shows "parse_entries c oc d i m acc = Some (Inr \<lparr>log = acc @ map (entry_of c oc) es\<rparr>)"
  using assms(3,4)
proof (induction es arbitrary: i acc)
  case Nil
  show ?case
  proof (cases "ys = []")
    case True
    with Nil show ?thesis by (subst parse_entries.simps) (auto simp: rest_at_def)
  next
    case False
    then obtain b zs where b: "b = 0 \<or> b = 255" and ys: "ys = replicate 8 b @ zs" using assms(5) by auto
    have "take 8 (drop i d) = replicate 8 b" "i + 8 \<le> length d"
      using Nil(2) ys rest_at_append [of d i "replicate 8 b" zs] by (auto simp: rest_at_def)
    then have "gread_le 8 d i = Some (from_le_bytes (replicate 8 b) :: u64, i + 8)"
      by (simp add: gread_le_def)
    moreover have "(from_le_bytes (replicate 8 b) :: u64) = (if b = 0 then 0 else 0xFFFFFFFFFFFFFFFF)"
      using b stop_flag_bytes by auto
    ultimately have "parse_eventlog_entry c oc d i m = Inr (None, 0)"
      using assms(1) by (simp add: parse_eventlog_entry_def)
    with \<open>i + 8 \<le> length d\<close> show ?thesis by (subst parse_entries.simps) simp
  qed
next
  case (Cons e es)
  then have at: "rest_at d i (enc_event e @ concat (map enc_event es) @ ys)"
    and ok: "event_ok c oc m e" by simp_all
  have "i < length d" using rest_at_append [OF at] by (simp add: rest_at_def enc_event_def)
  then show ?case
    using parse_eventlog_entry_enc [OF assms(1,2) ok at] Cons.IH Cons.prems(1)
    by (subst parse_entries.simps) simp
qed

subsection \<open>The first event\<close>

type_synonym alg_sizes = "(tcg_algorithm \<times> u16) list"

definition enc_alg_size :: "tcg_algorithm \<times> u16 \<Rightarrow> bytes" where
  "enc_alg_size x = le_enc 2 (tcg_algorithm_discr (fst x)) @ le_enc 2 (unat (snd x))"

record spec_id_header =
  sh_pcr :: u32
  sh_digest :: bytes
  sh_signature :: bytes
  sh_sizes :: alg_sizes
  sh_vendor :: bytes

definition enc_spec_id :: "spec_id_header \<Rightarrow> bytes" where
  "enc_spec_id h =
     sh_signature h @ le_enc 4 (length (sh_sizes h)) @ concat (map enc_alg_size (sh_sizes h)) @
     [of_nat (length (sh_vendor h))] @ sh_vendor h"

definition enc_header :: "spec_id_header \<Rightarrow> bytes" where
  "enc_header h =
     le_enc 4 (unat (sh_pcr h)) @ le_enc 4 (tcg_event_type_discr EvNoAction) @ sh_digest h @
     le_enc 4 (length (enc_spec_id h)) @ enc_spec_id h"

definition header_ok :: "spec_id_header \<Rightarrow> bool" where
  "header_ok h \<longleftrightarrow> length (sh_digest h) = 20 \<and> length (sh_signature h) = 24 \<and>
     length (sh_sizes h) < 2 ^ 16 \<and> length (sh_vendor h) < 256"

definition sizes_map :: "alg_sizes \<Rightarrow> digest_size_map \<Rightarrow> digest_size_map" where
  "sizes_map xs m = foldl (\<lambda>m x. m(fst x \<mapsto> snd x)) m xs"

lemma length_enc_alg_sizes [simp]: "length (concat (map enc_alg_size xs)) = 4 * length xs"
  by (induction xs) (simp_all add: enc_alg_size_def)

lemma length_enc_spec_id:
  "header_ok h \<Longrightarrow> length (enc_spec_id h) = 29 + 4 * length (sh_sizes h) + length (sh_vendor h)"
  by (simp add: enc_spec_id_def header_ok_def)

lemma length_enc_header:
  "header_ok h \<Longrightarrow> length (enc_header h) = 61 + 4 * length (sh_sizes h) + length (sh_vendor h)"
  by (simp add: enc_header_def length_enc_spec_id) (simp add: header_ok_def)

lemma parse_algorithms_enc:
  assumes "scroll_le c" and "rest_at d i (concat (map enc_alg_size xs) @ ys)"
  shows "parse_algorithms c d (length xs) i m = Inr (i + 4 * length xs, sizes_map xs m)"
  using assms(2)
proof (induction xs arbitrary: i m)
  case Nil
  then show ?case by (simp add: sizes_map_def)
next
  case (Cons x xs)
  let ?a = "of_nat (tcg_algorithm_discr (fst x)) :: u16"
  have a: "unat ?a = tcg_algorithm_discr (fst x)"
    using tcg_algorithm_discr_bound [of "fst x"] by (simp add: unat_of_nat)
  have L: "LENGTH(16) = 8 * 2" by simp
  have "rest_at d i (le_enc 2 (unat ?a) @ le_enc 2 (unat (snd x)) @ concat (map enc_alg_size xs) @ ys)"
    using Cons.prems by (simp add: a enc_alg_size_def [of x])
  note g1 = rest_at_gread [OF this L] note g2 = rest_at_gread [OF g1(2) L]
  have try_from: "tcg_algorithm_try_from (ucast ?a) = Some (fst x)"
    by (simp only: tcg_algorithm_try_from_discr unat_ucast_u16 a)
  define m' p1 p2 where "m' = m(fst x \<mapsto> snd x)" and "p1 = i + 2" and "p2 = p1 + 2"
  have ih: "parse_algorithms c d (length xs) p2 m' = Inr (p2 + 4 * length xs, sizes_map xs m')"
    using Cons.IH [OF g2(2), of m'] by (simp only: p1_def p2_def)
  have "p2 + 4 * length xs = i + 4 * length (x # xs)" "sizes_map (x # xs) m = sizes_map xs m'"
    by (simp_all add: p1_def p2_def sizes_map_def m'_def)
  moreover have "gread_le 2 d i = Some (?a, p1)" "gread_le 2 d p1 = Some (snd x, p2)"
    using g1(1) g2(1) by (simp_all only: p1_def p2_def)
  ultimately show ?case
    using ih assms(1) by (simp add: try_from m'_def [symmetric])
qed

lemma parse_digest_sizes_enc:
  assumes "scroll_le c" and ok: "header_ok h"
  shows "parse_digest_sizes c oc (enc_spec_id h) m =
    Inr (length (enc_spec_id h), sizes_map (sh_sizes h) m)"
proof -
  let ?n = "of_nat (length (sh_sizes h)) :: u32"
  have n: "unat ?n = length (sh_sizes h)" using ok by (simp add: header_ok_def unat_of_nat)
  have v: "unat (of_nat (length (sh_vendor h)) :: byte) = length (sh_vendor h)"
    using ok by (simp add: header_ok_def unat_of_nat)
  have "rest_at (enc_spec_id h) 24 (le_enc 4 (unat ?n) @ concat (map enc_alg_size (sh_sizes h)) @
      [of_nat (length (sh_vendor h))] @ sh_vendor h)"
    using ok by (simp only: n) (simp add: rest_at_def enc_spec_id_def header_ok_def)
  note g = rest_at_gread [OF this, simplified]
  have "rest_at (enc_spec_id h) (28 + 4 * length (sh_sizes h)) (of_nat (length (sh_vendor h)) # sh_vendor h)"
    using rest_at_append [OF g(2)] by simp
  then have at: "index_at (enc_spec_id h) (28 + 4 * length (sh_sizes h)) =
      (Inr (of_nat (length (sh_vendor h))) :: byte anyhow)"
    by (simp add: rest_at_def index_at_def length_enc_spec_id [OF ok])
      (metis nth_via_drop)
  show ?thesis
    using g(1) ok parse_algorithms_enc [OF assms(1) g(2), of m]
    by (simp add: parse_digest_sizes_def assms(1) n at v length_enc_spec_id usize_bound_def header_ok_def)
qed

lemma parse_initial_entry_enc:
  assumes "scroll_le c" and ok: "header_ok h"
  shows "parse_initial_entry c oc (enc_header h @ ys) 0 m =
    Inr (length (enc_header h), sizes_map (sh_sizes h) m)"
proof -
  let ?d = "enc_header h @ ys"
  let ?t = "of_nat (tcg_event_type_discr EvNoAction) :: u32"
  let ?l = "of_nat (length (enc_spec_id h)) :: u32"
  have bound: "length (enc_spec_id h) < 2 ^ 32"
    using ok by (simp add: length_enc_spec_id) (simp add: header_ok_def)
  have t: "unat ?t = tcg_event_type_discr EvNoAction" and l: "unat ?l = length (enc_spec_id h)"
    using bound by (simp_all only: unat_of_nat_u32 tcg_event_type_discr_bound)
  have L: "LENGTH(32) = 8 * 4" by simp
  have "rest_at ?d 0 (le_enc 4 (unat (sh_pcr h)) @ le_enc 4 (unat ?t) @ sh_digest h @ le_enc 4 (unat ?l) @
      enc_spec_id h @ ys)"
    by (simp only: t l) (simp add: rest_at_def enc_header_def)
  note g1 = rest_at_gread [OF this L] note g2 = rest_at_gread [OF g1(2) L]
  have "rest_at ?d (0 + 4 + 4 + 20) (le_enc 4 (unat ?l) @ enc_spec_id h @ ys)"
    using rest_at_append [OF g2(2)] ok by (simp add: header_ok_def)
  note g3 = rest_at_gread [OF this L]
  note sl = rest_at_slice(1) [OF g3(2)]
  have ty: "tcg_event_type_try_from ?t = Some EvNoAction"
    by (simp only: tcg_event_type_try_from_discr t)
  have "length (enc_header h) = 32 + length (enc_spec_id h)"
    using ok by (simp add: length_enc_header length_enc_spec_id)
  moreover have "checked_add 32 (length (enc_spec_id h)) = Some (32 + length (enc_spec_id h))"
    using bound by (simp add: checked_add_def usize_bound_def)
  ultimately show ?thesis
    using g1(1) g2(1) g3(1) sl parse_digest_sizes_enc [OF assms, of oc m]
    by (simp add: parse_initial_entry_def assms(1) ty l usize_bound_def Let_def del: of_nat_numeral)
qed

subsection \<open>The hash chain\<close>

text \<open>What a register holds after the log: the digests of one register and one algorithm, in the
  order of the log, folded into a string of zeros.\<close>

definition measured :: "eventlog_entry list \<Rightarrow> u32 \<Rightarrow> tcg_algorithm \<Rightarrow> bytes list" where
  "measured es i a =
     map digest (filter (\<lambda>x. alg x = a) (concat (map digests (filter (\<lambda>e. index e = i) es))))"

definition hash_fun :: "crates \<Rightarrow> tcg_algorithm \<Rightarrow> (bytes \<Rightarrow> bytes) option" where
  "hash_fun c a =
     (case a of Sha256 \<Rightarrow> Some (sha256_digest c) | Sha384 \<Rightarrow> Some (sha384_digest c)
      | Sha512 \<Rightarrow> Some (sha512_digest c) | Sm3 \<Rightarrow> Some (sm3_digest c) | _ \<Rightarrow> None)"

definition chain :: "(bytes \<Rightarrow> bytes) \<Rightarrow> bytes \<Rightarrow> bytes list \<Rightarrow> bytes" where
  "chain h m ds = foldl (\<lambda>m d. h (m @ d)) m ds"

definition register_value :: "crates \<Rightarrow> eventlog_entry list \<Rightarrow> u32 \<Rightarrow> tcg_algorithm \<Rightarrow> bytes option" where
  "register_value c es i a =
     (case get_digest_size a of
        Inl _ \<Rightarrow> None
      | Inr n \<Rightarrow>
          (case hash_fun c a of
             Some h \<Rightarrow> Some (chain h (replicate n 0) (measured es i a))
           | None \<Rightarrow> if measured es i a = [] then Some (replicate n 0) else None))"

lemma collect_digests_by_index_snoc:
  "collect_digests_by_index (es @ [e]) =
     (collect_digests_by_index es)(index e \<mapsto>
        (case collect_digests_by_index es (index e) of None \<Rightarrow> [] | Some ds \<Rightarrow> ds) @ digests e)"
  by (simp add: collect_digests_by_index_def)

lemma collect_digests_by_index_eq:
  "collect_digests_by_index es i =
     (if filter (\<lambda>e. index e = i) es = [] then None
      else Some (concat (map digests (filter (\<lambda>e. index e = i) es))))"
proof (induction es rule: rev_induct)
  case Nil
  then show ?case by (simp add: collect_digests_by_index_def)
next
  case (snoc e es)
  then show ?case by (auto simp: collect_digests_by_index_snoc filter_empty_conv split: option.splits if_splits)
qed

lemma accumulate_hash_eq:
  "accumulate_hash c a m d =
     (case hash_fun c a of Some h \<Rightarrow> Inr (h (m @ d)) | None \<Rightarrow> bail ''Unsupported Hash algorithm'')"
  by (cases a) (simp_all add: accumulate_hash_def hash_fun_def hash_with_def)

lemma accumulate_all_eq:
  "accumulate_all c a m xs =
     (case hash_fun c a of
        Some h \<Rightarrow> Inr (chain h m (map digest xs))
      | None \<Rightarrow> if xs = [] then Inr m else bail ''Unsupported Hash algorithm'')"
  by (induction xs arbitrary: m) (auto simp: accumulate_hash_eq chain_def split: option.splits)

lemma replay_eq_Inr_iff:
  "replay c (collect_digests_by_index es) i a = Inr v \<longleftrightarrow> register_value c es i a = Some v"
proof (cases "get_digest_size a")
  case (Inl f)
  then show ?thesis by (simp add: replay_def register_value_def result_simps)
next
  case (Inr n)
  have "concat (map digests (filter (\<lambda>e. index e = i) es)) = []" if "filter (\<lambda>e. index e = i) es = []"
    using that by simp
  with Inr show ?thesis
    by (auto simp: replay_def register_value_def collect_digests_by_index_eq accumulate_all_eq
        measured_def chain_def split: option.splits)
qed

lemma match_references_iff:
  "match_references c (collect_digests_by_index es) items = Inr () \<longleftrightarrow>
     list_all (\<lambda>r. register_value c es (rm_index r) (algorithm r) = Some (reference r)) items"
proof (induction items)
  case Nil
  then show ?case by simp
next
  case (Cons r items)
  then show ?case by (auto simp: result_simps replay_eq_Inr_iff)
qed

text \<open>The inputs that the chain hashes.\<close>

fun chain_inputs :: "(bytes \<Rightarrow> bytes) \<Rightarrow> bytes \<Rightarrow> bytes list \<Rightarrow> bytes list" where
  "chain_inputs h m [] = []"
| "chain_inputs h m (d # ds) = (m @ d) # chain_inputs h (h (m @ d)) ds"

lemma chain_snoc: "chain h m (ds @ [d]) = h (chain h m ds @ d)"
  by (simp add: chain_def)

lemma chain_inputs_snoc: "chain_inputs h m (ds @ [d]) = chain_inputs h m ds @ [chain h m ds @ d]"
  by (induction ds arbitrary: m) (simp_all add: chain_def)

lemma length_chain:
  assumes "\<And>x. length (h x) = length m"
  shows "length (chain h m ds) = length m"
  using assms by (induction ds rule: rev_induct) (simp_all add: chain_def)

lemma chain_binding:
  assumes len: "\<And>x. length (h x) = length m" and eq: "chain h m xs = chain h m ys"
  shows "xs = ys \<or>
    (\<exists>u \<in> set (chain_inputs h m xs). \<exists>v \<in> set (chain_inputs h m ys). u \<noteq> v \<and> h u = h v) \<or>
    (\<exists>u \<in> set (chain_inputs h m xs) \<union> set (chain_inputs h m ys). h u = m)"
  using eq
proof (induction xs arbitrary: ys rule: rev_induct)
  case Nil
  then show ?case
    by (cases ys rule: rev_cases) (auto simp: chain_snoc chain_inputs_snoc chain_def)
next
  case (snoc d xs)
  show ?case
  proof (cases ys rule: rev_cases)
    case Nil
    then show ?thesis using snoc.prems by (auto simp: chain_snoc chain_inputs_snoc chain_def)
  next
    case (snoc ys' d')
    show ?thesis
    proof (cases "chain h m xs @ d = chain h m ys' @ d'")
      case True
      then have "chain h m xs = chain h m ys'" "d = d'"
        using length_chain [of h m, OF len] by (simp_all add: append_eq_append_conv)
      with snoc.IH [of ys'] snoc show ?thesis by (auto simp: chain_inputs_snoc)
    next
      case False
      then show ?thesis using snoc.prems snoc by (auto simp: chain_snoc chain_inputs_snoc)
    qed
  qed
qed

lemma length_hash_fun:
  "digest_sizes c \<Longrightarrow> hash_fun c a = Some h \<Longrightarrow> get_digest_size a = Inr n \<Longrightarrow> length (h x) = n"
  by (cases a) (auto simp: hash_fun_def digest_sizes_def get_digest_size_def)

subsection \<open>Properties\<close>

text \<open>C8. Parsing an event log returns on every input, with a log, an error or a panic: the loop
  over the entries never runs forever, because every entry it accepts moves the position forward.
  The only assumption is that the reader advances by the size of what it reads.\<close>

theorem cc_event_log_try_from_returns:
  assumes "scroll_le c"
  shows "\<exists>r. cc_event_log_try_from c oc d = Some r"
  using parse_entries_returns [OF assms]
  by (auto simp: cc_event_log_try_from_def split: sum.splits)

theorem cc_event_log_try_from_returns_witness:
  "\<exists>r. cc_event_log_try_from sample_crates True [1, 2, 3] = Some r"
  by (rule cc_event_log_try_from_returns [OF sample_crates_laws(1)])

text \<open>C4. The parser decodes the TCG format: from the specification event with its digest sizes,
  any list of acceptable entries and then the end of the data or a stop flag (eight bytes 0 or
  eight bytes 255) followed by anything, it returns exactly these entries, in order, with their
  register, type, digests, data in base64, the details of the parser of the type and the
  verdict whether the digests are those of the data.\<close>

theorem cc_event_log_roundtrip:
  assumes "scroll_le c" and "header_ok h" and "list_all (event_ok c oc (sizes_map (sh_sizes h) Map.empty)) es"
    and "d = enc_header h @ concat (map enc_event es) @ ys" and "length d < usize_bound"
    and "ys = [] \<or> (\<exists>b zs. b \<in> {0, 255} \<and> ys = replicate 8 b @ zs)"
  shows "cc_event_log_try_from c oc d = Some (Inr \<lparr>log = map (entry_of c oc) es\<rparr>)"
proof -
  have "rest_at d (length (enc_header h)) (concat (map enc_event es) @ ys)"
    using assms(4) by (simp add: rest_at_def)
  from parse_entries_enc [OF assms(1,5,3) this assms(6), of "[]"] show ?thesis
    using parse_initial_entry_enc [OF assms(1,2)] by (simp add: cc_event_log_try_from_def assms(4))
qed

theorem cc_event_log_roundtrip_witness:
  "cc_event_log_try_from sample_crates True
     (enc_header \<lparr>sh_pcr = 0, sh_digest = replicate 20 0, sh_signature = replicate 24 83,
        sh_sizes = [(Sha384, 48)], sh_vendor = []\<rparr> @
      enc_event \<lparr>le_index = 1, le_type = EvSeparator, le_digests = [], le_data = [0, 0, 0, 0]\<rparr> @
      replicate 8 255) =
   Some (Inr \<lparr>log = [\<lparr>details = details_empty, digest_matches_event = True, digests = [],
     event = base64_encode sample_crates [0, 0, 0, 0], index = 1, event_type = EvSeparator\<rparr>]\<rparr>)"
proof -
  let ?h = "\<lparr>sh_pcr = 0, sh_digest = replicate 20 0, sh_signature = replicate 24 83,
    sh_sizes = [(Sha384, 48)], sh_vendor = []\<rparr> :: spec_id_header"
  let ?e = "\<lparr>le_index = 1, le_type = EvSeparator, le_digests = [], le_data = [0, 0, 0, 0]\<rparr> :: log_event"
  have ok: "header_ok ?h" by (simp add: header_ok_def)
  have "list_all (event_ok sample_crates True (sizes_map (sh_sizes ?h) Map.empty)) [?e]"
    by (simp add: event_ok_def event_head_ok_def get_parser_def ev_blank_parse_def)
  moreover have "length (enc_header ?h @ concat (map enc_event [?e]) @ replicate 8 255) < usize_bound"
    by (simp add: length_enc_header [OF ok] enc_event_def enc_event_head_def usize_bound_def)
  ultimately show ?thesis
    using cc_event_log_roundtrip [OF sample_crates_laws(1) ok, of True "[?e]" _ "replicate 8 255"]
    by (auto simp: entry_of_def get_parser_def ev_blank_parse_def)
qed

text \<open>C27. An entry whose declared data size exceeds what is left of the log, but not the length of
  the whole log, makes the parser panic instead of returning an error, whatever the entry is: the
  bounds check compares the size with the length of the log and not with the bytes left.\<close>

theorem truncated_entry_panics:
  fixes sz :: u32
  assumes "scroll_le c" and "event_head_ok m e"
    and "rest_at d i (enc_event_head e @ le_enc 4 (unat sz) @ ys)"
    and "length ys < unat sz" and "unat sz \<le> length d" and "length d < 2 ^ 63"
  shows "panics (parse_eventlog_entry c oc d i m)"
  using assms by (intro parse_eventlog_entry_overrun [of c d m e i sz ys]) (simp_all add: usize_bound_def)

theorem truncated_entry_panics_witness:
  "panics (parse_eventlog_entry sample_crates True ([1, 0, 0, 0] @ [4, 0, 0, 0] @ [0, 0, 0, 0] @ [5, 0, 0, 0])
     0 Map.empty)"
proof -
  let ?e = "\<lparr>le_index = 1, le_type = EvSeparator, le_digests = [], le_data = []\<rparr> :: log_event"
  have "enc_event_head ?e @ le_enc 4 (unat (5 :: u32)) @ [] =
      [1, 0, 0, 0] @ [4, 0, 0, 0] @ [0, 0, 0, 0] @ [5, 0, 0, 0]"
    by (simp add: enc_event_head_def tcg_event_type_discr_def le_enc_4)
  then show ?thesis
    by (intro truncated_entry_panics [OF sample_crates_laws(1), of Map.empty ?e _ 0 5 "[]"])
      (simp_all add: event_head_ok_def rest_at_def)
qed

text \<open>C5. Replaying the log accepts a list of reference measurements exactly when each of them is
  the value of its register: the digests of that register and algorithm, in log order, folded with
  the hash of the algorithm into a string of zeros of the digest size. An algorithm without a hash
  in the code (SHA-1) is accepted only with no digest and a reference of zeros; RSA and TDES never.\<close>

theorem replay_and_match_iff:
  "replay_and_match c lg items = Inr () \<longleftrightarrow>
     list_all (\<lambda>r. register_value c (log lg) (rm_index r) (algorithm r) = Some (reference r)) items"
  by (simp add: replay_and_match_def match_references_iff)

text \<open>C7. The replay binds the digests: two logs that replay to the same value of a register have
  the same digests for it, in the same order, unless the hash inputs of the two replays contain a
  collision, or one whose hash is the initial string of zeros.\<close>

theorem replay_binding:
  assumes "digest_sizes c" and "hash_fun c a = Some h" and "get_digest_size a = Inr n"
    and "replay c (collect_digests_by_index es) i a = Inr v"
    and "replay c (collect_digests_by_index es') i a = Inr v"
  shows "measured es i a = measured es' i a \<or>
    (\<exists>u \<in> set (chain_inputs h (replicate n 0) (measured es i a)).
     \<exists>v \<in> set (chain_inputs h (replicate n 0) (measured es' i a)). u \<noteq> v \<and> h u = h v) \<or>
    (\<exists>u \<in> set (chain_inputs h (replicate n 0) (measured es i a)) \<union>
           set (chain_inputs h (replicate n 0) (measured es' i a)). h u = replicate n 0)"
  using assms(2-5) length_hash_fun [OF assms(1-3)]
  by (intro chain_binding) (simp_all add: replay_eq_Inr_iff register_value_def)

theorem replay_binding_witness:
  "let e = \<lparr>details = details_empty, digest_matches_event = True, digests = [\<lparr>alg = Sha256, digest = [1]\<rparr>],
         event = [], index = 2, event_type = EvIpl\<rparr>;
       h = sha256_digest sample_crates in
   measured [e] 2 Sha256 = measured [e, e\<lparr>index := 3\<rparr>] 2 Sha256 \<or>
   (\<exists>u \<in> set (chain_inputs h (replicate 32 0) (measured [e] 2 Sha256)).
     \<exists>v \<in> set (chain_inputs h (replicate 32 0) (measured [e, e\<lparr>index := 3\<rparr>] 2 Sha256)). u \<noteq> v \<and> h u = h v) \<or>
   (\<exists>u \<in> set (chain_inputs h (replicate 32 0) (measured [e] 2 Sha256)) \<union>
           set (chain_inputs h (replicate 32 0) (measured [e, e\<lparr>index := 3\<rparr>] 2 Sha256)). h u = replicate 32 0)"
  unfolding Let_def
proof (rule replay_binding [OF sample_crates_laws(2)])
  let ?e = "\<lparr>details = details_empty, digest_matches_event = True, digests = [\<lparr>alg = Sha256, digest = [1]\<rparr>],
    event = [], index = 2, event_type = EvIpl\<rparr> :: eventlog_entry"
  let ?v = "sha256_digest sample_crates (replicate 32 0 @ [1])"
  show "replay sample_crates (collect_digests_by_index [?e]) 2 Sha256 = Inr ?v"
    and "replay sample_crates (collect_digests_by_index [?e, ?e\<lparr>index := 3\<rparr>]) 2 Sha256 = Inr ?v"
    by (simp_all add: replay_def collect_digests_by_index_def get_digest_size_def accumulate_hash_def
        hash_with_def)
qed (simp_all add: hash_fun_def get_digest_size_def)

end
