(* ===== verification/Effects.thy ===== *)
theory Effects
  imports Json
begin

text \<open>
  Handlers that change state and may fail: a function from the state to a result and the new state.
  A failure keeps the state reached so far, as in the source, where an early return undoes nothing.
\<close>

type_synonym time = int

type_synonym ('s, 'e, 'a) prog = "'s \<Rightarrow> ('e, 'a) result \<times> 's"

definition retP :: "'a \<Rightarrow> ('s, 'e, 'a) prog" where
  "retP x s = (Inr x, s)"

definition liftP :: "('e, 'a) result \<Rightarrow> ('s, 'e, 'a) prog" where
  "liftP r s = (r, s)"

definition bailP :: "'e \<Rightarrow> ('s, 'e, 'a) prog" where
  "bailP e = liftP (bail e)"

definition modifyP :: "('s \<Rightarrow> 's) \<Rightarrow> ('s, 'e, unit) prog" where
  "modifyP f s = (Inr (), f s)"

definition readP :: "('s \<Rightarrow> 'a) \<Rightarrow> ('s, 'e, 'a) prog" where
  "readP f s = (Inr (f s), s)"

definition bindP :: "('s, 'e, 'a) prog \<Rightarrow> ('a \<Rightarrow> ('s, 'e, 'b) prog) \<Rightarrow> ('s, 'e, 'b) prog" where
  "bindP m k s = (case m s of (Inl f, s') \<Rightarrow> (Inl f, s') | (Inr x, s') \<Rightarrow> k x s')"

text \<open>\<^verbatim>\<open>.inspect_err(|_| ...)\<close>: an effect on the error path only, not on a panic.\<close>

definition inspect_err :: "('s \<Rightarrow> 's) \<Rightarrow> ('s, 'e, 'a) prog \<Rightarrow> ('s, 'e, 'a) prog" where
  "inspect_err g m s =
     (case m s of (Inl (Err e), s') \<Rightarrow> (Inl (Err e), g s') | r \<Rightarrow> r)"

definition map_errP :: "('e \<Rightarrow> 'f) \<Rightarrow> ('s, 'e, 'a) prog \<Rightarrow> ('s, 'f, 'a) prog" where
  "map_errP g m s = (case m s of (r, s') \<Rightarrow> (map_err g r, s'))"

text \<open>A program on a part of the state.\<close>

definition zoomP :: "('s \<Rightarrow> 't) \<Rightarrow> ('t \<Rightarrow> 's \<Rightarrow> 's) \<Rightarrow> ('t, 'e, 'a) prog \<Rightarrow> ('s, 'e, 'a) prog" where
  "zoomP get put m s = (case m (get s) of (r, t) \<Rightarrow> (r, put t s))"

named_theorems prog_simps \<open>evaluation of programs on a state\<close>

lemma prog_apply [prog_simps]:
  "retP x s = (Inr x, s)" "liftP r s = (r, s)" "modifyP f s = (Inr (), f s)"
  "readP g s = (Inr (g s), s)" "bailP e s = (bail e, s)"
  by (simp_all add: retP_def liftP_def modifyP_def readP_def bailP_def)

lemma bindP_apply [prog_simps]:
  "m s = (Inr x, s') \<Longrightarrow> bindP m k s = k x s'"
  "m s = (Inl f, s') \<Longrightarrow> bindP m k s = (Inl f, s')"
  "m s = (bail e, s') \<Longrightarrow> bindP m k s = (bail e, s')"
  "m s = (panic p, s') \<Longrightarrow> bindP m k s = (panic p, s')"
  by (simp_all add: bindP_def bail_def panic_def)

lemma bindP_eq: "bindP m k s = (case m s of (Inl f, s') \<Rightarrow> (Inl f, s') | (Inr x, s') \<Rightarrow> k x s')"
  by (rule bindP_def)

lemma bindP_simple [simp]:
  "bindP (retP x) k = k x" "bindP (liftP (Inr x)) k = k x"
  "bindP (liftP (bail e)) k = liftP (bail e)" "bindP (liftP (panic p)) k = liftP (panic p)"
  "bindP (bailP e) k = liftP (bail e)"
  by (simp_all add: bindP_def retP_def liftP_def bailP_def bail_def panic_def fun_eq_iff)

lemma bindP_modify: "bindP (modifyP f) k s = k () (f s)"
  by (simp add: bindP_def modifyP_def)

lemma bindP_read: "bindP (readP g) k s = k (g s) s"
  by (simp add: bindP_def readP_def)

lemma bindP_lift:
  "bindP (liftP r) k s = (case r of Inl f \<Rightarrow> (Inl f, s) | Inr x \<Rightarrow> k x s)"
  by (simp add: bindP_def liftP_def)

lemma bindP_liftP_and_then: "bindP (liftP m) (\<lambda>x. liftP (k x)) = liftP (and_then m k)"
  by (simp add: fun_eq_iff bindP_def liftP_def and_then_def split: sum.splits)

lemmas bindP_atoms [prog_simps] = bindP_modify bindP_read bindP_lift

lemma inspect_err_lift [prog_simps]:
  "inspect_err g (liftP r) s = (r, if (\<exists>e. r = bail e) then g s else s)"
  by (auto simp: inspect_err_def liftP_def bail_def split: sum.splits failure.splits)

lemma bindP_inspect_err [prog_simps]:
  "bindP (inspect_err g m) k s =
     (case fst (m s) of
        Inl (Err e) \<Rightarrow> (bail e, g (snd (m s)))
      | Inl (Panic p) \<Rightarrow> (panic p, snd (m s))
      | Inr x \<Rightarrow> k x (snd (m s)))"
  by (cases "m s") (simp add: bindP_def inspect_err_def bail_def panic_def
      split: sum.splits failure.splits)

lemma case_result [simp]:
  "(case bail e of Inl (Err x) \<Rightarrow> f x | Inl (Panic p) \<Rightarrow> g p | Inr x \<Rightarrow> h x) = f e"
  "(case panic s of Inl (Err x) \<Rightarrow> f x | Inl (Panic p) \<Rightarrow> g p | Inr x \<Rightarrow> h x) = g s"
  "(case bail e of Inl x \<Rightarrow> f' x | Inr x \<Rightarrow> h x) = f' (Err e)"
  "(case panic s of Inl x \<Rightarrow> f' x | Inr x \<Rightarrow> h x) = f' (Panic s)"
  by (simp_all add: bail_def panic_def)

lemma map_errP_apply: "map_errP g m s = (map_err g (fst (m s)), snd (m s))"
  by (simp add: map_errP_def split: prod.splits)

text \<open>Preservation of a predicate on the state, the form in which handlers keep invariants.\<close>

definition preserves :: "('s \<Rightarrow> bool) \<Rightarrow> ('s, 'e, 'a) prog \<Rightarrow> bool" where
  "preserves I m \<longleftrightarrow> (\<forall>s. I s \<longrightarrow> I (snd (m s)))"

lemma preservesI: "(\<And>s. I s \<Longrightarrow> I (snd (m s))) \<Longrightarrow> preserves I m"
  by (simp add: preserves_def)

lemma preservesD: "preserves I m \<Longrightarrow> I s \<Longrightarrow> I (snd (m s))"
  by (simp add: preserves_def)

lemma preserves_bindP [intro]:
  "preserves I m \<Longrightarrow> (\<And>x. preserves I (k x)) \<Longrightarrow> preserves I (bindP m k)"
  by (auto simp: preserves_def bindP_def split: prod.splits sum.splits)

lemma preserves_basic [intro, simp]:
  "preserves I (retP x)" "preserves I (liftP r)" "preserves I (bailP e)" "preserves I (readP g)"
  by (simp_all add: preserves_def prog_apply)

lemma preserves_inspect_err [intro]:
  assumes "preserves I m" and "\<And>s. I s \<Longrightarrow> I (g s)"
  shows "preserves I (inspect_err g m)"
proof (rule preservesI)
  fix s
  assume "I s"
  with assms(1) have "I (snd (m s))" by (rule preservesD)
  with assms(2) show "I (snd (inspect_err g m s))"
    by (auto simp: inspect_err_def split: prod.splits sum.splits failure.splits)
qed

end
