(* ===== verification/Kbs_Session.thy ===== *)
theory Kbs_Session
  imports Effects
begin

text \<open>
  The RCAR handshake of the key broker: session states (\<^verbatim>\<open>kbs/src/attestation/session.rs\<close>) and the
  attestation module with its session map (\<^verbatim>\<open>kbs/src/attestation/backend.rs\<close>). Random bytes, UUIDs
  and the clock are arguments of the handlers; the implementation of the \<^verbatim>\<open>Attest\<close> trait and the
  parsers of the crates are records of functions. \<^verbatim>\<open>attest\<close> is split where it releases the lock on
  the session between its two lookups, so that concurrent requests can be interleaved there.
\<close>

subsection \<open>Messages\<close>

datatype tee =
    Sev | AzSnpVtpm | AzTdxVtpm | Tdx | Snp | Sample | SampleDevice | Sgx | Csv | Cca | Se | HygonDcu
  | Nvidia | Tpm

record request =
  rq_version :: string
  rq_tee :: tee
  rq_extra_params :: json

record challenge =
  ch_nonce :: string
  ch_extra_params :: json

record init_data =
  id_format :: string
  id_body :: string

record attestation =
  at_init_data :: "init_data option"
  at_nonce :: string
  at_tee_pubkey :: json
  at_primary_evidence :: json
  at_additional_evidence :: string

record version =
  v_major :: nat
  v_minor :: nat
  v_patch :: nat
  v_pre :: string
  v_build :: string

record independent_evidence =
  ie_tee :: tee
  ie_tee_evidence :: json
  ie_runtime_data :: json
  ie_init_data :: "init_data option"

record cookie =
  ck_value :: string
  ck_expires :: time

record http_response =
  hr_status :: nat
  hr_content_type :: "string option"
  hr_body :: string
  hr_cookie :: "cookie option"

subsection \<open>Session states\<close>

datatype session_status =
    Authed request challenge string time
  | Attested string string time

fun session_id :: "session_status \<Rightarrow> string" where
  "session_id (Authed _ _ i _) = i"
| "session_id (Attested _ i _) = i"

fun session_timeout :: "session_status \<Rightarrow> time" where
  "session_timeout (Authed _ _ _ t) = t"
| "session_timeout (Attested _ _ t) = t"

fun session_request :: "session_status \<Rightarrow> request anyhow" where
  "session_request (Authed r _ _ _) = Inr r"
| "session_request (Attested _ _ _) = panic ''unexpected status''"

fun session_challenge :: "session_status \<Rightarrow> challenge anyhow" where
  "session_challenge (Authed _ c _ _) = Inr c"
| "session_challenge (Attested _ _ _) = panic ''unexpected status''"

definition session_auth :: "string \<Rightarrow> time \<Rightarrow> request \<Rightarrow> challenge \<Rightarrow> session_status" where
  "session_auth uuid deadline r c = Authed r c uuid deadline"

fun session_cookie :: "session_status \<Rightarrow> cookie" where
  "session_cookie (Authed _ _ i t) = \<lparr>ck_value = i, ck_expires = t\<rparr>"
| "session_cookie (Attested _ i t) = \<lparr>ck_value = i, ck_expires = t\<rparr>"

definition is_expired :: "time \<Rightarrow> session_status \<Rightarrow> bool" where
  "is_expired now s \<longleftrightarrow> session_timeout s < now"

fun session_attest :: "string \<Rightarrow> session_status \<Rightarrow> session_status" where
  "session_attest token (Authed _ _ i t) = Attested token i t"
| "session_attest token (Attested tok i t) = Attested tok i t"

type_synonym session_map = "string \<rightharpoonup> session_status"

text \<open>\<^verbatim>\<open>scc::HashMap::insert\<close> refuses a key that is present, and the result is dropped.\<close>

definition session_insert :: "session_status \<Rightarrow> session_map \<Rightarrow> session_map" where
  "session_insert s m = (case m (session_id s) of None \<Rightarrow> m(session_id s \<mapsto> s) | Some _ \<Rightarrow> m)"

definition retain_unexpired :: "time \<Rightarrow> session_map \<Rightarrow> session_map" where
  "retain_unexpired now m = (\<lambda>i. case m i of None \<Rightarrow> None | Some s \<Rightarrow> if is_expired now s then None else Some s)"

subsection \<open>The module\<close>

text \<open>The random number generator of a request: \<^verbatim>\<open>try_fill\<close> of a buffer of the given length.\<close>

type_synonym entropy = "nat \<Rightarrow> bytes option"

text \<open>The \<^verbatim>\<open>Attest\<close> trait: an implementation with its own state \<open>'s\<close>.\<close>

record 's attest_impl =
  ai_set_policy :: "string \<Rightarrow> string \<Rightarrow> ('s, string, unit) prog"
  ai_verify :: "independent_evidence list \<Rightarrow> ('s, string, string) prog"
  ai_generate_challenge :: "entropy \<Rightarrow> tee \<Rightarrow> json \<Rightarrow> ('s, string, challenge) prog"
  ai_register_reference_value :: "string \<Rightarrow> ('s, string, unit) prog"
  ai_query_reference_values :: "('s, string, string \<rightharpoonup> json) prog"

record kbs_crates =
  request_from_slice :: "bytes \<Rightarrow> request option"
  attestation_from_slice :: "bytes \<Rightarrow> attestation option"
  additional_from_str :: "string \<Rightarrow> (tee \<times> json) list option"
  set_policy_from_slice :: "bytes \<Rightarrow> (string \<times> string) option"
  version_parse :: "string \<Rightarrow> version option"
  version_req_matches :: "string \<Rightarrow> version \<Rightarrow> bool"
  attestation_to_string :: "attestation \<Rightarrow> string option"
  challenge_to_string :: "challenge \<Rightarrow> string"
  json_to_string :: "json \<Rightarrow> string option"
  tee_to_string :: "tee \<Rightarrow> string option"
  add_minutes :: "time \<Rightarrow> int \<Rightarrow> time"
  nonce_encode :: "bytes \<Rightarrow> string"

record metrics =
  auth_requests :: nat
  auth_errors :: nat
  auth_successes :: nat
  attestation_requests :: nat
  attestation_errors :: nat
  attestation_failures :: "string \<Rightarrow> nat"
  attestation_successes :: "string \<Rightarrow> nat"

record 's attestation_service =
  as_inner :: 's
  session_map :: session_map
  timeout :: int
  metrics :: metrics

definition kbs_version_req :: string where
  "kbs_version_req = ''='' @ fmt_dec 0 @ ''.'' @ fmt_dec 4 @ ''.'' @ fmt_dec 0"

definition nonce_size_bytes :: nat where
  "nonce_size_bytes = 32"

definition make_nonce :: "kbs_crates \<Rightarrow> entropy \<Rightarrow> string anyhow" where
  "make_nonce k rnd =
     and_then (ok_or (rnd nonce_size_bytes) ''failed to fill the nonce'') (\<lambda>nonce. Inr (nonce_encode k nonce))"

definition generic_generate_challenge ::
  "kbs_crates \<Rightarrow> entropy \<Rightarrow> tee \<Rightarrow> json \<Rightarrow> ('s, string, challenge) prog" where
  "generic_generate_challenge k rnd t params =
     bindP (liftP (make_nonce k rnd)) (\<lambda>nonce.
       retP \<lparr>ch_nonce = nonce, ch_extra_params = JString ''''\<rparr>)"

text \<open>The default methods of the trait.\<close>

definition default_attest :: "kbs_crates \<Rightarrow> (independent_evidence list \<Rightarrow> ('s, string, string) prog) \<Rightarrow> 's attest_impl" where
  "default_attest k verify = \<lparr>
     ai_set_policy = (\<lambda>_ _. bailP ''Set Policy API is unimplemented''),
     ai_verify = verify,
     ai_generate_challenge = generic_generate_challenge k,
     ai_register_reference_value =
       (\<lambda>_. bailP ''Attestation Service does not support reference value configuration.''),
     ai_query_reference_values =
       bailP ''Attestation Service does not support reference value configuration.''\<rparr>"

definition upd_metrics :: "(metrics \<Rightarrow> metrics) \<Rightarrow> 's attestation_service \<Rightarrow> 's attestation_service" where
  "upd_metrics f a = a\<lparr>metrics := f (metrics a)\<rparr>"

definition inc_auth_requests :: "metrics \<Rightarrow> metrics" where
  "inc_auth_requests m = m\<lparr>auth_requests := auth_requests m + 1\<rparr>"

definition inc_auth_errors :: "metrics \<Rightarrow> metrics" where
  "inc_auth_errors m = m\<lparr>auth_errors := auth_errors m + 1\<rparr>"

definition inc_auth_successes :: "metrics \<Rightarrow> metrics" where
  "inc_auth_successes m = m\<lparr>auth_successes := auth_successes m + 1\<rparr>"

definition inc_attestation_requests :: "metrics \<Rightarrow> metrics" where
  "inc_attestation_requests m = m\<lparr>attestation_requests := attestation_requests m + 1\<rparr>"

definition inc_attestation_errors :: "metrics \<Rightarrow> metrics" where
  "inc_attestation_errors m = m\<lparr>attestation_errors := attestation_errors m + 1\<rparr>"

definition inc_attestation_failures :: "string \<Rightarrow> metrics \<Rightarrow> metrics" where
  "inc_attestation_failures l m =
     m\<lparr>attestation_failures := (attestation_failures m)(l := attestation_failures m l + 1)\<rparr>"

definition inc_attestation_successes :: "string \<Rightarrow> metrics \<Rightarrow> metrics" where
  "inc_attestation_successes l m =
     m\<lparr>attestation_successes := (attestation_successes m)(l := attestation_successes m l + 1)\<rparr>"

definition innerP :: "('s, string, 'a) prog \<Rightarrow> ('s attestation_service, string, 'a) prog" where
  "innerP = zoomP as_inner (\<lambda>t a. a\<lparr>as_inner := t\<rparr>)"

definition as_new :: "'s \<Rightarrow> int \<Rightarrow> 's attestation_service" where
  "as_new inner t = \<lparr>as_inner = inner, session_map = Map.empty, timeout = t,
     metrics = \<lparr>auth_requests = 0, auth_errors = 0, auth_successes = 0, attestation_requests = 0,
       attestation_errors = 0, attestation_failures = (\<lambda>_. 0), attestation_successes = (\<lambda>_. 0)\<rparr>\<rparr>"

definition as_gc :: "time \<Rightarrow> 's attestation_service \<Rightarrow> 's attestation_service" where
  "as_gc now a = a\<lparr>session_map := retain_unexpired now (session_map a)\<rparr>"

definition as_set_policy ::
  "kbs_crates \<Rightarrow> 's attest_impl \<Rightarrow> bytes \<Rightarrow> ('s attestation_service, string, unit) prog" where
  "as_set_policy k ai req =
     bindP (liftP (ok_or (set_policy_from_slice k req) ''parse set policy request'')) (\<lambda>(policy_id, policy).
       innerP (ai_set_policy ai policy_id policy))"

definition as_auth ::
  "kbs_crates \<Rightarrow> 's attest_impl \<Rightarrow> string \<Rightarrow> entropy \<Rightarrow> time \<Rightarrow> bytes \<Rightarrow>
   ('s attestation_service, string, http_response) prog" where
  "as_auth k ai uuid rnd now req =
     bindP (modifyP (upd_metrics inc_auth_requests)) (\<lambda>_.
     bindP (inspect_err (upd_metrics inc_auth_errors)
              (liftP (ok_or (request_from_slice k req) ''deserialize Request''))) (\<lambda>r.
     bindP (inspect_err (upd_metrics inc_auth_errors)
              (liftP (ok_or (version_parse k (rq_version r)) ''failed to parse KBS version''))) (\<lambda>v.
     if \<not> version_req_matches k kbs_version_req v then
       bindP (modifyP (upd_metrics inc_auth_errors)) (\<lambda>_.
         bailP ''KBS Client Protocol Version Mismatch'')
     else
       bindP (inspect_err (upd_metrics inc_auth_errors)
                (innerP (ai_generate_challenge ai rnd (rq_tee r) (rq_extra_params r)))) (\<lambda>ch.
       bindP (readP timeout) (\<lambda>t.
       let session = session_auth uuid (add_minutes k now t) r ch in
       bindP (modifyP (upd_metrics inc_auth_successes)) (\<lambda>_.
       bindP (liftP (session_challenge session)) (\<lambda>body.
       let response = \<lparr>hr_status = 200, hr_content_type = Some ''application/json'',
             hr_body = challenge_to_string k body, hr_cookie = Some (session_cookie session)\<rparr> in
       bindP (modifyP (\<lambda>a. a\<lparr>session_map := session_insert session (session_map a)\<rparr>)) (\<lambda>_.
         retP response))))))))"

text \<open>\<^verbatim>\<open>attest\<close> up to the second lookup of the session: either the response is known, or the evidence
  is ready to be verified.\<close>

record pending =
  pd_session_id :: string
  pd_evidence :: "independent_evidence list"

definition token_response :: "session_status \<Rightarrow> string \<Rightarrow> http_response" where
  "token_response s body = \<lparr>hr_status = 200, hr_content_type = Some ''application/json'', hr_body = body,
     hr_cookie = Some (session_cookie s)\<rparr>"

definition token_body :: "kbs_crates \<Rightarrow> string \<Rightarrow> ('s attestation_service, string, string) prog" where
  "token_body k token =
     inspect_err (upd_metrics inc_attestation_errors)
       (liftP (ok_or (json_to_string k (json_object [(''token'', JString token)])) ''Serialize token failed''))"

definition evidence_list ::
  "kbs_crates \<Rightarrow> tee \<Rightarrow> string \<Rightarrow> attestation \<Rightarrow> independent_evidence list option" where
  "evidence_list k t nonce att =
     (let kbs_evidence_runtime_data =
            json_object [(''tee-pubkey'', at_tee_pubkey att), (''nonce'', JString nonce)];
          primary_runtime_data =
            json_object [(''tee-pubkey'', at_tee_pubkey att), (''nonce'', JString nonce),
                         (''additional-evidence'', JString (at_additional_evidence att))];
          primary_evidence = \<lparr>ie_tee = t, ie_tee_evidence = at_primary_evidence att,
            ie_runtime_data = primary_runtime_data, ie_init_data = at_init_data att\<rparr>
      in if at_additional_evidence att = '''' then Some [primary_evidence]
         else map_option (\<lambda>additional. primary_evidence #
                map (\<lambda>(t, e). \<lparr>ie_tee = t, ie_tee_evidence = e,
                       ie_runtime_data = kbs_evidence_runtime_data, ie_init_data = None\<rparr>) additional)
              (additional_from_str k (at_additional_evidence att)))"

definition attest_begin ::
  "kbs_crates \<Rightarrow> time \<Rightarrow> string option \<Rightarrow> bytes \<Rightarrow>
   ('s attestation_service, string, http_response + pending) prog" where
  "attest_begin k now ck att_bytes =
     bindP (modifyP (upd_metrics inc_attestation_requests)) (\<lambda>_.
     bindP (inspect_err (upd_metrics inc_attestation_errors) (liftP (ok_or ck ''cookie not found''))) (\<lambda>sid.
     bindP (inspect_err (upd_metrics inc_attestation_errors)
              (liftP (ok_or (attestation_from_slice k att_bytes) ''deserialize Attestation''))) (\<lambda>att.
     bindP (readP session_map) (\<lambda>m.
     bindP (inspect_err (upd_metrics inc_attestation_errors) (liftP (ok_or (m sid) ''No cookie found'')))
       (\<lambda>session.
     if is_expired now session then bailP ''session expired.''
     else (case session of
        Attested token _ _ \<Rightarrow>
          bindP (token_body k token) (\<lambda>body. retP (Inl (token_response session body)))
      | Authed r ch _ _ \<Rightarrow>
          bindP (inspect_err (upd_metrics inc_attestation_errors)
                   (liftP (ok_or (attestation_to_string k att) ''Failed to serialize Attestation''))) (\<lambda>_.
          if ch_nonce ch \<noteq> at_nonce att then
            bailP ''the nonce in the handshake session is different from the client side''
          else
            bindP (inspect_err (upd_metrics inc_attestation_errors)
                     (liftP (ok_or (evidence_list k (rq_tee r) (ch_nonce ch) att)
                               ''parse additional evidence''))) (\<lambda>evs.
              retP (Inr \<lparr>pd_session_id = sid, pd_evidence = evs\<rparr>)))))))))"

text \<open>The rest of \<^verbatim>\<open>attest\<close>, which holds the session's entry until the end.\<close>

definition trim_quotes :: "string \<Rightarrow> string" where
  "trim_quotes s = trim_end_matches (CHR 0x22) (dropWhile (\<lambda>ch. ch = CHR 0x22) s)"

definition attest_finish ::
  "kbs_crates \<Rightarrow> 's attest_impl \<Rightarrow> pending \<Rightarrow> ('s attestation_service, string, http_response) prog" where
  "attest_finish k ai p =
     bindP (readP session_map) (\<lambda>m.
     bindP (inspect_err (upd_metrics inc_attestation_errors)
              (liftP (ok_or (m (pd_session_id p)) ''session not found''))) (\<lambda>session.
     bindP (liftP (session_request session)) (\<lambda>r.
     bindP (liftP (ok_or (tee_to_string k (rq_tee r)) ''serialize tee'')) (\<lambda>quoted.
     let label = trim_quotes quoted in
     bindP (inspect_err (upd_metrics (inc_attestation_failures label))
              (innerP (ai_verify ai (pd_evidence p)))) (\<lambda>token.
     bindP (modifyP (upd_metrics (inc_attestation_successes label))) (\<lambda>_.
     bindP (token_body k token) (\<lambda>body.
     let session' = session_attest token session in
     bindP (modifyP (\<lambda>a. a\<lparr>session_map := (session_map a)(pd_session_id p \<mapsto> session')\<rparr>)) (\<lambda>_.
       retP (token_response session' body)))))))))"

definition as_attest ::
  "kbs_crates \<Rightarrow> 's attest_impl \<Rightarrow> time \<Rightarrow> string option \<Rightarrow> bytes \<Rightarrow>
   ('s attestation_service, string, http_response) prog" where
  "as_attest k ai now ck att_bytes =
     bindP (attest_begin k now ck att_bytes) (\<lambda>r.
       case r of Inl response \<Rightarrow> retP response | Inr p \<Rightarrow> attest_finish k ai p)"

definition get_attest_token_from_session ::
  "time \<Rightarrow> string option \<Rightarrow> 's attestation_service \<Rightarrow> string anyhow" where
  "get_attest_token_from_session now ck a =
     and_then (ok_or ck ''KBS session cookie not found'') (\<lambda>sid.
     and_then (ok_or (session_map a sid) ''session not found'') (\<lambda>session.
     if is_expired now session then bail ''The session is expired''
     else (case session of
        Attested token _ _ \<Rightarrow> Inr token
      | Authed _ _ _ _ \<Rightarrow> bail ''The session is not authorized'')))"

definition as_register_reference_value ::
  "'s attest_impl \<Rightarrow> string \<Rightarrow> ('s attestation_service, string, unit) prog" where
  "as_register_reference_value ai msg = innerP (ai_register_reference_value ai msg)"

definition as_query_reference_values ::
  "'s attest_impl \<Rightarrow> ('s attestation_service, string, string \<rightharpoonup> json) prog" where
  "as_query_reference_values ai = innerP (ai_query_reference_values ai)"

end
