(* ===== verification/Kbs_Handshake.thy ===== *)
theory Kbs_Handshake
  imports Kbs_Session
begin

text \<open>
  Concurrent handshakes. The key broker serves requests concurrently; a configuration is the state of
  the attestation module together with the \<^verbatim>\<open>attest\<close> requests that are between their two lookups of the
  session, and a step is one atomic part of a handler, or the collection of expired sessions. Two
  history variables record which sessions were opened and which evidence was verified; the main
  invariant ties every token a session holds to both.
\<close>

subsection \<open>What the handlers do to the state\<close>

lemma innerP_apply:
  "innerP m a = (fst (m (as_inner a)), a\<lparr>as_inner := snd (m (as_inner a))\<rparr>)"
  by (simp add: innerP_def zoomP_def split: prod.splits)

lemma upd_metrics_sel [simp]:
  "session_map (upd_metrics f a) = session_map a" "as_inner (upd_metrics f a) = as_inner a"
  "timeout (upd_metrics f a) = timeout a" "metrics (upd_metrics f a) = f (metrics a)"
  by (simp_all add: upd_metrics_def)

lemmas inc_defs = inc_auth_requests_def inc_auth_errors_def inc_auth_successes_def
  inc_attestation_requests_def inc_attestation_errors_def inc_attestation_failures_def
  inc_attestation_successes_def

definition auth_session :: "kbs_crates \<Rightarrow> string \<Rightarrow> time \<Rightarrow> int \<Rightarrow> request \<Rightarrow> challenge \<Rightarrow> session_status" where
  "auth_session k uuid now t r ch = Authed r ch uuid (add_minutes k now t)"

lemma as_auth_cases:
  assumes "as_auth k ai uuid rnd now req a = (res, a')"
  obtains
    (opened) r ch where "res = Inr \<lparr>hr_status = 200, hr_content_type = Some ''application/json'',
        hr_body = challenge_to_string k ch,
        hr_cookie = Some \<lparr>ck_value = uuid, ck_expires = add_minutes k now (timeout a)\<rparr>\<rparr>"
      and "session_map a' = session_insert (auth_session k uuid now (timeout a) r ch) (session_map a)"
      and "timeout a' = timeout a"
      and "metrics a' = inc_auth_successes (inc_auth_requests (metrics a))"
  | (refused) e where "res = bail e" and "session_map a' = session_map a" and "timeout a' = timeout a"
      and "metrics a' = inc_auth_errors (inc_auth_requests (metrics a))"
  | (crashed) s and r :: request where "res = panic s" and "session_map a' = session_map a" and "timeout a' = timeout a"
      and "fst (ai_generate_challenge ai rnd (rq_tee r) (rq_extra_params r) (as_inner a)) = panic s"
proof (cases "request_from_slice k req")
  case None
  with assms show ?thesis
    by (intro refused) (auto simp: as_auth_def prog_simps)
next
  case r: (Some r)
  show ?thesis
  proof (cases "version_parse k (rq_version r)")
    case None
    with r assms show ?thesis by (intro refused) (auto simp: as_auth_def prog_simps)
  next
    case v: (Some v)
    show ?thesis
    proof (cases "version_req_matches k kbs_version_req v")
      case False
      with r v assms show ?thesis by (intro refused) (auto simp: as_auth_def prog_simps)
    next
      case True
      obtain res' i' where gc: "ai_generate_challenge ai rnd (rq_tee r) (rq_extra_params r) (as_inner a) = (res', i')"
        by fastforce
      note run = r v True gc as_auth_def prog_simps innerP_apply session_auth_def auth_session_def
      show ?thesis
      proof (cases res' rule: result_cases)
        case (Ok ch)
        with assms show ?thesis by (intro opened [of ch r]) (auto simp: run)
      next
        case (Error e)
        with assms show ?thesis by (intro refused) (auto simp: run)
      next
        case (Crash s)
        with assms show ?thesis by (intro crashed [of s r]) (auto simp: run)
      qed
    qed
  qed
qed

lemma attest_begin_frame:
  "session_map (snd (attest_begin k now ck bs a)) = session_map a"
  "as_inner (snd (attest_begin k now ck bs a)) = as_inner a"
  "timeout (snd (attest_begin k now ck bs a)) = timeout a"
  by (simp_all add: attest_begin_def prog_simps token_body_def Let_def
      split: sum.splits failure.splits session_status.splits)

lemma attest_begin_pending:
  assumes "attest_begin k now ck bs a = (Inr (Inr p), a')"
  obtains r ch i t att where "session_map a (pd_session_id p) = Some (Authed r ch i t)"
    and "evidence_list k (rq_tee r) (ch_nonce ch) att = Some (pd_evidence p)"
    and "at_nonce att = ch_nonce ch" and "now \<le> t" and "ck = Some (pd_session_id p)"
  using assms
  by (auto simp: attest_begin_def prog_simps token_body_def ok_or_def is_expired_def bail_def
      split: sum.splits failure.splits session_status.splits option.splits if_splits intro: that)

lemma attest_begin_attested:
  assumes "session_map a sid = Some (Attested tok i t)" and "now \<le> t"
    and "attestation_from_slice k bs = Some att"
    and "json_to_string k (json_object [(''token'', JString tok)]) = Some body"
  shows "attest_begin k now (Some sid) bs a =
    (Inr (Inl (token_response (Attested tok i t) body)), upd_metrics inc_attestation_requests a)"
  using assms by (simp add: attest_begin_def prog_simps token_body_def is_expired_def)

lemma attest_finish_cases:
  assumes "attest_finish k ai p a = (res, a')"
  obtains
    (verified) r ch i t tok body where "session_map a (pd_session_id p) = Some (Authed r ch i t)"
      and "fst (ai_verify ai (pd_evidence p) (as_inner a)) = Inr tok"
      and "session_map a' = (session_map a)(pd_session_id p \<mapsto> Attested tok i t)"
      and "res = Inr (token_response (Attested tok i t) body)"
  | (failed) "session_map a' = session_map a" and "\<And>x. res \<noteq> Inr x"
proof (cases "session_map a (pd_session_id p)")
  case None
  with assms show ?thesis by (intro failed) (auto simp: attest_finish_def prog_simps bail_def)
next
  case s: (Some s)
  show ?thesis
  proof (cases s)
    case (Attested tok i t)
    with s assms show ?thesis by (intro failed) (auto simp: attest_finish_def prog_simps panic_def)
  next
    case au: (Authed r ch i t)
    show ?thesis
    proof (cases "fst (ai_verify ai (pd_evidence p) (as_inner a))" rule: result_cases)
      case (Ok tok)
      show ?thesis
      proof (cases "tee_to_string k (rq_tee r) = None \<or> json_to_string k (json_object [(''token'', JString tok)]) = None")
        case True
        with s au Ok assms show ?thesis
          by (intro failed) (auto simp: attest_finish_def prog_simps innerP_apply token_body_def
              Let_def bail_def ok_or_def split: option.splits)
      next
        case False
        with s au Ok assms show ?thesis
          by (auto simp: attest_finish_def prog_simps innerP_apply token_body_def Let_def intro!: verified)
      qed
    next
      case (Error e)
      with s au assms show ?thesis
        by (intro failed) (auto simp: attest_finish_def prog_simps innerP_apply Let_def bail_def ok_or_def
            split: option.splits)
    next
      case (Crash e)
      with s au assms show ?thesis
        by (intro failed) (auto simp: attest_finish_def prog_simps innerP_apply Let_def panic_def bail_def ok_or_def
            split: option.splits)
    qed
  qed
qed

subsection \<open>Interleavings\<close>

record 's conf =
  cf_as :: "'s attestation_service"
  cf_pending :: "pending list"
  cf_opened :: "(string \<times> request \<times> challenge) set"
  cf_verified :: "(string \<times> independent_evidence list \<times> string) set"

definition conf_init :: "'s \<Rightarrow> int \<Rightarrow> 's conf" where
  "conf_init i t = \<lparr>cf_as = as_new i t, cf_pending = [], cf_opened = {}, cf_verified = {}\<rparr>"

text \<open>The sessions that a step opens, and the evidence that it verifies.\<close>

definition opened_by :: "session_map \<Rightarrow> session_map \<Rightarrow> (string \<times> request \<times> challenge) set" where
  "opened_by m m' = {(i, r, ch). \<exists>j t. m i = None \<and> m' i = Some (Authed r ch j t)}"

definition verified_by :: "'s attest_impl \<Rightarrow> pending \<Rightarrow> 's attestation_service \<Rightarrow>
    (string \<times> independent_evidence list \<times> string) set" where
  "verified_by ai p a =
     {(i, evs, tok). i = pd_session_id p \<and> evs = pd_evidence p \<and>
        fst (ai_verify ai (pd_evidence p) (as_inner a)) = Inr tok}"

inductive kbs_step :: "kbs_crates \<Rightarrow> 's attest_impl \<Rightarrow> 's conf \<Rightarrow> 's conf \<Rightarrow> bool"
  for k :: kbs_crates and ai :: "'s attest_impl" where
  step_auth: "as_auth k ai uuid rnd now req (cf_as c) = (res, a') \<Longrightarrow>
    kbs_step k ai c (c\<lparr>cf_as := a',
      cf_opened := cf_opened c \<union> opened_by (session_map (cf_as c)) (session_map a')\<rparr>)"
| step_begin: "attest_begin k now ck bs (cf_as c) = (res, a') \<Longrightarrow>
    kbs_step k ai c (c\<lparr>cf_as := a',
      cf_pending := (case res of Inr (Inr p) \<Rightarrow> p # cf_pending c | _ \<Rightarrow> cf_pending c)\<rparr>)"
| step_finish: "p \<in> set (cf_pending c) \<Longrightarrow> attest_finish k ai p (cf_as c) = (res, a') \<Longrightarrow>
    kbs_step k ai c (c\<lparr>cf_as := a', cf_pending := remove1 p (cf_pending c),
      cf_verified := cf_verified c \<union> verified_by ai p (cf_as c)\<rparr>)"
| step_gc: "kbs_step k ai c (c\<lparr>cf_as := as_gc now (cf_as c)\<rparr>)"
| step_set_policy: "as_set_policy k ai req (cf_as c) = (res, a') \<Longrightarrow> kbs_step k ai c (c\<lparr>cf_as := a'\<rparr>)"
| step_register: "as_register_reference_value ai msg (cf_as c) = (res, a') \<Longrightarrow>
    kbs_step k ai c (c\<lparr>cf_as := a'\<rparr>)"
| step_query: "as_query_reference_values ai (cf_as c) = (res, a') \<Longrightarrow>
    kbs_step k ai c (c\<lparr>cf_as := a'\<rparr>)"

inductive kbs_reachable :: "kbs_crates \<Rightarrow> 's attest_impl \<Rightarrow> 's conf \<Rightarrow> bool"
  for k :: kbs_crates and ai :: "'s attest_impl" where
  reach_init: "kbs_reachable k ai (conf_init i t)"
| reach_step: "kbs_reachable k ai c \<Longrightarrow> kbs_step k ai c c' \<Longrightarrow> kbs_reachable k ai c'"

inductive_cases kbs_stepE: "kbs_step k ai c c'"

subsection \<open>The invariant\<close>

text \<open>Evidence bound to a session: the primary evidence is of the TEE of the request, and every piece
  carries the nonce of the challenge in its runtime data.\<close>

definition has_nonce :: "string \<Rightarrow> independent_evidence \<Rightarrow> bool" where
  "has_nonce n e = (case ie_runtime_data e of JObject kvs \<Rightarrow> map_of kvs ''nonce'' = Some (JString n) | _ \<Rightarrow> False)"

definition evidence_for :: "request \<Rightarrow> challenge \<Rightarrow> independent_evidence list \<Rightarrow> bool" where
  "evidence_for r ch evs = (case evs of [] \<Rightarrow> False | e # _ \<Rightarrow> ie_tee e = rq_tee r \<and> list_all (has_nonce (ch_nonce ch)) evs)"

lemma evidence_list_for:
  assumes "evidence_list k (rq_tee r) (ch_nonce ch) att = Some evs"
  shows "evidence_for r ch evs"
  using assms
  by (auto simp: evidence_list_def evidence_for_def has_nonce_def json_object_def list_all_iff Let_def
      map_of_obj_insert split: if_splits)

definition session_inv :: "'s conf \<Rightarrow> bool" where
  "session_inv c \<longleftrightarrow>
     (\<forall>i s. session_map (cf_as c) i = Some s \<longrightarrow> session_id s = i) \<and>
     (\<forall>i r ch j t. session_map (cf_as c) i = Some (Authed r ch j t) \<longrightarrow> (i, r, ch) \<in> cf_opened c) \<and>
     (\<forall>p \<in> set (cf_pending c). \<exists>r ch. (pd_session_id p, r, ch) \<in> cf_opened c \<and> evidence_for r ch (pd_evidence p)) \<and>
     (\<forall>i tok j t. session_map (cf_as c) i = Some (Attested tok j t) \<longrightarrow>
        (\<exists>evs r ch. (i, evs, tok) \<in> cf_verified c \<and> (i, r, ch) \<in> cf_opened c \<and> evidence_for r ch evs))"

definition attested_ok :: "'s conf \<Rightarrow> string \<Rightarrow> string \<Rightarrow> bool" where
  "attested_ok c i tok \<longleftrightarrow>
     (\<exists>evs r ch. (i, evs, tok) \<in> cf_verified c \<and> (i, r, ch) \<in> cf_opened c \<and> evidence_for r ch evs)"

definition pending_ok :: "'s conf \<Rightarrow> pending \<Rightarrow> bool" where
  "pending_ok c p \<longleftrightarrow>
     (\<exists>r ch. (pd_session_id p, r, ch) \<in> cf_opened c \<and> evidence_for r ch (pd_evidence p))"

lemma session_invI:
  assumes "\<And>i s. session_map (cf_as c) i = Some s \<Longrightarrow> session_id s = i"
    and "\<And>i r ch j t. session_map (cf_as c) i = Some (Authed r ch j t) \<Longrightarrow> (i, r, ch) \<in> cf_opened c"
    and "\<And>p. p \<in> set (cf_pending c) \<Longrightarrow> pending_ok c p"
    and "\<And>i tok j t. session_map (cf_as c) i = Some (Attested tok j t) \<Longrightarrow> attested_ok c i tok"
  shows "session_inv c"
  using assms unfolding session_inv_def pending_ok_def attested_ok_def by simp

lemma session_invD:
  assumes "session_inv c"
  shows "session_map (cf_as c) i = Some s \<Longrightarrow> session_id s = i"
    and "session_map (cf_as c) i = Some (Authed r ch j t) \<Longrightarrow> (i, r, ch) \<in> cf_opened c"
    and "p \<in> set (cf_pending c) \<Longrightarrow> pending_ok c p"
    and "session_map (cf_as c) i = Some (Attested tok j t) \<Longrightarrow> attested_ok c i tok"
  using assms unfolding session_inv_def pending_ok_def attested_ok_def by blast+

lemma ok_mono:
  assumes "cf_opened c \<subseteq> cf_opened c'" and "cf_verified c \<subseteq> cf_verified c'"
  shows "pending_ok c p \<Longrightarrow> pending_ok c' p" and "attested_ok c i tok \<Longrightarrow> attested_ok c' i tok"
  using assms unfolding pending_ok_def attested_ok_def by blast+

lemma opened_by_same [simp]: "opened_by m m = {}"
  by (auto simp: opened_by_def)

lemma session_inv_frame:
  assumes "session_inv c" and "\<And>i s. session_map a' i = Some s \<Longrightarrow> session_map (cf_as c) i = Some s"
  shows "session_inv (c\<lparr>cf_as := a'\<rparr>)"
proof -
  note ok = ok_mono [of c "c\<lparr>cf_as := a'\<rparr>"]
  show ?thesis
    by (rule session_invI) (auto dest!: assms(2) dest: session_invD [OF assms(1)] intro: ok)
qed

lemma session_inv_auth:
  assumes inv: "session_inv c" and m: "session_map a' = session_insert (Authed r ch uuid t) (session_map (cf_as c))"
  shows "session_inv (c\<lparr>cf_as := a', cf_opened := cf_opened c \<union> opened_by (session_map (cf_as c)) (session_map a')\<rparr>)"
    (is "session_inv ?c'")
proof (cases "session_map (cf_as c) uuid")
  case None
  then have m': "session_map a' = (session_map (cf_as c))(uuid \<mapsto> Authed r ch uuid t)"
    using m by (simp add: session_insert_def)
  then have o: "(uuid, r, ch) \<in> cf_opened ?c'" using None by (auto simp: opened_by_def)
  have ok: "pending_ok c p \<Longrightarrow> pending_ok ?c' p" "attested_ok c i tok \<Longrightarrow> attested_ok ?c' i tok" for p i tok
    by (rule ok_mono [of c ?c']; simp)+
  show ?thesis
  proof (rule session_invI)
    show "pending_ok ?c' p" if "p \<in> set (cf_pending ?c')" for p
      using that by (simp add: ok(1) session_invD(3) [OF inv])
    show "attested_ok ?c' i tok" if "session_map (cf_as ?c') i = Some (Attested tok j t)" for i tok j t
      using that m' by (intro ok(2) session_invD(4) [OF inv]) (simp split: if_splits)
  qed (use m' o session_invD(1,2) [OF inv] in \<open>auto split: if_splits\<close>)
next
  case (Some s)
  then have "session_map a' = session_map (cf_as c)" using m by (simp add: session_insert_def)
  with session_inv_frame [OF inv, of a'] show ?thesis by simp
qed

lemma session_inv_begin:
  assumes inv: "session_inv c" and "attest_begin k now ck bs (cf_as c) = (res, a')"
  shows "session_inv (c\<lparr>cf_as := a',
    cf_pending := (case res of Inr (Inr p) \<Rightarrow> p # cf_pending c | _ \<Rightarrow> cf_pending c)\<rparr>)"
    (is "session_inv ?c'")
proof (rule session_invI)
  have m: "session_map a' = session_map (cf_as c)"
    using attest_begin_frame(1) [of k now ck bs "cf_as c"] assms(2) by simp
  have ok: "pending_ok ?c' p = pending_ok c p" "attested_ok ?c' i tok = attested_ok c i tok" for p i tok
    by (simp_all add: pending_ok_def attested_ok_def)
  have new: "pending_ok c p" if "res = Inr (Inr p)" for p
  proof -
    have "attest_begin k now ck bs (cf_as c) = (Inr (Inr p), a')" using assms(2) that by simp
    then obtain r ch i t att where s: "session_map (cf_as c) (pd_session_id p) = Some (Authed r ch i t)"
      and e: "evidence_list k (rq_tee r) (ch_nonce ch) att = Some (pd_evidence p)"
      by (rule attest_begin_pending)
    show ?thesis
      unfolding pending_ok_def using session_invD(2) [OF inv s] evidence_list_for [OF e] by blast
  qed
  show "pending_ok ?c' p" if "p \<in> set (cf_pending ?c')" for p
    using that new by (auto simp: ok session_invD(3) [OF inv] split: sum.splits)
qed (use attest_begin_frame(1) [of k now ck bs "cf_as c"] assms(2) session_invD [OF inv] in
      \<open>auto simp: attested_ok_def\<close>)

lemma session_inv_finish:
  assumes inv: "session_inv c" and p: "p \<in> set (cf_pending c)"
    and fin: "attest_finish k ai p (cf_as c) = (res, a')"
  shows "session_inv (c\<lparr>cf_as := a', cf_pending := remove1 p (cf_pending c),
    cf_verified := cf_verified c \<union> verified_by ai p (cf_as c)\<rparr>)" (is "session_inv ?c'")
proof -
  have ok: "pending_ok c q \<Longrightarrow> pending_ok ?c' q" "attested_ok c i tok \<Longrightarrow> attested_ok ?c' i tok" for q i tok
    by (rule ok_mono [of c ?c']; simp)+
  have pend: "pending_ok ?c' q" if "q \<in> set (cf_pending ?c')" for q
    using that set_remove1_subset [of p "cf_pending c"] by (auto intro!: ok(1) session_invD(3) [OF inv])
  from fin show ?thesis
  proof (cases rule: attest_finish_cases)
    case (verified r ch i t tok body)
    have id: "i = pd_session_id p" using session_invD(1) [OF inv verified(1)] by simp
    have "(pd_session_id p, pd_evidence p, tok) \<in> verified_by ai p (cf_as c)"
      using verified(2) by (simp add: verified_by_def)
    then have new: "attested_ok ?c' (pd_session_id p) tok"
      using session_invD(3) [OF inv p] by (auto simp: attested_ok_def pending_ok_def)
    show ?thesis
    proof (rule session_invI)
      show "attested_ok ?c' j tok'" if "session_map (cf_as ?c') j = Some (Attested tok' l u)" for j tok' l u
        using that new verified(3) by (auto split: if_splits intro: ok(2) session_invD(4) [OF inv])
    qed (use pend verified(3) id session_invD(1,2) [OF inv] in \<open>auto split: if_splits\<close>)
  next
    case failed
    show ?thesis
      by (rule session_invI)
        (use pend failed(1) session_invD(1,2,4) [OF inv] ok(2) in auto)
  qed
qed

lemma session_inv_step:
  assumes "kbs_step k ai c c'" and inv: "session_inv c"
  shows "session_inv c'"
  using assms(1)
proof (cases rule: kbs_step.cases)
  case (step_auth uuid rnd now req res a')
  from step_auth(2) show ?thesis
  proof (cases rule: as_auth_cases)
    case (opened r ch)
    with step_auth(1) session_inv_auth [OF inv, of a' r ch uuid] show ?thesis
      by (simp add: auth_session_def)
  next
    case (refused e)
    with step_auth(1) session_inv_frame [OF inv, of a'] show ?thesis by simp
  next
    case (crashed s r)
    with step_auth(1) session_inv_frame [OF inv, of a'] show ?thesis by simp
  qed
next
  case (step_begin now ck bs res a')
  with session_inv_begin [OF inv] show ?thesis by simp
next
  case (step_finish p res a')
  with session_inv_finish [OF inv] show ?thesis by simp
next
  case (step_gc now)
  show ?thesis unfolding step_gc(1)
    by (rule session_inv_frame [OF inv])
      (auto simp: as_gc_def retain_unexpired_def split: option.splits if_splits)
next
  case (step_set_policy req res a')
  then have "session_map a' = session_map (cf_as c)"
    by (auto simp: as_set_policy_def prog_simps innerP_apply split: sum.splits prod.splits)
  with step_set_policy(1) session_inv_frame [OF inv, of a'] show ?thesis by simp
next
  case (step_register msg res a')
  then have "session_map a' = session_map (cf_as c)"
    by (auto simp: as_register_reference_value_def innerP_apply)
  with step_register(1) session_inv_frame [OF inv, of a'] show ?thesis by simp
next
  case (step_query res a')
  then have "session_map a' = session_map (cf_as c)"
    by (auto simp: as_query_reference_values_def innerP_apply)
  with step_query(1) session_inv_frame [OF inv, of a'] show ?thesis by simp
qed

lemma session_inv_reachable: "kbs_reachable k ai c \<Longrightarrow> session_inv c"
proof (induction rule: kbs_reachable.induct)
  case (reach_init i t)
  then show ?case by (simp add: session_inv_def conf_init_def as_new_def)
next
  case (reach_step c c')
  then show ?case by (auto intro: session_inv_step)
qed

lemma verified_sound_reachable:
  assumes "kbs_reachable k ai c" and "(i, evs, tok) \<in> cf_verified c"
  shows "\<exists>s. fst (ai_verify ai evs s) = Inr tok"
  using assms
proof (induction rule: kbs_reachable.induct)
  case (reach_init i t)
  then show ?case by (simp add: conf_init_def)
next
  case (reach_step c c')
  then show ?case by (auto elim!: kbs_stepE simp: verified_by_def)
qed

definition auth_metrics_ok :: "metrics \<Rightarrow> bool" where
  "auth_metrics_ok m \<longleftrightarrow> auth_requests m = auth_errors m + auth_successes m"

lemma attest_begin_auth_metrics:
  "auth_metrics_ok (metrics (snd (attest_begin k now ck bs a))) = auth_metrics_ok (metrics a)"
  by (simp add: attest_begin_def prog_simps token_body_def auth_metrics_ok_def inc_defs
      split: sum.splits failure.splits session_status.splits)

lemma attest_finish_auth_metrics:
  "auth_metrics_ok (metrics (snd (attest_finish k ai p a))) = auth_metrics_ok (metrics a)"
  by (simp add: attest_finish_def prog_simps token_body_def auth_metrics_ok_def inc_defs Let_def
      innerP_apply split: sum.splits failure.splits)

lemma auth_metrics_step:
  assumes "\<And>e t j s. \<not> panics (fst (ai_generate_challenge ai e t j s))"
    and "kbs_step k ai c c'" and "auth_metrics_ok (metrics (cf_as c))"
  shows "auth_metrics_ok (metrics (cf_as c'))"
  using assms(2)
proof (cases rule: kbs_step.cases)
  case (step_auth uuid rnd now req res a')
  from step_auth(2) show ?thesis
  proof (cases rule: as_auth_cases)
    case (crashed s r)
    with assms(1) [of rnd "rq_tee r" "rq_extra_params r" "as_inner (cf_as c)"] show ?thesis by simp
  qed (use step_auth(1) assms(3) in \<open>simp_all add: auth_metrics_ok_def inc_defs\<close>)
next
  case (step_begin now ck bs res a')
  with assms(3) attest_begin_auth_metrics [of k now ck bs "cf_as c"] show ?thesis by simp
next
  case (step_finish p res a')
  with assms(3) attest_finish_auth_metrics [of k ai p "cf_as c"] show ?thesis by simp
next
  case (step_set_policy req res a')
  with assms(3) show ?thesis
    by (auto simp: as_set_policy_def prog_simps innerP_apply split: sum.splits prod.splits)
qed (use assms(3) in \<open>auto simp: as_gc_def as_register_reference_value_def
      as_query_reference_values_def innerP_apply\<close>)

subsection \<open>A concrete instance\<close>

definition sample_request :: request where
  "sample_request = \<lparr>rq_version = ''0.4.0'', rq_tee = Sample, rq_extra_params = JNull\<rparr>"

definition sample_attestation :: attestation where
  "sample_attestation = \<lparr>at_init_data = None, at_nonce = ''n'', at_tee_pubkey = JNull,
     at_primary_evidence = JNull, at_additional_evidence = ''''\<rparr>"

definition sample_kbs :: kbs_crates where
  "sample_kbs = \<lparr>request_from_slice = (\<lambda>bs. if bs = [] then None else Some sample_request),
     attestation_from_slice = (\<lambda>bs. if bs = [] then None else Some sample_attestation),
     additional_from_str = (\<lambda>_. None), set_policy_from_slice = (\<lambda>_. None),
     version_parse = (\<lambda>_. Some \<lparr>v_major = 0, v_minor = 4, v_patch = 0, v_pre = '''', v_build = ''''\<rparr>),
     version_req_matches = (\<lambda>_ v. v_minor v = 4), attestation_to_string = (\<lambda>_. Some ''''),
     challenge_to_string = ch_nonce, json_to_string = (\<lambda>_. Some ''{}''),
     tee_to_string = (\<lambda>_. Some ''sample''), add_minutes = (\<lambda>now t. now + 60 * t),
     nonce_encode = (\<lambda>_. ''n'')\<rparr>"

definition sample_impl :: "unit attest_impl" where
  "sample_impl = default_attest sample_kbs (\<lambda>evs. retP ''tok'')"

definition sample_entropy :: entropy where
  "sample_entropy n = Some (replicate n 0)"

definition sample_authed :: "unit attestation_service" where
  "sample_authed = snd (as_auth sample_kbs sample_impl ''id'' sample_entropy 0 [1] (as_new () 5))"

definition sample_pending :: pending where
  "sample_pending = \<lparr>pd_session_id = ''id'', pd_evidence = [\<lparr>ie_tee = Sample, ie_tee_evidence = JNull,
     ie_runtime_data = json_object [(''tee-pubkey'', JNull), (''nonce'', JString ''n''),
       (''additional-evidence'', JString '''')], ie_init_data = None\<rparr>]\<rparr>"

lemmas sample_defs = sample_kbs_def sample_impl_def sample_request_def sample_attestation_def
  sample_entropy_def default_attest_def generic_generate_challenge_def make_nonce_def
  nonce_size_bytes_def as_new_def

lemma sample_authed_eq:
  "as_auth sample_kbs sample_impl ''id'' sample_entropy 0 [1] (as_new () 5) =
     (Inr \<lparr>hr_status = 200, hr_content_type = Some ''application/json'', hr_body = ''n'',
        hr_cookie = Some \<lparr>ck_value = ''id'', ck_expires = 300\<rparr>\<rparr>, sample_authed)"
  "session_map sample_authed = [''id'' \<mapsto>
     Authed sample_request \<lparr>ch_nonce = ''n'', ch_extra_params = JString ''''\<rparr> ''id'' 300]"
  by (simp_all add: sample_authed_def as_auth_def prog_simps innerP_apply sample_defs session_auth_def
      session_insert_def Let_def)

lemma sample_begin_eq:
  "attest_begin sample_kbs 10 (Some ''id'') [1] sample_authed =
     (Inr (Inr sample_pending), upd_metrics inc_attestation_requests sample_authed)"
  by (simp add: attest_begin_def prog_simps sample_authed_eq is_expired_def sample_defs
      evidence_list_def sample_pending_def)

lemma sample_finish_eq:
  assumes "session_map a = session_map sample_authed"
  shows "attest_finish sample_kbs sample_impl sample_pending a =
     (Inr (token_response (Attested ''tok'' ''id'' 300) ''{}''),
      (upd_metrics (inc_attestation_successes (trim_quotes ''sample'')) a)
        \<lparr>session_map := [''id'' \<mapsto> Attested ''tok'' ''id'' 300]\<rparr>)"
  using assms
  by (simp add: attest_finish_def prog_simps sample_authed_eq innerP_apply token_body_def sample_defs
      sample_pending_def Let_def)

definition sample_conf :: "unit conf" where
  "sample_conf = \<lparr>cf_as = (upd_metrics (inc_attestation_successes (trim_quotes ''sample''))
       (upd_metrics inc_attestation_requests sample_authed))\<lparr>session_map := [''id'' \<mapsto> Attested ''tok'' ''id'' 300]\<rparr>,
     cf_pending = [],
     cf_opened = opened_by Map.empty (session_map sample_authed),
     cf_verified = verified_by sample_impl sample_pending (upd_metrics inc_attestation_requests sample_authed)\<rparr>"

lemma sample_conf_reachable: "kbs_reachable sample_kbs sample_impl sample_conf"
proof -
  let ?c0 = "conf_init () 5"
  let ?c1 = "?c0\<lparr>cf_as := sample_authed, cf_opened := {} \<union> opened_by Map.empty (session_map sample_authed)\<rparr>"
  let ?c2 = "?c1\<lparr>cf_as := upd_metrics inc_attestation_requests sample_authed, cf_pending := [sample_pending]\<rparr>"
  have "kbs_step sample_kbs sample_impl ?c0 ?c1"
    using kbs_step.step_auth [of sample_kbs sample_impl "''id''" sample_entropy 0 "[1]" ?c0] sample_authed_eq(1)
    by (simp add: conf_init_def as_new_def)
  moreover have "kbs_step sample_kbs sample_impl ?c1 ?c2"
    using kbs_step.step_begin [of sample_kbs 10 "Some ''id''" "[1]" ?c1 _ _ sample_impl] sample_begin_eq
    by (simp add: conf_init_def)
  moreover have "kbs_step sample_kbs sample_impl ?c2 sample_conf"
    using kbs_step.step_finish [of sample_pending ?c2 sample_kbs sample_impl] sample_finish_eq
    by (simp add: sample_conf_def conf_init_def)
  ultimately show ?thesis by (blast intro: reach_init reach_step)
qed

lemma get_token_eq_Inr_iff:
  "get_attest_token_from_session now ck a = Inr tok \<longleftrightarrow>
     (\<exists>i j t. ck = Some i \<and> session_map a i = Some (Attested tok j t) \<and> now \<le> t)"
proof (cases ck)
  case None
  then show ?thesis by (simp add: get_attest_token_from_session_def)
next
  case i: (Some i)
  show ?thesis
  proof (cases "session_map a i")
    case None
    with i show ?thesis by (simp add: get_attest_token_from_session_def)
  next
    case (Some s)
    with i show ?thesis
      by (cases s) (auto simp: get_attest_token_from_session_def is_expired_def)
  qed
qed

lemma gc_lookup:
  "session_map (as_gc now a) i = Some s \<longleftrightarrow> session_map a i = Some s \<and> now \<le> session_timeout s"
  by (cases "session_map a i") (auto simp: as_gc_def retain_unexpired_def is_expired_def)

lemma sample_challenge_no_panic: "\<not> panics (fst (ai_generate_challenge sample_impl e t j s))"
  by (cases "e 32") (simp_all add: sample_defs prog_simps)

subsection \<open>Properties\<close>

text \<open>C3. A session yields only tokens that were issued for it: in every reachable interleaving of
  handshakes, a token obtained from a session cookie was returned by a successful verification, in
  an attest request of that session, of evidence that was bound to it: the primary evidence is of
  the TEE of the session's request, and every piece of evidence has the nonce of the session's
  challenge in its runtime data.\<close>

theorem session_token_was_verified:
  assumes "kbs_reachable k ai c" and "get_attest_token_from_session now ck (cf_as c) = Inr tok"
  shows "\<exists>i evs r ch. ck = Some i \<and> (i, evs, tok) \<in> cf_verified c \<and> (\<exists>s. fst (ai_verify ai evs s) = Inr tok) \<and>
    (i, r, ch) \<in> cf_opened c \<and> evidence_for r ch evs"
proof -
  obtain i j t where i: "ck = Some i" and s: "session_map (cf_as c) i = Some (Attested tok j t)"
    using assms(2) by (auto simp: get_token_eq_Inr_iff)
  obtain evs r ch where v: "(i, evs, tok) \<in> cf_verified c" and o: "(i, r, ch) \<in> cf_opened c" "evidence_for r ch evs"
    using session_invD(4) [OF session_inv_reachable [OF assms(1)] s] unfolding attested_ok_def by (elim exE conjE)
  obtain st where "fst (ai_verify ai evs st) = Inr tok"
    using verified_sound_reachable [OF assms(1) v] by (elim exE)
  with i v o show ?thesis by (intro exI conjI)
qed

theorem session_token_was_verified_witness:
  "\<exists>i evs r ch. Some ''id'' = Some i \<and> (i, evs, ''tok'') \<in> cf_verified sample_conf \<and>
    (\<exists>s. fst (ai_verify sample_impl evs s) = Inr ''tok'') \<and>
    (i, r, ch) \<in> cf_opened sample_conf \<and> evidence_for r ch evs"
  by (rule session_token_was_verified [OF sample_conf_reachable, of 10])
    (simp add: sample_conf_def get_attest_token_from_session_def is_expired_def)

text \<open>C28. Two attest requests of one session that both pass their first lookup do not both succeed:
  once the first one has finished, the second one panics on its second lookup, since the session is
  attested by then and has no request any more.\<close>

theorem second_concurrent_attest_panics:
  assumes "pd_session_id p = pd_session_id q" and "attest_finish k ai p a = (Inr resp, a')"
  shows "panics (fst (attest_finish k ai q a'))"
  using assms(2)
proof (cases rule: attest_finish_cases)
  case (verified r ch i t tok body)
  then show ?thesis using assms(1) by (simp add: attest_finish_def prog_simps panics_def panic_def)
next
  case failed
  from failed(2) [of resp] show ?thesis by simp
qed

theorem second_concurrent_attest_panics_witness:
  "\<exists>resp a'. attest_finish sample_kbs sample_impl sample_pending sample_authed = (Inr resp, a') \<and>
     panics (fst (attest_finish sample_kbs sample_impl sample_pending a'))"
  by (intro exI conjI, rule sample_finish_eq [OF refl])
    (rule second_concurrent_attest_panics [OF refl sample_finish_eq [OF refl]])

text \<open>The authentication counters add up in every reachable interleaving, provided that
  generating a challenge does not panic: every request was counted either as a success or as an
  error.\<close>

theorem auth_metrics_balanced:
  assumes "\<And>e t j s. \<not> panics (fst (ai_generate_challenge ai e t j s))" and "kbs_reachable k ai c"
  shows "auth_requests (metrics (cf_as c)) = auth_errors (metrics (cf_as c)) + auth_successes (metrics (cf_as c))"
  using assms(2)
proof (induction rule: kbs_reachable.induct)
  case (reach_init i t)
  then show ?case by (simp add: conf_init_def as_new_def)
next
  case (reach_step c c')
  then show ?case using auth_metrics_step [OF assms(1)] by (simp add: auth_metrics_ok_def)
qed

theorem auth_metrics_balanced_witness:
  "auth_requests (metrics (cf_as sample_conf)) =
     auth_errors (metrics (cf_as sample_conf)) + auth_successes (metrics (cf_as sample_conf))"
  by (rule auth_metrics_balanced [OF sample_challenge_no_panic sample_conf_reachable])

text \<open>C10. A complete handshake works: after a successful \<^verbatim>\<open>auth\<close> under a fresh session id, an attestation with
  the nonce of the challenge, before the deadline, whose evidence is verified, is answered with the
  token; from then on until the deadline the session gives that token, and a repeated attest
  request is answered with it and the session is left as it is.\<close>

theorem handshake_complete:
  assumes "as_auth k ai uuid rnd now req a = (Inr resp, a1)" and "session_map a uuid = None"
    and "session_map a1 uuid = Some (Authed r ch i t)"
    and "attestation_from_slice k bs = Some att" and "attestation_to_string k att = Some txt"
    and "at_nonce att = ch_nonce ch" and "now1 \<le> t" and "now2 \<le> t"
    and "evidence_list k (rq_tee r) (ch_nonce ch) att = Some evs"
    and "tee_to_string k (rq_tee r) = Some lab" and "fst (ai_verify ai evs (as_inner a1)) = Inr tok"
    and "json_to_string k (json_object [(''token'', JString tok)]) = Some body"
  shows "\<exists>a2. as_attest k ai now1 (Some uuid) bs a1 =
      (Inr (token_response (Attested tok uuid t) body), a2) \<and>
    get_attest_token_from_session now2 (Some uuid) a2 = Inr tok \<and>
    (\<exists>a3. as_attest k ai now2 (Some uuid) bs a2 = (Inr (token_response (Attested tok uuid t) body), a3) \<and>
       session_map a3 = session_map a2)"
proof -
  have i: "i = uuid"
    using assms(1) by (cases rule: as_auth_cases)
      (use assms(2,3) in \<open>auto simp: session_insert_def auth_session_def\<close>)
  let ?a = "upd_metrics inc_attestation_requests a1"
  let ?a2 = "(upd_metrics (inc_attestation_successes (trim_quotes lab))
      (?a\<lparr>as_inner := snd (ai_verify ai evs (as_inner a1))\<rparr>))\<lparr>session_map := (session_map a1)(uuid \<mapsto> Attested tok uuid t)\<rparr>"
  have b: "attest_begin k now1 (Some uuid) bs a1 = (Inr (Inr \<lparr>pd_session_id = uuid, pd_evidence = evs\<rparr>), ?a)"
    using assms by (simp add: attest_begin_def prog_simps is_expired_def)
  have f: "attest_finish k ai \<lparr>pd_session_id = uuid, pd_evidence = evs\<rparr> ?a =
      (Inr (token_response (Attested tok uuid t) body), ?a2)"
    using assms i by (simp add: attest_finish_def prog_simps innerP_apply token_body_def Let_def)
  have r: "attest_begin k now2 (Some uuid) bs ?a2 =
      (Inr (Inl (token_response (Attested tok uuid t) body)), upd_metrics inc_attestation_requests ?a2)"
    using assms by (intro attest_begin_attested) simp_all
  show ?thesis
    by (rule exI [of _ ?a2]) (use b f r assms(8) in
      \<open>simp add: as_attest_def bindP_apply(1) get_attest_token_from_session_def is_expired_def prog_simps\<close>)
qed

theorem handshake_complete_witness:
  "\<exists>a2. as_attest sample_kbs sample_impl 10 (Some ''id'') [1] sample_authed =
      (Inr (token_response (Attested ''tok'' ''id'' 300) ''{}''), a2) \<and>
    get_attest_token_from_session 300 (Some ''id'') a2 = Inr ''tok'' \<and>
    (\<exists>a3. as_attest sample_kbs sample_impl 300 (Some ''id'') [1] a2 =
        (Inr (token_response (Attested ''tok'' ''id'' 300) ''{}''), a3) \<and>
       session_map a3 = session_map a2)"
  by (rule handshake_complete [OF sample_authed_eq(1), of sample_request
        "\<lparr>ch_nonce = ''n'', ch_extra_params = JString ''''\<rparr>" "''id''" _ _ sample_attestation "''''"
        _ _ "pd_evidence sample_pending" "''sample''"])
    (simp_all add: sample_authed_eq sample_defs evidence_list_def sample_pending_def retP_def)

text \<open>The collection of expired sessions is not observable: at any later time a cookie gives the
  same token, or no token, with and without it.\<close>

theorem gc_unobservable:
  assumes "now \<le> now'"
  shows "(get_attest_token_from_session now' ck (as_gc now a) = Inr tok) =
    (get_attest_token_from_session now' ck a = Inr tok)"
  unfolding get_token_eq_Inr_iff gc_lookup using assms by auto

theorem gc_unobservable_witness:
  "(get_attest_token_from_session 20 (Some ''id'') (as_gc 10 (cf_as sample_conf)) = Inr ''tok'') =
   (get_attest_token_from_session 20 (Some ''id'') (cf_as sample_conf) = Inr ''tok'')"
  by (rule gc_unobservable) simp

end
