(* ===== verification/File_System.thy ===== *)
theory File_System
  imports Effects
begin

text \<open>
  The file system operations of \<^verbatim>\<open>std::fs\<close> and \<^verbatim>\<open>tokio::fs\<close> that the services use, on a tree of
  directories and files without links. A path is a string; it is resolved from the working directory,
  the root of the tree, one component after the other, so that \<^verbatim>\<open>..\<close> leaves a directory.
  Permissions and failures of the device are not modelled.
\<close>

datatype fnode = Dir | File bytes

type_synonym fs = "string list \<rightharpoonup> fnode"

subsection \<open>Paths\<close>

text \<open>\<^verbatim>\<open>Path::components\<close>: empty components and \<^verbatim>\<open>.\<close> are skipped.\<close>

definition components :: "string \<Rightarrow> string list" where
  "components p = filter (\<lambda>x. x \<noteq> '''' \<and> x \<noteq> ''.'') (split_on (CHR ''/'') p)"

definition path_push :: "string \<Rightarrow> string \<Rightarrow> string" where
  "path_push base p =
     (if p \<noteq> '''' \<and> hd p = CHR ''/'' then p
      else if base = '''' \<or> last base = CHR ''/'' then base @ p
      else base @ ''/'' @ p)"

text \<open>\<^verbatim>\<open>Path::parent\<close>.\<close>

fun join_path :: "string list \<Rightarrow> string" where
  "join_path [] = ''''"
| "join_path [x] = x"
| "join_path (x # y # ys) = x @ ''/'' @ join_path (y # ys)"

definition path_parent :: "string \<Rightarrow> string option" where
  "path_parent p =
     (if components p = [] then None
      else Some ((if p \<noteq> '''' \<and> hd p = CHR ''/'' then ''/'' else '''') @ join_path (butlast (components p))))"

text \<open>\<^verbatim>\<open>Path::extension\<close> and \<^verbatim>\<open>Path::file_stem\<close> of a file name: the part after the last dot, unless the name
  begins with it, and the part before.\<close>

definition split_last_dot :: "string \<Rightarrow> (string \<times> string) option" where
  "split_last_dot name =
     (let r = rev name; ext = rev (takeWhile (\<lambda>ch. ch \<noteq> CHR ''.'') r);
          stem = rev (drop 1 (dropWhile (\<lambda>ch. ch \<noteq> CHR ''.'') r))
      in if CHR ''.'' \<in> set name \<and> stem \<noteq> '''' then Some (stem, ext) else None)"

lemma split_last_dot_file: "split_last_dot (s @ CHR ''.'' # e) = (if s = '''' then None else Some (s, e))" if "CHR ''.'' \<notin> set e"
  using that by (auto simp: split_last_dot_def Let_def takeWhile_append dropWhile_append)

text \<open>Resolution of components from a directory: every component but the last must be a directory.\<close>

fun resolve_from :: "fs \<Rightarrow> string list \<Rightarrow> string list \<Rightarrow> string list option" where
  "resolve_from f d [] = Some d"
| "resolve_from f d (x # xs) =
     (if f d \<noteq> Some Dir then None
      else if x = ''..'' then resolve_from f (butlast d) xs
      else resolve_from f (d @ [x]) xs)"

definition resolve :: "fs \<Rightarrow> string \<Rightarrow> string list option" where
  "resolve f p = resolve_from f [] (components p)"

subsection \<open>Operations\<close>

definition fs_exists :: "fs \<Rightarrow> string \<Rightarrow> bool" where
  "fs_exists f p = (case resolve f p of None \<Rightarrow> False | Some q \<Rightarrow> f q \<noteq> None)"

definition fs_read :: "fs \<Rightarrow> string \<Rightarrow> bytes option" where
  "fs_read f p = (case resolve f p of None \<Rightarrow> None
     | Some q \<Rightarrow> (case f q of Some (File b) \<Rightarrow> Some b | _ \<Rightarrow> None))"

definition fs_write :: "fs \<Rightarrow> string \<Rightarrow> bytes \<Rightarrow> fs option" where
  "fs_write f p b = (case resolve f p of None \<Rightarrow> None
     | Some q \<Rightarrow> if f q = Some Dir then None else Some (f(q \<mapsto> File b)))"

text \<open>\<^verbatim>\<open>create_dir_all\<close> makes the missing directories on the way.\<close>

fun make_dirs :: "fs \<Rightarrow> string list \<Rightarrow> string list \<Rightarrow> fs option" where
  "make_dirs f d [] = Some f"
| "make_dirs f d (x # xs) =
     (if x = ''..'' then make_dirs f (butlast d) xs
      else (case f (d @ [x]) of
              None \<Rightarrow> make_dirs (f(d @ [x] \<mapsto> Dir)) (d @ [x]) xs
            | Some Dir \<Rightarrow> make_dirs f (d @ [x]) xs
            | Some (File _) \<Rightarrow> None))"

definition fs_create_dir_all :: "fs \<Rightarrow> string \<Rightarrow> fs option" where
  "fs_create_dir_all f p = make_dirs f [] (components p)"

text \<open>The operations as programs on a state that is the file system.\<close>

definition readF :: "string \<Rightarrow> string \<Rightarrow> (fs, string, bytes) prog" where
  "readF e p f = (ok_or (fs_read f p) e, f)"

definition writeF :: "string \<Rightarrow> string \<Rightarrow> bytes \<Rightarrow> (fs, string, unit) prog" where
  "writeF e p b f = (case fs_write f p b of None \<Rightarrow> (bail e, f) | Some f' \<Rightarrow> (Inr (), f'))"

definition create_dir_allF :: "string \<Rightarrow> string \<Rightarrow> (fs, string, unit) prog" where
  "create_dir_allF e p f = (case fs_create_dir_all f p of None \<Rightarrow> (bail e, f) | Some f' \<Rightarrow> (Inr (), f'))"

subsection \<open>Lemmas\<close>

definition plain :: "string \<Rightarrow> bool" where
  "plain x \<longleftrightarrow> x \<noteq> '''' \<and> x \<noteq> ''.'' \<and> x \<noteq> ''..'' \<and> CHR ''/'' \<notin> set x"

lemma split_on_plain: "c \<notin> set x \<Longrightarrow> split_on c x = [x]"
  by (induction x) auto

lemma split_on_ne [simp]: "split_on c x \<noteq> []"
  by (induction x) (auto split: list.splits)

lemma split_on_append:
  "split_on c (xs @ c # ys) = split_on c xs @ split_on c ys"
  by (induction xs) (auto split: list.splits)

lemma components_append: "components (xs @ CHR ''/'' # ys) = components xs @ components ys"
  by (simp add: components_def split_on_append)

lemma components_plain: "plain x \<Longrightarrow> components x = [x]"
  by (simp add: components_def plain_def split_on_plain)

lemma components_Nil [simp]: "components '''' = []"
  by (simp add: components_def)

lemma components_path_push:
  assumes "p = '''' \<or> hd p \<noteq> CHR ''/''"
  shows "components (path_push base p) = components base @ components p"
proof (cases "base = ''''")
  case True
  with assms show ?thesis by (auto simp: path_push_def)
next
  case False
  show ?thesis
  proof (cases "last base = CHR ''/''")
    case True
    with False obtain b where b: "base = b @ [CHR ''/'']" by (metis append_butlast_last_id)
    have "components (b @ [CHR ''/'']) = components b"
      using components_append [of b "''''"] by simp
    moreover have "components (b @ CHR ''/'' # p) = components b @ components p"
      by (rule components_append)
    ultimately show ?thesis using assms b by (auto simp: path_push_def)
  next
    case False
    with assms \<open>base \<noteq> ''''\<close> components_append [of base p] show ?thesis by (auto simp: path_push_def)
  qed
qed

lemma plain_hd: "plain x \<Longrightarrow> x = '''' \<or> hd x \<noteq> CHR ''/''"
  by (cases x) (auto simp: plain_def)

lemma resolve_from_append:
  "resolve_from f d (xs @ ys) =
     (case resolve_from f d xs of None \<Rightarrow> None | Some e \<Rightarrow> resolve_from f e ys)"
  by (induction f d xs rule: resolve_from.induct) auto

lemma make_dirs_append:
  assumes "list_all plain xs"
  shows "make_dirs f d (xs @ ys) =
    (case make_dirs f d xs of None \<Rightarrow> None | Some f' \<Rightarrow> make_dirs f' (d @ xs) ys)"
  using assms by (induction xs arbitrary: f d) (auto simp: plain_def split: option.splits fnode.splits)

text \<open>Making directories keeps what is there, adds directories only, and only on the way.\<close>

lemma make_dirs_mono:
  assumes "make_dirs f d xs = Some f'"
  shows "f p = Some n \<Longrightarrow> f' p = Some n" and "f' p = Some (File b) \<Longrightarrow> f p = Some (File b)"
proof -
  have "(f p = Some n \<longrightarrow> f' p = Some n) \<and> (f' p = Some (File b) \<longrightarrow> f p = Some (File b))"
    using assms
  proof (induction xs arbitrary: f d)
    case Nil
    then show ?case by simp
  next
    case (Cons x xs)
    then show ?case
      by (cases "p = d @ [x]") (auto split: if_splits option.splits fnode.splits dest!: Cons.IH)
  qed
  then show "f p = Some n \<Longrightarrow> f' p = Some n" and "f' p = Some (File b) \<Longrightarrow> f p = Some (File b)"
    by blast+
qed

lemma make_dirs_plain:
  assumes "list_all plain xs" and "f d = Some Dir" and "make_dirs f d xs = Some f'"
  shows "f' (d @ xs) = Some Dir \<and> resolve_from f' d xs = Some (d @ xs)"
  using assms
proof (induction xs arbitrary: f d)
  case Nil
  then show ?case by simp
next
  case (Cons x xs)
  obtain g where g: "make_dirs g (d @ [x]) xs = Some f'" "g (d @ [x]) = Some Dir" "g d = Some Dir"
    using Cons.prems by (auto simp: plain_def split: option.splits fnode.splits)
  have "f' d = Some Dir" using make_dirs_mono(1) [OF g(1)] g(3) .
  with Cons.IH [OF _ g(2,1)] Cons.prems(1) show ?case by (simp add: plain_def)
qed

lemma resolve_from_mono:
  assumes "\<And>p. f p = Some Dir \<Longrightarrow> f' p = Some Dir" and "resolve_from f d xs = Some q"
  shows "resolve_from f' d xs = Some q"
  using assms(2)
proof (induction xs arbitrary: d)
  case Nil
  then show ?case by simp
next
  case (Cons x xs)
  then show ?case using assms(1) [of d] by (auto split: if_splits)
qed

text \<open>Writing a file changes what is read at its own place only.\<close>

lemma resolve_from_cong:
  assumes "\<And>p. (f p = Some Dir) = (f' p = Some Dir)"
  shows "resolve_from f d xs = resolve_from f' d xs"
  by (induction xs arbitrary: d) (simp_all add: assms)

lemma fs_write_resolve:
  assumes "fs_write f p b = Some f'"
  shows "resolve f' p' = resolve f p'"
proof -
  obtain q where "f q \<noteq> Some Dir" "f' = f(q \<mapsto> File b)"
    using assms by (auto simp: fs_write_def split: option.splits if_splits)
  then have "(f' r = Some Dir) = (f r = Some Dir)" for r by auto
  then show ?thesis unfolding resolve_def by (rule resolve_from_cong)
qed

lemma fs_read_write:
  assumes "fs_write f p b = Some f'"
  shows "fs_read f' p' = (if resolve f p' = resolve f p then Some b else fs_read f p')"
  using assms unfolding fs_read_def fs_write_resolve [OF assms]
  by (auto simp: fs_write_def split: option.splits if_splits)

lemma fs_write_exists: "fs_write f p b = Some f' \<Longrightarrow> fs_exists f' p"
  unfolding fs_exists_def fs_write_resolve
  by (auto simp: fs_write_def split: option.splits if_splits)

end
