(* ===== verification/Kbs_Storage.thy ===== *)
theory Kbs_Storage
  imports File_System
begin

text \<open>
  The resource plugin of the key broker (\<^verbatim>\<open>kbs/src/plugins/implementations/resource/\<close>): resource
  descriptors, the storage interface, its implementation on the local file system, and the plugin on
  top of it. The interface is a locale with the laws a backend owes; the plugin's behaviour over any
  sequence of requests is proved in it, and the local file system is shown to obey the laws.
\<close>

subsection \<open>Descriptors\<close>

record resource_desc =
  repository_name :: string
  resource_type :: string
  resource_tag :: string

definition word_char :: "char \<Rightarrow> bool" where
  "word_char c \<longleftrightarrow>
     (let n = (of_char c :: nat) in
      97 \<le> n \<and> n \<le> 122 \<or> 65 \<le> n \<and> n \<le> 90 \<or> 48 \<le> n \<and> n \<le> 57 \<or> c = CHR ''_'' \<or> c = CHR ''-'')"

definition segment_ok :: "string \<Rightarrow> bool" where
  "segment_ok s =
     (case s of [] \<Rightarrow> False | c # cs \<Rightarrow> word_char c \<and> list_all (\<lambda>x. word_char x \<or> x = CHR ''.'') cs)"

definition resource_desc_try_from :: "string \<Rightarrow> resource_desc anyhow" where
  "resource_desc_try_from v =
     (case split_on (CHR ''/'') v of
        [r, t, g] \<Rightarrow>
          if segment_ok r \<and> segment_ok t \<and> segment_ok g
          then Inr \<lparr>repository_name = r, resource_type = t, resource_tag = g\<rparr>
          else bail ''illegal ResourceDesc format.''
      | _ \<Rightarrow> bail ''illegal ResourceDesc format.'')"

definition resource_desc_fmt :: "resource_desc \<Rightarrow> string" where
  "resource_desc_fmt d = repository_name d @ ''/'' @ resource_type d @ ''/'' @ resource_tag d"

subsection \<open>Local file system\<close>

definition local_fs_new :: "string \<Rightarrow> (fs, string, string) prog" where
  "local_fs_new dir_path =
     bindP (readP (\<lambda>f. fs_exists f dir_path)) (\<lambda>ex.
     bindP (if \<not> ex then create_dir_allF ''create repository dir'' dir_path else retP ()) (\<lambda>_.
     bindP (readP (\<lambda>f. fs_exists f (dir_path @ ''/default''))) (\<lambda>ex.
     bindP (if \<not> ex then create_dir_allF ''create default repo'' (dir_path @ ''/default'') else retP ()) (\<lambda>_.
       retP dir_path))))"

definition local_fs_read :: "string \<Rightarrow> resource_desc \<Rightarrow> (fs, string, bytes) prog" where
  "local_fs_read repo_dir_path d =
     (let ref_resource_path = repository_name d @ ''/'' @ resource_type d @ ''/'' @ resource_tag d;
          resource_path = path_push repo_dir_path ref_resource_path
      in readF ''read resource from local fs'' resource_path)"

definition local_fs_write :: "string \<Rightarrow> resource_desc \<Rightarrow> bytes \<Rightarrow> (fs, string, unit) prog" where
  "local_fs_write repo_dir_path d data =
     (let resource_path = path_push (path_push repo_dir_path (repository_name d)) (resource_type d) in
      bindP (readP (\<lambda>f. fs_exists f resource_path)) (\<lambda>ex.
      bindP (if \<not> ex then create_dir_allF ''create new resource path'' resource_path else retP ()) (\<lambda>_.
        writeF ''write local fs'' (path_push resource_path (resource_tag d)) data)))"

subsection \<open>Resource storage and the plugin\<close>

record 's storage =
  st_backend :: 's
  resource_reads_total :: "string \<Rightarrow> nat"
  resource_writes_total :: "string \<Rightarrow> nat"

record 's storage_ops =
  so_read :: "resource_desc \<Rightarrow> ('s, string, bytes) prog"
  so_write :: "resource_desc \<Rightarrow> bytes \<Rightarrow> ('s, string, unit) prog"

definition local_fs_ops :: "string \<Rightarrow> fs storage_ops" where
  "local_fs_ops dir = \<lparr>so_read = local_fs_read dir, so_write = local_fs_write dir\<rparr>"

definition backendP :: "('s, string, 'a) prog \<Rightarrow> ('s storage, string, 'a) prog" where
  "backendP = zoomP st_backend (\<lambda>t s. s\<lparr>st_backend := t\<rparr>)"

definition set_secret_resource ::
  "'s storage_ops \<Rightarrow> resource_desc \<Rightarrow> bytes \<Rightarrow> ('s storage, string, unit) prog" where
  "set_secret_resource ops d data =
     bindP (modifyP (\<lambda>s. s\<lparr>resource_writes_total := (resource_writes_total s)
              (resource_desc_fmt d := resource_writes_total s (resource_desc_fmt d) + 1)\<rparr>)) (\<lambda>_.
       backendP (so_write ops d data))"

definition get_secret_resource ::
  "'s storage_ops \<Rightarrow> resource_desc \<Rightarrow> ('s storage, string, bytes) prog" where
  "get_secret_resource ops d =
     bindP (modifyP (\<lambda>s. s\<lparr>resource_reads_total := (resource_reads_total s)
              (resource_desc_fmt d := resource_reads_total s (resource_desc_fmt d) + 1)\<rparr>)) (\<lambda>_.
       backendP (so_read ops d))"

definition strip_prefix :: "char \<Rightarrow> string \<Rightarrow> string option" where
  "strip_prefix c s = (case s of [] \<Rightarrow> None | x # xs \<Rightarrow> if x = c then Some xs else None)"

definition resource_handle ::
  "'s storage_ops \<Rightarrow> bytes \<Rightarrow> string \<Rightarrow> string \<Rightarrow> string \<Rightarrow> ('s storage, string, bytes) prog" where
  "resource_handle ops body query path method_name =
     bindP (liftP (ok_or (strip_prefix (CHR ''/'') path) ''accessed path is illegal, should start with `/`''))
       (\<lambda>resource_desc.
       if method_name = ''POST'' then
         bindP (liftP (resource_desc_try_from resource_desc)) (\<lambda>d.
         bindP (set_secret_resource ops d body) (\<lambda>_. retP []))
       else if method_name = ''GET'' then
         bindP (liftP (resource_desc_try_from resource_desc)) (\<lambda>d.
         bindP (get_secret_resource ops d) (\<lambda>resource. retP resource))
       else bailP ''Illegal HTTP method. Only supports `GET` and `POST`'')"

definition resource_validate_auth :: "bytes \<Rightarrow> string \<Rightarrow> string \<Rightarrow> string \<Rightarrow> bool anyhow" where
  "resource_validate_auth body query path method_name =
     (if method_name = ''POST'' then Inr True else Inr False)"

definition resource_encrypted :: "bytes \<Rightarrow> string \<Rightarrow> string \<Rightarrow> string \<Rightarrow> bool anyhow" where
  "resource_encrypted body query path method_name =
     (if method_name = ''GET'' then Inr True else Inr False)"

subsection \<open>Descriptors round trip\<close>

definition desc_ok :: "resource_desc \<Rightarrow> bool" where
  "desc_ok d \<longleftrightarrow> segment_ok (repository_name d) \<and> segment_ok (resource_type d) \<and> segment_ok (resource_tag d)"

lemma word_char_not: "word_char c \<Longrightarrow> c \<noteq> CHR ''/'' \<and> c \<noteq> CHR ''.''"
  by (auto simp: word_char_def)

lemma segment_ok_plain: "segment_ok s \<Longrightarrow> plain s"
  by (cases s) (auto simp: segment_ok_def plain_def list_all_iff dest: word_char_not)

lemma split_on_inj: "split_on c s = split_on c t \<Longrightarrow> s = t"
proof (induction s arbitrary: t)
  case Nil
  then show ?case by (cases t) (auto simp: split_on_ne [symmetric] split: if_splits list.splits)
next
  case (Cons x xs)
  then show ?case by (cases t) (auto simp: split_on_ne [symmetric] split: if_splits list.splits)
qed

lemma resource_desc_try_from_fmt: "desc_ok d \<Longrightarrow> resource_desc_try_from (resource_desc_fmt d) = Inr d"
proof -
  assume d: "desc_ok d"
  then have "split_on (CHR ''/'') (resource_desc_fmt d) = [repository_name d, resource_type d, resource_tag d]"
    by (simp add: resource_desc_fmt_def split_on_append split_on_plain desc_ok_def plain_def
        segment_ok_plain [unfolded plain_def])
  with d show ?thesis by (simp add: resource_desc_try_from_def desc_ok_def)
qed

lemma resource_desc_try_from_Inr:
  assumes "resource_desc_try_from v = Inr d"
  shows "desc_ok d \<and> resource_desc_fmt d = v"
proof -
  obtain r t g where s: "split_on (CHR ''/'') v = [r, t, g]" and ok: "segment_ok r" "segment_ok t" "segment_ok g"
    and d: "d = \<lparr>repository_name = r, resource_type = t, resource_tag = g\<rparr>"
    using assms by (auto simp: resource_desc_try_from_def bail_def split: list.splits if_splits)
  then have "desc_ok d" by (simp add: desc_ok_def)
  moreover have "split_on (CHR ''/'') (resource_desc_fmt d) = split_on (CHR ''/'') v"
    using s ok d by (simp add: resource_desc_fmt_def split_on_append split_on_plain
        segment_ok_plain [unfolded plain_def])
  ultimately show ?thesis using split_on_inj by blast
qed

lemma resource_desc_try_from_iff: "resource_desc_try_from v = Inr d \<longleftrightarrow> desc_ok d \<and> resource_desc_fmt d = v"
  using resource_desc_try_from_fmt resource_desc_try_from_Inr by blast

lemma backendP_apply:
  "backendP m s = (fst (m (st_backend s)), s\<lparr>st_backend := snd (m (st_backend s))\<rparr>)"
  by (simp add: backendP_def zoomP_def split: prod.splits)

subsection \<open>The storage interface\<close>

text \<open>What a backend stores, and the effect of a sequence of requests (method, path, body) on it.\<close>

definition contents :: "'s storage_ops \<Rightarrow> 's storage \<Rightarrow> resource_desc \<rightharpoonup> bytes" where
  "contents ops s d = (case fst (so_read ops d (st_backend s)) of Inr b \<Rightarrow> Some b | Inl _ \<Rightarrow> None)"

type_synonym resource_request = "string \<times> string \<times> bytes"

fun run_requests :: "'s storage_ops \<Rightarrow> resource_request list \<Rightarrow> 's storage \<Rightarrow> 's storage" where
  "run_requests ops [] s = s"
| "run_requests ops ((mth, path, body) # rs) s =
     run_requests ops rs (snd (resource_handle ops body '''' path mth s))"

definition post_of :: "resource_request \<Rightarrow> (resource_desc \<times> bytes) option" where
  "post_of rq = (case rq of (mth, path, body) \<Rightarrow>
     if mth = ''POST'' then
       (case strip_prefix (CHR ''/'') path of None \<Rightarrow> None
        | Some v \<Rightarrow> (case resource_desc_try_from v of Inr d \<Rightarrow> Some (d, body) | Inl _ \<Rightarrow> None))
     else None)"

fun posts :: "resource_request list \<Rightarrow> (resource_desc \<rightharpoonup> bytes) \<Rightarrow> resource_desc \<rightharpoonup> bytes" where
  "posts [] m = m"
| "posts (rq # rs) m = posts rs (case post_of rq of None \<Rightarrow> m | Some (d, b) \<Rightarrow> m(d \<mapsto> b))"

text \<open>A backend whose reads change nothing; it is enough for what a request does to the stored state.\<close>

locale readable_backend =
  fixes ops :: "'s storage_ops"
  assumes read_pure: "snd (so_read ops d s) = s"
begin

lemma get_result:
  assumes "desc_ok d"
  shows "fst (resource_handle ops body q (CHR ''/'' # resource_desc_fmt d) ''GET'' s) =
    fst (so_read ops d (st_backend s))"
  using assms
  by (simp add: resource_handle_def strip_prefix_def resource_desc_try_from_fmt get_secret_resource_def
      bindP_def prog_simps backendP_def zoomP_def split: prod.splits sum.splits)

lemma handle_post_state:
  assumes "strip_prefix (CHR ''/'') path = Some v" and "resource_desc_try_from v = Inr d"
  shows "st_backend (snd (resource_handle ops body q path ''POST'' s)) = snd (so_write ops d body (st_backend s))"
  using assms
  by (simp add: resource_handle_def set_secret_resource_def bindP_def prog_simps backendP_def zoomP_def
      split: prod.splits sum.splits)

lemma get_secret_resource_state: "st_backend (snd (get_secret_resource ops d s)) = st_backend s"
  by (simp add: get_secret_resource_def prog_simps backendP_apply read_pure)

lemma handle_get_state:
  "st_backend (snd (resource_handle ops body q path ''GET'' s)) = st_backend s"
  using get_secret_resource_state
  by (auto simp: resource_handle_def bindP_def prog_simps split: prod.splits sum.splits) (metis snd_conv)+

lemma handle_state:
  "st_backend (snd (resource_handle ops body q path mth s)) =
     (case post_of (mth, path, body) of None \<Rightarrow> st_backend s
      | Some (d, b) \<Rightarrow> snd (so_write ops d b (st_backend s)))"
proof (cases "mth = ''POST''")
  case True
  show ?thesis
  proof (cases "strip_prefix (CHR ''/'') path")
    case None
    with True show ?thesis by (simp add: resource_handle_def prog_simps post_of_def)
  next
    case (Some v)
    with True show ?thesis
      by (cases "resource_desc_try_from v")
        (simp_all add: handle_post_state post_of_def, simp add: resource_handle_def prog_simps)
  qed
next
  case False
  show ?thesis
  proof (cases "mth = ''GET''")
    case True
    then show ?thesis using handle_get_state by (simp add: post_of_def)
  next
    case F: False
    with False show ?thesis by (simp add: post_of_def resource_handle_def prog_simps split: sum.splits)
  qed
qed

end

lemma post_of_ok: "post_of rq = Some (d, b) \<Longrightarrow> desc_ok d \<and> b = snd (snd rq)"
  by (cases rq) (auto simp: post_of_def resource_desc_try_from_iff split: if_splits option.splits sum.splits)

lemma posts_cong:
  assumes "\<And>d. desc_ok d \<Longrightarrow> m d = m' d" and "desc_ok d"
  shows "posts rs m d = posts rs m' d"
  using assms
proof (induction rs arbitrary: m m')
  case Nil
  then show ?case by simp
next
  case (Cons rq rs)
  have "posts rs (case post_of rq of None \<Rightarrow> m | Some (e, b) \<Rightarrow> m(e \<mapsto> b)) d =
      posts rs (case post_of rq of None \<Rightarrow> m' | Some (e, b) \<Rightarrow> m'(e \<mapsto> b)) d"
    using Cons.prems by (intro Cons.IH) (auto split: option.splits)
  then show ?case by simp
qed

text \<open>A backend that stores the contents that are \<open>storable\<close> and keeps what it has when it refuses others.\<close>

locale partial_backend = readable_backend ops for ops :: "'s storage_ops" +
  fixes inv :: "'s \<Rightarrow> bool" and storable :: "bytes \<Rightarrow> bool"
  assumes write_ok: "inv s \<Longrightarrow> desc_ok d \<Longrightarrow> storable b \<Longrightarrow> fst (so_write ops d b s) = Inr ()"
    and write_inv: "inv s \<Longrightarrow> desc_ok d \<Longrightarrow> inv (snd (so_write ops d b s))"
    and read_write: "inv s \<Longrightarrow> desc_ok d \<Longrightarrow> desc_ok d' \<Longrightarrow>
      fst (so_read ops d' (snd (so_write ops d b s))) = (if d' = d \<and> storable b then Inr b else fst (so_read ops d' s))"
begin

lemma handle_step:
  assumes "inv (st_backend s)"
  shows "inv (st_backend (snd (resource_handle ops body q path mth s)))"
    and "desc_ok d \<Longrightarrow> contents ops (snd (resource_handle ops body q path mth s)) d =
      (case post_of (mth, path, body) of None \<Rightarrow> contents ops s d
       | Some (e, b) \<Rightarrow> (if storable body then (contents ops s)(e \<mapsto> b) else contents ops s) d)"
  using assms
  by (auto simp: handle_state contents_def read_write write_inv dest: post_of_ok split: option.splits)

lemma run_requests_contents:
  assumes "inv (st_backend s)" and "desc_ok d"
  shows "contents ops (run_requests ops rs s) d = posts (filter (\<lambda>rq. storable (snd (snd rq))) rs) (contents ops s) d"
  using assms(1)
proof (induction rs arbitrary: s)
  case Nil
  then show ?case by simp
next
  case (Cons rq rs)
  obtain mth path body where rq: "rq = (mth, path, body)" by (cases rq)
  let ?s = "snd (resource_handle ops body '''' path mth s)"
  let ?ok = "\<lambda>rq :: resource_request. storable (snd (snd rq))"
  have "contents ops (run_requests ops rs ?s) d = posts (filter ?ok rs) (contents ops ?s) d"
    using handle_step(1) [OF Cons.prems] by (rule Cons.IH)
  also have "\<dots> = posts (filter ?ok (rq # rs)) (contents ops s) d"
    using handle_step(2) [OF Cons.prems] assms(2)
    by (auto simp: rq intro!: posts_cong split: option.splits)
  finally show ?case by (simp add: rq)
qed

end

text \<open>A backend that stores anything.\<close>

locale storage_backend = partial_backend ops inv "\<lambda>_. True" for ops :: "'s storage_ops" and inv

subsection \<open>The local file system is a storage backend\<close>

definition repo_inv :: "string \<Rightarrow> fs \<Rightarrow> bool" where
  "repo_inv dir f \<longleftrightarrow>
     list_all plain (components dir) \<and> f [] = Some Dir \<and>
     resolve_from f [] (components dir) = Some (components dir) \<and> f (components dir) = Some Dir \<and>
     (\<forall>a. plain a \<longrightarrow> f (components dir @ [a]) \<in> {None, Some Dir}) \<and>
     (\<forall>a b. plain a \<longrightarrow> plain b \<longrightarrow> f (components dir @ [a, b]) \<in> {None, Some Dir} \<and>
        (f (components dir @ [a, b]) \<noteq> None \<longrightarrow> f (components dir @ [a]) = Some Dir)) \<and>
     (\<forall>a b c. plain a \<longrightarrow> plain b \<longrightarrow> plain c \<longrightarrow> f (components dir @ [a, b, c]) \<noteq> Some Dir \<and>
        (f (components dir @ [a, b, c]) \<noteq> None \<longrightarrow> f (components dir @ [a, b]) = Some Dir))"

lemma repo_invD:
  assumes "repo_inv dir f"
  shows "list_all plain (components dir)" and "f [] = Some Dir"
    and "resolve_from f [] (components dir) = Some (components dir)" and "f (components dir) = Some Dir"
    and "plain a \<Longrightarrow> f (components dir @ [a]) = None \<or> f (components dir @ [a]) = Some Dir"
    and "plain a \<Longrightarrow> plain b \<Longrightarrow> f (components dir @ [a, b]) = None \<or> f (components dir @ [a, b]) = Some Dir"
    and "plain a \<Longrightarrow> plain b \<Longrightarrow> f (components dir @ [a, b]) \<noteq> None \<Longrightarrow> f (components dir @ [a]) = Some Dir"
    and "plain a \<Longrightarrow> plain b \<Longrightarrow> plain c \<Longrightarrow> f (components dir @ [a, b, c]) \<noteq> Some Dir"
    and "plain a \<Longrightarrow> plain b \<Longrightarrow> plain c \<Longrightarrow> f (components dir @ [a, b, c]) \<noteq> None \<Longrightarrow>
      f (components dir @ [a, b]) = Some Dir"
  using assms unfolding repo_inv_def by blast+

lemma repo_invI:
  assumes "list_all plain (components dir)" and "f [] = Some Dir"
    and "resolve_from f [] (components dir) = Some (components dir)" and "f (components dir) = Some Dir"
    and "\<And>a. plain a \<Longrightarrow> f (components dir @ [a]) = None \<or> f (components dir @ [a]) = Some Dir"
    and "\<And>a b. plain a \<Longrightarrow> plain b \<Longrightarrow> f (components dir @ [a, b]) = None \<or> f (components dir @ [a, b]) = Some Dir"
    and "\<And>a b. plain a \<Longrightarrow> plain b \<Longrightarrow> f (components dir @ [a, b]) \<noteq> None \<Longrightarrow> f (components dir @ [a]) = Some Dir"
    and "\<And>a b c. plain a \<Longrightarrow> plain b \<Longrightarrow> plain c \<Longrightarrow> f (components dir @ [a, b, c]) \<noteq> Some Dir"
    and "\<And>a b c. plain a \<Longrightarrow> plain b \<Longrightarrow> plain c \<Longrightarrow> f (components dir @ [a, b, c]) \<noteq> None \<Longrightarrow>
      f (components dir @ [a, b]) = Some Dir"
  shows "repo_inv dir f"
  unfolding repo_inv_def using assms by (intro conjI allI impI) simp_all

lemma make_dirs_existing:
  assumes "list_all plain xs" and "resolve_from f d xs = Some (d @ xs)" and "f (d @ xs) = Some Dir"
  shows "make_dirs f d xs = Some f"
  using assms
proof (induction xs arbitrary: d)
  case Nil
  then show ?case by simp
next
  case (Cons x xs)
  have "f (d @ [x]) = Some Dir"
  proof (cases xs)
    case Nil
    then show ?thesis using Cons.prems(3) by simp
  next
    case (Cons y ys)
    then show ?thesis using Cons.prems(1,2) by (auto simp: plain_def split: if_splits)
  qed
  then show ?case using Cons.prems Cons.IH [of "d @ [x]"] by (auto simp: plain_def split: if_splits)
qed

lemma components_ref:
  assumes "plain a" and "plain b" and "plain c"
  shows "components (path_push dir (a @ ''/'' @ b @ ''/'' @ c)) = components dir @ [a, b, c]"
proof -
  have "hd (a @ ''/'' @ b @ ''/'' @ c) \<noteq> CHR ''/''"
    using assms(1) by (cases a) (auto simp: plain_def)
  then have "components (path_push dir (a @ ''/'' @ b @ ''/'' @ c)) =
      components dir @ components (a @ CHR ''/'' # b @ CHR ''/'' # c)"
    by (subst components_path_push) simp_all
  then show ?thesis by (simp add: components_append components_plain assms)
qed

lemma components_push_plain: "plain a \<Longrightarrow> components (path_push p a) = components p @ [a]"
  by (simp add: components_path_push plain_hd components_plain)

lemma local_fs_read_eq:
  assumes "repo_inv dir f" and "desc_ok d"
  shows "local_fs_read dir d f =
    (ok_or (case f (components dir @ [repository_name d, resource_type d, resource_tag d]) of
       Some (File b) \<Rightarrow> Some b | _ \<Rightarrow> None) ''read resource from local fs'', f)"
proof -
  let ?C = "components dir" and ?a = "repository_name d" and ?b = "resource_type d" and ?c = "resource_tag d"
  have pl: "plain ?a" "plain ?b" "plain ?c" using assms(2) by (simp_all add: desc_ok_def segment_ok_plain)
  have "resolve_from f ?C [?a, ?b, ?c] = (if f (?C @ [?a]) = Some Dir \<and> f (?C @ [?a, ?b]) = Some Dir
      then Some (?C @ [?a, ?b, ?c]) else None)"
    using pl repo_invD(4) [OF assms(1)] by (auto simp: plain_def)
  then have "resolve f (path_push dir (?a @ ''/'' @ ?b @ ''/'' @ ?c)) = (if f (?C @ [?a]) = Some Dir \<and> f (?C @ [?a, ?b]) = Some Dir
      then Some (?C @ [?a, ?b, ?c]) else None)"
    by (simp only: resolve_def components_ref [OF pl] resolve_from_append repo_invD(3) [OF assms(1)] option.case)
  moreover have "f (?C @ [?a, ?b, ?c]) = None" if "\<not> (f (?C @ [?a]) = Some Dir \<and> f (?C @ [?a, ?b]) = Some Dir)"
    using that repo_invD(7) [OF assms(1) pl(1,2)] repo_invD(9) [OF assms(1) pl]
    by (cases "f (?C @ [?a, ?b, ?c])") auto
  ultimately show ?thesis
    by (auto simp: local_fs_read_def readF_def fs_read_def Let_def)
qed

lemma local_fs_mkdir_eq:
  assumes "repo_inv dir f" and "plain a" and "plain b"
  defines "p \<equiv> path_push (path_push dir a) b"
  shows "(if fs_exists f p then Some f else fs_create_dir_all f p) =
    Some (f(components dir @ [a] \<mapsto> Dir, components dir @ [a, b] \<mapsto> Dir))"
proof -
  let ?C = "components dir"
  have comps: "components p = ?C @ [a, b]" using assms(2,3) by (simp add: p_def components_push_plain)
  have res: "resolve f p = (if f (?C @ [a]) = Some Dir then Some (?C @ [a, b]) else None)"
    using assms(2,3) repo_invD(3,4) [OF assms(1)] by (auto simp: resolve_def comps resolve_from_append plain_def)
  have mk: "make_dirs f [] (?C @ [a, b]) = make_dirs f ?C [a, b]"
    using repo_invD(1,3,4) [OF assms(1)] make_dirs_existing [of ?C f "[]"] by (simp add: make_dirs_append)
  have dots: "a \<noteq> ''..''" "b \<noteq> ''..''" using assms(2,3) by (simp_all add: plain_def)
  consider "f (?C @ [a]) = None" "f (?C @ [a, b]) = None" | "f (?C @ [a]) = Some Dir" "f (?C @ [a, b]) = None"
    | "f (?C @ [a]) = Some Dir" "f (?C @ [a, b]) = Some Dir"
    using repo_invD(5) [OF assms(1,2)] repo_invD(6,7) [OF assms(1-3)] by auto
  then show ?thesis
    by cases (simp_all add: fs_exists_def res fs_create_dir_all_def comps mk dots map_upd_triv)
qed

lemma local_fs_write_eq:
  assumes "repo_inv dir f" and "desc_ok d"
  shows "local_fs_write dir d data f =
    (Inr (), f(components dir @ [repository_name d] \<mapsto> Dir,
       components dir @ [repository_name d, resource_type d] \<mapsto> Dir,
       components dir @ [repository_name d, resource_type d, resource_tag d] \<mapsto> File data))"
proof -
  let ?C = "components dir" and ?a = "repository_name d" and ?b = "resource_type d" and ?c = "resource_tag d"
  let ?g = "f(?C @ [?a] \<mapsto> Dir, ?C @ [?a, ?b] \<mapsto> Dir)"
  have pl: "plain ?a" "plain ?b" "plain ?c" using assms(2) by (simp_all add: desc_ok_def segment_ok_plain)
  have comps: "components (path_push (path_push (path_push dir ?a) ?b) ?c) = ?C @ [?a, ?b, ?c]"
    using pl by (simp add: components_push_plain)
  have "resolve_from ?g [] ?C = Some ?C"
    using repo_invD(3) [OF assms(1)] by (intro resolve_from_mono [of f ?g "[]" ?C ?C]) auto
  then have "resolve ?g (path_push (path_push (path_push dir ?a) ?b) ?c) = Some (?C @ [?a, ?b, ?c])"
    using pl repo_invD(4) [OF assms(1)] by (simp add: resolve_def comps resolve_from_append plain_def)
  moreover have "?g (?C @ [?a, ?b, ?c]) \<noteq> Some Dir" using repo_invD(8) [OF assms(1) pl] by simp
  ultimately show ?thesis
    using local_fs_mkdir_eq [OF assms(1) pl(1,2)]
    by (auto simp: local_fs_write_def Let_def prog_simps bindP_def create_dir_allF_def writeF_def
        fs_write_def split: if_splits)
qed

lemma repo_inv_write:
  assumes inv: "repo_inv dir f" and pl: "plain a" "plain b" "plain c"
  defines "C \<equiv> components dir"
  shows "repo_inv dir (f(C @ [a] \<mapsto> Dir, C @ [a, b] \<mapsto> Dir, C @ [a, b, c] \<mapsto> File data))"
    (is "repo_inv dir ?g")
proof -
  have "f p = Some Dir \<Longrightarrow> ?g p = Some Dir" for p
    using repo_invD(8) [OF inv pl] by (auto simp: C_def)
  then have r: "resolve_from ?g [] C = Some C"
    using repo_invD(3) [OF inv] resolve_from_mono [of f ?g "[]" C C] by (simp add: C_def)
  have g: "?g [] = Some Dir" "?g C = Some Dir" using repo_invD(2,4) [OF inv] by (simp_all add: C_def)
  have g1: "?g (C @ [x]) = (if x = a then Some Dir else f (C @ [x]))"
    and g2: "?g (C @ [x, y]) = (if x = a \<and> y = b then Some Dir else f (C @ [x, y]))"
    and g3: "?g (C @ [x, y, z]) = (if x = a \<and> y = b \<and> z = c then Some (File data) else f (C @ [x, y, z]))"
    for x y z by simp_all
  note D = repo_invD [OF inv, folded C_def]
  show ?thesis
  proof (rule repo_invI, unfold C_def [symmetric])
    show "?g (C @ [x]) = None \<or> ?g (C @ [x]) = Some Dir" if "plain x" for x
      unfolding g1 using D(5) [OF that] by simp
    show "?g (C @ [x, y]) = None \<or> ?g (C @ [x, y]) = Some Dir" if "plain x" "plain y" for x y
      unfolding g2 using D(6) [OF that] by simp
    show "?g (C @ [x]) = Some Dir" if "plain x" "plain y" "?g (C @ [x, y]) \<noteq> None" for x y
      using that(3) D(7) [OF that(1,2)] unfolding g1 g2 by (simp split: if_splits)
    show "?g (C @ [x, y, z]) \<noteq> Some Dir" if "plain x" "plain y" "plain z" for x y z
      unfolding g3 using D(8) [OF that] by simp
    show "?g (C @ [x, y]) = Some Dir" if "plain x" "plain y" "plain z" "?g (C @ [x, y, z]) \<noteq> None" for x y z
      using that(4) D(9) [OF that(1-3)] unfolding g2 g3 by (simp split: if_splits)
  qed (rule D(1) g r)+
qed

lemma desc_eq_iff:
  "d = (e :: resource_desc) \<longleftrightarrow> repository_name d = repository_name e \<and> resource_type d = resource_type e \<and>
     resource_tag d = resource_tag e"
  by (cases d; cases e) auto

interpretation local_fs: storage_backend "local_fs_ops dir" "repo_inv dir" for dir
proof
  fix d e :: resource_desc and f :: fs and b :: bytes
  show "snd (so_read (local_fs_ops dir) d f) = f"
    by (simp add: local_fs_ops_def local_fs_read_def readF_def Let_def)
  assume inv: "repo_inv dir f" and d: "desc_ok d"
  then show "fst (so_write (local_fs_ops dir) d b f) = Inr ()"
    by (simp add: local_fs_ops_def local_fs_write_eq)
  show inv': "repo_inv dir (snd (so_write (local_fs_ops dir) d b f))"
    using inv d by (simp add: local_fs_ops_def local_fs_write_eq repo_inv_write desc_ok_def segment_ok_plain)
  assume e: "desc_ok e"
  show "fst (so_read (local_fs_ops dir) e (snd (so_write (local_fs_ops dir) d b f))) =
      (if e = d \<and> True then Inr b else fst (so_read (local_fs_ops dir) e f))"
    using inv inv' d e
    by (auto simp: local_fs_ops_def local_fs_read_eq local_fs_write_eq desc_eq_iff)
qed

subsection \<open>Properties\<close>

text \<open>Resource descriptors round trip: a text is parsed to a descriptor exactly when each of its
  three components is a legal name and the text is what the descriptor prints.\<close>

theorem resource_desc_roundtrip:
  "resource_desc_try_from v = Inr d \<longleftrightarrow> desc_ok d \<and> resource_desc_fmt d = v"
  by (rule resource_desc_try_from_iff)

text \<open>C26. A descriptor that was parsed cannot leave the repository: the path of its resource is the
  path of the repository followed by three components, none of which is empty, \<^verbatim>\<open>.\<close>, \<^verbatim>\<open>..\<close> or contains a
  separator.\<close>

theorem resource_path_confined:
  assumes "resource_desc_try_from v = Inr d"
  shows "list_all plain [repository_name d, resource_type d, resource_tag d] \<and>
    components (path_push dir (resource_desc_fmt d)) =
      components dir @ [repository_name d, resource_type d, resource_tag d]"
proof -
  have "plain (repository_name d)" "plain (resource_type d)" "plain (resource_tag d)"
    using assms by (simp_all add: resource_desc_try_from_iff desc_ok_def segment_ok_plain)
  then show ?thesis by (simp add: resource_desc_fmt_def components_ref [simplified])
qed

theorem resource_path_confined_witness:
  "list_all plain [''default'', ''1'', ''2''] \<and>
   components (path_push ''/repo'' ''default/1/2'') = components ''/repo'' @ [''default'', ''1'', ''2'']"
proof -
  let ?d = "\<lparr>repository_name = ''default'', resource_type = ''1'', resource_tag = ''2''\<rparr>"
  have "resource_desc_try_from ''default/1/2'' = Inr ?d"
    by (simp add: resource_desc_try_from_def segment_ok_def word_char_def)
  from resource_path_confined [OF this, of "''/repo''"] show ?thesis
    by (simp add: resource_desc_fmt_def)
qed

text \<open>C6. The resource plugin on the local file system is a map from descriptors to contents: after any
  sequence of requests, a GET of a descriptor returns the body of the last POST to this descriptor,
  or, where there was none, what the repository held before.\<close>

theorem resource_get_returns_last_post:
  assumes "repo_inv dir (st_backend s)" and "desc_ok d"
    and "posts rs (contents (local_fs_ops dir) s) d = Some b"
  shows "fst (resource_handle (local_fs_ops dir) body q (CHR ''/'' # resource_desc_fmt d) ''GET''
    (run_requests (local_fs_ops dir) rs s)) = Inr b"
  using local_fs.run_requests_contents [OF assms(1,2), of rs] assms(3)
  by (simp add: local_fs.get_result [OF assms(2)] contents_def split: sum.splits)

theorem resource_get_returns_last_post_witness:
  "fst (resource_handle (local_fs_ops '''') [] '''' ''/a/b/c'' ''GET''
    (run_requests (local_fs_ops '''') [(''POST'', ''/a/b/c'', [1]), (''POST'', ''/a/b/d'', [2]), (''POST'', ''/a/b/c'', [3])]
      \<lparr>st_backend = [[] \<mapsto> Dir], resource_reads_total = (\<lambda>_. 0), resource_writes_total = (\<lambda>_. 0)\<rparr>)) = Inr [3]"
proof -
  let ?d = "\<lparr>repository_name = ''a'', resource_type = ''b'', resource_tag = ''c''\<rparr>"
  let ?s = "\<lparr>st_backend = [[] \<mapsto> Dir], resource_reads_total = (\<lambda>_. 0), resource_writes_total = (\<lambda>_. 0)\<rparr> :: fs storage"
  have i: "repo_inv '''' (st_backend ?s)" by (simp add: repo_inv_def)
  have d: "desc_ok ?d" by (simp add: desc_ok_def segment_ok_def word_char_def)
  have p: "posts [(''POST'', ''/a/b/c'', [1]), (''POST'', ''/a/b/d'', [2]), (''POST'', ''/a/b/c'', [3])]
      (contents (local_fs_ops '''') ?s) ?d = Some [3]"
    by (simp add: post_of_def strip_prefix_def resource_desc_try_from_def segment_ok_def word_char_def)
  from resource_get_returns_last_post [OF i d p, of "[]" "''''"] show ?thesis
    by (simp add: resource_desc_fmt_def)
qed

end
