(* ===== verification/Kbs_Backends.thy ===== *)
theory Kbs_Backends
  imports Kbs_Storage
begin

text \<open>
  The other stores of resources: Vault's key-value engine (\<^verbatim>\<open>kbs/src/plugins/implementations/resource/vault_kv.rs\<close>), the key management
  service of Aliyun (\<^verbatim>\<open>aliyun_kms.rs\<close>) and the plugin for PKCS#11 tokens (\<^verbatim>\<open>implementations/pkcs11.rs\<close>). The state is that of the remote
  service, of a type \<open>'v\<close>, which the clients' calls read and change.
\<close>

subsection \<open>Vault\<close>

text \<open>\<open>vk_get\<close> and \<open>vk_set\<close> are \<^verbatim>\<open>kv1::get\<close> and \<^verbatim>\<open>kv1::set\<close> with a mount path and a path; an error of the first is its text. \<open>vk_new\<close>
  builds the client from the address, the token, whether to verify certificates, and the certificates.\<close>

record vault_config =
  vkc_vault_url :: string
  vkc_token :: string
  vkc_mount_path :: string
  vkc_verify_ssl :: bool
  vkc_ca_certs :: "string list option"

record 'v vault_client =
  vk_get :: "string \<Rightarrow> string \<Rightarrow> 'v \<Rightarrow> string + (string \<rightharpoonup> string)"
  vk_set :: "string \<Rightarrow> string \<Rightarrow> (string \<rightharpoonup> string) \<Rightarrow> 'v \<Rightarrow> 'v option"

definition vault_new ::
  "(string \<Rightarrow> string \<Rightarrow> bool \<Rightarrow> string list option \<Rightarrow> 'st option) \<Rightarrow> ('st \<Rightarrow> 'v vault_client option) \<Rightarrow> vault_config \<Rightarrow>
     ('v vault_client \<times> string) anyhow" where
  "vault_new build client_new config =
     and_then (ok_or (build (vkc_vault_url config) (vkc_token config) (vkc_verify_ssl config) (vkc_ca_certs config))
         ''Failed to build Vault client settings'') (\<lambda>client_settings.
     and_then (ok_or (client_new client_settings) ''Failed to create Vault client'') (\<lambda>client.
       Inr (client, vkc_mount_path config)))"

definition vault_path :: "resource_desc \<Rightarrow> string" where
  "vault_path d = repository_name d @ ''/'' @ resource_type d @ ''/'' @ resource_tag d"

definition str_contains :: "string \<Rightarrow> string \<Rightarrow> bool" where
  "str_contains pat s \<longleftrightarrow> 1 < length (split_str pat s)"

definition vault_read :: "'v vault_client \<Rightarrow> string \<Rightarrow> resource_desc \<Rightarrow> ('v, string, bytes) prog" where
  "vault_read client mount_path d =
     bindP (readP (vk_get client mount_path (vault_path d))) (\<lambda>r.
     bindP (liftP (case r of
         Inl e \<Rightarrow> bail (if str_contains ''status code 404'' e then ''Secret not found at path'' else ''Vault API error for path'')
       | Inr secret_data \<Rightarrow> Inr secret_data)) (\<lambda>secret_data.
       liftP (ok_or (map_option as_bytes (secret_data ''data'')) ''Secret exists at path but missing required 'data' key'')))"

definition vault_write :: "'v vault_client \<Rightarrow> string \<Rightarrow> resource_desc \<Rightarrow> bytes \<Rightarrow> ('v, string, unit) prog" where
  "vault_write client mount_path d data =
     bindP (liftP (ok_or (from_utf8 data) ''Failed to convert data to UTF-8 string'')) (\<lambda>data_str.
     \<lambda>s. case vk_set client mount_path (vault_path d) [''data'' \<mapsto> data_str] s of
           Some s' \<Rightarrow> (Inr (), s')
         | None \<Rightarrow> (bail ''Failed to write secret to Vault'', s))"

definition vault_ops :: "'v vault_client \<Rightarrow> string \<Rightarrow> 'v storage_ops" where
  "vault_ops client mount_path = \<lparr>so_read = vault_read client mount_path, so_write = vault_write client mount_path\<rparr>"

subsection \<open>Aliyun\<close>

text \<open>\<open>get_secret\<close> is the client's; the repository and the type of a resource are ignored.\<close>

definition aliyun_read :: "(string \<Rightarrow> 'v \<Rightarrow> bytes option) \<Rightarrow> resource_desc \<Rightarrow> ('v, string, bytes) prog" where
  "aliyun_read get_secret d =
     bindP (readP (get_secret (resource_tag d))) (\<lambda>r. liftP (ok_or r ''failed to get resource from aliyun KMS''))"

definition aliyun_write :: "resource_desc \<Rightarrow> bytes \<Rightarrow> ('v, string, unit) prog" where
  "aliyun_write d data = liftP (panic ''not yet implemented: Does not support!'')"

definition aliyun_ops :: "(string \<Rightarrow> 'v \<Rightarrow> bytes option) \<Rightarrow> 'v storage_ops" where
  "aliyun_ops get_secret = \<lparr>so_read = aliyun_read get_secret, so_write = aliyun_write\<rparr>"

definition aliyun_new :: "(string \<Rightarrow> string \<Rightarrow> string \<Rightarrow> string \<Rightarrow> 'k option) \<Rightarrow> string \<Rightarrow> string \<Rightarrow> string \<Rightarrow> string \<Rightarrow> 'k anyhow" where
  "aliyun_new client_new client_key kms_instance_id password cert_pem =
     ok_or (client_new client_key kms_instance_id password cert_pem) ''create aliyun KMS backend''"

subsection \<open>PKCS#11\<close>

text \<open>The attributes the plugin uses, and the calls of a session on a token: \<open>pk_find_objects\<close> gives the handles of the objects with
  the attributes, \<open>pk_value_info\<close> whether the value of an object can be read, \<open>pk_get_value\<close> the attributes that are returned for it.\<close>

datatype pk_attribute =
    PkClass string | PkKeyType string | PkExtractable bool | PkPrivate bool | PkToken bool | PkModulusBits nat | PkValue bytes | PkLabel string

record ('o, 'v) pk_session =
  pk_find_objects :: "pk_attribute list \<Rightarrow> 'v \<Rightarrow> 'o list option"
  pk_value_info :: "'o \<Rightarrow> 'v \<Rightarrow> bool option"
  pk_get_attributes :: "'o \<Rightarrow> 'v \<Rightarrow> pk_attribute list option"
  pk_create_object :: "pk_attribute list \<Rightarrow> 'v \<Rightarrow> 'v option"
  pk_generate_key_pair :: "pk_attribute list \<Rightarrow> pk_attribute list \<Rightarrow> 'v \<Rightarrow> 'v option"
  pk_encrypt :: "'o \<Rightarrow> bytes \<Rightarrow> 'v \<Rightarrow> bytes option"
  pk_decrypt :: "'o \<Rightarrow> bytes \<Rightarrow> 'v \<Rightarrow> bytes option"

definition pkcs11_read :: "('o, 'v) pk_session \<Rightarrow> resource_desc \<Rightarrow> ('v, string, bytes) prog" where
  "pkcs11_read k d =
     bindP (readP (pk_find_objects k [PkLabel (resource_desc_fmt d)])) (\<lambda>objects.
     bindP (liftP (ok_or objects ''pkcs11'')) (\<lambda>objects.
     bindP (liftP (case objects of [] \<Rightarrow> bail ''Could not find object with label'' | ob # _ \<Rightarrow> Inr ob)) (\<lambda>ob.
     bindP (readP (pk_value_info k ob)) (\<lambda>available.
     bindP (liftP (ok_or available ''pkcs11'')) (\<lambda>available.
     bindP (liftP (ensure available ''Key does not have value attribute available.'')) (\<lambda>_.
     bindP (readP (pk_get_attributes k ob)) (\<lambda>vs.
     bindP (liftP (ok_or vs ''unable to fetch attributes'')) (\<lambda>vs.
       liftP (case vs of
         [] \<Rightarrow> bail ''empty attributes returned''
       | PkValue resource_bytes # _ \<Rightarrow> Inr resource_bytes
       | _ \<Rightarrow> bail ''Failed to get value.'')))))))))"

definition pkcs11_write :: "('o, 'v) pk_session \<Rightarrow> resource_desc \<Rightarrow> bytes \<Rightarrow> ('v, string, unit) prog" where
  "pkcs11_write k d data = (\<lambda>s.
     case pk_create_object k [PkClass ''SECRET_KEY'', PkKeyType ''GENERIC_SECRET'', PkExtractable True, PkPrivate True, PkValue data,
         PkLabel (resource_desc_fmt d)] s of
       Some s' \<Rightarrow> (Inr (), s')
     | None \<Rightarrow> (bail ''pkcs11'', s))"

definition pkcs11_ops :: "('o, 'v) pk_session \<Rightarrow> 'v storage_ops" where
  "pkcs11_ops k = \<lparr>so_read = pkcs11_read k, so_write = pkcs11_write k\<rparr>"

definition pkcs11_resource_handle :: "('o, 'v) pk_session \<Rightarrow> string \<Rightarrow> bytes \<Rightarrow> string \<Rightarrow> ('v, string, bytes) prog" where
  "pkcs11_resource_handle k tag body method_name =
     bindP (liftP (with_context ''invalid path'' (resource_desc_try_from tag))) (\<lambda>tag.
     if method_name = ''GET'' then pkcs11_read k tag
     else if method_name = ''POST'' then bindP (pkcs11_write k tag body) (\<lambda>_. retP [])
     else bailP ''Illegal HTTP method. Only supports `GET` and `POST`'')"

definition wrap_key_new :: "('o, 'v) pk_session \<Rightarrow> string \<Rightarrow> ('v, string, unit) prog" where
  "wrap_key_new k label = (\<lambda>s.
     case pk_generate_key_pair k
         [PkToken True, PkPrivate False, PkKeyType ''RSA'', PkClass ''PUBLIC_KEY'', PkModulusBits 4096, PkLabel (label @ ''-public'')]
         [PkToken True, PkPrivate True, PkKeyType ''RSA'', PkClass ''PRIVATE_KEY'', PkLabel (label @ ''-private'')] s of
       Some s' \<Rightarrow> (Inr (), s')
     | None \<Rightarrow> (bail ''unable to generate RSA wrap key pair'', s))"

text \<open>\<^verbatim>\<open>remove(0)\<close> panics when no key is found.\<close>

definition wrapkey_apply ::
  "('o, 'v) pk_session \<Rightarrow> string \<Rightarrow> string \<Rightarrow> string \<Rightarrow> ('o \<Rightarrow> bytes \<Rightarrow> 'v \<Rightarrow> bytes option) \<Rightarrow> bytes \<Rightarrow> ('v, string, bytes) prog" where
  "wrapkey_apply k label find_err apply_err f body =
     bindP (readP (pk_find_objects k [PkLabel label])) (\<lambda>keys.
     bindP (liftP (ok_or keys find_err)) (\<lambda>keys.
     bindP (liftP (case keys of [] \<Rightarrow> panic ''removal index (is 0) should be < len (is 0)'' | key # _ \<Rightarrow> Inr key)) (\<lambda>key.
     bindP (readP (f key body)) (\<lambda>r. liftP (ok_or r apply_err)))))"

definition wrapkey_wrap :: "('o, 'v) pk_session \<Rightarrow> string \<Rightarrow> bytes \<Rightarrow> ('v, string, bytes) prog" where
  "wrapkey_wrap k wrapkey_id body =
     wrapkey_apply k (wrapkey_id @ ''-public'') ''unable to find public wrap key in PKCS11 module''
       ''unable to encrypt HTTP body with public wrap key'' (pk_encrypt k) body"

definition wrapkey_unwrap :: "('o, 'v) pk_session \<Rightarrow> string \<Rightarrow> bytes \<Rightarrow> ('v, string, bytes) prog" where
  "wrapkey_unwrap k wrapkey_id body =
     wrapkey_apply k (wrapkey_id @ ''-private'') ''unable to find private wrap key in PKCS11 module''
       ''unable to decrypt HTTP body with private wrap key'' (pk_decrypt k) body"

definition wrap_key_handle :: "('o, 'v) pk_session \<Rightarrow> string \<Rightarrow> bytes \<Rightarrow> string \<Rightarrow> ('v, string, bytes) prog" where
  "wrap_key_handle k wrapkey_id body method_name =
     (if method_name = ''POST'' then wrapkey_wrap k wrapkey_id body
      else if method_name = ''GET'' then wrapkey_unwrap k wrapkey_id body
      else bailP ''invalid method'')"

definition split_once :: "char \<Rightarrow> string \<Rightarrow> (string \<times> string) option" where
  "split_once c s = (if c \<in> set s then Some (takeWhile (\<lambda>x. x \<noteq> c) s, tl (dropWhile (\<lambda>x. x \<noteq> c) s)) else None)"

definition pkcs11_handle :: "('o, 'v) pk_session \<Rightarrow> string \<Rightarrow> bytes \<Rightarrow> string \<Rightarrow> string \<Rightarrow> string \<Rightarrow> ('v, string, bytes) prog" where
  "pkcs11_handle k wrapkey_id body query path method_name =
     bindP (liftP (ok_or (strip_prefix (CHR ''/'') path) (''accessed path is illegal, should start with '/'' @ [CHR 0x27]))) (\<lambda>desc.
     if desc = ''wrap-key'' then wrap_key_handle k wrapkey_id body method_name
     else
       bindP (liftP (ok_or (split_once (CHR ''/'') desc) ''accessed path is invalid'')) (\<lambda>(action, params).
       if action = ''resource'' then pkcs11_resource_handle k params body method_name
       else bailP ''invalid path''))"

definition pkcs11_validate_auth :: "bytes \<Rightarrow> string \<Rightarrow> string \<Rightarrow> string \<Rightarrow> bool anyhow" where
  "pkcs11_validate_auth body query path method_name =
     (if method_name = ''GET'' then Inr False else if method_name = ''POST'' then Inr True else bail ''invalid method'')"

definition pkcs11_encrypted :: "bytes \<Rightarrow> string \<Rightarrow> string \<Rightarrow> string \<Rightarrow> bool anyhow" where
  "pkcs11_encrypted body query path method_name = Inr True"

text \<open>\<open>slots\<close> and \<open>open_session\<close> are the calls of the module that was opened: \<open>None\<close> is an error, and an error of its initialisation
  panics. \<open>uuid\<close> is the fresh id of the wrapping key.\<close>

definition pkcs11_try_from ::
  "('m option) \<Rightarrow> ('m \<Rightarrow> bool) \<Rightarrow> ('m \<Rightarrow> 'sl list option) \<Rightarrow> ('sl \<Rightarrow> ('o, 'v) pk_session option) \<Rightarrow> (('o, 'v) pk_session \<Rightarrow> string \<Rightarrow> bool) \<Rightarrow>
     byte \<Rightarrow> string \<Rightarrow> string \<Rightarrow> ('v, string, ('o, 'v) pk_session \<times> string) prog" where
  "pkcs11_try_from module_new initialize slots open_session login slot_index pin uuid =
     bindP (liftP (ok_or module_new ''unable to open pkcs11 module'')) (\<lambda>pkcs11.
     bindP (liftP (if initialize pkcs11 then Inr () else panic ''unwrap'')) (\<lambda>_.
     bindP (liftP (ok_or (slots pkcs11) ''pkcs11'')) (\<lambda>slots.
     bindP (liftP (ensure (\<not> unat slot_index \<ge> length slots) ''Slot index out of range'')) (\<lambda>_.
     bindP (liftP (ok_or (open_session (slots ! unat slot_index)) ''pkcs11'')) (\<lambda>session.
     bindP (liftP (ensure (login session pin) ''pkcs11'')) (\<lambda>_.
     bindP (wrap_key_new session uuid) (\<lambda>_.
       retP (session, uuid))))))))"

subsection \<open>Vault is a backend for UTF-8\<close>

text \<open>A server that answers, as the invariant \<open>up\<close> of its state says, stores what it is given, under one path only.\<close>

definition vault_serves :: "'v vault_client \<Rightarrow> string \<Rightarrow> ('v \<Rightarrow> bool) \<Rightarrow> bool" where
  "vault_serves client mount_path up \<longleftrightarrow>
     (\<forall>p m s. up s \<longrightarrow> (\<exists>s'. vk_set client mount_path p m s = Some s' \<and> up s' \<and> vk_get client mount_path p s' = Inr m \<and>
        (\<forall>q. q \<noteq> p \<longrightarrow> vk_get client mount_path q s' = vk_get client mount_path q s)))"

definition is_utf8 :: "bytes \<Rightarrow> bool" where
  "is_utf8 b \<longleftrightarrow> from_utf8 b \<noteq> None"

lemma vault_path_fmt: "vault_path d = resource_desc_fmt d"
  by (simp only: vault_path_def resource_desc_fmt_def)

lemma vault_path_inj:
  assumes "desc_ok d" and "desc_ok e" and "vault_path d = vault_path e"
  shows "d = e"
proof -
  have "Inr d = resource_desc_try_from (vault_path d)" unfolding vault_path_fmt by (rule resource_desc_try_from_fmt [OF assms(1), symmetric])
  also have "\<dots> = Inr e" unfolding assms(3) unfolding vault_path_fmt by (rule resource_desc_try_from_fmt [OF assms(2)])
  finally show ?thesis by (rule sum.inject(2) [THEN iffD1])
qed

lemma vault_read_pure: "snd (vault_read client mount_path d s) = s"
  by (simp add: vault_read_def prog_simps split: sum.splits)

lemma vault_read_cong:
  "vk_get client mount_path (vault_path d) s' = vk_get client mount_path (vault_path d) s \<Longrightarrow>
     fst (vault_read client mount_path d s') = fst (vault_read client mount_path d s)"
  by (simp add: vault_read_def prog_simps split: sum.splits)

lemma vault_write_refused: "\<not> is_utf8 b \<Longrightarrow> vault_write client mount_path d b s = (bail ''Failed to convert data to UTF-8 string'', s)"
  by (simp add: is_utf8_def vault_write_def prog_simps)

lemma vault_write_stored:
  assumes "vault_serves client mount_path up" and "up s" and "is_utf8 b"
  obtains t s' where "from_utf8 b = Some t" "vault_write client mount_path d b s = (Inr (), s')" "up s'"
    "vk_get client mount_path (vault_path d) s' = Inr [''data'' \<mapsto> t]"
    "\<forall>q. q \<noteq> vault_path d \<longrightarrow> vk_get client mount_path q s' = vk_get client mount_path q s"
proof -
  from assms(3) obtain t where t: "from_utf8 b = Some t" by (auto simp: is_utf8_def)
  from assms(1) [unfolded vault_serves_def, rule_format, OF assms(2), of "vault_path d" "[''data'' \<mapsto> t]"]
  obtain s' where s': "vk_set client mount_path (vault_path d) [''data'' \<mapsto> t] s = Some s'" "up s'"
    "vk_get client mount_path (vault_path d) s' = Inr [''data'' \<mapsto> t]"
    "\<forall>q. q \<noteq> vault_path d \<longrightarrow> vk_get client mount_path q s' = vk_get client mount_path q s" by blast
  have "vault_write client mount_path d b s = (Inr (), s')" by (simp add: vault_write_def prog_simps t s'(1))
  from that [OF t this s'(2-4)] show thesis .
qed

lemma vault_backend:
  assumes serves: "vault_serves client mount_path up"
  shows "partial_backend (vault_ops client mount_path) up is_utf8"
proof (unfold_locales, unfold vault_ops_def storage_ops.simps)
  show "snd (vault_read client mount_path d s) = s" for d s by (rule vault_read_pure)
  show "fst (vault_write client mount_path d b s) = Inr ()" if "up s" "is_utf8 b" for d b s
    by (rule vault_write_stored [OF serves that, of d]) simp
  show "up (snd (vault_write client mount_path d b s))" if "up s" for d b s
  proof (cases "is_utf8 b")
    case True
    then show ?thesis by (rule vault_write_stored [OF serves that, of b d]) simp
  next
    case False
    then show ?thesis using that by (simp add: vault_write_refused)
  qed
  show "fst (vault_read client mount_path e (snd (vault_write client mount_path d b s))) =
      (if e = d \<and> is_utf8 b then Inr b else fst (vault_read client mount_path e s))" if hyps: "up s" "desc_ok d" "desc_ok e" for d e b s
  proof (cases "is_utf8 b")
    case False
    then show ?thesis by (simp add: vault_write_refused)
  next
    case True
    obtain t s' where s': "from_utf8 b = Some t" "vault_write client mount_path d b s = (Inr (), s')" "up s'"
      "vk_get client mount_path (vault_path d) s' = Inr [''data'' \<mapsto> t]"
      "\<forall>q. q \<noteq> vault_path d \<longrightarrow> vk_get client mount_path q s' = vk_get client mount_path q s"
      using vault_write_stored [OF serves hyps(1) True, of d] by blast
    show ?thesis
    proof (cases "e = d")
      case e: True
      have "fst (vault_read client mount_path d s') = Inr b"
        using s'(4) from_utf8_as_bytes [OF s'(1)] by (simp add: vault_read_def prog_simps)
      with e True s'(2) show ?thesis by simp
    next
      case False
      then have "vault_path e \<noteq> vault_path d" using vault_path_inj [OF hyps(3,2)] by blast
      with False s'(2) show ?thesis by (simp add: vault_read_cong [OF s'(5) [rule_format]])
    qed
  qed
qed

subsection \<open>Tokens\<close>

text \<open>A token that keeps its objects when one is created and lists them in the order of their creation.\<close>

definition lists_in_order :: "('o, 'v) pk_session \<Rightarrow> bool" where
  "lists_in_order k \<longleftrightarrow>
     (\<forall>attrs l s s' obs. pk_create_object k attrs s = Some s' \<and> pk_find_objects k [PkLabel l] s = Some obs \<longrightarrow>
        (\<exists>new. pk_find_objects k [PkLabel l] s' = Some (obs @ new)) \<and>
        (\<forall>ob \<in> set obs. pk_value_info k ob s' = pk_value_info k ob s \<and> pk_get_attributes k ob s' = pk_get_attributes k ob s))"

lemma pkcs11_read_Inr:
  "pkcs11_read k d s = (Inr b, s') \<longleftrightarrow> s' = s \<and>
     (\<exists>ob obs vs. pk_find_objects k [PkLabel (resource_desc_fmt d)] s = Some (ob # obs) \<and> pk_value_info k ob s = Some True \<and>
        pk_get_attributes k ob s = Some (PkValue b # vs))"
  by (auto simp: pkcs11_read_def prog_simps result_simps split: list.splits pk_attribute.splits option.splits sum.splits)

interpretation pkcs11: readable_backend "pkcs11_ops k" for k
  by unfold_locales (simp add: pkcs11_ops_def pkcs11_read_def prog_simps split: sum.splits list.splits)

interpretation vault: readable_backend "vault_ops client mount_path" for client mount_path
  by unfold_locales (simp add: vault_ops_def vault_read_pure)

interpretation aliyun: readable_backend "aliyun_ops get_secret" for get_secret
  by unfold_locales (simp add: aliyun_ops_def aliyun_read_def prog_simps split: sum.splits)

lemma pkcs11_write_keeps:
  assumes "lists_in_order k" and "fst (pkcs11_read k d s) = Inr old"
  shows "fst (pkcs11_read k d (snd (pkcs11_write k e b s))) = Inr old"
proof (cases "fst (pkcs11_write k e b s)")
  case (Inl x)
  then show ?thesis using assms(2) by (auto simp: pkcs11_write_def split: option.splits)
next
  case (Inr u)
  let ?s = "snd (pkcs11_write k e b s)"
  from assms(2) have "pkcs11_read k d s = (Inr old, s)" using pkcs11.read_pure [of k d s] by (simp add: pkcs11_ops_def prod_eq_iff)
  then obtain ob obs vs where r: "pk_find_objects k [PkLabel (resource_desc_fmt d)] s = Some (ob # obs)" "pk_value_info k ob s = Some True"
    "pk_get_attributes k ob s = Some (PkValue old # vs)" by (auto simp: pkcs11_read_Inr)
  from Inr obtain attrs where "pk_create_object k attrs s = Some ?s" by (auto simp: pkcs11_write_def split: option.splits)
  with assms(1) r(1) obtain more where "pk_find_objects k [PkLabel (resource_desc_fmt d)] ?s = Some ((ob # obs) @ more)"
    "pk_value_info k ob ?s = pk_value_info k ob s" "pk_get_attributes k ob ?s = pk_get_attributes k ob s"
    unfolding lists_in_order_def by (metis list.set_intros(1))
  with r have "pkcs11_read k d ?s = (Inr old, ?s)" by (auto simp: pkcs11_read_Inr)
  then show ?thesis by simp
qed

subsection \<open>Properties\<close>

text \<open>C19. On a Vault server that answers and stores what it is given, the resource plugin refines a map from descriptors to contents that takes
  only UTF-8: after any sequence of requests, reading a resource returns the last content of it that was posted and is valid UTF-8;
  posting other content is an error and changes nothing.\<close>

theorem vault_get_returns_last_post:
  assumes "vault_serves client mount_path up" and "up (st_backend s)" and "desc_ok d"
    and "posts (filter (\<lambda>rq. is_utf8 (snd (snd rq))) rs) (contents (vault_ops client mount_path) s) d = Some b"
  shows "fst (resource_handle (vault_ops client mount_path) body q (CHR ''/'' # resource_desc_fmt d) ''GET''
    (run_requests (vault_ops client mount_path) rs s)) = Inr b \<and>
    (\<not> is_utf8 c \<longrightarrow> (\<exists>e. fst (resource_handle (vault_ops client mount_path) c q (CHR ''/'' # resource_desc_fmt d) ''POST'' s) = Inl (Err e)))"
proof
  show "fst (resource_handle (vault_ops client mount_path) body q (CHR ''/'' # resource_desc_fmt d) ''GET''
      (run_requests (vault_ops client mount_path) rs s)) = Inr b"
    using partial_backend.run_requests_contents [OF vault_backend [OF assms(1)] assms(2,3), of rs] assms(4)
    by (simp add: vault.get_result [OF assms(3)] contents_def split: sum.splits)
  show "\<not> is_utf8 c \<longrightarrow> (\<exists>e. fst (resource_handle (vault_ops client mount_path) c q (CHR ''/'' # resource_desc_fmt d) ''POST'' s) = Inl (Err e))"
    using resource_desc_try_from_fmt [OF assms(3)]
    by (auto simp: is_utf8_def resource_handle_def strip_prefix_def set_secret_resource_def vault_ops_def vault_write_def
        prog_simps result_simps bail_def backendP_def zoomP_def)
qed

definition sample_vault :: "(string \<rightharpoonup> (string \<rightharpoonup> string)) vault_client" where
  "sample_vault = \<lparr>vk_get = (\<lambda>_ p s. case s p of Some m \<Rightarrow> Inr m | None \<Rightarrow> Inl ''status code 404''), vk_set = (\<lambda>_ p m s. Some (s(p \<mapsto> m)))\<rparr>"

lemma sample_vault_serves: "vault_serves sample_vault mp (\<lambda>_. True)"
  by (simp add: vault_serves_def sample_vault_def)

theorem vault_get_returns_last_post_witness:
  "fst (resource_handle (vault_ops sample_vault ''secret'') [] '''' ''/a/b/c'' ''GET''
     (run_requests (vault_ops sample_vault ''secret'') [(''POST'', ''/a/b/c'', [65]), (''POST'', ''/a/b/c'', [255])]
       \<lparr>st_backend = Map.empty, resource_reads_total = (\<lambda>_. 0), resource_writes_total = (\<lambda>_. 0)\<rparr>)) = Inr [65]"
proof -
  let ?d = "\<lparr>repository_name = ''a'', resource_type = ''b'', resource_tag = ''c''\<rparr>"
  have d: "desc_ok ?d" by (simp add: desc_ok_def segment_ok_def word_char_def)
  have u: "is_utf8 [65]" "\<not> is_utf8 [255]" unfolding is_utf8_def by code_simp+
  have t: "resource_desc_try_from ''a/b/c'' = Inr ?d" using resource_desc_try_from_fmt [OF d] by (simp add: resource_desc_fmt_def)
  have p: "posts (filter (\<lambda>rq. is_utf8 (snd (snd rq))) [(''POST'', ''/a/b/c'', [65]), (''POST'', ''/a/b/c'', [255])]) m ?d = Some [65]" for m
    by (simp add: u post_of_def strip_prefix_def t)
  have path: "CHR ''/'' # resource_desc_fmt ?d = ''/a/b/c''" by (simp add: resource_desc_fmt_def)
  show ?thesis
    by (rule vault_get_returns_last_post [where up = "\<lambda>_. True" and d = ?d, unfolded path, OF sample_vault_serves TrueI d p, THEN conjunct1])
qed


text \<open>A token is the list of its objects; a handle is a position in it.\<close>

definition sample_token :: "(nat, pk_attribute list list) pk_session" where
  "sample_token = \<lparr>pk_find_objects = (\<lambda>as t. Some (filter (\<lambda>i. set as \<subseteq> set (t ! i)) [0..<length t])),
     pk_value_info = (\<lambda>i t. Some (i < length t)), pk_get_attributes = (\<lambda>i t. if i < length t then Some (drop 4 (t ! i)) else None),
     pk_create_object = (\<lambda>as t. Some (t @ [as])), pk_generate_key_pair = (\<lambda>_ _ _. None), pk_encrypt = (\<lambda>_ _ _. None), pk_decrypt = (\<lambda>_ _ _. None)\<rparr>"

lemma filter_nth_snoc: "filter (\<lambda>i. P ((t @ [x]) ! i)) [0..<Suc (length t)] = filter (\<lambda>i. P (t ! i)) [0..<length t] @ (if P x then [length t] else [])"
proof -
  have "filter (\<lambda>i. P ((t @ [x]) ! i)) [0..<length t] = filter (\<lambda>i. P (t ! i)) [0..<length t]"
    by (rule filter_cong) (auto simp: nth_append)
  then show ?thesis by simp
qed

lemma sample_token_order: "lists_in_order sample_token"
  unfolding lists_in_order_def
proof (intro allI impI, elim conjE, intro conjI ballI)
  fix as l and t t' :: "pk_attribute list list" and obs ob
  assume "pk_create_object sample_token as t = Some t'" and f: "pk_find_objects sample_token [PkLabel l] t = Some obs"
  then have t': "t' = t @ [as]" by (simp add: sample_token_def)
  show "\<exists>new. pk_find_objects sample_token [PkLabel l] t' = Some (obs @ new)"
    using f filter_nth_snoc [of "\<lambda>a. set [PkLabel l] \<subseteq> set a" t as] unfolding t' by (simp add: sample_token_def del: upt_Suc)
  assume "ob \<in> set obs"
  then have "ob < length t" using f by (auto simp: sample_token_def)
  then show "pk_value_info sample_token ob t' = pk_value_info sample_token ob t" "pk_get_attributes sample_token ob t' = pk_get_attributes sample_token ob t"
    by (simp_all add: t' sample_token_def nth_append)
qed


end
