(* ===== verification/Kbs_Policy.thy ===== *)
theory Kbs_Policy
  imports File_System
begin

text \<open>
  The resource policy engine of the key broker (\<^verbatim>\<open>kbs/src/policy_engine/\<close>): one Rego policy in a file,
  evaluated on the path of the request and the claims of the token. The Rego engine and the base64
  decoder are functions of a record; the laws name what the lemmas use of them.
\<close>

datatype kbs_policy_error =
    EvaluationError | DataLoadError | ResourcePathError | IOError | DecodeError | InputError
  | PolicyLoadError | IllegalSetPolicyRequest string | InvalidPolicy

type_synonym 'a policy_result = "(kbs_policy_error, 'a) result"

text \<open>\<open>rg_add_policy\<close> is whether the engine accepts a policy text; \<open>rg_eval_bool\<close> is the value of a query
  for a policy, the data and the input.\<close>

record rego_crates =
  rg_add_policy :: "string \<Rightarrow> bool"
  rg_value_from_json_str :: "string \<Rightarrow> json option"
  rg_add_data :: "string \<Rightarrow> json \<Rightarrow> bool"
  rg_set_input_json :: "string \<Rightarrow> json option"
  rg_eval_bool :: "string \<Rightarrow> json \<Rightarrow> json \<Rightarrow> string \<Rightarrow> bool option"
  b64url_decode :: "string \<Rightarrow> bytes option"
  b64url_encode :: "bytes \<Rightarrow> string"
  value_from_slice :: "bytes \<Rightarrow> json option"
  value_pointer :: "json \<Rightarrow> string \<Rightarrow> json option"

subsection \<open>Opa\<close>

definition io :: "(fs, string, 'a) prog \<Rightarrow> (fs, kbs_policy_error, 'a) prog" where
  "io = map_errP (\<lambda>_. IOError)"

definition opa_new :: "string \<Rightarrow> string \<Rightarrow> (fs, kbs_policy_error, string) prog" where
  "opa_new default_policy policy_path =
     bindP (liftP (case path_parent policy_path of None \<Rightarrow> panic ''called `Option::unwrap()` on a `None` value''
                   | Some p \<Rightarrow> Inr p)) (\<lambda>parent.
     bindP (io (create_dir_allF '''' parent)) (\<lambda>_.
     bindP (readP (\<lambda>f. fs_exists f policy_path)) (\<lambda>ex.
     bindP (if \<not> ex then io (writeF '''' policy_path (as_bytes default_policy)) else retP ()) (\<lambda>_.
       retP policy_path))))"

definition resource_path_text :: "string \<Rightarrow> string" where
  "resource_path_text p = [CHR ''{'', CHR 0x22] @ ''resource-path'' @ [CHR 0x22, CHR '':'', CHR 0x22] @ p @ [CHR 0x22, CHR ''}'']"

definition opa_evaluate :: "rego_crates \<Rightarrow> string \<Rightarrow> string \<Rightarrow> string \<Rightarrow> fs \<Rightarrow> bool policy_result" where
  "opa_evaluate rg policy_path resource_path input_claims f =
     and_then (ok_or (case fs_read f policy_path of None \<Rightarrow> None
                      | Some b \<Rightarrow> (case from_utf8 b of None \<Rightarrow> None
                          | Some p \<Rightarrow> if rg_add_policy rg p then Some p else None)) PolicyLoadError) (\<lambda>policy.
     and_then (ok_or (rg_value_from_json_str rg (resource_path_text resource_path)) ResourcePathError)
       (\<lambda>resource_path_object.
     if \<not> rg_add_data rg policy resource_path_object then bail DataLoadError
     else
       and_then (ok_or (rg_set_input_json rg input_claims) InputError) (\<lambda>inp.
         ok_or (rg_eval_bool rg policy resource_path_object inp ''data.policy.allow'') EvaluationError)))"

definition opa_set_policy :: "rego_crates \<Rightarrow> string \<Rightarrow> string \<Rightarrow> (fs, kbs_policy_error, unit) prog" where
  "opa_set_policy rg policy_path policy =
     bindP (liftP (ok_or (b64url_decode rg policy) DecodeError)) (\<lambda>policy_bytes.
     bindP (liftP (ok_or (from_utf8 policy_bytes) InvalidPolicy)) (\<lambda>policy_content.
     if \<not> rg_add_policy rg policy_content then bailP InvalidPolicy
     else io (writeF '''' policy_path policy_bytes)))"

definition opa_get_policy :: "rego_crates \<Rightarrow> string \<Rightarrow> fs \<Rightarrow> string policy_result" where
  "opa_get_policy rg policy_path f =
     and_then (ok_or (fs_read f policy_path) IOError) (\<lambda>policy. Inr (b64url_encode rg policy))"

subsection \<open>The engine\<close>

definition policy_engine_new :: "string \<Rightarrow> string \<Rightarrow> (fs, kbs_policy_error, string) prog" where
  "policy_engine_new default_policy policy_path = opa_new default_policy policy_path"

definition policy_engine_evaluate ::
  "rego_crates \<Rightarrow> string \<Rightarrow> string \<Rightarrow> string \<Rightarrow> fs \<Rightarrow> bool policy_result" where
  "policy_engine_evaluate rg path request_path input_claims f = opa_evaluate rg path request_path input_claims f"

definition policy_engine_set_policy :: "rego_crates \<Rightarrow> string \<Rightarrow> bytes \<Rightarrow> (fs, kbs_policy_error, unit) prog" where
  "policy_engine_set_policy rg path request =
     bindP (liftP (ok_or (value_from_slice rg request)
              (IllegalSetPolicyRequest ''Illegal SetPolicy Request Json''))) (\<lambda>request.
     bindP (liftP (ok_or (value_pointer rg request ''/policy'')
              (IllegalSetPolicyRequest ''No `policy` field inside SetPolicy Request Json''))) (\<lambda>policy.
     bindP (liftP (ok_or (as_str policy)
              (IllegalSetPolicyRequest ''`policy` field is not a string in SetPolicy Request Json''))) (\<lambda>policy.
       opa_set_policy rg path policy)))"

definition policy_engine_get_policy :: "rego_crates \<Rightarrow> string \<Rightarrow> fs \<Rightarrow> string policy_result" where
  "policy_engine_get_policy rg path f = opa_get_policy rg path f"

subsection \<open>Lemmas\<close>

text \<open>The base64 engine is strict: a text has one decoding and a decoding one text.\<close>

definition b64_strict :: "rego_crates \<Rightarrow> bool" where
  "b64_strict rg \<longleftrightarrow> (\<forall>p b. b64url_decode rg p = Some b \<longrightarrow> b64url_encode rg b = p)"

lemma opa_set_policy_cases:
  assumes "opa_set_policy rg path policy f = (res, f')"
  obtains
    (stored) b p where "res = Inr ()" and "b64url_decode rg policy = Some b" and "from_utf8 b = Some p"
      and "rg_add_policy rg p" and "fs_write f path b = Some f'"
  | (refused) e where "res = bail e" and "f' = f"
proof (cases "b64url_decode rg policy")
  case None
  with assms show ?thesis by (intro refused) (auto simp: opa_set_policy_def prog_simps)
next
  case b: (Some b)
  show ?thesis
  proof (cases "from_utf8 b")
    case None
    with b assms show ?thesis by (intro refused) (auto simp: opa_set_policy_def prog_simps)
  next
    case p: (Some p)
    show ?thesis
    proof (cases "rg_add_policy rg p")
      case False
      with b p assms show ?thesis by (intro refused) (auto simp: opa_set_policy_def prog_simps)
    next
      case True
      show ?thesis
      proof (cases "fs_write f path b")
        case None
        with b p True assms show ?thesis
          by (intro refused) (auto simp: opa_set_policy_def prog_simps io_def map_errP_def writeF_def)
      next
        case (Some g)
        with b p True assms show ?thesis
          by (intro stored) (auto simp: opa_set_policy_def prog_simps io_def map_errP_def writeF_def)
      qed
    qed
  qed
qed

subsection \<open>Properties\<close>

definition sample_rego :: rego_crates where
  "sample_rego = \<lparr>rg_add_policy = (\<lambda>p. p \<noteq> ''''), rg_value_from_json_str = (\<lambda>_. Some JNull),
     rg_add_data = (\<lambda>_ _. True), rg_set_input_json = (\<lambda>s. Some (JString s)),
     rg_eval_bool = (\<lambda>p d i q. Some (p = ''allow'')), b64url_decode = (\<lambda>s. Some (as_bytes s)),
     b64url_encode = string_of_bytes, value_from_slice = (\<lambda>b. Some (JString (string_of_bytes b))),
     value_pointer = (\<lambda>j _. Some j)\<rparr>"

lemma sample_rego_strict: "b64_strict sample_rego"
  by (auto simp: b64_strict_def sample_rego_def)



end
