(* ===== verification/Kbs_Token.thy ===== *)
theory Kbs_Token
  imports Effects
begin

text \<open>
  Who may call the key broker: the admin interface (\<^verbatim>\<open>kbs/src/admin/mod.rs\<close>) and attestation tokens
  (\<^verbatim>\<open>kbs/src/token/\<close>). A token is accepted under a key that a trusted certificate endorses or that is
  in a trusted key set; certificates, keys and signatures are handled by libraries and appear here
  as functions of a record.
\<close>

subsection \<open>Errors\<close>

datatype token_error =
    TokenVerificationFailed | TokenVerifierInitialization | TeePubKeyParseFailed | NoTeePubKeyClaimFound

datatype admin_error = JwtVerificationFailed | NoPublicKeyGiven | ParsePublicKey | ReadPublicKey | ParseAuthHeaderFailed

subsection \<open>Keys\<close>

type_synonym x509 = bytes
type_synonym pkey = bytes

datatype elliptic_curve = P256 | OtherCurve

datatype algorithm_parameters = RSA_params string string | EC_params elliptic_curve string string | Other_params

record jwk =
  jwk_key_algorithm :: "string option"
  jwk_kid :: "string option"
  jwk_x509_chain :: "string list option"
  jwk_algorithm :: algorithm_parameters

record jwt_header =
  hd_jwk :: "jwk option"
  hd_kid :: "string option"

datatype tee_pub_key =
    TeeRSA (tk_alg: string) (k_mod: string) (k_exp: string)
  | TeeEC (tk_crv: string) (tk_alg: string) (tk_x: string) (tk_y: string)

record url =
  u_text :: string
  u_scheme :: string
  u_path :: string

record token_crates =
  tc_decode_header :: "string \<Rightarrow> jwt_header option"
  tc_algorithm_from_str :: "string \<Rightarrow> string option"
  tc_decode :: "string \<Rightarrow> jwk \<Rightarrow> string \<Rightarrow> json option"
  tc_decoding_key_ok :: "jwk \<Rightarrow> bool"
  tc_jwkset_find :: "jwk list \<Rightarrow> string \<Rightarrow> jwk option"
  tc_b64url_decode :: "string \<Rightarrow> bytes option"
  tc_rsa_key :: "bytes \<Rightarrow> bytes \<Rightarrow> pkey option"
  tc_p256_key :: "bytes \<Rightarrow> bytes \<Rightarrow> pkey option"
  tc_x509_from_der :: "bytes \<Rightarrow> x509 option"
  tc_x509_from_pem :: "bytes \<Rightarrow> x509 option"
  tc_x509_public_key :: "x509 \<Rightarrow> pkey option"
  tc_verify_cert :: "x509 list \<Rightarrow> x509 \<Rightarrow> x509 list \<Rightarrow> bool option"
  tc_url_parse :: "string \<Rightarrow> url option"
  tc_url_set_path :: "url \<Rightarrow> string \<Rightarrow> url"
  tc_http_get :: "string \<Rightarrow> bytes option"
  tc_openid_from_json :: "bytes \<Rightarrow> string option"
  tc_jwkset_from_json :: "bytes \<Rightarrow> jwk list option"
  tc_read_file :: "string \<Rightarrow> bytes option"
  tc_value_pointer :: "json \<Rightarrow> string \<Rightarrow> json option"
  tc_tee_pub_key :: "json \<Rightarrow> tee_pub_key option"
  tc_admin_verify :: "pkey \<Rightarrow> string \<Rightarrow> bool"
  tc_admin_key_from_pem :: "string \<Rightarrow> pkey option"

subsection \<open>Token verification\<close>

record jwk_verifier =
  trusted_jwk_sets :: "jwk list"
  trusted_certs :: "x509 list"
  insecure_key :: bool

record token_config =
  cfg_extra_teekey_paths :: "string list"
  cfg_trusted_certs_paths :: "string list"
  cfg_trusted_jwk_sets :: "string list"
  cfg_insecure_key :: bool

record token_verifier =
  tv_verifier :: jwk_verifier
  extra_teekey_paths :: "string list"

datatype jwks_get_error = InvalidSourcePath | AccessFailed | DeserializeSource

definition get_jwks_from_file_or_url :: "token_crates \<Rightarrow> string \<Rightarrow> (jwks_get_error, jwk list) result" where
  "get_jwks_from_file_or_url t p =
     and_then (ok_or (tc_url_parse t p) InvalidSourcePath) (\<lambda>url.
     if u_scheme url = ''https'' then
       let url = tc_url_set_path t url ''.well-known/openid-configuration'' in
       and_then (ok_or (tc_http_get t (u_text url)) AccessFailed) (\<lambda>body.
       and_then (ok_or (tc_openid_from_json t body) DeserializeSource) (\<lambda>jwks_uri.
       and_then (ok_or (tc_http_get t jwks_uri) AccessFailed) (\<lambda>body.
         ok_or (tc_jwkset_from_json t body) DeserializeSource)))
     else if u_scheme url = ''file'' then
       and_then (ok_or (tc_read_file t (u_path url)) AccessFailed) (\<lambda>content.
         ok_or (tc_jwkset_from_json t content) DeserializeSource)
     else bail InvalidSourcePath)"

fun collect_jwks :: "token_crates \<Rightarrow> string list \<Rightarrow> jwk list anyhow" where
  "collect_jwks t [] = Inr []"
| "collect_jwks t (p # ps) =
     and_then (map_err (\<lambda>_. ''error getting JWKS'') (get_jwks_from_file_or_url t p)) (\<lambda>ks.
     and_then (collect_jwks t ps) (\<lambda>rest. Inr (ks @ rest)))"

fun collect_certs :: "token_crates \<Rightarrow> string list \<Rightarrow> x509 list anyhow" where
  "collect_certs t [] = Inr []"
| "collect_certs t (p # ps) =
     and_then (ok_or (tc_read_file t p) ''failed to read certificate'') (\<lambda>content.
     and_then (ok_or (tc_x509_from_pem t content) ''parse certificate'') (\<lambda>cert.
     and_then (collect_certs t ps) (\<lambda>rest. Inr (cert # rest))))"

definition jwk_verifier_new :: "token_crates \<Rightarrow> token_config \<Rightarrow> jwk_verifier anyhow" where
  "jwk_verifier_new t cfg =
     and_then (collect_jwks t (cfg_trusted_jwk_sets cfg)) (\<lambda>ks.
     and_then (collect_certs t (cfg_trusted_certs_paths cfg)) (\<lambda>certs.
       Inr \<lparr>trusted_jwk_sets = ks, trusted_certs = certs, insecure_key = cfg_insecure_key cfg\<rparr>))"

definition jwk_public_key :: "token_crates \<Rightarrow> algorithm_parameters \<Rightarrow> pkey anyhow" where
  "jwk_public_key t a =
     (case a of
        RSA_params n e \<Rightarrow>
          and_then (ok_or (tc_b64url_decode t n) ''decode RSA public key parameter n'') (\<lambda>n.
          and_then (ok_or (tc_b64url_decode t e) ''decode RSA public key parameter e'') (\<lambda>e.
            ok_or (tc_rsa_key t n e) ''RSA key''))
      | EC_params crv x y \<Rightarrow>
          and_then (ok_or (tc_b64url_decode t x) ''decode x'') (\<lambda>x.
          and_then (ok_or (tc_b64url_decode t y) ''decode y'') (\<lambda>y.
            if crv = P256 then ok_or (tc_p256_key t x y) ''EC key'' else bail ''Unsupported elliptic curve''))
      | Other_params \<Rightarrow> bail ''Only RSA or EC JWKs are supported.'')"

definition cert_of_x5c :: "token_crates \<Rightarrow> string \<Rightarrow> x509 anyhow" where
  "cert_of_x5c t s =
     and_then (ok_or (tc_b64url_decode t (filter (\<lambda>ch. ch \<noteq> CHR 0x0A) s)) ''Illegal x5c cert'') (\<lambda>der.
       ok_or (tc_x509_from_der t der) ''Invalid x509 in x5c'')"

fun certs_of_x5c :: "token_crates \<Rightarrow> string list \<Rightarrow> x509 list anyhow" where
  "certs_of_x5c t [] = Inr []"
| "certs_of_x5c t (c # cs) =
     and_then (cert_of_x5c t c) (\<lambda>cert. and_then (certs_of_x5c t cs) (\<lambda>rest. Inr (cert # rest)))"

definition verify_jwk_endorsement :: "token_crates \<Rightarrow> jwk_verifier \<Rightarrow> jwk \<Rightarrow> unit anyhow" where
  "verify_jwk_endorsement t v key =
     and_then (jwk_public_key t (jwk_algorithm key)) (\<lambda>public_key.
     and_then (ok_or (jwk_x509_chain key) ''No x5c extension inside JWK. Invalid public key.'') (\<lambda>x5c.
     (case x5c of
        [] \<Rightarrow> bail ''Empty x5c extension inside JWK. Invalid public key.''
      | first # others \<Rightarrow>
          and_then (cert_of_x5c t first) (\<lambda>leaf_cert.
          and_then (ok_or (tc_x509_public_key t leaf_cert) ''public key'') (\<lambda>leaf_key.
          if public_key \<noteq> leaf_key then bail ''jwk does not match x5c''
          else
            and_then (certs_of_x5c t others) (\<lambda>cert_chain.
            and_then (ok_or (tc_verify_cert t (trusted_certs v) leaf_cert cert_chain) ''store context'') (\<lambda>good.
              if \<not> good then bail ''JWK cannot be validated by trust anchor'' else Inr ())))))))"

definition get_verification_jwk :: "token_crates \<Rightarrow> jwk_verifier \<Rightarrow> jwt_header \<Rightarrow> jwk anyhow" where
  "get_verification_jwk t v header =
     (case hd_jwk header of
        Some key \<Rightarrow>
          if insecure_key v then Inr key
          else if trusted_certs v = [] then bail ''Cannot verify token since trusted cert is empty''
          else and_then (verify_jwk_endorsement t v key) (\<lambda>_. Inr key)
      | None \<Rightarrow>
          if trusted_jwk_sets v = [] then bail ''Cannot verify token since trusted JWK Set is empty''
          else and_then (ok_or (hd_kid header) ''Failed to decode kid in the token header'') (\<lambda>kid.
                 ok_or (tc_jwkset_find t (trusted_jwk_sets v) kid) ''Failed to find Jwk with kid in JwkSet''))"

definition jwk_verify :: "token_crates \<Rightarrow> jwk_verifier \<Rightarrow> string \<Rightarrow> json anyhow" where
  "jwk_verify t v token =
     and_then (ok_or (tc_decode_header t token) ''Failed to decode attestation token header'') (\<lambda>header.
     and_then (get_verification_jwk t v header) (\<lambda>key.
     and_then (ok_or (jwk_key_algorithm key) ''Failed to find key_algorithm in Jwk'') (\<lambda>key_alg.
     and_then (ok_or (tc_algorithm_from_str t key_alg) ''unknown algorithm'') (\<lambda>alg.
     if \<not> tc_decoding_key_ok t key then bail ''decoding key''
     else ok_or (tc_decode t token key alg) ''Failed to decode attestation token''))))"

definition builtin_teekey_paths :: "string list" where
  "builtin_teekey_paths =
     [''/tdx/attester_runtime_data/tee-pubkey'', ''/tdx/attester_user_data/tee-pubkey'',
      ''/customized_claims/runtime_data/tee-pubkey'',
      ''/submods/cpu0/ear.veraison.annotated-evidence/runtime_data_claims/tee-pubkey'', ''/tee-pubkey'']"

definition token_verifier_from_config ::
  "token_crates \<Rightarrow> token_config \<Rightarrow> (token_error, token_verifier) result" where
  "token_verifier_from_config t cfg =
     and_then (map_err (\<lambda>_. TokenVerifierInitialization) (jwk_verifier_new t cfg)) (\<lambda>v.
       Inr \<lparr>tv_verifier = v, extra_teekey_paths = cfg_extra_teekey_paths cfg @ builtin_teekey_paths\<rparr>)"

definition token_verifier_verify ::
  "token_crates \<Rightarrow> token_verifier \<Rightarrow> string \<Rightarrow> (token_error, json) result" where
  "token_verifier_verify t v token =
     map_err (\<lambda>_. TokenVerificationFailed) (jwk_verify t (tv_verifier v) token)"

fun first_pointer :: "token_crates \<Rightarrow> json \<Rightarrow> string list \<Rightarrow> json option" where
  "first_pointer t claim [] = None"
| "first_pointer t claim (p # ps) =
     (case tc_value_pointer t claim p of Some v \<Rightarrow> Some v | None \<Rightarrow> first_pointer t claim ps)"

definition extract_tee_public_key ::
  "token_crates \<Rightarrow> token_verifier \<Rightarrow> json \<Rightarrow> (token_error, tee_pub_key) result" where
  "extract_tee_public_key t v claim =
     (case first_pointer t claim (extra_teekey_paths v) of
        Some pkey_value \<Rightarrow> ok_or (tc_tee_pub_key t pkey_value) TeePubKeyParseFailed
      | None \<Rightarrow> bail NoTeePubKeyClaimFound)"

subsection \<open>Admin\<close>

record admin =
  public_key :: "pkey option"

record admin_config =
  auth_public_key :: "string option"
  insecure_api :: bool

definition admin_try_from :: "token_crates \<Rightarrow> admin_config \<Rightarrow> (admin_error, admin) result" where
  "admin_try_from t cfg =
     (if insecure_api cfg then Inr \<lparr>public_key = None\<rparr>
      else
        and_then (ok_or (auth_public_key cfg) NoPublicKeyGiven) (\<lambda>key_path.
        and_then (ok_or (tc_read_file t key_path) ReadPublicKey) (\<lambda>raw.
        and_then (ok_or (from_utf8 raw) ReadPublicKey) (\<lambda>pem.
        and_then (ok_or (tc_admin_key_from_pem t pem) ParsePublicKey) (\<lambda>key.
          Inr \<lparr>public_key = Some key\<rparr>)))))"

text \<open>\<open>bearer\<close> is the token of the \<^verbatim>\<open>Authorization\<close> header, if it parses.\<close>

definition admin_validate_auth :: "token_crates \<Rightarrow> admin \<Rightarrow> string option \<Rightarrow> (admin_error, unit) result" where
  "admin_validate_auth t a bearer =
     (case public_key a of
        None \<Rightarrow> Inr ()
      | Some key \<Rightarrow>
          and_then (ok_or bearer ParseAuthHeaderFailed) (\<lambda>token.
            if tc_admin_verify t key token then Inr () else bail JwtVerificationFailed))"

subsection \<open>Lemmas\<close>

text \<open>When a key is trusted: endorsed by a certificate chain to a trusted certificate, or in a trusted
  key set.\<close>

definition endorsed :: "token_crates \<Rightarrow> x509 list \<Rightarrow> jwk \<Rightarrow> bool" where
  "endorsed t anchors key \<longleftrightarrow>
     (\<exists>first others leaf chain k. jwk_x509_chain key = Some (first # others) \<and>
        cert_of_x5c t first = Inr leaf \<and> certs_of_x5c t others = Inr chain \<and>
        jwk_public_key t (jwk_algorithm key) = Inr k \<and> tc_x509_public_key t leaf = Some k \<and>
        tc_verify_cert t anchors leaf chain = Some True)"

lemma verify_jwk_endorsement_iff:
  "verify_jwk_endorsement t v key = Inr () \<longleftrightarrow> endorsed t (trusted_certs v) key"
proof (cases "jwk_x509_chain key")
  case None
  then show ?thesis by (auto simp: verify_jwk_endorsement_def endorsed_def result_simps)
next
  case (Some x5c)
  then show ?thesis
    by (cases x5c) (auto simp: verify_jwk_endorsement_def endorsed_def result_simps split: if_splits)
qed

definition key_trusted :: "token_crates \<Rightarrow> jwk_verifier \<Rightarrow> jwt_header \<Rightarrow> jwk \<Rightarrow> bool" where
  "key_trusted t v header key \<longleftrightarrow>
     (case hd_jwk header of
        Some k \<Rightarrow> key = k \<and> (insecure_key v \<or> trusted_certs v \<noteq> [] \<and> endorsed t (trusted_certs v) k)
      | None \<Rightarrow> \<exists>kid. hd_kid header = Some kid \<and> trusted_jwk_sets v \<noteq> [] \<and>
          tc_jwkset_find t (trusted_jwk_sets v) kid = Some key)"

lemma get_verification_jwk_iff: "get_verification_jwk t v header = Inr key \<longleftrightarrow> key_trusted t v header key"
  by (auto simp: get_verification_jwk_def key_trusted_def result_simps verify_jwk_endorsement_iff
      split: option.splits)

lemma jwk_verify_iff:
  "jwk_verify t v token = Inr claims \<longleftrightarrow>
     (\<exists>header key a alg. tc_decode_header t token = Some header \<and> key_trusted t v header key \<and>
        jwk_key_algorithm key = Some a \<and> tc_algorithm_from_str t a = Some alg \<and>
        tc_decoding_key_ok t key \<and> tc_decode t token key alg = Some claims)"
  by (auto simp: jwk_verify_def result_simps get_verification_jwk_iff split: if_splits)

lemma jwk_verify_cong:
  "tc_decode_header t token = None \<Longrightarrow> \<exists>e. jwk_verify t v token = bail e"
  by (simp add: jwk_verify_def)

subsection \<open>Properties\<close>


text \<open>The broker fails closed: a verifier that was configured with no certificate, no key set and
  without the insecure option rejects every token.\<close>

theorem unconfigured_verifier_rejects:
  assumes "token_verifier_from_config t cfg = Inr v" and "cfg_trusted_certs_paths cfg = []"
    and "cfg_trusted_jwk_sets cfg = []" and "\<not> cfg_insecure_key cfg"
  shows "token_verifier_verify t v token \<noteq> Inr claims"
proof -
  have "tv_verifier v = \<lparr>trusted_jwk_sets = [], trusted_certs = [], insecure_key = False\<rparr>"
    using assms by (auto simp: token_verifier_from_config_def jwk_verifier_new_def result_simps)
  then show ?thesis
    by (auto simp: token_verifier_verify_def jwk_verify_iff key_trusted_def split: option.splits)
qed

definition sample_token_crates :: token_crates where
  "sample_token_crates = \<lparr>tc_decode_header = (\<lambda>_. Some \<lparr>hd_jwk = None, hd_kid = Some ''k''\<rparr>),
     tc_algorithm_from_str = Some, tc_decode = (\<lambda>tok k a. Some (JString tok)), tc_decoding_key_ok = (\<lambda>_. True),
     tc_jwkset_find = (\<lambda>ks kid. find (\<lambda>k. jwk_kid k = Some kid) ks), tc_b64url_decode = (\<lambda>s. Some (as_bytes s)),
     tc_rsa_key = (\<lambda>n e. Some (n @ e)), tc_p256_key = (\<lambda>x y. Some (x @ y)), tc_x509_from_der = Some,
     tc_x509_from_pem = Some, tc_x509_public_key = Some, tc_verify_cert = (\<lambda>as l c. Some (l \<in> set as)),
     tc_url_parse = (\<lambda>s. Some \<lparr>u_text = s, u_scheme = ''file'', u_path = s\<rparr>), tc_url_set_path = (\<lambda>u p. u),
     tc_http_get = (\<lambda>_. None), tc_openid_from_json = (\<lambda>_. None), tc_jwkset_from_json = (\<lambda>_. Some []),
     tc_read_file = (\<lambda>p. Some (as_bytes p)), tc_value_pointer = (\<lambda>j _. Some j),
     tc_tee_pub_key = (\<lambda>_. Some (TeeRSA ''RSA-OAEP-256'' '''' '''')), tc_admin_verify = (\<lambda>k tok. as_bytes tok = k),
     tc_admin_key_from_pem = (\<lambda>s. Some (as_bytes s))\<rparr>"

theorem unconfigured_verifier_rejects_witness:
  "token_verifier_verify sample_token_crates
     \<lparr>tv_verifier = \<lparr>trusted_jwk_sets = [], trusted_certs = [], insecure_key = False\<rparr>,
      extra_teekey_paths = builtin_teekey_paths\<rparr> ''tok'' \<noteq> Inr JNull"
  by (rule unconfigured_verifier_rejects [of _ "\<lparr>cfg_extra_teekey_paths = [], cfg_trusted_certs_paths = [],
        cfg_trusted_jwk_sets = [], cfg_insecure_key = False\<rparr>"])
    (simp_all add: token_verifier_from_config_def jwk_verifier_new_def)

end
