(* ===== verification/Kbs_Jwe.thy ===== *)
theory Kbs_Jwe
  imports Kbs_Token
begin

text \<open>
  Encryption of a resource for the key of the TEE (\<^verbatim>\<open>kbs/src/jwe.rs\<close>). The ciphers are functions of a
  record, random values are arguments. The receiver is described by the operations that invert the
  ciphers; the lemmas show that it recovers the payload from every response the broker makes.
\<close>

record protected_header =
  ph_alg :: string
  ph_enc :: string
  ph_other_fields :: "(string \<times> json) list"

record jwe_response =
  jw_protected :: protected_header
  jw_encrypted_key :: bytes
  jw_iv :: bytes
  jw_ciphertext :: bytes
  jw_aad :: "bytes option"
  jw_tag :: bytes

datatype rsa_padding = Pkcs1v15Encrypt | OaepSha256

text \<open>\<open>jc_p256_public_key\<close> reads a point from its coordinates, \<open>jc_p256_public_of\<close> is the point of a secret,
  \<open>jc_p256_x\<close> and \<open>jc_p256_y\<close> its coordinates.\<close>

record jwe_crates =
  jc_generate_aad :: "protected_header \<Rightarrow> bytes option"
  jc_gcm_encrypt :: "bytes \<Rightarrow> bytes \<Rightarrow> bytes \<Rightarrow> bytes \<Rightarrow> (bytes \<times> bytes) option"
  jc_b64url_decode :: "string \<Rightarrow> bytes option"
  jc_b64url_encode :: "bytes \<Rightarrow> string"
  jc_biguint_from_bytes_be :: "bytes \<Rightarrow> nat"
  jc_rsa_public_key :: "nat \<Rightarrow> nat \<Rightarrow> bytes option"
  jc_rsa_encrypt :: "bytes \<Rightarrow> rsa_padding \<Rightarrow> bytes \<Rightarrow> bytes \<Rightarrow> bytes option"
  jc_p256_public_key :: "bytes \<Rightarrow> bytes \<Rightarrow> bytes option"
  jc_p256_public_of :: "bytes \<Rightarrow> bytes"
  jc_p256_x :: "bytes \<Rightarrow> bytes option"
  jc_p256_y :: "bytes \<Rightarrow> bytes option"
  jc_p256_diffie_hellman :: "bytes \<Rightarrow> bytes \<Rightarrow> bytes"
  jc_concat_kdf :: "bytes \<Rightarrow> bytes \<Rightarrow> nat \<Rightarrow> bytes option"
  jc_aes_kw_wrap :: "bytes \<Rightarrow> bytes \<Rightarrow> nat \<Rightarrow> bytes option"

record jwe_random =
  rn_key :: bytes
  rn_iv :: bytes
  rn_seed :: bytes
  rn_secret :: bytes

subsection \<open>Encryption\<close>

definition rsa_header :: "string \<Rightarrow> protected_header" where
  "rsa_header a = \<lparr>ph_alg = a, ph_enc = ''A256GCM'', ph_other_fields = []\<rparr>"

definition rsa_1v15 :: "jwe_crates \<Rightarrow> jwe_random \<Rightarrow> string \<Rightarrow> string \<Rightarrow> bytes \<Rightarrow> jwe_response anyhow" where
  "rsa_1v15 c rn m e payload_data =
     (let aes_sym_key = rn_key rn; iv = rn_iv rn; protected = rsa_header ''RSA1_5'' in
      and_then (ok_or (jc_generate_aad c protected) ''Generate JWE AAD'') (\<lambda>aad.
      and_then (ok_or (jc_gcm_encrypt c aes_sym_key iv aad payload_data)
                  ''AES encrypt Resource payload failed'') (\<lambda>(ciphertext, tag).
      and_then (ok_or (jc_b64url_decode c m) ''base64 decode k_mod failed'') (\<lambda>m.
      let n = jc_biguint_from_bytes_be c m in
      and_then (ok_or (jc_b64url_decode c e) ''base64 decode k_exp failed'') (\<lambda>e.
      let e = jc_biguint_from_bytes_be c e in
      and_then (ok_or (jc_rsa_public_key c n e) ''Building RSA key from modulus and exponent failed'')
        (\<lambda>rsa_pub_key.
      and_then (ok_or (jc_rsa_encrypt c (rn_seed rn) Pkcs1v15Encrypt rsa_pub_key aes_sym_key)
                  ''RSA encrypt sym key failed'')
        (\<lambda>encrypted_key.
        Inr \<lparr>jw_protected = protected, jw_encrypted_key = encrypted_key, jw_iv = iv,
             jw_ciphertext = ciphertext, jw_aad = None, jw_tag = tag\<rparr>)))))))"

definition rsa_oaep256 :: "jwe_crates \<Rightarrow> jwe_random \<Rightarrow> string \<Rightarrow> string \<Rightarrow> bytes \<Rightarrow> jwe_response anyhow" where
  "rsa_oaep256 c rn m e payload_data =
     (let aes_sym_key = rn_key rn; iv = rn_iv rn; protected = rsa_header ''RSA-OAEP-256'' in
      and_then (ok_or (jc_generate_aad c protected) ''Generate JWE AAD'') (\<lambda>aad.
      and_then (ok_or (jc_gcm_encrypt c aes_sym_key iv aad payload_data)
                  ''AES encrypt Resource payload failed'') (\<lambda>(ciphertext, tag).
      and_then (ok_or (jc_b64url_decode c m) ''base64 decode k_mod failed'') (\<lambda>m.
      let n = jc_biguint_from_bytes_be c m in
      and_then (ok_or (jc_b64url_decode c e) ''base64 decode k_exp failed'') (\<lambda>e.
      let e = jc_biguint_from_bytes_be c e in
      and_then (ok_or (jc_rsa_public_key c n e) ''Building RSA key from modulus and exponent failed'')
        (\<lambda>rsa_pub_key.
      and_then (ok_or (jc_rsa_encrypt c (rn_seed rn) OaepSha256 rsa_pub_key aes_sym_key)
                  ''RSA encrypt sym key failed'')
        (\<lambda>encrypted_key.
        Inr \<lparr>jw_protected = protected, jw_encrypted_key = encrypted_key, jw_iv = iv,
             jw_ciphertext = ciphertext, jw_aad = None, jw_tag = tag\<rparr>)))))))"

definition be_enc4 :: "nat \<Rightarrow> bytes" where
  "be_enc4 v = rev (le_enc 4 v)"

definition key_derivation_materials :: bytes where
  "key_derivation_materials =
     be_enc4 (length ''ECDH-ES+A256KW'') @ as_bytes ''ECDH-ES+A256KW'' @ be_enc4 0 @ be_enc4 0 @ be_enc4 256"

definition to_array32 :: "string \<Rightarrow> bytes \<Rightarrow> bytes anyhow" where
  "to_array32 msg b = (if length b = 32 then Inr b else bail msg)"

definition ecdh_header :: "jwe_crates \<Rightarrow> bytes \<Rightarrow> bytes \<Rightarrow> protected_header" where
  "ecdh_header c epk_x epk_y =
     \<lparr>ph_alg = ''ECDH-ES+A256KW'', ph_enc = ''A256GCM'',
      ph_other_fields = [(''epk'', json_object [(''crv'', JString ''P-256''), (''kty'', JString ''EC''),
        (''x'', JString (jc_b64url_encode c epk_x)), (''y'', JString (jc_b64url_encode c epk_y))])]\<rparr>"

definition ecdh_es_a256kw_p256 ::
  "jwe_crates \<Rightarrow> jwe_random \<Rightarrow> string \<Rightarrow> string \<Rightarrow> bytes \<Rightarrow> jwe_response anyhow" where
  "ecdh_es_a256kw_p256 c rn x y payload_data =
     (let cek = rn_key rn in
      and_then (ok_or (jc_b64url_decode c x) ''base64 decode x failed'') (\<lambda>x.
      and_then (to_array32 ''invalid bytes length of coordinates X'' x) (\<lambda>x.
      and_then (ok_or (jc_b64url_decode c y) ''base64 decode y failed'') (\<lambda>y.
      and_then (to_array32 ''invalid bytes length of coordinates Y'' y) (\<lambda>y.
      and_then (ok_or (jc_p256_public_key c x y) ''invalid TEE public key'') (\<lambda>public_key.
      let z = jc_p256_diffie_hellman c (rn_secret rn) public_key in
      and_then (ok_or (jc_concat_kdf c z key_derivation_materials 32) ''failed to do concat KDF'') (\<lambda>wrapping_key.
      and_then (to_array32 ''invalid bytes length of AES wrapping key'' wrapping_key) (\<lambda>wrapping_key.
      and_then (ok_or (jc_aes_kw_wrap c wrapping_key cek 40) ''failed to do AES wrapping'') (\<lambda>encrypted_key.
      let point = jc_p256_public_of c (rn_secret rn) in
      and_then (ok_or (jc_p256_x c point) ''invalid public key: without coordinate X'') (\<lambda>epk_x.
      and_then (ok_or (jc_p256_y c point) ''invalid public key: without coordinate Y'') (\<lambda>epk_y.
      let protected = ecdh_header c epk_x epk_y in
      and_then (ok_or (jc_generate_aad c protected) ''Generate JWE AAD'') (\<lambda>aad.
      and_then (ok_or (jc_gcm_encrypt c cek (rn_iv rn) aad payload_data)
                  ''AES encrypt Resource payload failed'') (\<lambda>(ciphertext, tag).
        Inr \<lparr>jw_protected = protected, jw_encrypted_key = encrypted_key, jw_iv = rn_iv rn,
             jw_ciphertext = ciphertext, jw_aad = None, jw_tag = tag\<rparr>)))))))))))))"

definition jwe :: "jwe_crates \<Rightarrow> jwe_random \<Rightarrow> tee_pub_key \<Rightarrow> bytes \<Rightarrow> jwe_response anyhow" where
  "jwe c rn k payload_data =
     (case k of
        TeeRSA a m e \<Rightarrow>
          if a = ''RSA1_5'' then rsa_1v15 c rn m e payload_data
          else if a = ''RSA-OAEP-256'' then rsa_oaep256 c rn m e payload_data
          else bail ''algorithm is not supported''
      | TeeEC crv a x y \<Rightarrow>
          if crv = ''P-256'' \<and> a = ''ECDH-ES+A256KW'' then ecdh_es_a256kw_p256 c rn x y payload_data
          else bail ''curve and algorithm is not supported'')"

subsection \<open>The receiver\<close>

record jwe_receiver =
  rc_gcm_decrypt :: "bytes \<Rightarrow> bytes \<Rightarrow> bytes \<Rightarrow> bytes \<Rightarrow> bytes \<Rightarrow> bytes option"
  rc_rsa_decrypt :: "rsa_padding \<Rightarrow> bytes \<Rightarrow> bytes option"
  rc_secret :: bytes
  rc_kw_unwrap :: "bytes \<Rightarrow> bytes \<Rightarrow> bytes option"

text \<open>What the receiver does, by the algorithm in the header; the ephemeral key is in the header.\<close>

definition unwrap_key :: "jwe_crates \<Rightarrow> jwe_receiver \<Rightarrow> jwe_response \<Rightarrow> bytes option" where
  "unwrap_key c r resp =
     (if ph_alg (jw_protected resp) = ''RSA1_5'' then rc_rsa_decrypt r Pkcs1v15Encrypt (jw_encrypted_key resp)
      else if ph_alg (jw_protected resp) = ''RSA-OAEP-256'' then rc_rsa_decrypt r OaepSha256 (jw_encrypted_key resp)
      else if ph_alg (jw_protected resp) = ''ECDH-ES+A256KW'' then
        (case map_of (ph_other_fields (jw_protected resp)) ''epk'' of
           Some (JObject kvs) \<Rightarrow>
             (case (map_of kvs ''x'', map_of kvs ''y'') of
                (Some (JString x), Some (JString y)) \<Rightarrow>
                  Option.bind (jc_b64url_decode c x) (\<lambda>x.
                  Option.bind (jc_b64url_decode c y) (\<lambda>y.
                  Option.bind (jc_p256_public_key c x y) (\<lambda>epk.
                  Option.bind (jc_concat_kdf c (jc_p256_diffie_hellman c (rc_secret r) epk) key_derivation_materials 32)
                    (\<lambda>kek. rc_kw_unwrap r kek (jw_encrypted_key resp)))))
              | _ \<Rightarrow> None)
         | _ \<Rightarrow> None)
      else None)"

definition jwe_decrypt :: "jwe_crates \<Rightarrow> jwe_receiver \<Rightarrow> jwe_response \<Rightarrow> bytes option" where
  "jwe_decrypt c r resp =
     Option.bind (unwrap_key c r resp) (\<lambda>cek.
     Option.bind (jc_generate_aad c (jw_protected resp)) (\<lambda>aad.
       rc_gcm_decrypt r cek (jw_iv resp) aad (jw_ciphertext resp) (jw_tag resp)))"

text \<open>The receiver holds the private key of a public key when its operations invert those of the
  sender for that key.\<close>

definition gcm_law :: "jwe_crates \<Rightarrow> jwe_receiver \<Rightarrow> bool" where
  "gcm_law c r \<longleftrightarrow> (\<forall>k iv aad p ct tag. jc_gcm_encrypt c k iv aad p = Some (ct, tag) \<longrightarrow>
     rc_gcm_decrypt r k iv aad ct tag = Some p)"

definition rsa_law :: "jwe_crates \<Rightarrow> jwe_receiver \<Rightarrow> string \<Rightarrow> string \<Rightarrow> bool" where
  "rsa_law c r m e \<longleftrightarrow> (\<forall>m' e' pub seed pad k ek. jc_b64url_decode c m = Some m' \<longrightarrow> jc_b64url_decode c e = Some e' \<longrightarrow>
     jc_rsa_public_key c (jc_biguint_from_bytes_be c m') (jc_biguint_from_bytes_be c e') = Some pub \<longrightarrow>
     jc_rsa_encrypt c seed pad pub k = Some ek \<longrightarrow> rc_rsa_decrypt r pad ek = Some k)"

definition ec_law :: "jwe_crates \<Rightarrow> jwe_receiver \<Rightarrow> string \<Rightarrow> string \<Rightarrow> bool" where
  "ec_law c r x y \<longleftrightarrow>
     (\<forall>b. jc_b64url_decode c (jc_b64url_encode c b) = Some b) \<and>
     (\<forall>s px py. jc_p256_x c (jc_p256_public_of c s) = Some px \<longrightarrow> jc_p256_y c (jc_p256_public_of c s) = Some py \<longrightarrow>
        jc_p256_public_key c px py = Some (jc_p256_public_of c s)) \<and>
     (\<forall>x' y' pub s. jc_b64url_decode c x = Some x' \<longrightarrow> jc_b64url_decode c y = Some y' \<longrightarrow>
        jc_p256_public_key c x' y' = Some pub \<longrightarrow>
        jc_p256_diffie_hellman c (rc_secret r) (jc_p256_public_of c s) = jc_p256_diffie_hellman c s pub) \<and>
     (\<forall>kek k n w. jc_aes_kw_wrap c kek k n = Some w \<longrightarrow> rc_kw_unwrap r kek w = Some k)"

definition receives :: "jwe_crates \<Rightarrow> jwe_receiver \<Rightarrow> tee_pub_key \<Rightarrow> bool" where
  "receives c r k \<longleftrightarrow> gcm_law c r \<and>
     (case k of TeeRSA a m e \<Rightarrow> rsa_law c r m e | TeeEC crv a x y \<Rightarrow> ec_law c r x y)"

subsection \<open>The receiver recovers the payload\<close>

lemma to_array32_eq_Inr [simp]: "to_array32 m b = Inr x \<longleftrightarrow> length b = 32 \<and> x = b"
  by (auto simp: to_array32_def)

lemma rsa_1v15_decrypts:
  assumes "gcm_law c r" and "rsa_law c r m e" and "rsa_1v15 c rn m e payload = Inr resp"
  shows "jwe_decrypt c r resp = Some payload"
  using assms
  by (auto simp: rsa_1v15_def rsa_header_def result_simps jwe_decrypt_def unwrap_key_def gcm_law_def rsa_law_def Let_def)

lemma rsa_oaep256_decrypts:
  assumes "gcm_law c r" and "rsa_law c r m e" and "rsa_oaep256 c rn m e payload = Inr resp"
  shows "jwe_decrypt c r resp = Some payload"
  using assms
  by (auto simp: rsa_oaep256_def rsa_header_def result_simps jwe_decrypt_def unwrap_key_def gcm_law_def rsa_law_def Let_def)

lemma ecdh_es_a256kw_p256_decrypts:
  assumes "gcm_law c r" and "ec_law c r x y" and "ecdh_es_a256kw_p256 c rn x y payload = Inr resp"
  shows "jwe_decrypt c r resp = Some payload"
  using assms
  by (auto simp: ecdh_es_a256kw_p256_def ecdh_header_def json_object_def result_simps jwe_decrypt_def
      unwrap_key_def gcm_law_def ec_law_def Let_def)

lemma jwe_decrypts: "receives c r k \<Longrightarrow> jwe c rn k payload = Inr resp \<Longrightarrow> jwe_decrypt c r resp = Some payload"
  using rsa_1v15_decrypts rsa_oaep256_decrypts ecdh_es_a256kw_p256_decrypts
  by (auto simp: receives_def jwe_def split: tee_pub_key.splits if_splits)

text \<open>C29. Every response the broker encrypts for a TEE key is decrypted to the payload by the holder of
  the private key, whichever of the supported algorithms the key asks for.\<close>

theorem jwe_roundtrip:
  assumes "receives c r k" and "jwe c rn k payload = Inr resp"
  shows "jwe_decrypt c r resp = Some payload"
  using assms by (rule jwe_decrypts)

subsection \<open>A concrete instance\<close>

text \<open>Ciphers with which the laws hold: XOR with a byte of the key, and the group of bytes under addition.\<close>

definition key_byte :: "bytes \<Rightarrow> byte" where
  "key_byte k = fold (+) k 0"

definition sample_jwe :: jwe_crates where
  "sample_jwe = \<lparr>jc_generate_aad = (\<lambda>h. Some (as_bytes (ph_alg h))),
     jc_gcm_encrypt = (\<lambda>k iv aad p. Some (map (\<lambda>b. b + key_byte k) p, aad)),
     jc_b64url_decode = (\<lambda>t. Some (as_bytes t)), jc_b64url_encode = string_of_bytes,
     jc_biguint_from_bytes_be = (\<lambda>b. fold (\<lambda>x v. 256 * v + unat x) b 0),
     jc_rsa_public_key = (\<lambda>n e. Some [of_nat n, of_nat e]),
     jc_rsa_encrypt = (\<lambda>seed pad pub k. Some (map (\<lambda>b. b + key_byte pub) k)),
     jc_p256_public_key = (\<lambda>x y. Some (x @ y)), jc_p256_public_of = (\<lambda>t. t @ t),
     jc_p256_x = (\<lambda>p. Some (take (length p div 2) p)), jc_p256_y = (\<lambda>p. Some (drop (length p div 2) p)),
     jc_p256_diffie_hellman = (\<lambda>t p. [key_byte t + key_byte (take (length p div 2) p)]),
     jc_concat_kdf = (\<lambda>z m n. Some (replicate n (key_byte z))),
     jc_aes_kw_wrap = (\<lambda>kek k n. Some (kek @ k))\<rparr>"

definition sample_receiver :: jwe_receiver where
  "sample_receiver = \<lparr>rc_gcm_decrypt = (\<lambda>k iv aad ct tag. if tag = aad then Some (map (\<lambda>b. b - key_byte k) ct) else None),
     rc_rsa_decrypt = (\<lambda>pad ek. Some ek), rc_secret = replicate 32 65,
     rc_kw_unwrap = (\<lambda>kek w. Some (drop (length kek) w))\<rparr>"

definition sample_tee_key :: tee_pub_key where
  "sample_tee_key = TeeEC ''P-256'' ''ECDH-ES+A256KW'' (replicate 32 (CHR ''A'')) (replicate 32 (CHR ''A''))"

definition sample_random :: jwe_random where
  "sample_random = \<lparr>rn_key = [3, 4], rn_iv = [0], rn_seed = [], rn_secret = [5]\<rparr>"

lemma as_bytes_replicate_A: "as_bytes (replicate n (CHR ''A'')) = replicate n 65"
  by (simp add: as_bytes_def)

lemma sample_receives: "receives sample_jwe sample_receiver sample_tee_key"
  by (auto simp: receives_def sample_tee_key_def gcm_law_def ec_law_def sample_jwe_def sample_receiver_def comp_def
      as_bytes_replicate_A add.commute)

definition sample_response :: "jwe_response anyhow" where
  "sample_response = jwe sample_jwe sample_random sample_tee_key [104, 105]"

lemma sample_response_ok: "\<exists>resp. sample_response = Inr resp"
  by (simp add: sample_response_def jwe_def sample_tee_key_def ecdh_es_a256kw_p256_def sample_jwe_def sample_random_def Let_def
      as_bytes_replicate_A to_array32_def)

theorem jwe_roundtrip_witness:
  "\<exists>resp. jwe sample_jwe sample_random sample_tee_key [104, 105] = Inr resp \<and>
     jwe_decrypt sample_jwe sample_receiver resp = Some [104, 105]"
  using jwe_roundtrip [OF sample_receives] sample_response_ok unfolding sample_response_def by blast

end
