(* ===== verification/Kbs_Api.thy ===== *)
theory Kbs_Api
  imports Kbs_Handshake Kbs_Storage Kbs_Policy Kbs_Jwe
begin

text \<open>
  The HTTP interface of the key broker: errors and their responses (\<^verbatim>\<open>kbs/src/error.rs\<close>), the plugin
  manager with the plugins of the default build (\<^verbatim>\<open>kbs/src/plugins/\<close>), the dispatcher of requests and the
  metrics around it (\<^verbatim>\<open>kbs/src/api_server.rs\<close>). The state is that of the attestation module, the file
  system that holds the resources and the policy, and the counters.
\<close>

subsection \<open>Errors\<close>

datatype attestation_error =
    AttestationServiceInitialization string | ExtractTeePubKeyFailed string | RcarAuthFailed string
  | RcarAttestFailed string | SetPolicy string

datatype kbs_error =
    AdminAuth admin_error
  | AttestationError attestation_error
  | HTTPFailed string
  | HTTPSFailed string
  | InvalidRequestPath string
  | JweError string
  | PluginManagerInitialization string
  | PluginNotFound string
  | PluginInternalError string
  | PolicyDeny
  | PolicyEngineFailed kbs_policy_error
  | RvpsError string
  | SerdeError
  | TokenNotFound
  | TokenVerifierError token_error
  | PrometheusError

definition error_as_ref :: "kbs_error \<Rightarrow> string" where
  "error_as_ref e =
     (case e of
        AdminAuth _ \<Rightarrow> ''AdminAuth'' | AttestationError _ \<Rightarrow> ''AttestationError'' | HTTPFailed _ \<Rightarrow> ''HTTPFailed''
      | HTTPSFailed _ \<Rightarrow> ''HTTPSFailed'' | InvalidRequestPath _ \<Rightarrow> ''InvalidRequestPath'' | JweError _ \<Rightarrow> ''JweError''
      | PluginManagerInitialization _ \<Rightarrow> ''PluginManagerInitialization'' | PluginNotFound _ \<Rightarrow> ''PluginNotFound''
      | PluginInternalError _ \<Rightarrow> ''PluginInternalError'' | PolicyDeny \<Rightarrow> ''PolicyDeny''
      | PolicyEngineFailed _ \<Rightarrow> ''PolicyEngine'' | RvpsError _ \<Rightarrow> ''RvpsError'' | SerdeError \<Rightarrow> ''SerdeError''
      | TokenNotFound \<Rightarrow> ''TokenNotFound'' | TokenVerifierError _ \<Rightarrow> ''TokenVerifierError''
      | PrometheusError \<Rightarrow> ''PrometheusError'')"

definition admin_error_display :: "admin_error \<Rightarrow> string" where
  "admin_error_display e =
     (case e of
        JwtVerificationFailed \<Rightarrow> ''Admin Token verification failed''
      | NoPublicKeyGiven \<Rightarrow> ''`auth_public_key` is not set in the config file''
      | ParsePublicKey \<Rightarrow> ''Failed to parse admin public key''
      | ParseAuthHeaderFailed \<Rightarrow> ''Failed to parse HTTP Auth Bearer header''
      | ReadPublicKey \<Rightarrow> ''Read admin public key failed'')"

definition attestation_error_display :: "attestation_error \<Rightarrow> string" where
  "attestation_error_display e =
     (case e of
        AttestationServiceInitialization _ \<Rightarrow> ''Failed to initialize attestation service''
      | ExtractTeePubKeyFailed _ \<Rightarrow> ''Failed to extract Tee public key from claims''
      | RcarAuthFailed source \<Rightarrow> ''RCAR handshake Auth failed: '' @ source
      | RcarAttestFailed _ \<Rightarrow> ''RCAR handshake Attest failed''
      | SetPolicy _ \<Rightarrow> ''Set Attestation Policy failed'')"

definition error_display :: "kbs_error \<Rightarrow> string" where
  "error_display e =
     (case e of
        AdminAuth a \<Rightarrow> ''Admin auth error: '' @ admin_error_display a
      | AttestationError a \<Rightarrow> ''Attestation error: '' @ attestation_error_display a
      | HTTPFailed _ \<Rightarrow> ''HTTP initialization failed''
      | HTTPSFailed _ \<Rightarrow> ''HTTPS initialization failed''
      | InvalidRequestPath path \<Rightarrow> ''Request path '' @ path @ '' is invalid''
      | JweError _ \<Rightarrow> ''JWE failed''
      | PluginManagerInitialization _ \<Rightarrow> ''PluginManager initialization failed''
      | PluginNotFound n \<Rightarrow> ''Plugin '' @ n @ '' not found''
      | PluginInternalError _ \<Rightarrow> ''Plugin internal error''
      | PolicyDeny \<Rightarrow> ''Access denied by policy''
      | PolicyEngineFailed _ \<Rightarrow> ''Policy engine error''
      | RvpsError m \<Rightarrow> ''RVPS configuration failed: '' @ m
      | SerdeError \<Rightarrow> ''Serialize/Deserialize failed''
      | TokenNotFound \<Rightarrow> ''Attestation Token not found''
      | TokenVerifierError _ \<Rightarrow> ''Token Verifier error''
      | PrometheusError \<Rightarrow> ''Prometheus error'')"

text \<open>\<open>info_to_string\<close> is the serialisation of \<^verbatim>\<open>ErrorInformation\<close>, from its type and its detail.\<close>

definition error_response :: "(string \<Rightarrow> string \<Rightarrow> string) \<Rightarrow> kbs_error \<Rightarrow> http_response" where
  "error_response info_to_string e =
     (let error_type = ''https://github.com/confidential-containers/kbs/errors'' @ ''/'' @ error_as_ref e;
          body = info_to_string error_type (error_display e);
          status = (case e of InvalidRequestPath _ \<Rightarrow> 404 | PluginNotFound _ \<Rightarrow> 404 | _ \<Rightarrow> 401)
      in \<lparr>hr_status = status, hr_content_type = None, hr_body = body, hr_cookie = None\<rparr>)"

subsection \<open>Plugins\<close>

datatype repository_config = LocalFsConfig string

datatype plugins_config = SampleConfig string | ResourceStorageConfig repository_config

datatype client_plugin = SamplePlugin string | ResourcePlugin string

definition plugins_config_display :: "plugins_config \<Rightarrow> string" where
  "plugins_config_display c = (case c of SampleConfig _ \<Rightarrow> ''sample'' | ResourceStorageConfig _ \<Rightarrow> ''resource'')"

definition resource_storage_try_from :: "repository_config \<Rightarrow> (fs, string, client_plugin) prog" where
  "resource_storage_try_from c =
     (case c of LocalFsConfig dir \<Rightarrow>
        bindP (map_errP (\<lambda>_. ''Failed to initialize Resource Storage'') (local_fs_new dir)) (\<lambda>backend.
          retP (ResourcePlugin backend)))"

definition plugins_config_try_into :: "plugins_config \<Rightarrow> (fs, string, client_plugin) prog" where
  "plugins_config_try_into c =
     (case c of
        SampleConfig item \<Rightarrow> retP (SamplePlugin item)
      | ResourceStorageConfig r \<Rightarrow>
          map_errP (\<lambda>_. ''Initialize 'Resource' plugin failed'') (resource_storage_try_from r))"

text \<open>\<^verbatim>\<open>collect\<close> into a \<^verbatim>\<open>HashMap\<close>: plugins are built in order up to the first failure, and a later one
  replaces an earlier one of the same name.\<close>

fun plugin_manager_collect ::
  "plugins_config list \<Rightarrow> (string \<rightharpoonup> client_plugin) \<Rightarrow> (fs, string, string \<rightharpoonup> client_plugin) prog" where
  "plugin_manager_collect [] m = retP m"
| "plugin_manager_collect (cfg # cfgs) m =
     bindP (plugins_config_try_into cfg) (\<lambda>plugin.
       plugin_manager_collect cfgs (m(plugins_config_display cfg \<mapsto> plugin)))"

definition plugin_manager_try_from :: "plugins_config list \<Rightarrow> (fs, string, string \<rightharpoonup> client_plugin) prog" where
  "plugin_manager_try_from cfgs = plugin_manager_collect cfgs Map.empty"

definition sample_handle :: "bytes \<Rightarrow> string \<Rightarrow> string \<Rightarrow> string \<Rightarrow> (fs storage, string, bytes) prog" where
  "sample_handle body query path method_name = retP (as_bytes ''sample plugin response'')"

definition plugin_handle ::
  "client_plugin \<Rightarrow> bytes \<Rightarrow> string \<Rightarrow> string \<Rightarrow> string \<Rightarrow> (fs storage, string, bytes) prog" where
  "plugin_handle p =
     (case p of SamplePlugin _ \<Rightarrow> sample_handle | ResourcePlugin dir \<Rightarrow> resource_handle (local_fs_ops dir))"

definition plugin_validate_auth ::
  "client_plugin \<Rightarrow> bytes \<Rightarrow> string \<Rightarrow> string \<Rightarrow> string \<Rightarrow> bool anyhow" where
  "plugin_validate_auth p =
     (case p of SamplePlugin _ \<Rightarrow> (\<lambda>_ _ _ _. Inr True) | ResourcePlugin _ \<Rightarrow> resource_validate_auth)"

definition plugin_encrypted ::
  "client_plugin \<Rightarrow> bytes \<Rightarrow> string \<Rightarrow> string \<Rightarrow> string \<Rightarrow> bool anyhow" where
  "plugin_encrypted p =
     (case p of SamplePlugin _ \<Rightarrow> (\<lambda>_ _ _ _. Inr False) | ResourcePlugin _ \<Rightarrow> resource_encrypted)"

subsection \<open>The server\<close>

record http_request =
  hq_method :: string
  hq_path :: string
  hq_query :: string
  hq_base_path :: "string option"
  hq_additional_path :: "string option"
  hq_cookie :: "string option"
  hq_bearer :: "string option"

record policy_metrics =
  kbs_policy_evals :: nat
  kbs_policy_errors :: nat
  kbs_policy_violations :: nat
  kbs_policy_approvals :: nat

record 's api_server =
  plugin_manager :: "string \<rightharpoonup> client_plugin"
  api_as :: "'s attestation_service"
  policy_engine :: string
  admin_auth :: admin
  api_token_verifier :: token_verifier
  api_storage :: "fs storage"
  policy_metrics :: policy_metrics

text \<open>The parameters of a deployment: the crates and the implementation of \<^verbatim>\<open>Attest\<close>.\<close>

record 's api_env =
  en_kbs :: kbs_crates
  en_attest :: "'s attest_impl"
  en_token :: token_crates
  en_rego :: rego_crates
  en_jwe :: jwe_crates
  en_reference_values_to_string :: "(string \<rightharpoonup> json) \<Rightarrow> string option"
  en_jwe_to_string :: "jwe_response \<Rightarrow> string option"

text \<open>What a request draws from its surroundings: the time, a UUID and random bytes.\<close>

record api_ctx =
  cx_now :: time
  cx_uuid :: string
  cx_entropy :: entropy
  cx_jwe :: jwe_random

definition asP ::
  "(string \<Rightarrow> kbs_error) \<Rightarrow> ('s attestation_service, string, 'a) prog \<Rightarrow> ('s api_server, kbs_error, 'a) prog" where
  "asP wrap m = map_errP wrap (zoomP api_as (\<lambda>t a. a\<lparr>api_as := t\<rparr>) m)"

definition storageP :: "(fs storage, string, 'a) prog \<Rightarrow> ('s api_server, kbs_error, 'a) prog" where
  "storageP m = map_errP PluginInternalError (zoomP api_storage (\<lambda>t a. a\<lparr>api_storage := t\<rparr>) m)"

definition api_fs :: "'s api_server \<Rightarrow> fs" where
  "api_fs a = st_backend (api_storage a)"

definition policyP :: "(fs, kbs_policy_error, 'a) prog \<Rightarrow> ('s api_server, kbs_error, 'a) prog" where
  "policyP m = map_errP PolicyEngineFailed (zoomP api_fs (\<lambda>t a. a\<lparr>api_storage := (api_storage a)\<lparr>st_backend := t\<rparr>\<rparr>) m)"

definition upd_policy_metrics :: "(policy_metrics \<Rightarrow> policy_metrics) \<Rightarrow> 's api_server \<Rightarrow> 's api_server" where
  "upd_policy_metrics f a = a\<lparr>policy_metrics := f (policy_metrics a)\<rparr>"

definition adminP :: "'s api_env \<Rightarrow> http_request \<Rightarrow> ('s api_server, kbs_error, unit) prog" where
  "adminP en request =
     bindP (readP admin_auth) (\<lambda>ad. liftP (map_err AdminAuth (admin_validate_auth (en_token en) ad (hq_bearer request))))"

definition get_attestation_token :: "time \<Rightarrow> http_request \<Rightarrow> 's api_server \<Rightarrow> string anyhow" where
  "get_attestation_token now request a =
     (case get_attest_token_from_session now (hq_cookie request) (api_as a) of
        Inr token \<Rightarrow> Inr token
      | Inl _ \<Rightarrow> ok_or (hq_bearer request) ''parse Authorization header failed'')"

definition http_ok :: "string option \<Rightarrow> string \<Rightarrow> http_response" where
  "http_ok content_type body =
     \<lparr>hr_status = 200, hr_content_type = content_type, hr_body = body, hr_cookie = None\<rparr>"

text \<open>A call that needs the token and the policy: the tail of the dispatcher.\<close>

definition inc_policy_evals :: "policy_metrics \<Rightarrow> policy_metrics" where
  "inc_policy_evals m = m\<lparr>kbs_policy_evals := kbs_policy_evals m + 1\<rparr>"

definition inc_policy_errors :: "policy_metrics \<Rightarrow> policy_metrics" where
  "inc_policy_errors m = m\<lparr>kbs_policy_errors := kbs_policy_errors m + 1\<rparr>"

definition inc_policy_violations :: "policy_metrics \<Rightarrow> policy_metrics" where
  "inc_policy_violations m = m\<lparr>kbs_policy_violations := kbs_policy_violations m + 1\<rparr>"

definition inc_policy_approvals :: "policy_metrics \<Rightarrow> policy_metrics" where
  "inc_policy_approvals m = m\<lparr>kbs_policy_approvals := kbs_policy_approvals m + 1\<rparr>"

definition api_plugin_token ::
  "'s api_env \<Rightarrow> api_ctx \<Rightarrow> http_request \<Rightarrow> string \<Rightarrow> string \<Rightarrow> client_plugin \<Rightarrow> bytes \<Rightarrow>
   ('s api_server, kbs_error, http_response) prog" where
  "api_plugin_token en cx request endpoint additional_path plugin body =
     bindP (readP id) (\<lambda>core.
     bindP (liftP (map_err (\<lambda>_. TokenNotFound) (get_attestation_token (cx_now cx) request core))) (\<lambda>token.
     bindP (liftP (map_err TokenVerifierError (token_verifier_verify (en_token en) (api_token_verifier core) token)))
       (\<lambda>claims.
     bindP (liftP (ok_or (json_to_string (en_kbs en) claims) SerdeError)) (\<lambda>claim_str.
     bindP (modifyP (upd_policy_metrics inc_policy_evals)) (\<lambda>_.
     bindP (inspect_err (upd_policy_metrics inc_policy_errors)
              (liftP (map_err PolicyEngineFailed
                 (policy_engine_evaluate (en_rego en) (policy_engine core) endpoint claim_str (api_fs core)))))
       (\<lambda>allowed.
     if \<not> allowed then
       bindP (modifyP (upd_policy_metrics inc_policy_violations)) (\<lambda>_. bailP PolicyDeny)
     else
       bindP (modifyP (upd_policy_metrics inc_policy_approvals)) (\<lambda>_.
       bindP (storageP (plugin_handle plugin body (hq_query request) additional_path (hq_method request)))
         (\<lambda>response.
       bindP (liftP (map_err PluginInternalError
                (plugin_encrypted plugin body (hq_query request) additional_path (hq_method request)))) (\<lambda>enc.
       if enc then
         bindP (liftP (map_err TokenVerifierError
                  (extract_tee_public_key (en_token en) (api_token_verifier core) claims))) (\<lambda>public_key.
         bindP (liftP (map_err JweError (jwe (en_jwe en) (cx_jwe cx) public_key response))) (\<lambda>j.
         bindP (liftP (ok_or (en_jwe_to_string en j) SerdeError)) (\<lambda>res.
           retP (http_ok (Some ''application/json'') res))))
       else retP (http_ok (Some ''text/xml'') (string_of_bytes response)))))))))))"

definition api_plugin ::
  "'s api_env \<Rightarrow> api_ctx \<Rightarrow> http_request \<Rightarrow> string \<Rightarrow> string \<Rightarrow> string \<Rightarrow> bytes \<Rightarrow>
   ('s api_server, kbs_error, http_response) prog" where
  "api_plugin en cx request endpoint plugin_name additional_path body =
     bindP (readP plugin_manager) (\<lambda>plugins.
     bindP (liftP (ok_or (plugins plugin_name) (PluginNotFound plugin_name))) (\<lambda>plugin.
     bindP (liftP (map_err PluginInternalError
              (plugin_validate_auth plugin body (hq_query request) additional_path (hq_method request)))) (\<lambda>needs_admin.
     if needs_admin then
       bindP (adminP en request) (\<lambda>_.
       bindP (storageP (plugin_handle plugin body (hq_query request) additional_path (hq_method request)))
         (\<lambda>response. retP (http_ok (Some ''text/xml'') (string_of_bytes response))))
     else api_plugin_token en cx request endpoint additional_path plugin body)))"

definition api ::
  "'s api_env \<Rightarrow> api_ctx \<Rightarrow> http_request \<Rightarrow> bytes \<Rightarrow> ('s api_server, kbs_error, http_response) prog" where
  "api en cx request body =
     bindP (liftP (ok_or (hq_base_path request) (InvalidRequestPath (hq_path request)))) (\<lambda>base_path.
     bindP (liftP (ok_or (hq_additional_path request) (InvalidRequestPath (hq_path request)))) (\<lambda>additional_path.
     let endpoint = base_path @ additional_path in
     if base_path = ''auth'' \<and> hq_method request = ''POST'' then
       asP (\<lambda>e. AttestationError (RcarAuthFailed e))
         (as_auth (en_kbs en) (en_attest en) (cx_uuid cx) (cx_entropy cx) (cx_now cx) body)
     else if base_path = ''attest'' \<and> hq_method request = ''POST'' then
       asP (\<lambda>e. AttestationError (RcarAttestFailed e))
         (as_attest (en_kbs en) (en_attest en) (cx_now cx) (hq_cookie request) body)
     else if base_path = ''attestation-policy'' \<and> hq_method request = ''POST'' then
       bindP (adminP en request) (\<lambda>_.
       bindP (asP (\<lambda>e. AttestationError (SetPolicy e)) (as_set_policy (en_kbs en) (en_attest en) body)) (\<lambda>_.
         retP (http_ok None '''')))
     else if base_path = ''reference-value'' \<and> hq_method request = ''GET'' then
       bindP (adminP en request) (\<lambda>_.
       bindP (asP (\<lambda>e. RvpsError (''Failed to get reference_values: '' @ e)) (as_query_reference_values (en_attest en)))
         (\<lambda>values.
       bindP (liftP (ok_or (en_reference_values_to_string en values) SerdeError)) (\<lambda>reference_values.
         retP (http_ok (Some ''application/json'') reference_values))))
     else if base_path = ''reference-value'' \<and> hq_method request = ''POST'' then
       bindP (adminP en request) (\<lambda>_.
       bindP (liftP (ok_or (from_utf8 body) (RvpsError ''Failed to parse reference value message''))) (\<lambda>message.
       bindP (asP (\<lambda>e. RvpsError (''Failed to register reference value: '' @ e))
                (as_register_reference_value (en_attest en) message)) (\<lambda>_.
         retP (http_ok (Some ''application/json'') ''''))))
     else if base_path = ''resource-policy'' \<and> hq_method request = ''POST'' then
       bindP (adminP en request) (\<lambda>_.
       bindP (readP policy_engine) (\<lambda>path.
       bindP (policyP (policy_engine_set_policy (en_rego en) path body)) (\<lambda>_. retP (http_ok None ''''))))
     else if base_path = ''resource-policy'' \<and> hq_method request = ''GET'' then
       bindP (adminP en request) (\<lambda>_.
       bindP (readP (\<lambda>core. policy_engine_get_policy (en_rego en) (policy_engine core) (api_fs core))) (\<lambda>policy.
       bindP (liftP (map_err PolicyEngineFailed policy)) (\<lambda>policy.
         retP (http_ok (Some ''text/xml'') policy))))
     else api_plugin en cx request endpoint base_path additional_path body))"

text \<open>What the client sees: the response, or that of the error; nothing when the handler panics.\<close>

definition respond ::
  "(string \<Rightarrow> string \<Rightarrow> string) \<Rightarrow> (kbs_error, http_response) result \<Rightarrow> http_response option" where
  "respond info_to_string r =
     (case r of Inr resp \<Rightarrow> Some resp | Inl (Err e) \<Rightarrow> Some (error_response info_to_string e) | Inl (Panic _) \<Rightarrow> None)"

subsection \<open>Start\<close>

record kbs_config =
  kc_attestation_token :: token_config
  kc_timeout :: int
  kc_payload_request_size :: u32
  kc_admin :: admin_config
  kc_policy_path :: string
  kc_plugins :: "plugins_config list"

text \<open>The attestation module is created last, from the state \<open>inner\<close> its implementation starts in.\<close>

definition api_server_new ::
  "'s api_env \<Rightarrow> string \<Rightarrow> (string, 's) result \<Rightarrow> kbs_config \<Rightarrow> (fs, kbs_error, 's api_server) prog" where
  "api_server_new en default_policy inner config =
     bindP (map_errP PluginManagerInitialization (plugin_manager_try_from (kc_plugins config))) (\<lambda>plugins.
     bindP (liftP (map_err TokenVerifierError
              (token_verifier_from_config (en_token en) (kc_attestation_token config)))) (\<lambda>verifier.
     bindP (map_errP PolicyEngineFailed (policy_engine_new default_policy (kc_policy_path config))) (\<lambda>engine.
     bindP (liftP (map_err AdminAuth (admin_try_from (en_token en) (kc_admin config)))) (\<lambda>ad.
     bindP (liftP (map_err (\<lambda>e. AttestationError (AttestationServiceInitialization e)) inner)) (\<lambda>i.
     bindP (readP id) (\<lambda>f.
       retP \<lparr>plugin_manager = plugins, api_as = as_new i (kc_timeout config), policy_engine = engine,
             admin_auth = ad, api_token_verifier = verifier,
             api_storage = \<lparr>st_backend = f, resource_reads_total = (\<lambda>_. 0), resource_writes_total = (\<lambda>_. 0)\<rparr>,
             policy_metrics = \<lparr>kbs_policy_evals = 0, kbs_policy_errors = 0, kbs_policy_violations = 0,
               kbs_policy_approvals = 0\<rparr>\<rparr>))))))"

text \<open>The limit of the request body in bytes: the product is computed in 32 bits.\<close>

definition payload_limit :: "bool \<Rightarrow> u32 \<Rightarrow> usize anyhow" where
  "payload_limit oc megabytes =
     (if oc \<and> 2 ^ 32 \<le> 1024 * 1024 * unat megabytes then panic ''attempt to multiply with overflow''
      else Inr (unat (1024 * 1024 * megabytes)))"

subsection \<open>Metrics around a request\<close>

record http_metrics =
  active_connections :: int
  request_total :: nat
  request_sizes :: "nat list"
  response_sizes :: "nat list"
  request_durations :: nat

text \<open>\<open>content_length\<close> is the header (\<open>None\<close> when absent) and its value, if it is a number. A handler that
  fails or panics leaves the function before the second half.\<close>

definition prometheus_metrics_middleware ::
  "string \<Rightarrow> nat option option \<Rightarrow> ('e, nat option) result \<Rightarrow> (http_metrics, 'e, nat option) prog" where
  "prometheus_metrics_middleware path content_length handled =
     (let is_kbs_req = starts_with ''/kbs'' path in
      bindP (if is_kbs_req then
               modifyP (\<lambda>m. m\<lparr>active_connections := active_connections m + 1, request_total := request_total m + 1,
                 request_sizes := (case content_length of
                    Some (Some len) \<Rightarrow> request_sizes m @ [len]
                  | Some None \<Rightarrow> request_sizes m
                  | None \<Rightarrow> request_sizes m @ [0])\<rparr>)
             else retP ()) (\<lambda>_.
      bindP (liftP handled) (\<lambda>body_size.
      bindP (if is_kbs_req then
               modifyP (\<lambda>m. m\<lparr>request_durations := request_durations m + 1,
                 request_sizes := (case body_size of Some len \<Rightarrow> request_sizes m @ [len] | None \<Rightarrow> request_sizes m),
                 active_connections := active_connections m - 1\<rparr>)
             else retP ()) (\<lambda>_.
        retP body_size))))"

subsection \<open>Lemmas on the dispatcher\<close>

lemma asP_apply: "asP w m s = (map_err w (fst (m (api_as s))), s\<lparr>api_as := snd (m (api_as s))\<rparr>)"
  by (simp add: asP_def map_errP_apply zoomP_def split: prod.splits)

lemma storageP_apply:
  "storageP m s = (map_err PluginInternalError (fst (m (api_storage s))), s\<lparr>api_storage := snd (m (api_storage s))\<rparr>)"
  by (simp add: storageP_def map_errP_apply zoomP_def split: prod.splits)

lemma policyP_apply:
  "policyP m s = (map_err PolicyEngineFailed (fst (m (api_fs s))),
     s\<lparr>api_storage := (api_storage s)\<lparr>st_backend := snd (m (api_fs s))\<rparr>\<rparr>)"
  by (simp add: policyP_def map_errP_apply zoomP_def split: prod.splits)

lemma adminP_apply:
  "adminP en request s = (map_err AdminAuth (admin_validate_auth (en_token en) (admin_auth s) (hq_bearer request)), s)"
  by (simp add: adminP_def prog_simps)

lemma upd_policy_metrics_sel [simp]:
  "plugin_manager (upd_policy_metrics f s) = plugin_manager s" "api_as (upd_policy_metrics f s) = api_as s"
  "api_storage (upd_policy_metrics f s) = api_storage s" "policy_metrics (upd_policy_metrics f s) = f (policy_metrics s)"
  "api_fs (upd_policy_metrics f s) = api_fs s"
  by (simp_all add: upd_policy_metrics_def api_fs_def)

lemma bindP_cases:
  assumes "bindP m k s = (r, s')"
  obtains (failed) f where "m s = (Inl f, s')" and "r = Inl f"
  | (passed) x t where "m s = (Inr x, t)" and "k x t = (r, s')"
  using assms by (auto simp: bindP_def split: prod.splits sum.splits)

lemma opa_evaluate_no_panic: "opa_evaluate rg p ep cs f \<noteq> Inl (Panic x)"
  by (auto simp: opa_evaluate_def and_then_def ok_or_def bail_def split: sum.splits option.splits)

definition admin_ok :: "'s api_env \<Rightarrow> http_request \<Rightarrow> 's api_server \<Rightarrow> bool" where
  "admin_ok en request s \<longleftrightarrow> admin_validate_auth (en_token en) (admin_auth s) (hq_bearer request) = Inr ()"

text \<open>The claims of the token the request carries satisfy the resource policy for the endpoint.\<close>

definition claims_allowed :: "'s api_env \<Rightarrow> api_ctx \<Rightarrow> http_request \<Rightarrow> string \<Rightarrow> 's api_server \<Rightarrow> json \<Rightarrow> bool" where
  "claims_allowed en cx request endpoint s claims \<longleftrightarrow>
     (\<exists>token claim_str. get_attestation_token (cx_now cx) request s = Inr token \<and>
        token_verifier_verify (en_token en) (api_token_verifier s) token = Inr claims \<and>
        json_to_string (en_kbs en) claims = Some claim_str \<and>
        policy_engine_evaluate (en_rego en) (policy_engine s) endpoint claim_str (api_fs s) = Inr True)"

lemma adminP_cases:
  "adminP en request s = (if admin_ok en request s then (Inr (), s)
     else (map_err AdminAuth (admin_validate_auth (en_token en) (admin_auth s) (hq_bearer request)), s))"
  by (simp add: adminP_apply admin_ok_def)

text \<open>What becomes of an allowed call: the plugin's response, encrypted or not.\<close>

definition plugin_reply ::
  "'s api_env \<Rightarrow> api_ctx \<Rightarrow> http_request \<Rightarrow> string \<Rightarrow> client_plugin \<Rightarrow> bytes \<Rightarrow> token_verifier \<Rightarrow> json \<Rightarrow> bytes \<Rightarrow>
   (kbs_error, http_response) result" where
  "plugin_reply en cx request additional_path plugin body verifier claims response =
     and_then (map_err PluginInternalError
        (plugin_encrypted plugin body (hq_query request) additional_path (hq_method request))) (\<lambda>enc.
     if enc then
       and_then (map_err TokenVerifierError (extract_tee_public_key (en_token en) verifier claims)) (\<lambda>public_key.
       and_then (map_err JweError (jwe (en_jwe en) (cx_jwe cx) public_key response)) (\<lambda>j.
       and_then (ok_or (en_jwe_to_string en j) SerdeError) (\<lambda>res.
         Inr (http_ok (Some ''application/json'') res))))
     else Inr (http_ok (Some ''text/xml'') (string_of_bytes response)))"

lemma retP_liftP: "retP x = liftP (Inr x)"
  by (simp add: fun_eq_iff retP_def liftP_def)

lemma if_liftP: "(if b then liftP x else liftP y) = liftP (if b then x else y)"
  by simp

lemma api_plugin_token_cases:
  assumes "api_plugin_token en cx request endpoint ap plugin body s = (r, s')"
  obtains
    (early) f where "r = Inl f" and "s' = s"
  | (policy_error) e where "r = bail (PolicyEngineFailed e)"
      and "s' = upd_policy_metrics inc_policy_errors (upd_policy_metrics inc_policy_evals s)"
  | (denied) "r = bail PolicyDeny"
      and "s' = upd_policy_metrics inc_policy_violations (upd_policy_metrics inc_policy_evals s)"
  | (allowed) claims where "claims_allowed en cx request endpoint s claims"
      and "r = and_then (map_err PluginInternalError
             (fst (plugin_handle plugin body (hq_query request) ap (hq_method request) (api_storage s))))
             (plugin_reply en cx request ap plugin body (api_token_verifier s) claims)"
      and "s' = (upd_policy_metrics inc_policy_approvals (upd_policy_metrics inc_policy_evals s))
             \<lparr>api_storage := snd (plugin_handle plugin body (hq_query request) ap (hq_method request) (api_storage s))\<rparr>"
proof -
  let ?token = "get_attestation_token (cx_now cx) request s"
  show ?thesis
  proof (cases ?token)
    case (Inl f)
    with assms show ?thesis
      by (cases f) (auto intro: early simp: api_plugin_token_def prog_simps map_err_def)
  next
    case token: (Inr token)
    show ?thesis
    proof (cases "token_verifier_verify (en_token en) (api_token_verifier s) token")
      case (Inl f)
      with assms token show ?thesis
        by (cases f) (auto intro: early simp: api_plugin_token_def prog_simps map_err_def)
    next
      case claims: (Inr claims)
      show ?thesis
      proof (cases "json_to_string (en_kbs en) claims")
        case None
        with assms token claims show ?thesis
          by (auto intro: early simp: api_plugin_token_def prog_simps bail_def)
      next
        case str: (Some claim_str)
        let ?ev = "policy_engine_evaluate (en_rego en) (policy_engine s) endpoint claim_str (api_fs s)"
        note * = assms [unfolded api_plugin_token_def retP_liftP if_liftP bindP_liftP_and_then plugin_reply_def [symmetric]]
        show ?thesis
        proof (cases ?ev)
          case (Inl f)
          then obtain e where "f = Err e" by (cases f) (auto simp: policy_engine_evaluate_def opa_evaluate_no_panic)
          with * token claims str Inl show ?thesis
            by (auto intro: policy_error simp: prog_simps bail_def map_err_def)
        next
          case ev: (Inr b)
          show ?thesis
          proof (cases b)
            case True
            then have "claims_allowed en cx request endpoint s claims"
              using token claims str ev by (auto simp: claims_allowed_def)
            then show ?thesis using * token claims str ev True
              by (intro allowed [of claims])
                (auto simp: prog_simps bindP_def [of "storageP _"] storageP_apply upd_policy_metrics_def and_then_def
                  split: sum.splits)
          next
            case False
            with * token claims str ev show ?thesis by (auto intro: denied simp: prog_simps)
          qed
        qed
      qed
    qed
  qed
qed

lemma plugin_validate_auth_total: "\<exists>b. plugin_validate_auth p body q ap mth = Inr b"
  by (cases p) (auto simp: plugin_validate_auth_def resource_validate_auth_def)

lemma api_plugin_cases:
  assumes "api_plugin en cx request endpoint bp ap body s = (r, s')"
  obtains
    (missing) "plugin_manager s bp = None" and "r = bail (PluginNotFound bp)" and "s' = s"
  | (refused) plugin e where "plugin_manager s bp = Some plugin" and "\<not> admin_ok en request s" and "r = bail (AdminAuth e)"
      and "s' = s"
  | (admin) plugin where "plugin_manager s bp = Some plugin" and "admin_ok en request s"
      and "r = and_then (map_err PluginInternalError
             (fst (plugin_handle plugin body (hq_query request) ap (hq_method request) (api_storage s))))
             (\<lambda>response. Inr (http_ok (Some ''text/xml'') (string_of_bytes response)))"
      and "s' = s\<lparr>api_storage := snd (plugin_handle plugin body (hq_query request) ap (hq_method request) (api_storage s))\<rparr>"
  | (token) plugin where "plugin_manager s bp = Some plugin"
      and "plugin_validate_auth plugin body (hq_query request) ap (hq_method request) = Inr False"
      and "api_plugin_token en cx request endpoint ap plugin body s = (r, s')"
proof (cases "plugin_manager s bp")
  case None
  with assms show ?thesis by (intro missing) (simp_all add: api_plugin_def prog_simps)
next
  case plugin: (Some plugin)
  obtain b where b: "plugin_validate_auth plugin body (hq_query request) ap (hq_method request) = Inr b"
    using plugin_validate_auth_total by blast
  have api: "(if b then bindP (adminP en request) (\<lambda>_.
      bindP (storageP (plugin_handle plugin body (hq_query request) ap (hq_method request)))
        (\<lambda>response. retP (http_ok (Some ''text/xml'') (string_of_bytes response)))) s
      else api_plugin_token en cx request endpoint ap plugin body s) = (r, s')"
    using assms plugin b by (cases b) (simp_all add: api_plugin_def prog_simps)
  show ?thesis
  proof (cases "b \<and> admin_ok en request s")
    case True
    with api plugin show ?thesis
      by (intro admin [of plugin])
        (auto simp: bindP_def adminP_cases storageP_apply retP_def and_then_def split: sum.splits)
  next
    case False
    show ?thesis
    proof (cases b)
      case True
      with False obtain e where "admin_validate_auth (en_token en) (admin_auth s) (hq_bearer request) = bail e"
        by (auto simp: admin_ok_def admin_validate_auth_def ok_or_def and_then_def bail_def split: option.splits if_splits)
      with True False api plugin show ?thesis
        by (intro refused [of plugin e]) (auto simp: bindP_def adminP_apply bail_def map_err_def)
    next
      case False
      with api plugin b show ?thesis by (intro token [of plugin]) simp_all
    qed
  qed
qed

text \<open>The built-in endpoints: those of the handshake, and those of the admin.\<close>

definition is_handshake :: "string \<Rightarrow> string \<Rightarrow> bool" where
  "is_handshake bp mth \<longleftrightarrow> bp = ''auth'' \<and> mth = ''POST'' \<or> bp = ''attest'' \<and> mth = ''POST''"

definition is_admin_endpoint :: "string \<Rightarrow> string \<Rightarrow> bool" where
  "is_admin_endpoint bp mth \<longleftrightarrow>
     bp = ''attestation-policy'' \<and> mth = ''POST'' \<or> bp = ''reference-value'' \<and> mth = ''GET'' \<or>
     bp = ''reference-value'' \<and> mth = ''POST'' \<or> bp = ''resource-policy'' \<and> mth = ''POST'' \<or>
     bp = ''resource-policy'' \<and> mth = ''GET''"

lemma not_disj2: "\<not> (a \<or> b) \<Longrightarrow> a = False" "\<not> (a \<or> b) \<Longrightarrow> b = False"
  by simp_all

lemma not_disj5:
  assumes "\<not> (a \<or> b \<or> c \<or> d \<or> e)"
  shows "a = False" "b = False" "c = False" "d = False" "e = False"
  using assms by simp_all

lemma api_plugin_eq:
  assumes "hq_base_path request = Some bp" and "hq_additional_path request = Some ap"
    and "\<not> is_handshake bp (hq_method request)" and "\<not> is_admin_endpoint bp (hq_method request)"
  shows "api en cx request body = api_plugin en cx request (bp @ ap) bp ap body"
proof -
  note n = not_disj2 [OF assms(3) [unfolded is_handshake_def]] not_disj5 [OF assms(4) [unfolded is_admin_endpoint_def]]
  show ?thesis by (simp only: api_def assms(1,2) ok_or_simps bindP_simple Let_def n if_False)
qed

text \<open>An admin endpoint does nothing without the admin.\<close>

lemma admin_refused: "\<not> admin_ok en request s \<Longrightarrow> \<exists>e. adminP en request s = (bail (AdminAuth e), s)"
  by (cases "hq_bearer request")
    (auto simp: adminP_apply admin_ok_def admin_validate_auth_def split: option.splits if_splits)

lemma api_admin_refused:
  assumes "hq_base_path request = Some bp" and "hq_additional_path request = Some ap"
    and "is_admin_endpoint bp (hq_method request)" and "\<not> admin_ok en request s"
  shows "\<exists>e. api en cx request body s = (bail (AdminAuth e), s)"
proof -
  obtain e where e: "adminP en request s = (bail (AdminAuth e), s)" using admin_refused [OF assms(4)] by blast
  have a: "bindP (adminP en request) k s = (bail (AdminAuth e), s)"
    for k :: "unit \<Rightarrow> ('a api_server, kbs_error, http_response) prog"
    using e by (rule bindP_apply(3))
  have "api en cx request body s = (bail (AdminAuth e), s)"
    using assms(3) unfolding is_admin_endpoint_def
    by (elim disjE) (simp_all add: api_def assms(1,2) a)
  then show ?thesis by blast
qed

lemma plugin_handle_files:
  assumes "plugin_validate_auth plugin body q ap mth = Inr False"
  shows "st_backend (snd (plugin_handle plugin body q ap mth st)) = st_backend st"
proof (cases plugin)
  case (SamplePlugin item)
  with assms show ?thesis by (simp add: plugin_validate_auth_def)
next
  case (ResourcePlugin dir)
  with assms have "mth \<noteq> ''POST''"
    by (auto simp: plugin_validate_auth_def resource_validate_auth_def split: if_splits)
  then show ?thesis by (simp add: ResourcePlugin plugin_handle_def local_fs.handle_state post_of_def)
qed

text \<open>C30. Outside the handshake, no request changes the stored resources, the resource policy, the attestation
  policies, the reference values or the sessions unless the admin authorised it.\<close>

theorem unauthorised_request_changes_nothing:
  assumes "hq_base_path request = Some bp" and "\<not> is_handshake bp (hq_method request)" and "\<not> admin_ok en request s"
    and "api en cx request body s = (r, s')"
  shows "api_as s' = api_as s \<and> api_fs s' = api_fs s \<and> plugin_manager s' = plugin_manager s \<and> admin_auth s' = admin_auth s"
proof (cases "hq_additional_path request")
  case None
  with assms show ?thesis by (auto simp: api_def prog_simps)
next
  case ap: (Some ap)
  show ?thesis
  proof (cases "is_admin_endpoint bp (hq_method request)")
    case True
    with api_admin_refused [OF assms(1) ap True assms(3)] assms(4) show ?thesis by (metis prod.inject)
  next
    case False
    have "api_plugin en cx request (bp @ ap) bp ap body s = (r, s')"
      using assms(4) api_plugin_eq [OF assms(1) ap assms(2) False] by metis
    then show ?thesis
    proof (cases rule: api_plugin_cases)
      case (admin plugin)
      with assms(3) show ?thesis by blast
    next
      case (token plugin)
      from token(3) show ?thesis
        by (cases rule: api_plugin_token_cases)
          (use token(2) in \<open>auto simp: api_fs_def plugin_handle_files upd_policy_metrics_def\<close>)
    qed simp_all
  qed
qed

lemma resource_handle_Inr:
  assumes "fst (resource_handle ops body q ap mth st) = Inr data" and "mth \<noteq> ''POST''"
  shows "mth = ''GET''" and "\<exists>d. desc_ok d \<and> ap = CHR ''/'' # resource_desc_fmt d \<and> fst (so_read ops d (st_backend st)) = Inr data"
proof -
  show get: "mth = ''GET''"
    using assms by (auto simp: resource_handle_def prog_simps bail_def split: sum.splits if_splits)
  obtain v where v: "strip_prefix (CHR ''/'') ap = Some v"
    using assms(1) by (cases "strip_prefix (CHR ''/'') ap") (auto simp: resource_handle_def prog_simps bail_def)
  obtain d where d: "resource_desc_try_from v = Inr d"
    using assms(1) v get by (cases "resource_desc_try_from v") (auto simp: resource_handle_def prog_simps)
  have "fst (so_read ops d (st_backend st)) = Inr data"
    using assms(1) v d get
    by (auto simp: resource_handle_def prog_simps get_secret_resource_def bindP_def backendP_apply split: sum.splits)
  moreover have "ap = CHR ''/'' # resource_desc_fmt d"
    using v d by (auto simp: strip_prefix_def resource_desc_try_from_iff split: list.splits if_splits)
  ultimately show "\<exists>d. desc_ok d \<and> ap = CHR ''/'' # resource_desc_fmt d \<and> fst (so_read ops d (st_backend st)) = Inr data"
    using d by (auto simp: resource_desc_try_from_iff)
qed

lemma local_fs_ops_sel [simp]: "so_read (local_fs_ops dir) = local_fs_read dir" "so_write (local_fs_ops dir) = local_fs_write dir"
  by (simp_all add: local_fs_ops_def)

text \<open>The reply to an allowed call that succeeds, for a caller who is not the admin.\<close>

definition released_to ::
  "'s api_env \<Rightarrow> api_ctx \<Rightarrow> 's api_server \<Rightarrow> string \<Rightarrow> resource_desc \<Rightarrow> json \<Rightarrow> http_response \<Rightarrow> bool" where
  "released_to en cx s dir d claims resp \<longleftrightarrow>
     (\<exists>data key j. fst (local_fs_read dir d (api_fs s)) = Inr data \<and>
        extract_tee_public_key (en_token en) (api_token_verifier s) claims = Inr key \<and>
        jwe (en_jwe en) (cx_jwe cx) key data = Inr j \<and> en_jwe_to_string en j = Some (hr_body resp))"

lemma plugin_reply_resource_get:
  assumes "plugin_reply en cx request ap (ResourcePlugin dir) body tv claims data = Inr resp"
    and "hq_method request = ''GET''"
  shows "\<exists>key j. extract_tee_public_key (en_token en) tv claims = Inr key \<and>
    jwe (en_jwe en) (cx_jwe cx) key data = Inr j \<and> en_jwe_to_string en j = Some (hr_body resp)"
  using assms
  by (auto simp: plugin_reply_def plugin_encrypted_def resource_encrypted_def http_ok_def result_simps)

lemma api_plugin_token_allowed:
  assumes "claims_allowed en cx request endpoint s claims"
    and "fst (plugin_handle plugin body (hq_query request) ap (hq_method request) (api_storage s)) = Inr data"
  shows "fst (api_plugin_token en cx request endpoint ap plugin body s) =
    plugin_reply en cx request ap plugin body (api_token_verifier s) claims data"
proof -
  from assms(1) obtain token claim_str where t: "get_attestation_token (cx_now cx) request s = Inr token"
    "token_verifier_verify (en_token en) (api_token_verifier s) token = Inr claims"
    "json_to_string (en_kbs en) claims = Some claim_str"
    "policy_engine_evaluate (en_rego en) (policy_engine s) endpoint claim_str (api_fs s) = Inr True"
    by (auto simp: claims_allowed_def)
  show ?thesis
    unfolding api_plugin_token_def retP_liftP if_liftP bindP_liftP_and_then plugin_reply_def [symmetric]
    using t assms(2) by (simp add: prog_simps bindP_def [of "storageP _"] storageP_apply)
qed

text \<open>A GET of a stored resource that the policy allows is answered with the encrypted resource.\<close>

lemma api_resource_get:
  assumes "hq_base_path request = Some bp" and "hq_additional_path request = Some (CHR ''/'' # resource_desc_fmt d)"
    and "plugin_manager s bp = Some (ResourcePlugin dir)" and "hq_method request = ''GET''" and "desc_ok d"
    and "\<not> is_admin_endpoint bp ''GET''"
    and "claims_allowed en cx request (bp @ CHR ''/'' # resource_desc_fmt d) s claims"
    and "fst (local_fs_read dir d (api_fs s)) = Inr data"
    and "extract_tee_public_key (en_token en) (api_token_verifier s) claims = Inr key"
    and "jwe (en_jwe en) (cx_jwe cx) key data = Inr j" and "en_jwe_to_string en j = Some text"
  shows "fst (api en cx request body s) = Inr (http_ok (Some ''application/json'') text)"
proof -
  let ?ap = "CHR ''/'' # resource_desc_fmt d"
  have nh: "\<not> is_handshake bp (hq_method request)" using assms(4) by (simp add: is_handshake_def)
  have na: "\<not> is_admin_endpoint bp (hq_method request)" using assms(4,6) by simp
  have "fst (api en cx request body s) = fst (api_plugin_token en cx request (bp @ ?ap) ?ap (ResourcePlugin dir) body s)"
    unfolding api_plugin_eq [OF assms(1,2) nh na]
    by (simp add: api_plugin_def prog_simps assms(3,4) plugin_validate_auth_def resource_validate_auth_def)
  also have "\<dots> = plugin_reply en cx request ?ap (ResourcePlugin dir) body (api_token_verifier s) claims data"
    using assms(4,5,8)
    by (intro api_plugin_token_allowed [OF assms(7)])
      (simp add: plugin_handle_def local_fs.get_result api_fs_def)
  also have "\<dots> = Inr (http_ok (Some ''application/json'') text)"
    using assms(4,9-11) by (simp add: plugin_reply_def plugin_encrypted_def resource_encrypted_def)
  finally show ?thesis .
qed

text \<open>The admin's POST of a resource is stored.\<close>

lemma api_resource_post:
  assumes "hq_base_path request = Some bp" and "hq_additional_path request = Some (CHR ''/'' # resource_desc_fmt d)"
    and "plugin_manager s bp = Some (ResourcePlugin dir)" and "hq_method request = ''POST''" and "desc_ok d"
    and "\<not> is_handshake bp ''POST''" and "\<not> is_admin_endpoint bp ''POST''" and "admin_ok en request s"
    and "repo_inv dir (api_fs s)" and "api en cx request body s = (res, s')"
  shows "(\<exists>resp. res = Inr resp) \<and> plugin_manager s' = plugin_manager s \<and> api_token_verifier s' = api_token_verifier s \<and>
    fst (local_fs_read dir d (api_fs s')) = Inr body"
proof -
  let ?h = "resource_handle (local_fs_ops dir) body (hq_query request) (CHR ''/'' # resource_desc_fmt d) ''POST'' (api_storage s)"
  have w: "fst (so_write (local_fs_ops dir) d body (api_fs s)) = Inr ()" using local_fs.write_ok [OF assms(9,5) TrueI] .
  then have h: "fst ?h = Inr []" "st_backend (snd ?h) = snd (so_write (local_fs_ops dir) d body (api_fs s))"
    using assms(5) by (auto simp: resource_handle_def strip_prefix_def resource_desc_try_from_fmt set_secret_resource_def bindP_def
        prog_simps backendP_def zoomP_def api_fs_def split: prod.splits sum.splits)
  have "api en cx request body s = (Inr (http_ok (Some ''text/xml'') (string_of_bytes [])), s\<lparr>api_storage := snd ?h\<rparr>)"
    using assms(4,6-8) h(1)
    by (simp add: api_plugin_eq [OF assms(1,2)] api_plugin_def prog_simps assms(3) plugin_validate_auth_def resource_validate_auth_def
        adminP_cases plugin_handle_def storageP_apply bindP_eq map_err_def split: prod.splits)
  then show ?thesis
    using assms(10) h(2) local_fs.read_write [OF assms(9,5,5), of body] by (auto simp: api_fs_def)
qed

text \<open>C31. Whatever a caller without the admin's authorisation receives outside the handshake is a resource
  read by GET, allowed by the resource policy for the claims of a verified token, and encrypted for
  the TEE key in these claims.\<close>

theorem resource_release_conditions:
  assumes "hq_base_path request = Some bp" and "hq_additional_path request = Some ap"
    and "\<not> is_handshake bp (hq_method request)" and "\<not> admin_ok en request s"
    and "api en cx request body s = (Inr resp, s')"
  shows "\<exists>dir d claims. plugin_manager s bp = Some (ResourcePlugin dir) \<and> hq_method request = ''GET'' \<and> desc_ok d \<and>
    ap = CHR ''/'' # resource_desc_fmt d \<and> claims_allowed en cx request (bp @ ap) s claims \<and>
    released_to en cx s dir d claims resp"
proof -
  have na: "\<not> is_admin_endpoint bp (hq_method request)"
    using api_admin_refused [OF assms(1,2) _ assms(4), of cx body] assms(5) by (auto simp: bail_def)
  have "api_plugin en cx request (bp @ ap) bp ap body s = (Inr resp, s')"
    using assms(5) api_plugin_eq [OF assms(1,2,3) na] by metis
  then obtain plugin where p: "plugin_manager s bp = Some plugin"
    and v: "plugin_validate_auth plugin body (hq_query request) ap (hq_method request) = Inr False"
    and t: "api_plugin_token en cx request (bp @ ap) ap plugin body s = (Inr resp, s')"
    using assms(4) by (cases rule: api_plugin_cases) (auto simp: bail_def)
  from v obtain dir where dir: "plugin = ResourcePlugin dir" and post: "hq_method request \<noteq> ''POST''"
    by (cases plugin) (auto simp: plugin_validate_auth_def resource_validate_auth_def split: if_splits)
  from t obtain claims where allowed: "claims_allowed en cx request (bp @ ap) s claims"
    and r: "Inr resp = and_then (map_err PluginInternalError
      (fst (plugin_handle plugin body (hq_query request) ap (hq_method request) (api_storage s))))
      (plugin_reply en cx request ap plugin body (api_token_verifier s) claims)"
    by (cases rule: api_plugin_token_cases) (auto simp: bail_def)
  from r obtain data where h: "fst (resource_handle (local_fs_ops dir) body (hq_query request) ap (hq_method request) (api_storage s)) = Inr data"
    and reply: "plugin_reply en cx request ap (ResourcePlugin dir) body (api_token_verifier s) claims data = Inr resp"
    by (auto simp: dir plugin_handle_def and_then_def split: sum.splits)
  note get = resource_handle_Inr [OF h post]
  from get(2) obtain d where d: "desc_ok d" "ap = CHR ''/'' # resource_desc_fmt d"
    and data: "fst (local_fs_read dir d (api_fs s)) = Inr data"
    by (auto simp: api_fs_def)
  have "released_to en cx s dir d claims resp"
    using plugin_reply_resource_get [OF reply get(1)] data by (auto simp: released_to_def)
  then show ?thesis using p dir get(1) allowed d by blast
qed

subsection \<open>Counters of the policy\<close>

definition policy_balanced :: "'s api_server \<Rightarrow> bool" where
  "policy_balanced s \<longleftrightarrow> kbs_policy_evals (policy_metrics s) =
     kbs_policy_errors (policy_metrics s) + kbs_policy_violations (policy_metrics s) + kbs_policy_approvals (policy_metrics s)"

lemma preserves_asP: "preserves policy_balanced (asP w m)"
  by (rule preservesI) (simp add: asP_apply policy_balanced_def)

lemma preserves_policyP: "preserves policy_balanced (policyP m)"
  by (rule preservesI) (simp add: policyP_apply policy_balanced_def)

lemma preserves_adminP: "preserves policy_balanced (adminP en request)"
  by (rule preservesI) (simp add: adminP_apply)

lemmas inc_policy_defs = inc_policy_evals_def inc_policy_errors_def inc_policy_violations_def inc_policy_approvals_def

lemma preserves_api_plugin: "preserves policy_balanced (api_plugin en cx request endpoint bp ap body)"
proof (rule preservesI)
  fix s :: "'a api_server"
  assume s: "policy_balanced s"
  obtain r s' where rs: "api_plugin en cx request endpoint bp ap body s = (r, s')" by fastforce
  then have "policy_balanced s'"
  proof (cases rule: api_plugin_cases)
    case (token plugin)
    from token(3) show ?thesis
      by (cases rule: api_plugin_token_cases)
        (use s in \<open>auto simp: policy_balanced_def upd_policy_metrics_def inc_policy_defs\<close>)
  qed (use s in \<open>simp_all add: policy_balanced_def\<close>)
  then show "policy_balanced (snd (api_plugin en cx request endpoint bp ap body s))" by (simp add: rs)
qed

lemma preserves_If: "preserves I m \<Longrightarrow> preserves I m' \<Longrightarrow> preserves I (if b then m else m')"
  by simp

lemma preserves_api: "preserves policy_balanced (api en cx request body)"
  unfolding api_def Let_def
  by (intro preserves_bindP preserves_basic preserves_If
      preserves_asP preserves_policyP preserves_adminP preserves_api_plugin)

fun serve_all :: "'s api_env \<Rightarrow> (api_ctx \<times> http_request \<times> bytes) list \<Rightarrow> 's api_server \<Rightarrow> 's api_server" where
  "serve_all en [] s = s"
| "serve_all en ((cx, request, body) # rs) s = serve_all en rs (snd (api en cx request body s))"

lemma serve_all_balanced: "policy_balanced s \<Longrightarrow> policy_balanced (serve_all en rs s)"
  by (induction en rs s rule: serve_all.induct) (auto dest: preservesD [OF preserves_api])

text \<open>In every server that has started and answered any requests, the number of policy evaluations is the
  number of approvals, denials and errors together.\<close>

theorem policy_metrics_balanced:
  assumes "api_server_new en default_policy inner config f = (Inr s, f')"
  shows "kbs_policy_evals (policy_metrics (serve_all en rs s)) =
    kbs_policy_errors (policy_metrics (serve_all en rs s)) + kbs_policy_violations (policy_metrics (serve_all en rs s)) +
    kbs_policy_approvals (policy_metrics (serve_all en rs s))"
proof -
  have "policy_balanced s"
    using assms
    by (auto simp: api_server_new_def bindP_def prog_simps policy_balanced_def split: prod.splits sum.splits)
  then show ?thesis using serve_all_balanced [of s en rs] by (simp add: policy_balanced_def)
qed

subsection \<open>Status codes\<close>

text \<open>What a program returns and which errors it raises, in any state.\<close>

definition returns :: "('a \<Rightarrow> bool) \<Rightarrow> ('e \<Rightarrow> bool) \<Rightarrow> ('s, 'e, 'a) prog \<Rightarrow> bool" where
  "returns Q P m \<longleftrightarrow> (\<forall>s. case fst (m s) of Inr x \<Rightarrow> Q x | Inl (Err e) \<Rightarrow> P e | Inl (Panic _) \<Rightarrow> True)"

lemma returnsI:
  "(\<And>s x t. m s = (Inr x, t) \<Longrightarrow> Q x) \<Longrightarrow> (\<And>s e t. m s = (Inl (Err e), t) \<Longrightarrow> P e) \<Longrightarrow> returns Q P m"
  unfolding returns_def by (simp split: sum.split failure.split) (metis prod.collapse)

lemma returnsD:
  "returns Q P m \<Longrightarrow> m s = (Inr x, t) \<Longrightarrow> Q x" "returns Q P m \<Longrightarrow> m s = (Inl (Err e), t) \<Longrightarrow> P e"
  by (auto simp: returns_def dest!: spec [of _ s])

lemma returns_bindP:
  assumes "returns (\<lambda>_. True) P m" and "\<And>x. returns Q P (k x)"
  shows "returns Q P (bindP m k)"
  by (rule returnsI; erule bindP_cases) (use assms in \<open>auto dest: returnsD\<close>)

lemma returns_basic:
  "Q x \<Longrightarrow> returns Q P (retP x)" "P e \<Longrightarrow> returns Q P (bailP e)" "returns (\<lambda>_. True) P (readP g)"
  "returns (\<lambda>_. True) P (modifyP f)" "P e \<Longrightarrow> returns (\<lambda>_. True) P (liftP (ok_or v e))"
  "(\<And>e. P (w e)) \<Longrightarrow> returns (\<lambda>_. True) P (liftP (map_err w m))" "returns (\<lambda>_. True) (\<lambda>_. True) m'"
  by (auto simp: returns_def prog_apply bail_def ok_or_def map_err_def split: option.splits sum.splits failure.splits)

lemma returns_inspect_err: "returns Q P m \<Longrightarrow> returns Q P (inspect_err g m)"
  by (rule returnsI) (auto simp: inspect_err_def dest: returnsD split: prod.splits sum.splits failure.splits)

lemma returns_If: "(b \<Longrightarrow> returns Q P m) \<Longrightarrow> (\<not> b \<Longrightarrow> returns Q P m') \<Longrightarrow> returns Q P (if b then m else m')"
  by simp

lemma returns_asP: "returns Q (\<lambda>_. True) m \<Longrightarrow> (\<And>e. P (w e)) \<Longrightarrow> returns Q P (asP w m)"
  unfolding returns_def asP_apply by (fastforce simp: map_err_def split: sum.splits failure.splits)

lemma returns_storageP: "(\<And>e. P (PluginInternalError e)) \<Longrightarrow> returns (\<lambda>_. True) P (storageP m)"
  by (auto simp: returns_def storageP_apply map_err_def split: sum.splits failure.splits)

lemma returns_policyP: "(\<And>e. P (PolicyEngineFailed e)) \<Longrightarrow> returns (\<lambda>_. True) P (policyP m)"
  by (auto simp: returns_def policyP_apply map_err_def split: sum.splits failure.splits)

lemma returns_adminP: "(\<And>e. P (AdminAuth e)) \<Longrightarrow> returns (\<lambda>_. True) P (adminP en request)"
  by (auto simp: returns_def adminP_apply map_err_def split: sum.splits failure.splits)

lemmas returns_rules = returns_bindP returns_basic returns_inspect_err returns_If returns_asP returns_storageP
  returns_policyP returns_adminP

abbreviation status_ok :: "http_response \<Rightarrow> bool" where
  "status_ok resp \<equiv> hr_status resp = 200"

definition not_missing :: "kbs_error \<Rightarrow> bool" where
  "not_missing e = (case e of InvalidRequestPath _ \<Rightarrow> False | PluginNotFound _ \<Rightarrow> False | _ \<Rightarrow> True)"

lemma not_missing_simps [simp]:
  "not_missing (AdminAuth a)" "not_missing (AttestationError b)" "not_missing (JweError x)"
  "not_missing (PluginInternalError x)" "not_missing PolicyDeny" "not_missing (PolicyEngineFailed p)"
  "not_missing (RvpsError x)" "not_missing SerdeError" "not_missing TokenNotFound" "not_missing (TokenVerifierError t)"
  by (simp_all add: not_missing_def)

lemma http_ok_status [simp]: "hr_status (http_ok c b) = 200"
  by (simp add: http_ok_def)

lemma as_auth_status: "returns status_ok (\<lambda>_. True) (as_auth k ai uuid rnd now req)"
  unfolding as_auth_def Let_def by (intro returns_rules TrueI) simp

lemma attest_finish_status: "returns status_ok (\<lambda>_. True) (attest_finish k ai p)"
  unfolding attest_finish_def Let_def by (intro returns_rules TrueI) (simp add: token_response_def)

lemma as_attest_status: "returns status_ok (\<lambda>_. True) (as_attest k ai now ck att)"
proof (rule returnsI)
  fix s x t
  assume "as_attest k ai now ck att s = (Inr x, t)"
  then obtain y u where "attest_begin k now ck att s = (Inr y, u)"
    and y: "(case y of Inl response \<Rightarrow> retP response | Inr p \<Rightarrow> attest_finish k ai p) u = (Inr x, t)"
    unfolding as_attest_def by (auto elim: bindP_cases)
  moreover have "returns (\<lambda>z. case z of Inl response \<Rightarrow> status_ok response | Inr p \<Rightarrow> True) (\<lambda>_. True)
      (attest_begin k now ck att)"
    unfolding attest_begin_def
    by (intro returns_rules TrueI)
      (auto simp: token_response_def token_body_def intro!: returns_rules split: session_status.split)
  ultimately have "case y of Inl response \<Rightarrow> status_ok response | Inr p \<Rightarrow> True" by (auto dest: returnsD)
  then show "status_ok x"
    using y returnsD(1) [OF attest_finish_status] by (cases y) (auto simp: retP_def)
qed simp

lemma api_plugin_token_status:
  "returns status_ok not_missing (api_plugin_token en cx request endpoint ap plugin body)"
  unfolding api_plugin_token_def by (intro returns_rules TrueI) simp_all

lemma api_plugin_status:
  assumes "plugin_manager s bp = Some plugin" and "api_plugin en cx request endpoint bp ap body s = (r, s')"
  shows "case r of Inr x \<Rightarrow> status_ok x | Inl (Err e) \<Rightarrow> not_missing e | Inl (Panic _) \<Rightarrow> True"
  using assms(2)
proof (cases rule: api_plugin_cases)
  case (token p)
  then show ?thesis using api_plugin_token_status [of en cx request endpoint ap p body]
    by (auto dest: returnsD split: sum.split failure.split)
qed (use assms(1) in \<open>auto simp: bail_def and_then_def map_err_def split: sum.split failure.split\<close>)

lemma api_builtin_status:
  assumes "hq_base_path request = Some bp" and "hq_additional_path request = Some ap"
    and "is_handshake bp (hq_method request) \<or> is_admin_endpoint bp (hq_method request)"
  shows "returns status_ok not_missing (api en cx request body)"
  using assms(3) unfolding is_handshake_def is_admin_endpoint_def
  by (elim disjE conjE; simp add: api_def assms(1,2))
    (intro returns_rules as_auth_status as_attest_status TrueI; simp)+

text \<open>The requests no part of the server is responsible for.\<close>

definition unserved :: "'s api_server \<Rightarrow> http_request \<Rightarrow> bool" where
  "unserved s request \<longleftrightarrow>
     (case (hq_base_path request, hq_additional_path request) of
        (Some bp, Some ap) \<Rightarrow> \<not> is_handshake bp (hq_method request) \<and> \<not> is_admin_endpoint bp (hq_method request) \<and>
          plugin_manager s bp = None
      | _ \<Rightarrow> True)"

text \<open>Every response has the status 200, 401 or 404, and it is 404 exactly when the path of the request
  has no base or names neither a built-in endpoint nor a configured plugin.\<close>

theorem api_response_status:
  assumes "respond info (fst (api en cx request body s)) = Some resp"
  shows "hr_status resp \<in> {200, 401, 404} \<and> (hr_status resp = 404 \<longleftrightarrow> unserved s request)"
proof -
  obtain r s' where rs: "api en cx request body s = (r, s')" by fastforce
  have found: "hr_status resp \<in> {200, 401, 404} \<and> hr_status resp \<noteq> 404"
    if "case r of Inr x \<Rightarrow> status_ok x | Inl (Err e) \<Rightarrow> not_missing e | Inl (Panic _) \<Rightarrow> True"
    using that assms rs
    by (auto simp: respond_def error_response_def Let_def not_missing_def split: sum.splits failure.splits kbs_error.splits)
  show ?thesis
  proof (cases "hq_base_path request = None \<or> hq_additional_path request = None")
    case True
    then have "r = bail (InvalidRequestPath (hq_path request))"
      using rs by (cases "hq_base_path request"; cases "hq_additional_path request") (simp_all add: api_def prog_simps)
    with assms rs True show ?thesis
      by (auto simp: respond_def error_response_def bail_def unserved_def split: option.splits)
  next
    case False
    then obtain bp ap where b: "hq_base_path request = Some bp" "hq_additional_path request = Some ap" by auto
    show ?thesis
    proof (cases "is_handshake bp (hq_method request) \<or> is_admin_endpoint bp (hq_method request)")
      case True
      have "case r of Inr x \<Rightarrow> status_ok x | Inl (Err e) \<Rightarrow> not_missing e | Inl (Panic _) \<Rightarrow> True"
        using api_builtin_status [OF b True, of en cx body] rs by (auto simp: returns_def dest: spec [of _ s])
      from found [OF this] b True show ?thesis by (auto simp: unserved_def)
    next
      case False
      then have api: "api_plugin en cx request (bp @ ap) bp ap body s = (r, s')"
        using rs api_plugin_eq [OF b] by metis
      show ?thesis
      proof (cases "plugin_manager s bp")
        case None
        from api None have "r = bail (PluginNotFound bp)" by (cases rule: api_plugin_cases) auto
        with assms rs b None False show ?thesis
          by (auto simp: respond_def error_response_def bail_def unserved_def)
      next
        case (Some plugin)
        with found [OF api_plugin_status [OF Some api]] b show ?thesis by (auto simp: unserved_def)
      qed
    qed
  qed
qed

subsection \<open>Metrics and limits\<close>

text \<open>A request under /kbs leaves the gauge of active connections as it was when the handler returns a
  response, and one too high when it fails or panics. The size of the response is recorded among the
  sizes of the requests, and the sizes of the responses are never recorded.\<close>

theorem middleware_metrics:
  assumes "starts_with ''/kbs'' path"
    and "prometheus_metrics_middleware path content_length handled m = (r, m')"
  shows "active_connections m' = active_connections m + (if \<exists>n. handled = Inr n then 0 else 1) \<and>
    request_total m' = request_total m + 1 \<and> response_sizes m' = response_sizes m \<and>
    (\<forall>len. handled = Inr (Some len) \<longrightarrow> last (request_sizes m') = len)"
  using assms by (cases handled) (auto simp: prometheus_metrics_middleware_def prog_simps)

text \<open>C32. In a release build the limit of the request body is the configured number of megabytes exactly when
  that is below 4096; from there on the product wraps, so that 4096 megabytes mean that no body at all is
  accepted.\<close>

theorem payload_limit_exact_iff:
  "(payload_limit False mb = Inr (2 ^ 20 * unat mb) \<longleftrightarrow> unat mb < 4096) \<and> payload_limit False 4096 = Inr 0"
proof -
  have "unat (1024 * 1024 * mb) = (1048576 * unat mb) mod 4294967296"
    by (simp add: unat_word_ariths)
  moreover have "(1048576 * unat mb) mod 4294967296 = 1048576 * unat mb \<longleftrightarrow> unat mb < 4096"
    by (auto simp: mod_eq_self_iff_div_eq_0 div_eq_0_iff)
  ultimately show ?thesis by (simp add: payload_limit_def)
qed

theorem middleware_metrics_witness:
  "active_connections (snd (prometheus_metrics_middleware ''/kbs/v0/attest'' None (panic ''x'' :: nat option anyhow)
     \<lparr>active_connections = 0, request_total = 0, request_sizes = [], response_sizes = [], request_durations = 0\<rparr>)) = 1"
  using middleware_metrics [of "''/kbs/v0/attest''" None "panic ''x'' :: nat option anyhow"
      "\<lparr>active_connections = 0, request_total = 0, request_sizes = [], response_sizes = [], request_durations = 0\<rparr>"]
  by (auto simp: starts_with_def panic_def prod_eq_iff)

subsection \<open>A concrete server\<close>

definition sample_env :: "unit api_env" where
  "sample_env = \<lparr>en_kbs = sample_kbs, en_attest = sample_impl, en_token = sample_token_crates, en_rego = sample_rego,
     en_jwe = sample_jwe, en_reference_values_to_string = (\<lambda>_. Some ''{}''),
     en_jwe_to_string = (\<lambda>j. Some (string_of_bytes (jw_ciphertext j)))\<rparr>"

definition sample_ctx :: api_ctx where
  "sample_ctx = \<lparr>cx_now = 0, cx_uuid = ''id'', cx_entropy = sample_entropy, cx_jwe = sample_random\<rparr>"

definition sample_server :: "unit api_server" where
  "sample_server = \<lparr>plugin_manager = [''resource'' \<mapsto> ResourcePlugin ''''], api_as = as_new () 5, policy_engine = ''p'',
     admin_auth = \<lparr>public_key = Some (as_bytes ''secret'')\<rparr>,
     api_token_verifier = \<lparr>tv_verifier = \<lparr>trusted_jwk_sets = [\<lparr>jwk_key_algorithm = Some ''ES256'', jwk_kid = Some ''k'',
       jwk_x509_chain = None, jwk_algorithm = Other_params\<rparr>], trusted_certs = [], insecure_key = False\<rparr>,
       extra_teekey_paths = [''/tee-pubkey'']\<rparr>,
     api_storage = \<lparr>st_backend = [[] \<mapsto> Dir, [''p''] \<mapsto> File (as_bytes ''allow''), [''a''] \<mapsto> Dir, [''a'', ''b''] \<mapsto> Dir,
       [''a'', ''b'', ''c''] \<mapsto> File [7]], resource_reads_total = (\<lambda>_. 0), resource_writes_total = (\<lambda>_. 0)\<rparr>,
     policy_metrics = \<lparr>kbs_policy_evals = 0, kbs_policy_errors = 0, kbs_policy_violations = 0, kbs_policy_approvals = 0\<rparr>\<rparr>"

definition sample_get :: http_request where
  "sample_get = \<lparr>hq_method = ''GET'', hq_path = ''/kbs/v0/resource/a/b/c'', hq_query = '''', hq_base_path = Some ''resource'',
     hq_additional_path = Some ''/a/b/c'', hq_cookie = None, hq_bearer = Some ''tok''\<rparr>"

lemma sample_sel:
  "hq_base_path sample_get = Some ''resource''" "hq_additional_path sample_get = Some ''/a/b/c''" "hq_method sample_get = ''GET''"
  "plugin_manager sample_server ''resource'' = Some (ResourcePlugin '''')"
  "en_jwe_to_string sample_env j = Some (string_of_bytes (jw_ciphertext j))" "en_jwe sample_env = sample_jwe"
  "cx_jwe sample_ctx = sample_random" "\<not> is_admin_endpoint ''resource'' ''GET''" "\<not> is_handshake ''resource'' (hq_method sample_get)"
  by (simp_all add: sample_get_def sample_server_def sample_env_def sample_ctx_def is_admin_endpoint_def is_handshake_def)

lemma sample_get_not_admin: "\<not> admin_ok sample_env sample_get sample_server"
  by (simp add: admin_ok_def admin_validate_auth_def sample_env_def sample_server_def sample_get_def
      sample_token_crates_def as_bytes_def)

lemma sample_get_allowed: "opa_evaluate sample_rego ''p'' e c
    [[] \<mapsto> Dir, [''p''] \<mapsto> File (as_bytes ''allow''), [''a''] \<mapsto> Dir, [''a'', ''b''] \<mapsto> Dir, [''a'', ''b'', ''c''] \<mapsto> File [7]] = Inr True"
proof -
  have "from_utf8 (as_bytes ''allow'') = Some ''allow''" by code_simp
  then show ?thesis
    by (simp add: opa_evaluate_def fs_read_def resolve_def components_def sample_rego_def)
qed

lemma sample_resource_get:
  "fst (resource_handle (local_fs_ops '''') [] '''' ''/a/b/c'' ''GET'' (api_storage sample_server)) = Inr [7]"
  by (simp add: resource_handle_def strip_prefix_def resource_desc_try_from_def segment_ok_def word_char_def prog_simps
      get_secret_resource_def bindP_def backendP_apply local_fs_read_def readF_def sample_server_def fs_read_def resolve_def
      components_def path_push_def)

lemma sample_claims_allowed:
  "claims_allowed sample_env sample_ctx sample_get e sample_server (JString ''tok'')"
  unfolding claims_allowed_def
  by (rule exI [of _ "''tok''"], rule exI [of _ "''{}''"])
    (simp add: sample_get_def sample_server_def get_attestation_token_def get_attest_token_from_session_def
      token_verifier_verify_def jwk_verify_def sample_env_def sample_token_crates_def get_verification_jwk_def
      sample_kbs_def policy_engine_evaluate_def api_fs_def sample_get_allowed)

definition sample_desc :: resource_desc where
  "sample_desc = \<lparr>repository_name = ''a'', resource_type = ''b'', resource_tag = ''c''\<rparr>"

lemma sample_desc_ok: "desc_ok sample_desc" "CHR ''/'' # resource_desc_fmt sample_desc = ''/a/b/c''"
  by (simp_all add: sample_desc_def desc_ok_def segment_ok_def word_char_def resource_desc_fmt_def)

lemma sample_get_ok:
  "fst (api sample_env sample_ctx sample_get [] sample_server) =
     Inr (http_ok (Some ''application/json'') (string_of_bytes [14]))"
proof -
  have "fst (local_fs_read '''' sample_desc (api_fs sample_server)) = Inr [7]"
    by (simp add: sample_desc_def local_fs_read_def readF_def sample_server_def fs_read_def resolve_def
      components_def path_push_def api_fs_def)
  moreover have "extract_tee_public_key (en_token sample_env) (api_token_verifier sample_server) (JString ''tok'') =
      Inr (TeeRSA ''RSA-OAEP-256'' '''' '''')"
    by (simp add: sample_env_def sample_server_def sample_token_crates_def extract_tee_public_key_def)
  moreover obtain j where "jwe sample_jwe sample_random (TeeRSA ''RSA-OAEP-256'' '''' '''') [7] = Inr j"
    and "jw_ciphertext j = [14]"
    by (simp add: jwe_def rsa_oaep256_def sample_jwe_def sample_random_def key_byte_def Let_def)
  ultimately show ?thesis
    using sample_desc_ok
    by (intro api_resource_get [where d = sample_desc and claims = "JString ''tok''" and data = "[7]"
          and key = "TeeRSA ''RSA-OAEP-256'' '''' ''''" and j = j and bp = "''resource''" and dir = "''''"])
      (simp_all add: sample_sel sample_claims_allowed)
qed

theorem unauthorised_request_changes_nothing_witness:
  "api_fs (snd (api sample_env sample_ctx sample_get [] sample_server)) = api_fs sample_server"
  using unauthorised_request_changes_nothing [OF sample_sel(1,9) sample_get_not_admin prod.collapse [symmetric]]
  by blast

theorem resource_release_conditions_witness:
  "\<exists>dir d claims. plugin_manager sample_server ''resource'' = Some (ResourcePlugin dir) \<and> desc_ok d \<and>
     claims_allowed sample_env sample_ctx sample_get (''resource'' @ ''/a/b/c'') sample_server claims \<and>
     released_to sample_env sample_ctx sample_server dir d claims
       (http_ok (Some ''application/json'') (string_of_bytes [14]))"
proof -
  obtain s' where "api sample_env sample_ctx sample_get [] sample_server =
      (Inr (http_ok (Some ''application/json'') (string_of_bytes [14])), s')"
    using sample_get_ok by (cases "api sample_env sample_ctx sample_get [] sample_server") simp
  from resource_release_conditions [OF sample_sel(1,2,9) sample_get_not_admin this] show ?thesis by blast
qed

theorem api_response_status_witness:
  "hr_status (error_response (\<lambda>t d. t) (PluginNotFound ''x'')) = 404 \<and>
   unserved sample_server (sample_get\<lparr>hq_base_path := Some ''x''\<rparr>)"
proof -
  have "fst (api sample_env sample_ctx (sample_get\<lparr>hq_base_path := Some ''x''\<rparr>) [] sample_server) = bail (PluginNotFound ''x'')"
    by (simp add: api_def api_plugin_def prog_simps sample_get_def sample_server_def bail_def)
  then have "respond (\<lambda>t d. t) (fst (api sample_env sample_ctx (sample_get\<lparr>hq_base_path := Some ''x''\<rparr>) [] sample_server)) =
      Some (error_response (\<lambda>t d. t) (PluginNotFound ''x''))"
    by (simp add: respond_def bail_def)
  from api_response_status [OF this] show ?thesis by (simp add: error_response_def)
qed

definition sample_config :: kbs_config where
  "sample_config = \<lparr>kc_attestation_token = \<lparr>cfg_extra_teekey_paths = [], cfg_trusted_certs_paths = [],
       cfg_trusted_jwk_sets = [], cfg_insecure_key = False\<rparr>, kc_timeout = 5, kc_payload_request_size = 2,
     kc_admin = \<lparr>auth_public_key = None, insecure_api = True\<rparr>, kc_policy_path = ''d/p'',
     kc_plugins = [SampleConfig ''x'', ResourceStorageConfig (LocalFsConfig ''r'')]\<rparr>"

lemma sample_server_new: "\<exists>s f'. api_server_new sample_env ''allow'' (Inr ()) sample_config [[] \<mapsto> Dir] = (Inr s, f')"
  by (simp add: api_server_new_def sample_config_def plugin_manager_try_from_def plugins_config_try_into_def
      resource_storage_try_from_def local_fs_new_def prog_simps map_errP_def fs_exists_def resolve_def components_def
      create_dir_allF_def fs_create_dir_all_def token_verifier_from_config_def jwk_verifier_new_def bindP_def
      policy_engine_new_def opa_new_def path_parent_def io_def writeF_def fs_write_def admin_try_from_def)

theorem policy_metrics_balanced_witness:
  "\<exists>s f'. api_server_new sample_env ''allow'' (Inr ()) sample_config [[] \<mapsto> Dir] = (Inr s, f') \<and>
     kbs_policy_evals (policy_metrics (serve_all sample_env [(sample_ctx, sample_get, [])] s)) =
       kbs_policy_errors (policy_metrics (serve_all sample_env [(sample_ctx, sample_get, [])] s)) +
       kbs_policy_violations (policy_metrics (serve_all sample_env [(sample_ctx, sample_get, [])] s)) +
       kbs_policy_approvals (policy_metrics (serve_all sample_env [(sample_ctx, sample_get, [])] s))"
  using sample_server_new policy_metrics_balanced by blast

end
