(* ===== verification/Rvps.thy ===== *)
theory Rvps
  imports File_System "HOL-Library.Countable" "HOL-Library.AList"
begin

text \<open>
  The reference value provider service (\<^verbatim>\<open>rvps/src/\<close>): reference values, the storage interface with its
  two implementations (a sled database and a JSON file), the extractors and the service on top of them.
  The interface is a locale whose laws say that a storage is a map from names to values; the service is
  proved correct in it, and both implementations are shown to obey the laws.
\<close>

subsection \<open>Reference values\<close>

record reference_value =
  rv_version :: string
  rv_name :: string
  rv_expiration :: time
  rv_value :: json

record message =
  msg_version :: string
  msg_payload :: string
  msg_type :: string

text \<open>The crates: \<open>rc_with_nanosecond_0\<close> and \<open>rc_checked_add_months\<close> are those of \<^verbatim>\<open>chrono\<close>, the others the
  serialisers. A \<^verbatim>\<open>HashMap\<close> is given as a list in the order in which it is iterated.\<close>

record rv_crates =
  rc_with_nanosecond_0 :: "time \<Rightarrow> time option"
  rc_checked_add_months :: "time \<Rightarrow> nat \<Rightarrow> time option"
  rc_to_vec :: "reference_value \<Rightarrow> bytes option"
  rc_from_slice :: "bytes \<Rightarrow> reference_value option"
  rc_list_to_vec :: "reference_value list \<Rightarrow> bytes option"
  rc_list_from_slice :: "bytes \<Rightarrow> reference_value list option"
  rc_message_from_str :: "string \<Rightarrow> message option"
  rc_b64_decode :: "string \<Rightarrow> bytes option"
  rc_provenance_from_slice :: "bytes \<Rightarrow> (string \<times> json) list option"

definition reference_value_version :: string where
  "reference_value_version = ''0.1.0''"

definition months_before_expiration :: nat where
  "months_before_expiration = 12"

definition reference_value_new :: "rv_crates \<Rightarrow> time \<Rightarrow> reference_value anyhow" where
  "reference_value_new c now =
     and_then (ok_or (Option.bind (rc_with_nanosecond_0 c now) (\<lambda>t. rc_checked_add_months c t months_before_expiration))
                ''Failed to set time.'') (\<lambda>e.
       Inr \<lparr>rv_version = reference_value_version, rv_name = '''', rv_expiration = e, rv_value = JNull\<rparr>)"

definition set_version :: "string \<Rightarrow> reference_value \<Rightarrow> reference_value" where
  "set_version v rv = rv\<lparr>rv_version := v\<rparr>"

definition set_expiration :: "rv_crates \<Rightarrow> time \<Rightarrow> reference_value \<Rightarrow> reference_value anyhow" where
  "set_expiration c e rv =
     (case rc_with_nanosecond_0 c e of None \<Rightarrow> panic ''Set nanosecond failed.'' | Some t \<Rightarrow> Inr (rv\<lparr>rv_expiration := t\<rparr>))"

definition set_value :: "json \<Rightarrow> reference_value \<Rightarrow> reference_value" where
  "set_value v rv = rv\<lparr>rv_value := v\<rparr>"

definition set_name :: "string \<Rightarrow> reference_value \<Rightarrow> reference_value" where
  "set_name n rv = rv\<lparr>rv_name := n\<rparr>"

definition expired :: "time \<Rightarrow> reference_value \<Rightarrow> bool" where
  "expired now rv \<longleftrightarrow> now > rv_expiration rv"

subsection \<open>Storage\<close>

record 's rv_storage =
  rs_set :: "string \<Rightarrow> reference_value \<Rightarrow> ('s, string, reference_value option) prog"
  rs_get :: "string \<Rightarrow> ('s, string, reference_value option) prog"
  rs_get_values :: "('s, string, reference_value list) prog"

text \<open>The sled database: \<open>sl_iter\<close> gives the entries, \<open>None\<close> for one that cannot be read.\<close>

record 'd sled =
  sl_open :: "string \<Rightarrow> 'd anyhow"
  sl_insert :: "string \<Rightarrow> bytes \<Rightarrow> ('d, string, bytes option) prog"
  sl_get :: "string \<Rightarrow> 'd \<Rightarrow> bytes option anyhow"
  sl_iter :: "'d \<Rightarrow> (string \<times> bytes) option list"
  sl_flush :: "('d, string, unit) prog"

definition rvps_local_fs_new :: "'d sled \<Rightarrow> string \<Rightarrow> 'd anyhow" where
  "rvps_local_fs_new sl file_path = sl_open sl file_path"

text \<open>The result of reading the old value is kept until the database is flushed, but an old value that
  cannot be read ends the function before.\<close>

definition rvps_local_fs_set ::
  "rv_crates \<Rightarrow> 'd sled \<Rightarrow> string \<Rightarrow> reference_value \<Rightarrow> ('d, string, reference_value option) prog" where
  "rvps_local_fs_set c sl name rv =
     bindP (liftP (ok_or (rc_to_vec c rv) ''serialize'')) (\<lambda>rv_serde.
     bindP (map_errP (\<lambda>_. ''insert into sled'') (sl_insert sl name rv_serde)) (\<lambda>old.
     bindP (case old of
              Some v \<Rightarrow> bindP (liftP (ok_or (rc_from_slice c v) ''deserialize'')) (\<lambda>v. retP (Some v))
            | None \<Rightarrow> retP None) (\<lambda>res.
     bindP (sl_flush sl) (\<lambda>_. retP res))))"

definition rvps_local_fs_get ::
  "rv_crates \<Rightarrow> 'd sled \<Rightarrow> string \<Rightarrow> ('d, string, reference_value option) prog" where
  "rvps_local_fs_get c sl name =
     bindP (readP (sl_get sl name)) (\<lambda>r.
     bindP (liftP (map_err (\<lambda>_. ''read from sled'') r)) (\<lambda>got.
       case got of
         Some v \<Rightarrow> bindP (liftP (ok_or (rc_from_slice c v) ''deserialize'')) (\<lambda>v. retP (Some v))
       | None \<Rightarrow> retP None))"

fun read_values :: "rv_crates \<Rightarrow> (string \<times> bytes) option list \<Rightarrow> reference_value list anyhow" where
  "read_values c [] = Inr []"
| "read_values c (None # xs) = read_values c xs"
| "read_values c (Some (k, v) # xs) =
     and_then (ok_or (rc_from_slice c v) ''deserialize'') (\<lambda>rv.
     and_then (read_values c xs) (\<lambda>rvs. Inr (rv # rvs)))"

definition rvps_local_fs_get_values :: "rv_crates \<Rightarrow> 'd sled \<Rightarrow> ('d, string, reference_value list) prog" where
  "rvps_local_fs_get_values c sl = bindP (readP (sl_iter sl)) (\<lambda>entries. liftP (read_values c entries))"

definition rvps_local_fs :: "rv_crates \<Rightarrow> 'd sled \<Rightarrow> 'd rv_storage" where
  "rvps_local_fs c sl = \<lparr>rs_set = rvps_local_fs_set c sl, rs_get = rvps_local_fs_get c sl,
     rs_get_values = rvps_local_fs_get_values c sl\<rparr>"

definition local_json_new :: "string \<Rightarrow> (fs, string, string) prog" where
  "local_json_new file_path =
     (let path = path_push '''' file_path in
      bindP (liftP (ok_or (path_parent path) ''Illegal `file_path` for LocalJson's config without a parent dir.''))
        (\<lambda>parent_dir.
      bindP (create_dir_allF ''create dir'' parent_dir) (\<lambda>_.
      bindP (readP (\<lambda>f. fs_exists f path)) (\<lambda>ex.
      bindP (if \<not> ex then writeF ''write'' file_path (as_bytes ''[]'') else retP ()) (\<lambda>_.
        retP file_path)))))"

text \<open>\<^verbatim>\<open>rvs.iter_mut().find(...)\<close> and the assignment to what it found.\<close>

fun replace_first :: "string \<Rightarrow> reference_value \<Rightarrow> reference_value list \<Rightarrow> reference_value option \<times> reference_value list" where
  "replace_first name rv [] = (None, [rv])"
| "replace_first name rv (it # its) =
     (if rv_name it = name then (Some it, rv # its)
      else (case replace_first name rv its of (res, its') \<Rightarrow> (res, it # its')))"

text \<open>\<^verbatim>\<open>set\<close> in two parts: between the read and the write other tasks can run, because the guard of the
  lock is bound to \<^verbatim>\<open>_\<close> and so released at once.\<close>

definition local_json_set_read ::
  "rv_crates \<Rightarrow> string \<Rightarrow> string \<Rightarrow> reference_value \<Rightarrow> (fs, string, reference_value option \<times> bytes) prog" where
  "local_json_set_read c file_path name rv =
     bindP (readF ''read'' file_path) (\<lambda>file.
     bindP (liftP (ok_or (rc_list_from_slice c file) ''deserialize'')) (\<lambda>rvs.
       case replace_first name rv rvs of (res, rvs) \<Rightarrow>
         bindP (liftP (ok_or (rc_list_to_vec c rvs) ''serialize'')) (\<lambda>contents. retP (res, contents))))"

definition local_json_set_write ::
  "string \<Rightarrow> reference_value option \<times> bytes \<Rightarrow> (fs, string, reference_value option) prog" where
  "local_json_set_write file_path p =
     (case p of (res, contents) \<Rightarrow> bindP (writeF ''write'' file_path contents) (\<lambda>_. retP res))"

definition local_json_set ::
  "rv_crates \<Rightarrow> string \<Rightarrow> string \<Rightarrow> reference_value \<Rightarrow> (fs, string, reference_value option) prog" where
  "local_json_set c file_path name rv =
     bindP (local_json_set_read c file_path name rv) (local_json_set_write file_path)"

definition local_json_get_values :: "rv_crates \<Rightarrow> string \<Rightarrow> (fs, string, reference_value list) prog" where
  "local_json_get_values c file_path =
     bindP (readF ''read'' file_path) (\<lambda>file. liftP (ok_or (rc_list_from_slice c file) ''deserialize''))"

definition local_json_get :: "rv_crates \<Rightarrow> string \<Rightarrow> string \<Rightarrow> (fs, string, reference_value option) prog" where
  "local_json_get c file_path name =
     bindP (readF ''read'' file_path) (\<lambda>file.
     bindP (liftP (ok_or (rc_list_from_slice c file) ''deserialize'')) (\<lambda>rvs.
       retP (find (\<lambda>rv. rv_name rv = name) rvs)))"

definition local_json :: "rv_crates \<Rightarrow> string \<Rightarrow> fs rv_storage" where
  "local_json c file_path = \<lparr>rs_set = local_json_set c file_path, rs_get = local_json_get c file_path,
     rs_get_values = local_json_get_values c file_path\<rparr>"

subsection \<open>Extractors\<close>

fun collect_some :: "'a option list \<Rightarrow> 'a list" where
  "collect_some [] = []"
| "collect_some (None # xs) = collect_some xs"
| "collect_some (Some x # xs) = x # collect_some xs"

definition sample_verify_and_extract :: "rv_crates \<Rightarrow> time \<Rightarrow> string \<Rightarrow> reference_value list anyhow" where
  "sample_verify_and_extract c now provenance_base64 =
     and_then (ok_or (rc_b64_decode c provenance_base64) ''base64 decode'') (\<lambda>provenance.
     and_then (ok_or (rc_provenance_from_slice c provenance) ''deseralize sample provenance'') (\<lambda>rvs.
       Inr (collect_some (map (\<lambda>(name, values).
         (case reference_value_new c now of
            Inl _ \<Rightarrow> None
          | Inr rv \<Rightarrow> Some (set_value values (set_name name rv)))) rvs))))"

text \<open>The XML library: nodes \<open>'x\<close>, the descendants of a node in document order, and attributes with or
  without a name space.\<close>

record 'x xml_crates =
  xc_parse :: "string \<Rightarrow> 'x option"
  xc_descendants :: "'x \<Rightarrow> 'x list"
  xc_has_tag_name :: "'x \<Rightarrow> string \<Rightarrow> string \<Rightarrow> bool"
  xc_attribute :: "'x \<Rightarrow> string option \<Rightarrow> string \<Rightarrow> string option"

definition swid_ns :: string where
  "swid_ns = ''http://standards.iso.org/iso/19770/-2/2015/schema.xsd''"

definition rimim_ns :: string where
  "rimim_ns =
     ''https://trustedcomputinggroup.org/resource/tcg-reference-integrity-manifest-rim-information-model/''"

definition hash_ns :: string where
  "hash_ns = ''http://www.w3.org/2001/04/xmlenc#sha384''"

definition replace_char :: "char \<Rightarrow> char \<Rightarrow> string \<Rightarrow> string" where
  "replace_char a b s = map (\<lambda>ch. if ch = a then b else ch) s"

definition hash_name :: "nat \<Rightarrow> string" where
  "hash_name i = ''Hash'' @ fmt_dec i"

text \<open>The loop over the hashes of a resource; \<open>None\<close> when it does not end.\<close>

partial_function (option) swid_hashes :: "(string \<Rightarrow> string option) \<Rightarrow> nat \<Rightarrow> json list \<Rightarrow> json list option" where
  "swid_hashes attr hash_index measurement_value =
     (case attr (hash_name hash_index) of
        None \<Rightarrow> Some measurement_value
      | Some hash \<Rightarrow>
          if list_all (\<lambda>ch. ch = CHR ''0'') hash then swid_hashes attr (hash_index + 1) measurement_value
          else swid_hashes attr (hash_index + 1) (measurement_value @ [JString hash]))"

definition swid_resource ::
  "rv_crates \<Rightarrow> 'x xml_crates \<Rightarrow> time \<Rightarrow> string \<Rightarrow> 'x \<Rightarrow> reference_value option anyhow" where
  "swid_resource c x now rv_name_prefix resource =
     and_then (ok_or (xc_attribute x resource None ''index'') ''Could not find measurement name'') (\<lambda>measurement_index.
     let name = replace_char (CHR ''-'') (CHR ''_'') (rv_name_prefix @ ''.measurement_'' @ measurement_index) in
     (case swid_hashes (xc_attribute x resource (Some hash_ns)) 0 [] of
        None \<Rightarrow> panic ''the loop over the hashes does not end''
      | Some measurement_value \<Rightarrow>
          if measurement_value = [] then Inr None
          else and_then (reference_value_new c now) (\<lambda>rv.
                 Inr (Some (set_value (JArray measurement_value) (set_name name rv))))))"

fun swid_resources ::
  "rv_crates \<Rightarrow> 'x xml_crates \<Rightarrow> time \<Rightarrow> string \<Rightarrow> 'x list \<Rightarrow> reference_value list anyhow" where
  "swid_resources c x now pre [] = Inr []"
| "swid_resources c x now pre (r # rs) =
     and_then (swid_resource c x now pre r) (\<lambda>rv.
     and_then (swid_resources c x now pre rs) (\<lambda>rvs.
       Inr (case rv of None \<Rightarrow> rvs | Some rv \<Rightarrow> rv # rvs)))"

definition swid_verify_and_extract ::
  "rv_crates \<Rightarrow> 'x xml_crates \<Rightarrow> time \<Rightarrow> string \<Rightarrow> reference_value list anyhow" where
  "swid_verify_and_extract c x now provenance_base64 =
     and_then (ok_or (rc_b64_decode c provenance_base64)
                ''Failed to decode reference value manifest as base 64'') (\<lambda>manifest.
     and_then (ok_or (from_utf8 manifest) ''Failed to decode reference value manifest as utf8 string'') (\<lambda>manifest.
     and_then (ok_or (xc_parse x manifest) ''parse'') (\<lambda>xml.
     and_then (ok_or (find (\<lambda>n. xc_has_tag_name x n swid_ns ''Meta'') (xc_descendants x xml))
                ''Could not find meta information.'') (\<lambda>meta.
     and_then (ok_or (xc_attribute x meta (Some rimim_ns) ''PlatformManufacturerStr'')
                ''Could not find manufacturer information.'') (\<lambda>manufacturer.
     let manufacturer = replace_char (CHR '' '') (CHR ''_'') manufacturer in
     and_then (ok_or (xc_attribute x meta None ''edition'') ''Could not find edition information.'') (\<lambda>edition.
     let rv_name_prefix = manufacturer @ ''.'' @ edition in
     and_then (ok_or (find (\<lambda>n. xc_has_tag_name x n swid_ns ''Payload'') (xc_descendants x xml))
                ''Could not find SWID payload.'') (\<lambda>payload.
       swid_resources c x now rv_name_prefix
         (filter (\<lambda>n. (case xc_attribute x n None ''type'' of None \<Rightarrow> '''' | Some t \<Rightarrow> t) = ''Measurement'')
           (filter (\<lambda>n. xc_has_tag_name x n swid_ns ''Resource'') (xc_descendants x payload))))))))))"

type_synonym extractors = "string \<rightharpoonup> (string \<Rightarrow> reference_value list anyhow)"

definition extractors_new :: "rv_crates \<Rightarrow> 'x xml_crates \<Rightarrow> time \<Rightarrow> extractors" where
  "extractors_new c x now =
     [''sample'' \<mapsto> sample_verify_and_extract c now, ''swid'' \<mapsto> swid_verify_and_extract c x now]"

definition extractors_process :: "extractors \<Rightarrow> message \<Rightarrow> reference_value list anyhow" where
  "extractors_process es m =
     (case es (msg_type m) of
        Some extractor \<Rightarrow> extractor (msg_payload m)
      | None \<Rightarrow> bail ''Could not find extractor'')"

subsection \<open>The service\<close>

fun store_all :: "'s rv_storage \<Rightarrow> reference_value list \<Rightarrow> ('s, string, unit) prog" where
  "store_all st [] = retP ()"
| "store_all st (v # vs) = bindP (rs_set st (rv_name v) v) (\<lambda>_. store_all st vs)"

definition rvps_verify_and_extract ::
  "rv_crates \<Rightarrow> extractors \<Rightarrow> 's rv_storage \<Rightarrow> string \<Rightarrow> ('s, string, unit) prog" where
  "rvps_verify_and_extract c es st message =
     bindP (liftP (ok_or (rc_message_from_str c message) ''parse message'')) (\<lambda>message.
     if msg_version message \<noteq> ''0.1.0'' then bailP ''Version unmatched!''
     else bindP (liftP (extractors_process es message)) (\<lambda>rv. store_all st rv))"

definition insert_unexpired :: "time \<Rightarrow> reference_value \<Rightarrow> (string \<rightharpoonup> json) \<Rightarrow> (string \<rightharpoonup> json)" where
  "insert_unexpired now rv rv_map = (if expired now rv then rv_map else rv_map(rv_name rv \<mapsto> rv_value rv))"

definition rvps_get_digests :: "time \<Rightarrow> 's rv_storage \<Rightarrow> ('s, string, string \<rightharpoonup> json) prog" where
  "rvps_get_digests now st =
     bindP (rs_get_values st) (\<lambda>reference_values.
       retP (fold (insert_unexpired now) reference_values Map.empty))"

text \<open>The gRPC service: errors become the status \<^verbatim>\<open>aborted\<close>.\<close>

definition rvps_query_reference_value ::
  "((string \<rightharpoonup> json) \<Rightarrow> string option) \<Rightarrow> time \<Rightarrow> 's rv_storage \<Rightarrow> ('s, string, string) prog" where
  "rvps_query_reference_value to_string now st =
     bindP (map_errP (\<lambda>e. ''Query reference value: '' @ e) (rvps_get_digests now st)) (\<lambda>rvs.
       liftP (ok_or (to_string rvs) ''Serde reference value: ''))"

definition rvps_register_reference_value ::
  "rv_crates \<Rightarrow> extractors \<Rightarrow> 's rv_storage \<Rightarrow> string \<Rightarrow> ('s, string, unit) prog" where
  "rvps_register_reference_value c es st message =
     map_errP (\<lambda>e. ''Register reference value: '' @ e) (rvps_verify_and_extract c es st message)"

subsection \<open>The storage interface\<close>

text \<open>Values whose expiration is a whole second: the ones that survive serialisation.\<close>

definition whole :: "rv_crates \<Rightarrow> reference_value \<Rightarrow> bool" where
  "whole c rv \<longleftrightarrow> rc_with_nanosecond_0 c (rv_expiration rv) = Some (rv_expiration rv)"

definition store_one :: "reference_value \<Rightarrow> (string \<rightharpoonup> reference_value) \<Rightarrow> (string \<rightharpoonup> reference_value)" where
  "store_one rv m = m(rv_name rv \<mapsto> rv)"

definition unexpired_values :: "time \<Rightarrow> (string \<rightharpoonup> reference_value) \<Rightarrow> (string \<rightharpoonup> json)" where
  "unexpired_values now m =
     (\<lambda>n. case m n of None \<Rightarrow> None | Some rv \<Rightarrow> if expired now rv then None else Some (rv_value rv))"

text \<open>What a message does to the map of values: nothing when it is refused.\<close>

definition registered ::
  "rv_crates \<Rightarrow> extractors \<Rightarrow> string \<Rightarrow> (string \<rightharpoonup> reference_value) \<Rightarrow> (string \<rightharpoonup> reference_value)" where
  "registered c es message m =
     (case rc_message_from_str c message of
        None \<Rightarrow> m
      | Some msg \<Rightarrow>
          if msg_version msg \<noteq> ''0.1.0'' then m
          else (case extractors_process es msg of Inl _ \<Rightarrow> m | Inr rvs \<Rightarrow> fold store_one rvs m))"

definition extractors_ok :: "(reference_value \<Rightarrow> bool) \<Rightarrow> extractors \<Rightarrow> bool" where
  "extractors_ok ok es \<longleftrightarrow> (\<forall>t e p rvs. es t = Some e \<longrightarrow> e p = Inr rvs \<longrightarrow> (\<forall>rv\<in>set rvs. ok rv))"

fun register_all ::
  "rv_crates \<Rightarrow> extractors \<Rightarrow> 's rv_storage \<Rightarrow> string list \<Rightarrow> 's \<Rightarrow> 's" where
  "register_all c es st [] s = s"
| "register_all c es st (m # ms) s = register_all c es st ms (snd (rvps_verify_and_extract c es st m s))"

locale reference_value_storage =
  fixes st :: "'s rv_storage"
    and inv :: "'s \<Rightarrow> bool"
    and view :: "'s \<Rightarrow> string \<rightharpoonup> reference_value"
    and ok :: "reference_value \<Rightarrow> bool"
  assumes view_name: "inv s \<Longrightarrow> view s n = Some rv \<Longrightarrow> rv_name rv = n"
    and set_law: "inv s \<Longrightarrow> ok rv \<Longrightarrow> \<exists>s'. rs_set st (rv_name rv) rv s = (Inr (view s (rv_name rv)), s') \<and> inv s' \<and>
      view s' = (view s)(rv_name rv \<mapsto> rv)"
    and get_law: "inv s \<Longrightarrow> rs_get st n s = (Inr (view s n), s)"
    and values_law: "inv s \<Longrightarrow> \<exists>rvs. rs_get_values st s = (Inr rvs, s) \<and> distinct (map rv_name rvs) \<and>
      set rvs = ran (view s)"
begin

lemma store_all_law:
  assumes "inv s" and "\<forall>rv\<in>set rvs. ok rv"
  shows "\<exists>s'. store_all st rvs s = (Inr (), s') \<and> inv s' \<and> view s' = fold store_one rvs (view s)"
  using assms
proof (induction rvs arbitrary: s)
  case Nil
  then show ?case by (simp add: retP_def)
next
  case (Cons rv rvs)
  then obtain t where t: "rs_set st (rv_name rv) rv s = (Inr (view s (rv_name rv)), t)" "inv t"
    "view t = (view s)(rv_name rv \<mapsto> rv)"
    using set_law by fastforce
  from Cons.IH [OF t(2)] Cons.prems(2) t show ?case by (auto simp: bindP_def store_one_def)
qed

lemma register_law:
  assumes "inv s" and "extractors_ok ok es"
  shows "inv (snd (rvps_verify_and_extract c es st m s)) \<and>
    view (snd (rvps_verify_and_extract c es st m s)) = registered c es m (view s)"
proof (cases "rc_message_from_str c m")
  case None
  with assms(1) show ?thesis by (simp add: rvps_verify_and_extract_def registered_def prog_simps)
next
  case msg: (Some msg)
  show ?thesis
  proof (cases "extractors_process es msg")
    case (Inl f)
    with assms(1) msg show ?thesis by (simp add: rvps_verify_and_extract_def registered_def prog_simps)
  next
    case (Inr rvs)
    then have "\<forall>rv\<in>set rvs. ok rv"
      using assms(2) by (auto simp: extractors_process_def extractors_ok_def bail_def split: option.splits)
    from store_all_law [OF assms(1) this] msg Inr assms(1) show ?thesis
      by (auto simp: rvps_verify_and_extract_def registered_def prog_simps)
  qed
qed

lemma register_all_law:
  assumes "inv s" and "extractors_ok ok es"
  shows "inv (register_all c es st ms s) \<and> view (register_all c es st ms s) = fold (registered c es) ms (view s)"
  using assms(1)
proof (induction ms arbitrary: s)
  case (Cons m ms)
  from Cons.IH register_law [OF Cons.prems assms(2)] show ?case by simp
qed simp

lemma fold_unexpired:
  assumes "distinct (map rv_name rvs)"
  shows "fold (insert_unexpired now) rvs m n =
    (case map_of (map (\<lambda>rv. (rv_name rv, rv)) rvs) n of
       None \<Rightarrow> m n | Some rv \<Rightarrow> if expired now rv then m n else Some (rv_value rv))"
  using assms
proof (induction rvs arbitrary: m)
  case (Cons rv rvs)
  have "map_of (map (\<lambda>rv. (rv_name rv, rv)) rvs) (rv_name rv) = None"
    using Cons.prems by (simp add: map_of_eq_None_iff comp_def image_image)
  then show ?case using Cons by (auto simp: insert_unexpired_def split: option.splits)
qed simp

lemma get_digests_law:
  assumes "inv s"
  shows "rvps_get_digests now st s = (Inr (unexpired_values now (view s)), s)"
proof -
  obtain rvs where rvs: "rs_get_values st s = (Inr rvs, s)" "distinct (map rv_name rvs)" "set rvs = ran (view s)"
    using values_law [OF assms] by blast
  have "map_of (map (\<lambda>rv. (rv_name rv, rv)) rvs) n = view s n" for n
  proof (cases "view s n")
    case None
    have "rv_name rv \<noteq> n" if rv: "rv \<in> set rvs" for rv
    proof
      assume n: "rv_name rv = n"
      from rv rvs(3) obtain k where "view s k = Some rv" by (auto simp: ran_def)
      with view_name [OF assms this] n None show False by simp
    qed
    then have "n \<notin> rv_name ` set rvs" by blast
    with None show ?thesis by (simp add: map_of_eq_None_iff image_image)
  next
    case (Some rv)
    then have "rv \<in> set rvs" using rvs(3) by (auto simp: ran_def)
    then have "(n, rv) \<in> set (map (\<lambda>rv. (rv_name rv, rv)) rvs)" using view_name [OF assms Some] by force
    moreover have "distinct (map fst (map (\<lambda>rv. (rv_name rv, rv)) rvs))" using rvs(2) by (simp add: comp_def)
    ultimately show ?thesis using Some by (metis map_of_is_SomeI)
  qed
  with fold_unexpired [OF rvs(2), of now Map.empty] show ?thesis
    by (auto simp: rvps_get_digests_def bindP_def rvs(1) retP_def unexpired_values_def fun_eq_iff)
qed

end

subsection \<open>The two implementations\<close>

text \<open>Serialisation loses nothing of a value with a whole expiration.\<close>

definition serde_law :: "rv_crates \<Rightarrow> bool" where
  "serde_law c \<longleftrightarrow>
     (\<forall>rv. whole c rv \<longrightarrow> (\<exists>b. rc_to_vec c rv = Some b \<and> rc_from_slice c b = Some rv)) \<and>
     (\<forall>rvs. list_all (whole c) rvs \<longrightarrow> (\<exists>b. rc_list_to_vec c rvs = Some b \<and> rc_list_from_slice c b = Some rvs))"

definition json_values :: "rv_crates \<Rightarrow> string \<Rightarrow> fs \<Rightarrow> reference_value list" where
  "json_values c path f =
     (case fs_read f path of None \<Rightarrow> []
      | Some b \<Rightarrow> (case rc_list_from_slice c b of None \<Rightarrow> [] | Some rvs \<Rightarrow> rvs))"

definition json_view :: "rv_crates \<Rightarrow> string \<Rightarrow> fs \<Rightarrow> string \<rightharpoonup> reference_value" where
  "json_view c path f = map_of (map (\<lambda>rv. (rv_name rv, rv)) (json_values c path f))"

definition json_inv :: "rv_crates \<Rightarrow> string \<Rightarrow> fs \<Rightarrow> bool" where
  "json_inv c path f \<longleftrightarrow> serde_law c \<and>
     (\<exists>b rvs. fs_read f path = Some b \<and> rc_list_from_slice c b = Some rvs \<and> distinct (map rv_name rvs) \<and>
        list_all (whole c) rvs)"

lemma map_of_names: "map_of (map (\<lambda>rv. (rv_name rv, rv)) rvs) n = find (\<lambda>rv. rv_name rv = n) rvs"
  by (induction rvs) auto

lemma ran_names: "distinct (map rv_name rvs) \<Longrightarrow> ran (map_of (map (\<lambda>rv. (rv_name rv, rv)) rvs)) = set rvs"
  by (subst ran_distinct) (auto simp: comp_def image_image)

lemma find_SomeD: "find P xs = Some x \<Longrightarrow> P x \<and> x \<in> set xs"
  by (induction xs) (auto split: if_splits)

lemma replace_first_spec:
  assumes "rv_name rv = n" and "replace_first n rv rvs = (res, rvs')" and "distinct (map rv_name rvs)"
  shows "res = find (\<lambda>r. rv_name r = n) rvs" and "distinct (map rv_name rvs')"
    and "set rvs' \<subseteq> insert rv (set rvs)" and "rv_name ` set rvs' = insert n (rv_name ` set rvs)"
    and "map_of (map (\<lambda>rv. (rv_name rv, rv)) rvs') = (map_of (map (\<lambda>rv. (rv_name rv, rv)) rvs))(n \<mapsto> rv)"
  using assms by (induction n rv rvs arbitrary: res rvs' rule: replace_first.induct)
    (auto split: if_splits prod.splits simp: fun_eq_iff)

lemma fs_read_after_write:
  assumes "fs_read f path = Some b"
  shows "\<exists>f'. fs_write f path b' = Some f' \<and> fs_read f' path = Some b'"
proof -
  obtain f' where "fs_write f path b' = Some f'"
    using assms by (auto simp: fs_read_def fs_write_def split: option.splits fnode.splits)
  with fs_read_write [OF this, of path] show ?thesis by simp
qed

lemma json_set_law:
  assumes "json_inv c path f" and "whole c rv"
  shows "\<exists>f'. rs_set (local_json c path) (rv_name rv) rv f = (Inr (json_view c path f (rv_name rv)), f') \<and>
    json_inv c path f' \<and> json_view c path f' = (json_view c path f)(rv_name rv \<mapsto> rv)"
proof -
  obtain b rvs where rvs: "serde_law c" "fs_read f path = Some b" "rc_list_from_slice c b = Some rvs"
    "distinct (map rv_name rvs)" "list_all (whole c) rvs"
    using assms(1) by (auto simp: json_inv_def)
  obtain res rvs' where r: "replace_first (rv_name rv) rv rvs = (res, rvs')" by fastforce
  note spec = replace_first_spec [OF refl r rvs(4)]
  have "list_all (whole c) rvs'" using spec(3) rvs(5) assms(2) by (auto simp: list_all_iff)
  moreover from this obtain b' where b': "rc_list_to_vec c rvs' = Some b'" "rc_list_from_slice c b' = Some rvs'"
    using rvs(1) by (auto simp: serde_law_def)
  moreover obtain f' where "fs_write f path b' = Some f'" "fs_read f' path = Some b'"
    using fs_read_after_write [OF rvs(2)] by blast
  ultimately show ?thesis
    using rvs r spec
    by (auto simp: local_json_def local_json_set_def local_json_set_read_def local_json_set_write_def readF_def writeF_def
        prog_simps bindP_def json_inv_def json_view_def json_values_def map_of_names)
qed

interpretation local_json: reference_value_storage "local_json c path" "json_inv c path" "json_view c path" "whole c"
  for c path
proof
  fix f n rv
  assume "json_inv c path f" and "json_view c path f n = Some rv"
  then show "rv_name rv = n" by (auto simp: json_view_def map_of_names dest: find_SomeD)
next
  fix f rv
  assume "json_inv c path f" and "whole c rv"
  then show "\<exists>f'. rs_set (local_json c path) (rv_name rv) rv f = (Inr (json_view c path f (rv_name rv)), f') \<and>
      json_inv c path f' \<and> json_view c path f' = (json_view c path f)(rv_name rv \<mapsto> rv)"
    by (rule json_set_law)
next
  fix f n
  assume "json_inv c path f"
  then show "rs_get (local_json c path) n f = (Inr (json_view c path f n), f)"
    by (auto simp: local_json_def local_json_get_def readF_def prog_simps bindP_def json_inv_def json_view_def
        json_values_def map_of_names)
next
  fix f
  assume "json_inv c path f"
  then show "\<exists>rvs. rs_get_values (local_json c path) f = (Inr rvs, f) \<and> distinct (map rv_name rvs) \<and>
      set rvs = ran (json_view c path f)"
    by (auto simp: local_json_def local_json_get_values_def readF_def prog_simps bindP_def json_inv_def json_view_def
        json_values_def ran_names)
qed

text \<open>The sled database is a map from keys to bytes whose entries are iterated once each.\<close>

definition sled_law :: "'d sled \<Rightarrow> bool" where
  "sled_law sl \<longleftrightarrow>
     (\<forall>k d. \<exists>v. sl_get sl k d = Inr v) \<and>
     (\<forall>k v d. \<exists>d'. sl_insert sl k v d = (sl_get sl k d, d') \<and>
        (\<forall>k'. sl_get sl k' d' = (if k' = k then Inr (Some v) else sl_get sl k' d))) \<and>
     (\<forall>d. \<exists>d'. sl_flush sl d = (Inr (), d') \<and> (\<forall>k. sl_get sl k d' = sl_get sl k d)) \<and>
     (\<forall>d. \<exists>es. sl_iter sl d = map Some es \<and> distinct (map fst es) \<and>
        (\<forall>k v. (k, v) \<in> set es \<longleftrightarrow> sl_get sl k d = Inr (Some v)))"

definition sled_view :: "rv_crates \<Rightarrow> 'd sled \<Rightarrow> 'd \<Rightarrow> string \<rightharpoonup> reference_value" where
  "sled_view c sl d n = (case sl_get sl n d of Inr (Some b) \<Rightarrow> rc_from_slice c b | _ \<Rightarrow> None)"

definition sled_inv :: "rv_crates \<Rightarrow> 'd sled \<Rightarrow> 'd \<Rightarrow> bool" where
  "sled_inv c sl d \<longleftrightarrow> serde_law c \<and> sled_law sl \<and>
     (\<forall>n b. sl_get sl n d = Inr (Some b) \<longrightarrow> (\<exists>rv. rc_from_slice c b = Some rv \<and> rv_name rv = n))"

lemma sled_lawD:
  assumes "sled_law sl"
  shows "\<exists>v. sl_get sl k d = Inr v"
    and "\<exists>d'. sl_insert sl k v d = (sl_get sl k d, d') \<and>
      (\<forall>k'. sl_get sl k' d' = (if k' = k then Inr (Some v) else sl_get sl k' d))"
    and "\<exists>d'. sl_flush sl d = (Inr (), d') \<and> (\<forall>k. sl_get sl k d' = sl_get sl k d)"
    and "\<exists>es. sl_iter sl d = map Some es \<and> distinct (map fst es) \<and> (\<forall>k v. (k, v) \<in> set es \<longleftrightarrow> sl_get sl k d = Inr (Some v))"
  using assms by (simp_all add: sled_law_def)

lemma sled_invD:
  assumes "sled_inv c sl d"
  shows "serde_law c" and "sled_law sl" and "sl_get sl n d = Inr (Some b) \<Longrightarrow> \<exists>rv. rc_from_slice c b = Some rv \<and> rv_name rv = n"
  using assms by (simp_all add: sled_inv_def)

lemma sled_set_law:
  assumes "sled_inv c sl d" and "whole c rv"
  shows "\<exists>d'. rs_set (rvps_local_fs c sl) (rv_name rv) rv d = (Inr (sled_view c sl d (rv_name rv)), d') \<and>
    sled_inv c sl d' \<and> sled_view c sl d' = (sled_view c sl d)(rv_name rv \<mapsto> rv)"
proof -
  note inv = sled_invD [OF assms(1)]
  obtain b where b: "rc_to_vec c rv = Some b" "rc_from_slice c b = Some rv"
    using inv(1) assms(2) by (auto simp: serde_law_def)
  obtain t where t: "sl_insert sl (rv_name rv) b d = (sl_get sl (rv_name rv) d, t)"
    "\<And>k. sl_get sl k t = (if k = rv_name rv then Inr (Some b) else sl_get sl k d)"
    using sled_lawD(2) [OF inv(2)] by blast
  obtain u where u: "sl_flush sl t = (Inr (), u)" "\<And>k. sl_get sl k u = sl_get sl k t"
    using sled_lawD(3) [OF inv(2)] by blast
  obtain old where old: "sl_get sl (rv_name rv) d = Inr old" using sled_lawD(1) [OF inv(2)] by blast
  have read_old: "case old of None \<Rightarrow> True | Some v \<Rightarrow> \<exists>r. rc_from_slice c v = Some r"
    using inv(3) old by (auto split: option.splits)
  have "rs_set (rvps_local_fs c sl) (rv_name rv) rv d = (Inr (sled_view c sl d (rv_name rv)), u)"
    using read_old old
    by (auto simp: rvps_local_fs_def rvps_local_fs_set_def prog_simps b bindP_def map_errP_def t(1) u(1) sled_view_def
        split: option.splits)
  moreover have "sled_inv c sl u"
    using inv u(2) t(2) b(2) by (auto simp: sled_inv_def split: if_splits)
  moreover have "sled_view c sl u = (sled_view c sl d)(rv_name rv \<mapsto> rv)"
    using u(2) t(2) b(2) by (auto simp: sled_view_def fun_eq_iff)
  ultimately show ?thesis by blast
qed

lemma sled_view_Some:
  "sled_view c sl d n = Some rv \<longleftrightarrow> (\<exists>b. sl_get sl n d = Inr (Some b) \<and> rc_from_slice c b = Some rv)"
  by (auto simp: sled_view_def split: sum.splits option.splits)

lemma read_values_entries:
  assumes "\<And>k v. (k, v) \<in> set es \<Longrightarrow> \<exists>rv. rc_from_slice c v = Some rv \<and> rv_name rv = k"
  shows "\<exists>rvs. read_values c (map Some es) = Inr rvs \<and> map rv_name rvs = map fst es \<and>
    set rvs = {rv. \<exists>k v. (k, v) \<in> set es \<and> rc_from_slice c v = Some rv}"
  using assms
proof (induction es)
  case (Cons e es)
  obtain k v where e: "e = (k, v)" by fastforce
  with Cons.prems obtain rv where rv: "rc_from_slice c v = Some rv" "rv_name rv = k" by auto
  from Cons obtain rvs where "read_values c (map Some es) = Inr rvs" "map rv_name rvs = map fst es"
    "set rvs = {rv. \<exists>k v. (k, v) \<in> set es \<and> rc_from_slice c v = Some rv}"
    by auto
  with rv show ?case by (auto simp: e result_simps)
qed simp

interpretation local_sled: reference_value_storage "rvps_local_fs c sl" "sled_inv c sl" "sled_view c sl" "whole c"
  for c and sl :: "'d sled"
proof
  fix d n rv
  assume i: "sled_inv c sl d" and "sled_view c sl d n = Some rv"
  then show "rv_name rv = n"
    using sled_invD(3) [OF i, of n] by (auto simp: sled_view_def split: sum.splits option.splits)
next
  fix d rv
  assume "sled_inv c sl d" and "whole c rv"
  then show "\<exists>d'. rs_set (rvps_local_fs c sl) (rv_name rv) rv d = (Inr (sled_view c sl d (rv_name rv)), d') \<and>
      sled_inv c sl d' \<and> sled_view c sl d' = (sled_view c sl d)(rv_name rv \<mapsto> rv)"
    by (rule sled_set_law)
next
  fix d n
  assume i: "sled_inv c sl d"
  obtain v where v: "sl_get sl n d = Inr v" using sled_lawD(1) [OF sled_invD(2) [OF i]] by blast
  have "case v of None \<Rightarrow> True | Some b \<Rightarrow> \<exists>r. rc_from_slice c b = Some r"
    using sled_invD(3) [OF i] v by (auto split: option.splits)
  with v show "rs_get (rvps_local_fs c sl) n d = (Inr (sled_view c sl d n), d)"
    by (auto simp: rvps_local_fs_def rvps_local_fs_get_def prog_simps sled_view_def split: option.splits)
next
  fix d
  assume i: "sled_inv c sl d"
  obtain es where es: "sl_iter sl d = map Some es" "distinct (map fst es)"
    "\<And>k v. (k, v) \<in> set es \<longleftrightarrow> sl_get sl k d = Inr (Some v)"
    using sled_lawD(4) [OF sled_invD(2) [OF i]] by blast
  have "\<exists>rv. rc_from_slice c v = Some rv \<and> rv_name rv = k" if "(k, v) \<in> set es" for k v
    using that es(3) sled_invD(3) [OF i] by blast
  from read_values_entries [OF this] obtain rvs where "read_values c (map Some es) = Inr rvs"
    "map rv_name rvs = map fst es" "set rvs = {rv. \<exists>k v. (k, v) \<in> set es \<and> rc_from_slice c v = Some rv}"
    by blast
  then show "\<exists>rvs. rs_get_values (rvps_local_fs c sl) d = (Inr rvs, d) \<and> distinct (map rv_name rvs) \<and>
      set rvs = ran (sled_view c sl d)"
    using es
    by (auto simp: rvps_local_fs_def rvps_local_fs_get_values_def prog_simps ran_def sled_view_Some)
qed

subsection \<open>Extraction\<close>

text \<open>What the code relies on of \<^verbatim>\<open>chrono\<close>: cutting to a whole second is idempotent, and adding months keeps
  whole seconds.\<close>

definition chrono_law :: "rv_crates \<Rightarrow> bool" where
  "chrono_law c \<longleftrightarrow>
     (\<forall>t u. rc_with_nanosecond_0 c t = Some u \<longrightarrow> rc_with_nanosecond_0 c u = Some u) \<and>
     (\<forall>t u n. rc_with_nanosecond_0 c t = Some t \<longrightarrow> rc_checked_add_months c t n = Some u \<longrightarrow>
        rc_with_nanosecond_0 c u = Some u)"

lemma reference_value_new_whole:
  assumes "chrono_law c" and "reference_value_new c now = Inr rv"
  shows "whole c rv"
proof -
  obtain t e where "rc_with_nanosecond_0 c now = Some t" and e: "rc_checked_add_months c t months_before_expiration = Some e"
    and rv: "rv_expiration rv = e"
    using assms(2) by (auto simp: reference_value_new_def result_simps bind_eq_Some_conv)
  with assms(1) have "rc_with_nanosecond_0 c t = Some t" unfolding chrono_law_def by blast
  with assms(1) e have "rc_with_nanosecond_0 c e = Some e" unfolding chrono_law_def by blast
  with rv show ?thesis by (simp add: whole_def)
qed

lemma whole_setters [simp]: "whole c (set_value v rv) = whole c rv" "whole c (set_name n rv) = whole c rv"
  "whole c (set_version n rv) = whole c rv"
  by (simp_all add: whole_def set_value_def set_name_def set_version_def)

lemma set_collect_some: "set (collect_some xs) = {x. Some x \<in> set xs}"
  by (induction xs rule: collect_some.induct) auto

lemma sample_whole:
  assumes "chrono_law c" and "sample_verify_and_extract c now p = Inr rvs" and "rv \<in> set rvs"
  shows "whole c rv"
proof -
  obtain kvs where "rvs = collect_some (map (\<lambda>(name, values). case reference_value_new c now of Inl _ \<Rightarrow> None
      | Inr rv \<Rightarrow> Some (set_value values (set_name name rv))) kvs)"
    using assms(2) by (auto simp: sample_verify_and_extract_def result_simps)
  with assms(3) obtain n v r where "reference_value_new c now = Inr r" "rv = set_value v (set_name n r)"
    by (auto simp: set_collect_some split: sum.splits)
  with reference_value_new_whole [OF assms(1)] show ?thesis by auto
qed

text \<open>What an extracted SWID value is: a list of hashes, not empty, none of them all zeros.\<close>

definition measured :: "reference_value \<Rightarrow> bool" where
  "measured rv \<longleftrightarrow> (\<exists>hs. rv_value rv = JArray (map JString hs) \<and> hs \<noteq> [] \<and>
     (\<forall>h\<in>set hs. \<not> list_all (\<lambda>ch. ch = CHR ''0'') h))"

lemma swid_hashes_ends:
  assumes "attr (hash_name n) = None" and "i \<le> n"
  shows "\<exists>hs. swid_hashes attr i acc = Some (acc @ map JString hs) \<and> (\<forall>h\<in>set hs. \<not> list_all (\<lambda>ch. ch = CHR ''0'') h)"
  using assms(2)
proof (induction "n - i" arbitrary: i acc)
  case 0
  then have "i = n" by simp
  then show ?case using assms(1) by (intro exI [of _ "[]"]) (subst swid_hashes.simps, simp)
next
  case (Suc k)
  show ?case
  proof (cases "attr (hash_name i)")
    case None
    then show ?thesis by (intro exI [of _ "[]"]) (subst swid_hashes.simps, simp)
  next
    case (Some h)
    have le: "Suc i \<le> n" and k: "k = n - Suc i" using Suc by auto
    show ?thesis
    proof (cases "list_all (\<lambda>ch. ch = CHR ''0'') h")
      case True
      then have "swid_hashes attr i acc = swid_hashes attr (Suc i) acc"
        using Some by (subst swid_hashes.simps) simp
      with Suc(1) [OF k le, of acc] show ?thesis by metis
    next
      case False
      then have eq: "swid_hashes attr i acc = swid_hashes attr (Suc i) (acc @ [JString h])"
        using Some by (subst swid_hashes.simps) simp
      from Suc(1) [OF k le, of "acc @ [JString h]"] obtain hs
        where hs: "swid_hashes attr (Suc i) (acc @ [JString h]) = Some ((acc @ [JString h]) @ map JString hs)"
          "\<forall>h\<in>set hs. \<not> list_all (\<lambda>ch. ch = CHR ''0'') h" by blast
      then show ?thesis using eq False by (intro exI [of _ "h # hs"]) simp
    qed
  qed
qed

text \<open>A node has finitely many attributes.\<close>

definition xml_law :: "'x xml_crates \<Rightarrow> bool" where
  "xml_law x \<longleftrightarrow> (\<forall>n. \<exists>i. xc_attribute x n (Some hash_ns) (hash_name i) = None)"

lemma reference_value_new_no_panic: "\<not> panics (reference_value_new c now)"
  by (auto simp: reference_value_new_def result_simps panics_def and_then_def ok_or_def split: option.splits)

lemma swid_resource_ok:
  assumes "xml_law x"
  shows "\<not> panics (swid_resource c x now pre r)"
    and "swid_resource c x now pre r = Inr (Some rv) \<Longrightarrow> measured rv"
    and "swid_resource c x now pre r = Inr (Some rv) \<Longrightarrow> chrono_law c \<Longrightarrow> whole c rv"
proof -
  obtain i where "xc_attribute x r (Some hash_ns) (hash_name i) = None" using assms by (auto simp: xml_law_def)
  from swid_hashes_ends [of "xc_attribute x r (Some hash_ns)", OF this, of 0 "[]"] obtain hs where
    hs: "swid_hashes (xc_attribute x r (Some hash_ns)) 0 [] = Some (map JString hs)"
      "\<forall>h\<in>set hs. \<not> list_all (\<lambda>ch. ch = CHR ''0'') h" by auto
  show "\<not> panics (swid_resource c x now pre r)"
    using reference_value_new_no_panic [of c now]
    by (auto simp: swid_resource_def hs(1) and_then_def panics_def ok_or_def split: sum.splits failure.splits option.splits)
  assume rv: "swid_resource c x now pre r = Inr (Some rv)"
  then show "measured rv"
    using hs by (auto simp: swid_resource_def result_simps measured_def set_value_def split: if_splits)
  assume "chrono_law c"
  with rv show "whole c rv"
    using reference_value_new_whole by (auto simp: swid_resource_def hs(1) result_simps split: if_splits)
qed

lemma swid_resources_ok:
  assumes "xml_law x"
  shows "\<not> panics (swid_resources c x now pre rs)"
    and "swid_resources c x now pre rs = Inr rvs \<Longrightarrow> rv \<in> set rvs \<Longrightarrow> measured rv \<and> (chrono_law c \<longrightarrow> whole c rv)"
proof (induction rs arbitrary: rvs)
  case (Cons r rs)
  {
    case 1
    show ?case using Cons.IH(1) swid_resource_ok(1) [OF assms, of c now pre r]
      by (auto simp: and_then_def panics_def split: sum.splits failure.splits)
  next
    case 2
    then show ?case using Cons.IH(2) swid_resource_ok(2,3) [OF assms]
      by (auto simp: result_simps split: option.splits)
  }
qed (simp_all add: panics_def)

lemma panics_and_then_ok_or: "(\<And>y. \<not> panics (k y)) \<Longrightarrow> \<not> panics (and_then (ok_or v e) k)"
  by (cases v) (simp_all add: panics_def and_then_def bail_def)

text \<open>The SWID extractor returns for every manifest of finitely many attributes, its loop over the hashes
  included, and every reference value it extracts is a list of hashes that is not empty and in which no
  hash is all zeros.\<close>

theorem swid_extract_returns:
  assumes "xml_law x"
  shows "\<not> panics (swid_verify_and_extract c x now manifest) \<and>
    (\<forall>rvs. swid_verify_and_extract c x now manifest = Inr rvs \<longrightarrow> (\<forall>rv\<in>set rvs. measured rv))"
  using swid_resources_ok [OF assms, of c now]
  by (auto simp: swid_verify_and_extract_def Let_def result_simps intro!: panics_and_then_ok_or)

lemma swid_whole:
  assumes "xml_law x" and "chrono_law c" and "swid_verify_and_extract c x now p = Inr rvs" and "rv \<in> set rvs"
  shows "whole c rv"
  using assms(3,4) swid_resources_ok(2) [OF assms(1), of c now] assms(2)
  by (auto simp: swid_verify_and_extract_def Let_def result_simps)

lemma extractors_new_ok: "chrono_law c \<Longrightarrow> xml_law x \<Longrightarrow> extractors_ok (whole c) (extractors_new c x now)"
  by (auto simp: extractors_ok_def extractors_new_def split: if_splits dest: sample_whole swid_whole)

subsection \<open>The service over its storages\<close>



lemma json_set_read:
  assumes "json_inv c path f" and "whole c rv"
  shows "\<exists>b rvs. local_json_set_read c path (rv_name rv) rv f = (Inr (json_view c path f (rv_name rv), b), f) \<and>
    rc_list_from_slice c b = Some rvs \<and> map_of (map (\<lambda>rv. (rv_name rv, rv)) rvs) = (json_view c path f)(rv_name rv \<mapsto> rv)"
proof -
  obtain b rvs where rvs: "serde_law c" "fs_read f path = Some b" "rc_list_from_slice c b = Some rvs"
    "distinct (map rv_name rvs)" "list_all (whole c) rvs"
    using assms(1) by (auto simp: json_inv_def)
  obtain res rvs' where r: "replace_first (rv_name rv) rv rvs = (res, rvs')" by fastforce
  note spec = replace_first_spec [OF refl r rvs(4)]
  have "list_all (whole c) rvs'" using spec(3) rvs(5) assms(2) by (auto simp: list_all_iff)
  then obtain b' where "rc_list_to_vec c rvs' = Some b'" "rc_list_from_slice c b' = Some rvs'"
    using rvs(1) by (auto simp: serde_law_def)
  then show ?thesis
    using rvs r spec
    by (auto simp: local_json_set_read_def readF_def prog_simps bindP_def json_view_def json_values_def map_of_names)
qed

text \<open>The lock of the JSON file does not protect it: when the reads of two updates both come before their
  writes, both updates report success and the first one is lost.\<close>

theorem interleaved_set_loses_update:
  assumes "json_inv c path f" and "whole c rv1" and "whole c rv2" and "rv_name rv1 \<noteq> rv_name rv2"
  shows "\<exists>p1 p2 f1 f2. local_json_set_read c path (rv_name rv1) rv1 f = (Inr p1, f) \<and>
    local_json_set_read c path (rv_name rv2) rv2 f = (Inr p2, f) \<and>
    local_json_set_write path p1 f = (Inr (fst p1), f1) \<and> local_json_set_write path p2 f1 = (Inr (fst p2), f2) \<and>
    json_view c path f1 (rv_name rv1) = Some rv1 \<and> json_view c path f2 (rv_name rv1) = json_view c path f (rv_name rv1)"
proof -
  obtain b1 l1 where r1: "local_json_set_read c path (rv_name rv1) rv1 f = (Inr (json_view c path f (rv_name rv1), b1), f)"
    "rc_list_from_slice c b1 = Some l1" "map_of (map (\<lambda>rv. (rv_name rv, rv)) l1) = (json_view c path f)(rv_name rv1 \<mapsto> rv1)"
    using json_set_read [OF assms(1,2)] by blast
  obtain b2 l2 where r2: "local_json_set_read c path (rv_name rv2) rv2 f = (Inr (json_view c path f (rv_name rv2), b2), f)"
    "rc_list_from_slice c b2 = Some l2" "map_of (map (\<lambda>rv. (rv_name rv, rv)) l2) = (json_view c path f)(rv_name rv2 \<mapsto> rv2)"
    using json_set_read [OF assms(1,3)] by blast
  obtain b where "fs_read f path = Some b" using assms(1) by (auto simp: json_inv_def)
  then obtain f1 where f1: "fs_write f path b1 = Some f1" "fs_read f1 path = Some b1"
    using fs_read_after_write by blast
  then obtain f2 where f2: "fs_write f1 path b2 = Some f2" "fs_read f2 path = Some b2"
    using fs_read_after_write by blast
  have v1: "json_view c path f1 = (json_view c path f)(rv_name rv1 \<mapsto> rv1)"
    by (simp only: r1(3) [symmetric]) (simp add: json_view_def json_values_def f1(2) r1(2))
  have v2: "json_view c path f2 = (json_view c path f)(rv_name rv2 \<mapsto> rv2)"
    by (simp only: r2(3) [symmetric]) (simp add: json_view_def json_values_def f2(2) r2(2))
  have "local_json_set_write path (x, b1) f = (Inr x, f1)" "local_json_set_write path (x, b2) f1 = (Inr x, f2)" for x
    using f1 f2 by (simp_all add: local_json_set_write_def writeF_def bindP_def retP_def)
  then show ?thesis using r1(1) r2(1) v1 v2 assms(4) by fastforce
qed

subsection \<open>A concrete instance\<close>

text \<open>A serialisation by the enumeration of values, a time in nanoseconds, and a database that is a list.\<close>

instance json_num :: countable by countable_datatype

instance json :: countable by countable_datatype

definition rv_tuple :: "reference_value \<Rightarrow> string \<times> string \<times> time \<times> json" where
  "rv_tuple rv = (rv_version rv, rv_name rv, rv_expiration rv, rv_value rv)"

definition tuple_rv :: "string \<times> string \<times> time \<times> json \<Rightarrow> reference_value" where
  "tuple_rv t = (case t of (v, n, e, j) \<Rightarrow> \<lparr>rv_version = v, rv_name = n, rv_expiration = e, rv_value = j\<rparr>)"

lemma tuple_rv_inverse [simp]: "tuple_rv (rv_tuple rv) = rv"
  by (simp add: tuple_rv_def rv_tuple_def)

definition sample_rv :: rv_crates where
  "sample_rv = \<lparr>rc_with_nanosecond_0 = (\<lambda>t. Some (t - t mod 1000000000)),
     rc_checked_add_months = (\<lambda>t n. Some (t + int n * 2592000 * 1000000000)),
     rc_to_vec = (\<lambda>rv. Some (replicate (to_nat (rv_tuple rv)) 0)),
     rc_from_slice = (\<lambda>b. Some (tuple_rv (from_nat (length b)))),
     rc_list_to_vec = (\<lambda>rvs. Some (replicate (to_nat (map rv_tuple rvs)) 0)),
     rc_list_from_slice = (\<lambda>b. Some (map tuple_rv (from_nat (length b)))),
     rc_message_from_str = (\<lambda>t. Some \<lparr>msg_version = ''0.1.0'', msg_payload = t, msg_type = ''sample''\<rparr>),
     rc_b64_decode = (\<lambda>t. Some (as_bytes t)), rc_provenance_from_slice = (\<lambda>b. Some [(string_of_bytes b, JBool True)])\<rparr>"

definition sample_xml :: "unit xml_crates" where
  "sample_xml = \<lparr>xc_parse = (\<lambda>_. Some ()), xc_descendants = (\<lambda>_. [()]), xc_has_tag_name = (\<lambda>_ _ _. True),
     xc_attribute = (\<lambda>_ ns n. if n = ''Hash0'' then Some ''ab'' else if ns = Some hash_ns then None else Some ''Measurement'')\<rparr>"

definition sample_sled :: "(string \<times> bytes) list sled" where
  "sample_sled = \<lparr>sl_open = (\<lambda>_. Inr []), sl_insert = (\<lambda>k v d. (Inr (map_of d k), AList.update k v d)),
     sl_get = (\<lambda>k d. Inr (map_of d k)), sl_iter = (\<lambda>d. map Some (AList.clearjunk d)), sl_flush = (\<lambda>d. (Inr (), d))\<rparr>"

lemma sample_chrono_law: "chrono_law sample_rv"
proof -
  have "1000000000 dvd t + 2592000000000000 * int n" if "1000000000 dvd t" for t :: int and n
    using that by (intro dvd_add dvd_mult2) simp_all
  then show ?thesis by (auto simp: chrono_law_def sample_rv_def mod_eq_0_iff_dvd)
qed

lemma sample_serde_law: "serde_law sample_rv"
  by (simp add: serde_law_def sample_rv_def comp_def)

lemma sample_xml_law: "xml_law sample_xml"
proof -
  have "hash_name 1 = ''Hash1''" by code_simp
  then have "xc_attribute sample_xml n (Some hash_ns) (hash_name 1) = None" for n by (simp add: sample_xml_def)
  then show ?thesis unfolding xml_law_def by blast
qed

lemma clearjunk_entries: "(k, v) \<in> set (AList.clearjunk d) \<longleftrightarrow> map_of d k = Some v"
  by (metis distinct_clearjunk map_of_clearjunk map_of_eq_Some_iff)

lemma sample_sled_law: "sled_law sample_sled"
  unfolding sled_law_def
proof (intro conjI allI)
  fix k k' :: string and v d
  show "\<exists>v. sl_get sample_sled k d = Inr v" by (simp add: sample_sled_def)
  show "\<exists>d'. sl_insert sample_sled k v d = (sl_get sample_sled k d, d') \<and>
      (\<forall>k'. sl_get sample_sled k' d' = (if k' = k then Inr (Some v) else sl_get sample_sled k' d))"
    by (simp add: sample_sled_def AList.update_conv')
  show "\<exists>d'. sl_flush sample_sled d = (Inr (), d') \<and> (\<forall>k. sl_get sample_sled k d' = sl_get sample_sled k d)"
    by (simp add: sample_sled_def)
  show "\<exists>es. sl_iter sample_sled d = map Some es \<and> distinct (map fst es) \<and>
      (\<forall>k v. (k, v) \<in> set es \<longleftrightarrow> sl_get sample_sled k d = Inr (Some v))"
    by (rule exI [of _ "AList.clearjunk d"]) (simp add: sample_sled_def distinct_clearjunk clearjunk_entries)
qed

definition sample_rv_file :: fs where
  "sample_rv_file = [[] \<mapsto> Dir, [''r''] \<mapsto> File (replicate (to_nat ([] :: (string \<times> string \<times> time \<times> json) list)) 0)]"

lemma sample_json_inv: "json_inv sample_rv ''r'' sample_rv_file" "json_view sample_rv ''r'' sample_rv_file = Map.empty"
  by (simp_all add: json_inv_def json_view_def json_values_def sample_rv_file_def sample_serde_law fs_read_def resolve_def
      components_def) (simp_all add: sample_rv_def)

lemma sample_sled_inv: "sled_inv sample_rv sample_sled []" "sled_view sample_rv sample_sled [] = Map.empty"
  by (simp_all add: sled_inv_def sled_view_def sample_serde_law sample_sled_law fun_eq_iff)
    (simp_all add: sample_sled_def)

lemma sample_swid: "\<exists>rv. swid_verify_and_extract sample_rv sample_xml 0 ''x'' = Inr [rv]"
proof -
  have n: "hash_name 0 = ''Hash0''" "hash_name (Suc 0) = ''Hash1''" by code_simp+
  have "swid_hashes (xc_attribute sample_xml () (Some hash_ns)) (Suc 0) xs = Some xs" for xs
    by (subst swid_hashes.simps) (simp add: n sample_xml_def)
  then have h: "swid_hashes (xc_attribute sample_xml () (Some hash_ns)) 0 [] = Some [JString ''ab'']"
    by (subst swid_hashes.simps) (simp add: n, simp add: sample_xml_def)
  have r: "swid_resource sample_rv sample_xml 0 p () = Inr (Some rv) \<longleftrightarrow>
      rv = set_value (JArray [JString ''ab'']) (set_name (replace_char (CHR ''-'') (CHR ''_'') (p @ ''.measurement_Measurement''))
        \<lparr>rv_version = ''0.1.0'', rv_name = '''', rv_expiration = 31104000000000000, rv_value = JNull\<rparr>)" for p rv
    by (auto simp: swid_resource_def h sample_rv_def reference_value_new_def months_before_expiration_def
        reference_value_version_def) (simp_all add: sample_xml_def)
  then have r: "\<exists>rv. swid_resource sample_rv sample_xml 0 p () = Inr (Some rv)" for p by blast
  have x: "xc_parse sample_xml t = Some ()" "xc_descendants sample_xml () = [()]" "xc_has_tag_name sample_xml () ns tag"
    "xc_attribute sample_xml () None ''type'' = Some ''Measurement''" "xc_attribute sample_xml () None ''edition'' = Some ''Measurement''"
    "xc_attribute sample_xml () (Some rimim_ns) ''PlatformManufacturerStr'' = Some ''Measurement''" for t ns tag
    by (simp_all add: sample_xml_def rimim_ns_def hash_ns_def)
  have u: "from_utf8 (as_bytes ''x'') = Some ''x''" by code_simp
  have d: "rc_b64_decode sample_rv ''x'' = Some (as_bytes ''x'')" by (simp add: sample_rv_def)
  have "\<exists>rv. swid_resources sample_rv sample_xml 0 p [()] = Inr [rv]" for p
    using r [of p] by auto
  then show ?thesis by (simp add: swid_verify_and_extract_def d u x Let_def)
qed

theorem swid_extract_returns_witness:
  "\<exists>rv. swid_verify_and_extract sample_rv sample_xml 0 ''x'' = Inr [rv] \<and> measured rv"
  using swid_extract_returns [OF sample_xml_law, of sample_rv 0 "''x''"] sample_swid by fastforce



definition sample_value :: "string \<Rightarrow> reference_value" where
  "sample_value n = \<lparr>rv_version = ''0.1.0'', rv_name = n, rv_expiration = 0, rv_value = JNull\<rparr>"

lemma sample_value_whole: "whole sample_rv (sample_value n)" "rv_name (sample_value n) = n"
  by (simp_all add: whole_def sample_value_def sample_rv_def)

theorem interleaved_set_loses_update_witness:
  "\<exists>p1 p2 f1 f2. local_json_set_read sample_rv ''r'' ''a'' (sample_value ''a'') sample_rv_file = (Inr p1, sample_rv_file) \<and>
     local_json_set_read sample_rv ''r'' ''b'' (sample_value ''b'') sample_rv_file = (Inr p2, sample_rv_file) \<and>
     local_json_set_write ''r'' p1 sample_rv_file = (Inr (fst p1), f1) \<and>
     local_json_set_write ''r'' p2 f1 = (Inr (fst p2), f2) \<and> json_view sample_rv ''r'' f2 ''a'' = None"
  using interleaved_set_loses_update [OF sample_json_inv(1) sample_value_whole(1) sample_value_whole(1), of "''a''" "''b''"]
  unfolding sample_value_whole(2) sample_json_inv(2) by auto

end
