(* ===== verification/As_Policy.thy ===== *)
theory As_Policy
  imports File_System
begin

text \<open>
  The policy engine of the attestation service (\<^verbatim>\<open>attestation-service/src/policy_engine/\<close>): a directory of
  Rego policies, one file per policy id. The Rego engine, the hash and the encoders are functions of a
  record.
\<close>

datatype policy_error =
    CreatePolicyDirFailed | PolicyDirPathToStringFailed | WriteDefaultPolicyFailed | ReadPolicyFileFailed
  | WritePolicyFileFailed | LoadPolicyFailed | PolicyDenied string | SerdeJsonError | PolicyIOError
  | Base64DecodeFailed | InvalidPolicyId | InvalidPolicy | LoadReferenceDataFailed | SetInputDataFailed
  | EvalPolicyFailed | JsonSerializationFailed | InvalidClaimValue

type_synonym 'a as_policy_result = "(policy_error, 'a) result"

text \<open>\<open>pc_add_policy\<close> is whether the engine accepts a policy text under an id, \<open>pc_eval_rule\<close> the value of a
  rule for a policy, the data and the input, \<open>pc_is_alphanumeric\<close> the Unicode property of a char.\<close>

record policy_crates =
  pc_add_policy :: "string \<Rightarrow> string \<Rightarrow> bool"
  pc_from_json_str :: "string \<Rightarrow> json option"
  pc_add_data :: "json \<Rightarrow> bool"
  pc_set_input_json :: "string \<Rightarrow> json option"
  pc_eval_rule :: "string \<Rightarrow> json \<Rightarrow> json \<Rightarrow> string \<Rightarrow> json option"
  pc_sha384 :: "bytes \<Rightarrow> bytes"
  pc_hex_encode :: "bytes \<Rightarrow> string"
  pc_b64_decode :: "string \<Rightarrow> bytes option"
  pc_b64_encode :: "bytes \<Rightarrow> string"
  pc_is_alphanumeric :: "nat \<Rightarrow> bool"

record evaluation_result =
  rules_result :: "(string \<times> json) list"
  policy_hash :: string

definition ioE :: "policy_error \<Rightarrow> (fs, string, 'a) prog \<Rightarrow> (fs, policy_error, 'a) prog" where
  "ioE e = map_errP (\<lambda>_. e)"

definition as_opa_new :: "string \<Rightarrow> (fs, policy_error, string) prog" where
  "as_opa_new work_dir =
     (let policy_dir_path = path_push work_dir ''opa'' in
      bindP (readP (\<lambda>f. fs_exists f policy_dir_path)) (\<lambda>ex.
      bindP (if \<not> ex then ioE CreatePolicyDirFailed (create_dir_allF '''' policy_dir_path) else retP ()) (\<lambda>_.
        retP policy_dir_path)))"

definition ascii_alphanumeric :: "nat \<Rightarrow> bool" where
  "ascii_alphanumeric c \<longleftrightarrow> 97 \<le> c \<and> c \<le> 122 \<or> 65 \<le> c \<and> c \<le> 90 \<or> 48 \<le> c \<and> c \<le> 57"

definition is_alphanumeric :: "policy_crates \<Rightarrow> nat \<Rightarrow> bool" where
  "is_alphanumeric pc c = (if c < 128 then ascii_alphanumeric c else pc_is_alphanumeric pc c)"

definition is_valid_policy_id :: "policy_crates \<Rightarrow> string \<Rightarrow> bool" where
  "is_valid_policy_id pc policy_id =
     list_all (\<lambda>c. is_alphanumeric pc c \<or> c = of_char (CHR ''_'') \<or> c = of_char (CHR ''-'')) (chars_of policy_id)"

definition policy_file :: "string \<Rightarrow> string" where
  "policy_file policy_id = policy_id @ ''.rego''"

text \<open>The loop over the rules: a rule the policy does not define is skipped.\<close>

fun eval_rules :: "policy_crates \<Rightarrow> string \<Rightarrow> json \<Rightarrow> json \<Rightarrow> string list \<Rightarrow> (string \<times> json) list" where
  "eval_rules pc policy data inp [] = []"
| "eval_rules pc policy data inp (rule # rules) =
     (case pc_eval_rule pc policy data inp (''data.policy.'' @ rule) of
        None \<Rightarrow> eval_rules pc policy data inp rules
      | Some v \<Rightarrow> (rule, v) # eval_rules pc policy data inp rules)"

definition as_opa_evaluate ::
  "policy_crates \<Rightarrow> string \<Rightarrow> string \<Rightarrow> string \<Rightarrow> string \<Rightarrow> string list \<Rightarrow> fs \<Rightarrow> evaluation_result as_policy_result" where
  "as_opa_evaluate pc policy_dir_path data input policy_id evaluation_rules f =
     (let policy_file_path = policy_dir_path @ ''/'' @ policy_file policy_id in
      and_then (ok_or (Option.bind (fs_read f policy_file_path) from_utf8) ReadPolicyFileFailed) (\<lambda>policy.
      let policy_hash = pc_hex_encode pc (pc_sha384 pc (as_bytes policy)) in
      if \<not> pc_add_policy pc policy_id policy then bail LoadPolicyFailed
      else
        and_then (ok_or (pc_from_json_str pc data) JsonSerializationFailed) (\<lambda>data.
        if \<not> pc_add_data pc data then bail LoadReferenceDataFailed
        else
          and_then (ok_or (pc_set_input_json pc input) SetInputDataFailed) (\<lambda>inp.
            Inr \<lparr>rules_result = eval_rules pc policy data inp evaluation_rules, policy_hash = policy_hash\<rparr>))))"

definition as_opa_set_policy ::
  "policy_crates \<Rightarrow> string \<Rightarrow> string \<Rightarrow> string \<Rightarrow> bool \<Rightarrow> (fs, policy_error, unit) prog" where
  "as_opa_set_policy pc policy_dir_path policy_id policy overwrite =
     bindP (liftP (ok_or (pc_b64_decode pc policy) Base64DecodeFailed)) (\<lambda>policy_bytes.
     if \<not> is_valid_policy_id pc policy_id then bailP InvalidPolicyId
     else
       bindP (liftP (ok_or (from_utf8 policy_bytes) InvalidPolicy)) (\<lambda>policy_content.
       if \<not> pc_add_policy pc policy_id policy_content then bailP InvalidPolicy
       else
         let policy_file_path = path_push policy_dir_path (policy_file policy_id) in
         bindP (readP (\<lambda>f. fs_exists f policy_file_path)) (\<lambda>ex.
         if \<not> overwrite \<and> ex then retP ()
         else ioE WritePolicyFileFailed (writeF '''' policy_file_path policy_bytes))))"

definition rego_id :: "string \<Rightarrow> string option" where
  "rego_id name = (case split_last_dot name of Some (stem, ext) \<Rightarrow> if ext = ''rego'' then Some stem else None | None \<Rightarrow> None)"

fun list_rego :: "string list \<Rightarrow> string list" where
  "list_rego [] = []"
| "list_rego (e # es) = (case rego_id e of None \<Rightarrow> list_rego es | Some i \<Rightarrow> i # list_rego es)"

fun policy_digests ::
  "policy_crates \<Rightarrow> string \<Rightarrow> fs \<Rightarrow> string list \<Rightarrow> (string \<rightharpoonup> string) \<Rightarrow> (string \<rightharpoonup> string) as_policy_result" where
  "policy_digests pc dir f [] m = Inr m"
| "policy_digests pc dir f (i # is) m =
     and_then (ok_or (fs_read f (path_push dir (policy_file i))) ReadPolicyFileFailed) (\<lambda>policy.
       policy_digests pc dir f is (m(i \<mapsto> pc_b64_encode pc (pc_sha384 pc policy))))"

text \<open>\<open>entries\<close> are the names in the directory, in the order in which it is read.\<close>

definition as_opa_list_policies ::
  "policy_crates \<Rightarrow> string \<Rightarrow> string list \<Rightarrow> fs \<Rightarrow> (string \<rightharpoonup> string) as_policy_result" where
  "as_opa_list_policies pc policy_dir_path entries f =
     (if (case resolve f policy_dir_path of None \<Rightarrow> True | Some q \<Rightarrow> f q \<noteq> Some Dir) then bail PolicyIOError
      else policy_digests pc policy_dir_path f (list_rego entries) Map.empty)"

definition as_opa_get_policy :: "policy_crates \<Rightarrow> string \<Rightarrow> string \<Rightarrow> fs \<Rightarrow> string as_policy_result" where
  "as_opa_get_policy pc policy_dir_path policy_id f =
     and_then (ok_or (fs_read f (path_push policy_dir_path (policy_file policy_id))) ReadPolicyFileFailed) (\<lambda>policy.
       Inr (pc_b64_encode pc policy))"

subsection \<open>Policy ids and files\<close>

text \<open>An ASCII byte of a string is a char of it.\<close>

lemma lead_width: "unat b < 128 \<longleftrightarrow> utf8_width b = 1" "is_cont b \<Longrightarrow> \<not> unat b < 128" "second_ok a b \<Longrightarrow> \<not> unat b < 128"
  by (auto simp: utf8_width_def is_cont_def second_ok_def)

lemma utf8_next_ascii:
  assumes "b \<in> set (take (snd (utf8_next bs)) bs)" and "unat b < 128"
  shows "fst (utf8_next bs) = Some (unat b)"
proof (cases bs)
  case Nil
  with assms show ?thesis by (simp add: utf8_next_def)
next
  case (Cons a r)
  show ?thesis
  proof (cases "utf8_width a = 0 \<or> utf8_width a = 1")
    case True
    with assms Cons show ?thesis by (auto simp: utf8_next_def lead_width(1))
  next
    case False
    have "\<not> unat x < 128" if "x \<in> set (take (snd (utf8_next bs)) bs)" for x
      using that False Cons lead_width(1) [of a]
      by (cases r rule: list.exhaust; simp add: utf8_next_def)
        (auto dest: lead_width(2,3) split: if_splits list.splits)
    with assms show ?thesis by blast
  qed
qed

lemma ascii_in_chars:
  assumes "b \<in> set bs" and "unat b < 128"
  shows "unat b \<in> set (utf8_decode_lossy bs)"
  using assms(1)
proof (induction bs rule: utf8_decode_lossy.induct)
  case (1 bs)
  then have ne: "bs \<noteq> []" by auto
  let ?n = "snd (utf8_next bs)"
  have "set bs = set (take ?n bs) \<union> set (drop ?n bs)" by (metis append_take_drop_id set_append)
  then consider "b \<in> set (take ?n bs)" | "b \<in> set (drop ?n bs)" using 1(2) by blast
  then show ?case
  proof cases
    case 1
    with utf8_next_ascii [OF this assms(2)] ne show ?thesis by (subst utf8_decode_lossy.simps) simp
  next
    case 2
    with 1(1) [OF ne] ne show ?thesis by (subst utf8_decode_lossy.simps) simp
  qed
qed

lemma valid_id_char:
  assumes "is_valid_policy_id pc i" and "ch \<in> set i" and "(of_char ch :: nat) < 128"
  shows "ascii_alphanumeric (of_char ch) \<or> ch = CHR ''_'' \<or> ch = CHR ''-''"
proof -
  have "(of_char ch :: byte) \<in> set (as_bytes i)" using assms(2) by (simp add: as_bytes_def)
  with assms(3) have "(of_char ch :: nat) \<in> set (chars_of i)"
    using ascii_in_chars [of "of_char ch" "as_bytes i"] by (simp add: chars_of_def unat_of_char)
  then have "is_alphanumeric pc (of_char ch) \<or> (of_char ch :: nat) = of_char (CHR ''_'') \<or> (of_char ch :: nat) = of_char (CHR ''-'')"
    using assms(1) unfolding is_valid_policy_id_def list_all_iff by blast
  then show ?thesis using assms(3) unfolding of_char_eq_iff is_alphanumeric_def by presburger
qed

lemma valid_file_plain: "is_valid_policy_id pc i \<Longrightarrow> plain (policy_file i)"
proof -
  assume i: "is_valid_policy_id pc i"
  have "CHR ''/'' \<notin> set i" using valid_id_char [OF i, of "CHR ''/''"] by (auto simp: ascii_alphanumeric_def)
  then show ?thesis by (auto simp: plain_def policy_file_def append_eq_Cons_conv)
qed

lemma plain_file_path:
  assumes "plain n"
  shows "resolve f (path_push dir n) = (case resolve f dir of None \<Rightarrow> None | Some d \<Rightarrow> if f d = Some Dir then Some (d @ [n]) else None)"
    and "resolve f (dir @ ''/'' @ n) = resolve f (path_push dir n)"
  using assms components_path_push [OF plain_hd [OF assms], of dir] components_append [of dir n]
  by (auto simp: resolve_def components_plain resolve_from_append plain_def split: option.splits)

text \<open>The engine reads the file it wrote, although it builds the two paths differently.\<close>

lemma as_opa_set_policy_cases:
  assumes "as_opa_set_policy pc dir i policy overwrite f = (res, f')"
  obtains
    (stored) b p where "res = Inr ()" and "is_valid_policy_id pc i" and "pc_b64_decode pc policy = Some b"
      and "from_utf8 b = Some p" and "pc_add_policy pc i p" and "fs_write f (path_push dir (policy_file i)) b = Some f'"
  | (kept) "res = Inr ()" and "f' = f" and "\<not> overwrite" and "fs_exists f (path_push dir (policy_file i))"
  | (refused) e where "res = bail e" and "f' = f"
proof (cases "pc_b64_decode pc policy")
  case None
  with assms show ?thesis by (intro refused) (auto simp: as_opa_set_policy_def prog_simps)
next
  case b: (Some b)
  show ?thesis
  proof (cases "is_valid_policy_id pc i \<and> (\<exists>p. from_utf8 b = Some p \<and> pc_add_policy pc i p)")
    case False
    with assms b show ?thesis
      by (cases "from_utf8 b"; cases "is_valid_policy_id pc i")
        (auto intro: refused simp: as_opa_set_policy_def prog_simps split: if_splits)
  next
    case True
    then obtain p where p: "is_valid_policy_id pc i" "from_utf8 b = Some p" "pc_add_policy pc i p" by blast
    show ?thesis
    proof (cases "\<not> overwrite \<and> fs_exists f (path_push dir (policy_file i))")
      case True
      with assms b p show ?thesis by (intro kept) (auto simp: as_opa_set_policy_def prog_simps Let_def)
    next
      case False
      with assms b p have w: "ioE WritePolicyFileFailed (writeF '''' (path_push dir (policy_file i)) b) f = (res, f')"
        by (auto simp: as_opa_set_policy_def prog_simps Let_def)
      show ?thesis
      proof (cases "fs_write f (path_push dir (policy_file i)) b")
        case None
        with w show ?thesis by (intro refused) (auto simp: ioE_def map_errP_def writeF_def)
      next
        case (Some g)
        with w p b show ?thesis by (intro stored) (auto simp: ioE_def map_errP_def writeF_def)
      qed
    qed
  qed
qed

subsection \<open>What setting a policy does\<close>

text \<open>The base64 engine is strict: a decoding has one text.\<close>

definition policy_b64_strict :: "policy_crates \<Rightarrow> bool" where
  "policy_b64_strict pc \<longleftrightarrow> (\<forall>p b. pc_b64_decode pc p = Some b \<longrightarrow> pc_b64_encode pc b = p)"


text \<open>Reading a policy does not check the id: with an id that cannot be set, it returns a file outside the
  policy directory.\<close>

theorem get_policy_escapes:
  assumes "resolve f dir = Some d" and "f d = Some Dir" and "f (butlast d) = Some Dir"
    and "f (butlast d @ [''x.rego'']) = Some (File b)"
  shows "as_opa_get_policy pc dir ''../x'' f = Inr (pc_b64_encode pc b) \<and> \<not> is_valid_policy_id pc ''../x''"
proof
  have "components (path_push dir ''../x.rego'') = components dir @ [''..'', ''x.rego'']"
    by (subst components_path_push) (simp_all add: components_def)
  then have "resolve f (path_push dir ''../x.rego'') = Some (butlast d @ [''x.rego''])"
    using assms by (simp add: resolve_def resolve_from_append)
  then show "as_opa_get_policy pc dir ''../x'' f = Inr (pc_b64_encode pc b)"
    using assms(4) by (simp add: as_opa_get_policy_def policy_file_def fs_read_def)
  show "\<not> is_valid_policy_id pc ''../x''"
    using valid_id_char [of pc "''../x''" "CHR ''/''"] by (auto simp: ascii_alphanumeric_def)
qed

lemma rego_id_iff: "rego_id n = Some i \<longleftrightarrow> i \<noteq> '''' \<and> n = policy_file i"
proof
  assume "i \<noteq> '''' \<and> n = policy_file i"
  then show "rego_id n = Some i" using split_last_dot_file [of "''rego''" i] by (simp add: rego_id_def policy_file_def)
next
  assume r: "rego_id n = Some i"
  then have "CHR ''.'' \<in> set n" by (auto simp: rego_id_def split_last_dot_def Let_def split: option.splits if_splits)
  then obtain s e where n: "n = s @ CHR ''.'' # e" "CHR ''.'' \<notin> set e" by (metis split_list_last)
  with r show "i \<noteq> '''' \<and> n = policy_file i"
    using split_last_dot_file [OF n(2), of s] by (auto simp: rego_id_def policy_file_def split: if_splits)
qed

lemma set_list_rego: "set (list_rego es) = {i. i \<noteq> '''' \<and> policy_file i \<in> set es}"
proof (induction es)
  case (Cons e es)
  show ?case
  proof (cases "rego_id e")
    case None
    then have "\<not> (i \<noteq> '''' \<and> e = policy_file i)" for i using rego_id_iff [of e i] by simp
    with Cons None show ?thesis by auto
  next
    case (Some j)
    then have j: "j \<noteq> ''''" "e = policy_file j" using rego_id_iff [of e j] by simp_all
    then have "policy_file i = e \<longleftrightarrow> i = j" for i by (simp add: policy_file_def)
    with Cons Some j(1) show ?thesis by auto
  qed
qed simp

lemma policy_digests_spec:
  assumes "policy_digests pc dir f is m = Inr m'"
  shows "m' i = (if i \<in> set is then map_option (\<lambda>b. pc_b64_encode pc (pc_sha384 pc b)) (fs_read f (path_push dir (policy_file i)))
    else m i)"
  using assms by (induction "is" arbitrary: m) (auto simp: result_simps)

text \<open>C40. Listing gives the digest of exactly the policies in the directory whose id is not empty, and so omits
  the policy with the empty id, which can be set.\<close>

theorem as_list_policies_exact:
  assumes "resolve f dir = Some d" and "f d = Some Dir" and "set entries = {n. f (d @ [n]) \<noteq> None}"
    and "is_valid_policy_id pc i" and "as_opa_list_policies pc dir entries f = Inr m"
  shows "m i = (case f (d @ [policy_file i]) of
      Some (File b) \<Rightarrow> if i = '''' then None else Some (pc_b64_encode pc (pc_sha384 pc b)) | _ \<Rightarrow> None)"
proof -
  have m: "policy_digests pc dir f (list_rego entries) Map.empty = Inr m"
    using assms(1,2,5) by (simp add: as_opa_list_policies_def)
  have rd: "fs_read f (path_push dir (policy_file i)) = (case f (d @ [policy_file i]) of Some (File b) \<Rightarrow> Some b | _ \<Rightarrow> None)"
    using plain_file_path(1) [OF valid_file_plain [OF assms(4)], of f dir] assms(1,2) by (simp add: fs_read_def)
  show ?thesis
    unfolding policy_digests_spec [OF m] set_list_rego assms(3) rd
    by (auto split: option.splits fnode.splits)
qed

subsection \<open>A concrete instance\<close>

definition sample_pc :: policy_crates where
  "sample_pc = \<lparr>pc_add_policy = (\<lambda>_ p. p \<noteq> ''''), pc_from_json_str = (\<lambda>t. Some (JString t)), pc_add_data = (\<lambda>_. True),
     pc_set_input_json = (\<lambda>t. Some (JString t)), pc_eval_rule = (\<lambda>p d i r. Some (JNumber (PosInt 2))),
     pc_sha384 = (\<lambda>b. b), pc_hex_encode = string_of_bytes, pc_b64_decode = (\<lambda>t. Some (as_bytes t)),
     pc_b64_encode = string_of_bytes, pc_is_alphanumeric = (\<lambda>_. False)\<rparr>"

definition sample_policy_fs :: fs where
  "sample_policy_fs = [[] \<mapsto> Dir, [''d''] \<mapsto> Dir, [''x.rego''] \<mapsto> File [7], [''d'', ''a.rego''] \<mapsto> File [9]]"

lemma sample_pc_strict: "policy_b64_strict sample_pc"
  by (simp add: policy_b64_strict_def sample_pc_def)

lemma sample_policy_dir: "resolve sample_policy_fs ''d'' = Some [''d'']" "sample_policy_fs [''d''] = Some Dir"
  "sample_policy_fs (butlast [''d'']) = Some Dir" "sample_policy_fs (butlast [''d''] @ [''x.rego'']) = Some (File [7])"
  by (simp_all add: sample_policy_fs_def resolve_def components_def)

theorem get_policy_escapes_witness:
  "as_opa_get_policy sample_pc ''d'' ''../x'' sample_policy_fs = Inr (pc_b64_encode sample_pc [7])"
  using get_policy_escapes [OF sample_policy_dir] by blast

lemma sample_valid_id: "is_valid_policy_id sample_pc ''a''"
  by code_simp

lemma sample_policy_path: "resolve sample_policy_fs (path_push ''d'' (policy_file ''a'')) = Some [''d'', ''a.rego'']"
  by (simp add: resolve_def components_def path_push_def policy_file_def sample_policy_fs_def)

lemma sample_policy_content: "sample_policy_fs [''d'', ''a.rego''] = Some (File [9])"
  by (simp add: sample_policy_fs_def)

theorem as_list_policies_exact_witness:
  "\<exists>m. as_opa_list_policies sample_pc ''d'' [''a.rego''] sample_policy_fs = Inr m \<and>
     m ''a'' = Some (pc_b64_encode sample_pc (pc_sha384 sample_pc [9]))"
proof -
  have e: "set [''a.rego''] = {n. sample_policy_fs ([''d''] @ [n]) \<noteq> None}"
    by (auto simp: sample_policy_fs_def split: if_splits)
  have "list_rego [''a.rego''] = [''a'']" by code_simp
  then obtain m where m: "as_opa_list_policies sample_pc ''d'' [''a.rego''] sample_policy_fs = Inr m"
    by (simp add: as_opa_list_policies_def sample_policy_dir fs_read_def sample_policy_path sample_policy_content)
  from as_list_policies_exact [OF sample_policy_dir(1,2) e sample_valid_id m] m show ?thesis
    by (simp add: policy_file_def sample_policy_content)
qed


end
