(* ===== verification/As_Token.thy ===== *)
theory As_Token
  imports As_Policy Kbs_Session "HOL-Library.AList"
begin

text \<open>
  The token brokers of the attestation service (\<^verbatim>\<open>attestation-service/src/token/\<close>): the flattening and the
  transformation of claims, and the issue of Simple and of EAR tokens. The policy engine is the one of
  theory \<open>As_Policy\<close>; the EAR crate, the signatures and the serialisers are functions of a record.
\<close>

record tee_claims =
  tc_tee :: tee
  tc_tee_class :: string
  tc_claims :: json
  tc_init_data_claims :: json
  tc_runtime_data_claims :: json

text \<open>\<open>bc_variant_name\<close> is the name of a TEE; \<open>bc_raw\<close> the conversion of a JSON value to the one of the EAR
  crate through its text; \<open>bc_tags\<close> and \<open>bc_has_claim\<close> the claims of a trust vector; \<open>bc_sign_ear\<close> and
  \<open>bc_rs384_sign\<close> the signatures with the broker's key; \<open>bc_minutes\<close> the seconds of a duration, \<open>None\<close> where the
  crate panics; \<open>bc_hash_order\<close> the order in which a hash map is iterated.\<close>

record appraisal =
  ap_trust_vector :: "string \<rightharpoonup> int"
  ap_status :: int
  ap_annotated_evidence :: "(string \<times> json) list"
  ap_policy_id :: "string option"

record ear =
  ea_profile :: string
  ea_iat :: int
  ea_build :: string
  ea_developer :: string
  ea_submods :: "string \<rightharpoonup> appraisal"
  ea_exp :: int

record ear_jwk =
  ej_x509_url :: "string option"
  ej_x509_chain :: "string list option"
  ej_x :: string
  ej_y :: string

record token_broker_crates =
  bc_variant_name :: "tee \<Rightarrow> string option"
  bc_raw :: "json \<Rightarrow> json option"
  bc_json_to_string :: "json \<Rightarrow> string option"
  bc_json_from_str :: "string \<Rightarrow> json option"
  bc_hash_order :: "(string \<times> string) list \<Rightarrow> (string \<times> string) list"
  bc_reference_to_string :: "(string \<rightharpoonup> json) \<Rightarrow> string option"
  bc_tags :: "string list"
  bc_has_claim :: "string \<Rightarrow> bool"
  bc_as_i8 :: "json \<Rightarrow> int option"
  bc_any_set :: "(string \<rightharpoonup> int) \<Rightarrow> bool"
  bc_status :: "(string \<rightharpoonup> int) \<Rightarrow> int"
  bc_minutes :: "int \<Rightarrow> int option"
  bc_checked_add :: "time \<Rightarrow> int \<Rightarrow> time option"
  bc_set_exp :: "time \<Rightarrow> bool"
  bc_new_jwt_header :: bool
  bc_sign_ear :: "ear \<Rightarrow> ear_jwk \<Rightarrow> bytes \<Rightarrow> string option"
  bc_rs384_sign :: "bytes \<Rightarrow> bytes \<Rightarrow> bytes option"
  bc_b64_encode :: "bytes \<Rightarrow> string"
  bc_x509_from_pem :: "bytes \<Rightarrow> bytes option"
  bc_x509_to_der :: "bytes \<Rightarrow> bytes option"
  bc_ec_key_from_pem :: "bytes \<Rightarrow> bytes option"
  bc_ec_key_to_pem :: "bytes \<Rightarrow> bytes option"
  bc_affine_coordinates :: "bytes \<Rightarrow> (bytes \<times> bytes) option"
  bc_rsa_key_from_pem :: "bytes \<Rightarrow> bytes option"
  bc_rsa_n :: "bytes \<Rightarrow> bytes"
  bc_rsa_e :: "bytes \<Rightarrow> bytes"

subsection \<open>Flattening\<close>

text \<open>\<^verbatim>\<open>flatten_helper\<close> on a value and on the fields of an object.\<close>

fun flatten_helper :: "(string \<times> json) list \<Rightarrow> json \<Rightarrow> string \<Rightarrow> (string \<times> json) list"
  and flatten_fields :: "(string \<times> json) list \<Rightarrow> (string \<times> json) list \<Rightarrow> string \<Rightarrow> (string \<times> json) list" where
  "flatten_helper parent JNull prefix = obj_insert prefix JNull parent"
| "flatten_helper parent (JBool v) prefix = obj_insert prefix (JBool v) parent"
| "flatten_helper parent (JNumber v) prefix = obj_insert prefix (JNumber v) parent"
| "flatten_helper parent (JString v) prefix = obj_insert prefix (JString v) parent"
| "flatten_helper parent (JArray v) prefix = obj_insert prefix (JArray v) parent"
| "flatten_helper parent (JObject obj) prefix = flatten_fields parent obj prefix"
| "flatten_fields parent [] prefix = parent"
| "flatten_fields parent ((k, v) # obj) prefix =
     flatten_fields (flatten_helper parent v (prefix @ ''.'' @ k)) obj prefix"

definition flatten_claims :: "token_broker_crates \<Rightarrow> tee \<Rightarrow> json \<Rightarrow> (string \<times> json) list anyhow" where
  "flatten_claims c t claims =
     and_then (ok_or (bc_variant_name c t) ''variant name'') (\<lambda>tee_type.
     (case claims of
        JObject obj \<Rightarrow>
          let map = fold (\<lambda>(k, v) m. if k \<noteq> ''report_data'' \<and> k \<noteq> ''init_data''
                                     then flatten_helper m v (tee_type @ ''.'' @ k) else m) obj [];
              map = obj_insert ''report_data''
                (case obj_get obj ''report_data'' of Some v \<Rightarrow> v | None \<Rightarrow> JString '''') map;
              map = obj_insert ''init_data''
                (case obj_get obj ''init_data'' of Some v \<Rightarrow> v | None \<Rightarrow> JString '''') map
          in Inr map
      | _ \<Rightarrow> bail ''input claims must be a map''))"

subsection \<open>Transformation for EAR\<close>

definition transform_claims ::
  "token_broker_crates \<Rightarrow> json \<Rightarrow> json \<Rightarrow> json \<Rightarrow> tee \<Rightarrow> (string \<times> json) list anyhow" where
  "transform_claims c input_claims init_data_claims runtime_data_claims t =
     and_then (case input_claims of
        JObject claims_map \<Rightarrow>
          and_then (case obj_get claims_map ''init_data'' of
              Some init_data \<Rightarrow>
                and_then (case as_str init_data of Some s \<Rightarrow> Inr s | None \<Rightarrow> panic ''called `Option::unwrap()` on a `None` value'')
                  (\<lambda>s. and_then (ok_or (bc_raw c init_data_claims) ''serde'') (\<lambda>transformed.
                    Inr (obj_insert ''init_data_claims'' transformed (obj_insert ''init_data'' (JString s) []))))
            | None \<Rightarrow> Inr []) (\<lambda>output_claims.
          let claims_map = obj_remove ''init_data'' claims_map in
          and_then (case obj_get claims_map ''report_data'' of
              Some report_data \<Rightarrow>
                and_then (case as_str report_data of Some s \<Rightarrow> Inr s | None \<Rightarrow> panic ''called `Option::unwrap()` on a `None` value'')
                  (\<lambda>s. and_then (ok_or (bc_raw c runtime_data_claims) ''serde'') (\<lambda>transformed.
                    Inr (obj_insert ''runtime_data_claims'' transformed
                      (obj_insert ''report_data'' (JString s) output_claims))))
            | None \<Rightarrow> Inr output_claims) (\<lambda>output_claims.
            Inr (JObject (obj_remove ''report_data'' claims_map), output_claims)))
      | v \<Rightarrow> Inr (v, [])) (\<lambda>(input_claims, output_claims).
     and_then (ok_or (bc_raw c input_claims) ''serde'') (\<lambda>transformed.
     and_then (ok_or (bc_variant_name c t) ''variant name'') (\<lambda>name.
       Inr (obj_insert name transformed output_claims))))"

subsection \<open>The signer\<close>

record token_signer_config =
  ts_key_path :: string
  ts_cert_url :: "string option"
  ts_cert_path :: "string option"

text \<open>The loop over the pieces of a PEM certificate chain.\<close>

fun pem_chain :: "token_broker_crates \<Rightarrow> string list \<Rightarrow> bytes list anyhow" where
  "pem_chain c [] = Inr []"
| "pem_chain c (pem # pems) =
     (let trimmed = trim pem @ [CHR 0x0A] @ ''-----END CERTIFICATE-----'' in
      if \<not> starts_with ''-----BEGIN CERTIFICATE-----'' trimmed then pem_chain c pems
      else
        and_then (ok_or (bc_x509_from_pem c (as_bytes trimmed)) ''Invalid PEM certificate chain'') (\<lambda>cert.
        and_then (pem_chain c pems) (\<lambda>chain. Inr (cert # chain))))"

definition read_cert_chain :: "token_broker_crates \<Rightarrow> string option \<Rightarrow> fs \<Rightarrow> bytes list option anyhow" where
  "read_cert_chain c cert_path f =
     (case cert_path of
        None \<Rightarrow> Inr None
      | Some path \<Rightarrow>
          and_then (ok_or (Option.bind (fs_read f path) from_utf8) ''Read Token Signer cert file failed'') (\<lambda>pem_cert_chain.
          and_then (pem_chain c (split_str ''-----END CERTIFICATE-----'' pem_cert_chain)) (\<lambda>chain. Inr (Some chain))))"

record ear_broker =
  eb_duration_min :: int
  eb_developer_name :: string
  eb_build_name :: string
  eb_profile_name :: string
  eb_private_key :: bytes
  eb_cert_url :: "string option"
  eb_cert_chain :: "bytes list option"
  eb_policy_dir :: string

record ear_config =
  ec_duration_min :: int
  ec_developer_name :: string
  ec_build_name :: string
  ec_profile_name :: string
  ec_signer :: "token_signer_config option"
  ec_policy_dir :: string

definition policyA :: "(fs, policy_error, 'a) prog \<Rightarrow> (fs, string, 'a) prog" where
  "policyA = map_errP (\<lambda>_. ''policy engine'')"

text \<open>\<open>cpu_policy\<close> and \<open>gpu_policy\<close> are the texts of the files the binary includes, \<open>fresh_key\<close> the result of
  generating an EC key.\<close>

definition ear_broker_new ::
  "token_broker_crates \<Rightarrow> policy_crates \<Rightarrow> string \<Rightarrow> string \<Rightarrow> bytes option \<Rightarrow> ear_config \<Rightarrow> (fs, string, ear_broker) prog" where
  "ear_broker_new c pc cpu_policy gpu_policy fresh_key config =
     bindP (policyA (as_opa_new (ec_policy_dir config))) (\<lambda>dir.
     bindP (policyA (as_opa_set_policy pc dir ''default_cpu'' (bc_b64_encode c (as_bytes cpu_policy)) False)) (\<lambda>_.
     bindP (policyA (as_opa_set_policy pc dir ''default_gpu'' (bc_b64_encode c (as_bytes gpu_policy)) False)) (\<lambda>_.
     let broker = (\<lambda>key url chain. \<lparr>eb_duration_min = ec_duration_min config,
           eb_developer_name = ec_developer_name config, eb_build_name = ec_build_name config,
           eb_profile_name = ec_profile_name config, eb_private_key = key, eb_cert_url = url,
           eb_cert_chain = chain, eb_policy_dir = dir\<rparr>) in
     (case ec_signer config of
        None \<Rightarrow> bindP (liftP (ok_or fresh_key ''generate key'')) (\<lambda>key. retP (broker key None None))
      | Some signer \<Rightarrow>
          bindP (readF ''Read Token Signer private key failed'' (ts_key_path signer)) (\<lambda>pem_data.
          bindP (liftP (ok_or (bc_ec_key_from_pem c pem_data) ''private key'')) (\<lambda>private_key.
          bindP (readP (read_cert_chain c (ts_cert_path signer))) (\<lambda>r.
          bindP (liftP r) (\<lambda>cert_chain.
            retP (broker private_key (ts_cert_url signer) cert_chain)))))))))"

fun encode_chain :: "token_broker_crates \<Rightarrow> bytes list \<Rightarrow> string list anyhow" where
  "encode_chain c [] = Inr []"
| "encode_chain c (cert # certs) =
     and_then (ok_or (bc_x509_to_der c cert) ''der'') (\<lambda>der.
     and_then (encode_chain c certs) (\<lambda>chain. Inr (bc_b64_encode c der # chain)))"

definition ear_pubkey_jwk :: "token_broker_crates \<Rightarrow> ear_broker \<Rightarrow> ear_jwk anyhow" where
  "ear_pubkey_jwk c b =
     and_then (case eb_cert_chain b of
        None \<Rightarrow> Inr None
      | Some certs \<Rightarrow> and_then (encode_chain c certs) (\<lambda>chain. Inr (Some chain))) (\<lambda>chain.
     and_then (ok_or (bc_affine_coordinates c (eb_private_key b)) ''coordinates'') (\<lambda>(x, y).
       Inr \<lparr>ej_x509_url = eb_cert_url b, ej_x509_chain = chain, ej_x = bc_b64_encode c x, ej_y = bc_b64_encode c y\<rparr>))"

subsection \<open>EAR tokens\<close>

text \<open>The loop over the results of the policy: each rule names a claim of the trust vector.\<close>

definition hyphenate :: "string \<Rightarrow> string" where
  "hyphenate k = map (\<lambda>ch. if ch = CHR ''_'' then CHR ''-'' else ch) k"

fun set_claims :: "token_broker_crates \<Rightarrow> (string \<times> json) list \<Rightarrow> (string \<rightharpoonup> int) \<Rightarrow> (string \<rightharpoonup> int) anyhow" where
  "set_claims c [] tv = Inr tv"
| "set_claims c ((k, v) # rs) tv =
     and_then (ok_or (bc_as_i8 c v) ''Policy claim value not i8'') (\<lambda>claim_value.
     if bc_has_claim c (hyphenate k) then set_claims c rs (tv(hyphenate k \<mapsto> claim_value))
     else panic ''called `Option::unwrap()` on a `None` value'')"

text \<open>The body of the loop over the devices, up to the name of the submodule.\<close>

definition ear_appraise ::
  "token_broker_crates \<Rightarrow> policy_crates \<Rightarrow> ear_broker \<Rightarrow> string \<Rightarrow> string \<Rightarrow> fs \<Rightarrow> tee_claims \<Rightarrow> appraisal anyhow" where
  "ear_appraise c pc b reference_data policy f tc =
     and_then (transform_claims c (tc_claims tc) (tc_init_data_claims tc) (tc_runtime_data_claims tc) (tc_tee tc))
       (\<lambda>tcb_claims.
     and_then (ok_or (bc_json_to_string c (JObject tcb_claims)) ''serde'') (\<lambda>tcb_claims_json.
     let policy_id = policy @ ''_'' @ tc_tee_class tc in
     and_then (map_err (\<lambda>_. ''policy engine'')
         (as_opa_evaluate pc (eb_policy_dir b) reference_data tcb_claims_json policy_id (bc_tags c) f)) (\<lambda>policy_results.
     and_then (set_claims c (rules_result policy_results) Map.empty) (\<lambda>trust_vector.
     if \<not> bc_any_set c trust_vector then bail ''At least one policy claim must be set.''
     else Inr \<lparr>ap_trust_vector = trust_vector, ap_status = bc_status c trust_vector,
        ap_annotated_evidence = tcb_claims, ap_policy_id = Some policy\<rparr>))))"

text \<open>The counter of a class is a \<^verbatim>\<open>u8\<close>: with overflow checks the increment of 255 panics, without them it
  wraps to 0.\<close>

definition next_index :: "bool \<Rightarrow> (string \<rightharpoonup> 8 word) \<Rightarrow> string \<Rightarrow> 8 word anyhow" where
  "next_index oc indices tee_class =
     (case indices tee_class of
        Some index \<Rightarrow> if oc \<and> index = 255 then panic ''attempt to add with overflow'' else Inr (index + 1)
      | None \<Rightarrow> Inr 0)"

definition submod_name :: "string \<Rightarrow> 8 word \<Rightarrow> string" where
  "submod_name tee_class index = tee_class @ fmt_dec (unat index)"

fun ear_submods ::
  "bool \<Rightarrow> (tee_claims \<Rightarrow> appraisal anyhow) \<Rightarrow> tee_claims list \<Rightarrow> (string \<rightharpoonup> 8 word) \<Rightarrow> (string \<rightharpoonup> appraisal) \<Rightarrow>
     (string \<rightharpoonup> appraisal) anyhow" where
  "ear_submods oc appraise [] indices submods = Inr submods"
| "ear_submods oc appraise (tc # tcs) indices submods =
     and_then (appraise tc) (\<lambda>appraisal.
     and_then (next_index oc indices (tc_tee_class tc)) (\<lambda>index.
       ear_submods oc appraise tcs (indices(tc_tee_class tc \<mapsto> index))
         (submods(submod_name (tc_tee_class tc) index \<mapsto> appraisal))))"

definition ear_issue ::
  "bool \<Rightarrow> token_broker_crates \<Rightarrow> policy_crates \<Rightarrow> ear_broker \<Rightarrow> time \<Rightarrow> tee_claims list \<Rightarrow> string list \<Rightarrow>
     (string \<rightharpoonup> json) \<Rightarrow> fs \<Rightarrow> string anyhow" where
  "ear_issue oc c pc b now all_tee_claims policy_ids reference_data_map f =
     and_then (ok_or (bc_reference_to_string c reference_data_map) ''serde'') (\<lambda>reference_data.
     (case policy_ids of
        [] \<Rightarrow> bail ''No policy is given for EAR token generation.''
      | policy # _ \<Rightarrow>
          and_then (ear_submods oc (ear_appraise c pc b reference_data policy f) all_tee_claims Map.empty Map.empty)
            (\<lambda>submods.
          and_then (case bc_minutes c (eb_duration_min b) of
              None \<Rightarrow> panic ''overflow constructing `time::Duration`'' | Some d \<Rightarrow> Inr d) (\<lambda>duration.
          and_then (ok_or (bc_checked_add c now duration) ''Token expiration overflow.'') (\<lambda>exp.
          if \<not> bc_set_exp c exp then bail ''extensions''
          else
            let ear = \<lparr>ea_profile = eb_profile_name b, ea_iat = now, ea_build = eb_build_name b,
                  ea_developer = eb_developer_name b, ea_submods = submods, ea_exp = exp\<rparr> in
            if \<not> bc_new_jwt_header c then bail ''jwt header''
            else
              and_then (ear_pubkey_jwk c b) (\<lambda>jwk.
              and_then (ok_or (bc_ec_key_to_pem c (eb_private_key b)) ''private key'') (\<lambda>private_key_bytes.
                ok_or (bc_sign_ear c ear jwk private_key_bytes) ''sign''))))))) "

definition ear_set_policy :: "policy_crates \<Rightarrow> ear_broker \<Rightarrow> string \<Rightarrow> string \<Rightarrow> (fs, string, unit) prog" where
  "ear_set_policy pc b policy_id policy = policyA (as_opa_set_policy pc (eb_policy_dir b) policy_id policy True)"

definition ear_list_policies :: "policy_crates \<Rightarrow> ear_broker \<Rightarrow> string list \<Rightarrow> fs \<Rightarrow> (string \<rightharpoonup> string) anyhow" where
  "ear_list_policies pc b entries f =
     map_err (\<lambda>_. ''policy engine'') (as_opa_list_policies pc (eb_policy_dir b) entries f)"

definition ear_get_policy :: "policy_crates \<Rightarrow> ear_broker \<Rightarrow> string \<Rightarrow> fs \<Rightarrow> string anyhow" where
  "ear_get_policy pc b policy_id f = map_err (\<lambda>_. ''policy engine'') (as_opa_get_policy pc (eb_policy_dir b) policy_id f)"

subsection \<open>Simple tokens\<close>

record simple_broker =
  sb_private_key :: bytes
  sb_duration_min :: int
  sb_issuer_name :: string
  sb_cert_url :: "string option"
  sb_cert_chain :: "bytes list option"
  sb_policy_dir :: string

record simple_config =
  sc_duration_min :: int
  sc_issuer_name :: string
  sc_signer :: "token_signer_config option"
  sc_policy_dir :: string

definition simple_broker_new ::
  "token_broker_crates \<Rightarrow> policy_crates \<Rightarrow> string \<Rightarrow> bytes option \<Rightarrow> simple_config \<Rightarrow> (fs, string, simple_broker) prog" where
  "simple_broker_new c pc default_policy fresh_key config =
     bindP (policyA (as_opa_new (sc_policy_dir config))) (\<lambda>dir.
     bindP (policyA (as_opa_set_policy pc dir ''default'' (bc_b64_encode c (as_bytes default_policy)) False)) (\<lambda>_.
     let broker = (\<lambda>key url chain. \<lparr>sb_private_key = key, sb_duration_min = sc_duration_min config,
           sb_issuer_name = sc_issuer_name config, sb_cert_url = url, sb_cert_chain = chain,
           sb_policy_dir = dir\<rparr>) in
     (case sc_signer config of
        None \<Rightarrow> bindP (liftP (ok_or fresh_key ''generate key'')) (\<lambda>key. retP (broker key None None))
      | Some signer \<Rightarrow>
          bindP (readF ''Read Token Signer private key failed'' (ts_key_path signer)) (\<lambda>pem_data.
          bindP (liftP (ok_or (bc_rsa_key_from_pem c pem_data) ''private key'')) (\<lambda>private_key.
          bindP (readP (read_cert_chain c (ts_cert_path signer))) (\<lambda>r.
          bindP (liftP r) (\<lambda>cert_chain.
            retP (broker private_key (ts_cert_url signer) cert_chain))))))))"

definition simple_token_alg :: string where
  "simple_token_alg = ''RS384''"

definition simple_pubkey_jwks :: "token_broker_crates \<Rightarrow> simple_broker \<Rightarrow> string anyhow" where
  "simple_pubkey_jwks c b =
     and_then (case sb_cert_chain b of
        None \<Rightarrow> Inr None
      | Some cert_chain \<Rightarrow> and_then (encode_chain c cert_chain) (\<lambda>x5c. Inr (Some x5c))) (\<lambda>x5c.
     let jwk = json_object ([(''kty'', JString ''RSA''), (''alg'', JString simple_token_alg),
             (''n'', JString (bc_b64_encode c (bc_rsa_n c (sb_private_key b)))),
             (''e'', JString (bc_b64_encode c (bc_rsa_e c (sb_private_key b))))] @
           (case sb_cert_url b of None \<Rightarrow> [] | Some u \<Rightarrow> [(''x5u'', JString u)]) @
           (case x5c of None \<Rightarrow> [] | Some cs \<Rightarrow> [(''x5c'', JArray (map JString cs))]))
     in ok_or (bc_json_to_string c (json_object [(''keys'', JArray [jwk])])) ''serde'')"

text \<open>Indexing a JSON value by a key or a position gives null when there is nothing there.\<close>

definition index_key :: "json \<Rightarrow> string \<Rightarrow> json" where
  "index_key v k = (case v of JObject m \<Rightarrow> (case obj_get m k of Some x \<Rightarrow> x | None \<Rightarrow> JNull) | _ \<Rightarrow> JNull)"

definition index_nat :: "json \<Rightarrow> nat \<Rightarrow> json" where
  "index_nat v i = (case v of JArray xs \<Rightarrow> if i < length xs then xs ! i else JNull | _ \<Rightarrow> JNull)"

definition json_i64 :: "int \<Rightarrow> json" where
  "json_i64 n = JNumber (if 0 \<le> n then PosInt (word_of_int n) else NegInt (word_of_int n))"

fun flatten_all :: "token_broker_crates \<Rightarrow> tee_claims list \<Rightarrow> (string \<times> json) list \<Rightarrow> (string \<times> json) list anyhow" where
  "flatten_all c [] m = Inr m"
| "flatten_all c (tc # tcs) m =
     and_then (flatten_claims c (tc_tee tc) (tc_claims tc)) (\<lambda>new.
       flatten_all c tcs (fold (\<lambda>(k, v). obj_insert k v) new m))"

fun simple_policies ::
  "policy_crates \<Rightarrow> simple_broker \<Rightarrow> string \<Rightarrow> string \<Rightarrow> fs \<Rightarrow> string list \<Rightarrow> (string \<times> string) list \<Rightarrow>
     (string \<times> string) list anyhow" where
  "simple_policies pc b reference_data tcb_claims f [] policies = Inr policies"
| "simple_policies pc b reference_data tcb_claims f (policy_id # policy_ids) policies =
     and_then (map_err (\<lambda>_. ''policy engine'')
         (as_opa_evaluate pc (sb_policy_dir b) reference_data tcb_claims policy_id [''allow''] f)) (\<lambda>policy_results.
     and_then (ok_or (map_of (rules_result policy_results) ''allow'') ''Policy results must contain `allow` claim'') (\<lambda>result.
     and_then (ok_or (as_bool result) ''value `allow` must be a bool in policy'') (\<lambda>result.
     if \<not> result then bail (''Reject by policy '' @ policy_id)
     else simple_policies pc b reference_data tcb_claims f policy_ids
            (AList.update policy_id (policy_hash policy_results) policies))))"

definition simple_issue ::
  "token_broker_crates \<Rightarrow> policy_crates \<Rightarrow> simple_broker \<Rightarrow> time \<Rightarrow> string \<Rightarrow> tee_claims list \<Rightarrow> string list \<Rightarrow>
     (string \<rightharpoonup> json) \<Rightarrow> fs \<Rightarrow> string anyhow" where
  "simple_issue c pc b now jti all_tee_claims policy_ids reference_data_map f =
     and_then (flatten_all c all_tee_claims []) (\<lambda>flattened_claims.
     and_then (ok_or (bc_reference_to_string c reference_data_map) ''serde'') (\<lambda>reference_data.
     and_then (ok_or (bc_json_to_string c (JObject flattened_claims)) ''serde'') (\<lambda>tcb_claims.
     and_then (simple_policies pc b reference_data tcb_claims f policy_ids []) (\<lambda>policies.
     let policies = map (\<lambda>(k, v). json_object [(''policy-id'', JString k), (''policy-hash'', JString v)])
           (bc_hash_order c policies) in
     (case all_tee_claims of
        [] \<Rightarrow> panic ''index out of bounds: the len is 0 but the index is 0''
      | first # _ \<Rightarrow>
          and_then (ok_or (bc_variant_name c (tc_tee first)) ''variant name'') (\<lambda>name.
          let token_claims = [(''tee'', JString name), (''evaluation-reports'', JArray policies),
                (''tcb-status'', JString tcb_claims),
                (''customized_claims'', json_object [(''init_data'', tc_init_data_claims first),
                   (''runtime_data'', tc_runtime_data_claims first)])] in
          and_then (simple_pubkey_jwks c b) (\<lambda>jwks_text.
          and_then (ok_or (bc_json_from_str c jwks_text) ''serde'') (\<lambda>jwks.
          let header_value = json_object [(''typ'', JString ''JWT''), (''alg'', JString simple_token_alg),
                (''jwk'', index_nat (index_key jwks ''keys'') 0)] in
          and_then (ok_or (bc_json_to_string c header_value) ''serde'') (\<lambda>header_string.
          let header_b64 = bc_b64_encode c (as_bytes header_string) in
          and_then (case bc_minutes c (sb_duration_min b) of
              None \<Rightarrow> panic ''overflow constructing `time::Duration`'' | Some d \<Rightarrow> Inr d) (\<lambda>duration.
          and_then (case bc_checked_add c now duration of
              None \<Rightarrow> panic ''resulting value is out of range'' | Some t \<Rightarrow> Inr t) (\<lambda>exp.
          let claims_value = json_object ([(''iss'', JString (sb_issuer_name b)), (''iat'', json_i64 now),
                (''jti'', JString jti), (''nbf'', json_i64 now), (''exp'', json_i64 exp)] @ token_claims) in
          and_then (ok_or (bc_json_to_string c claims_value) ''serde'') (\<lambda>claims_string.
          let claims_b64 = bc_b64_encode c (as_bytes claims_string);
              signature_payload = header_b64 @ ''.'' @ claims_b64 in
          and_then (ok_or (bc_rs384_sign c (sb_private_key b) (as_bytes signature_payload)) ''sign'') (\<lambda>signature.
            Inr (signature_payload @ ''.'' @ bc_b64_encode c signature))))))))))))))"

definition simple_set_policy :: "policy_crates \<Rightarrow> simple_broker \<Rightarrow> string \<Rightarrow> string \<Rightarrow> (fs, string, unit) prog" where
  "simple_set_policy pc b policy_id policy = policyA (as_opa_set_policy pc (sb_policy_dir b) policy_id policy True)"

definition simple_list_policies :: "policy_crates \<Rightarrow> simple_broker \<Rightarrow> string list \<Rightarrow> fs \<Rightarrow> (string \<rightharpoonup> string) anyhow" where
  "simple_list_policies pc b entries f =
     map_err (\<lambda>_. ''policy engine'') (as_opa_list_policies pc (sb_policy_dir b) entries f)"

definition simple_get_policy :: "policy_crates \<Rightarrow> simple_broker \<Rightarrow> string \<Rightarrow> fs \<Rightarrow> string anyhow" where
  "simple_get_policy pc b policy_id f = map_err (\<lambda>_. ''policy engine'') (as_opa_get_policy pc (sb_policy_dir b) policy_id f)"

subsection \<open>The brokers\<close>

text \<open>The \<^verbatim>\<open>AttestationTokenBroker\<close> trait, an implementation acting on the file system; \<open>tb_issue\<close> takes the
  time and the random id of the token, \<open>tb_list_policies\<close> the entries of the policy directory.\<close>

record token_broker =
  tb_issue :: "time \<Rightarrow> string \<Rightarrow> tee_claims list \<Rightarrow> string list \<Rightarrow> (string \<rightharpoonup> json) \<Rightarrow> fs \<Rightarrow> string anyhow"
  tb_set_policy :: "string \<Rightarrow> string \<Rightarrow> (fs, string, unit) prog"
  tb_list_policies :: "string list \<Rightarrow> fs \<Rightarrow> (string \<rightharpoonup> string) anyhow"
  tb_get_policy :: "string \<Rightarrow> fs \<Rightarrow> string anyhow"

datatype attestation_token_config = SimpleConfig simple_config | EarConfig ear_config

definition simple_token_broker :: "token_broker_crates \<Rightarrow> policy_crates \<Rightarrow> simple_broker \<Rightarrow> token_broker" where
  "simple_token_broker c pc b = \<lparr>tb_issue = simple_issue c pc b, tb_set_policy = simple_set_policy pc b,
     tb_list_policies = simple_list_policies pc b, tb_get_policy = simple_get_policy pc b\<rparr>"

definition ear_token_broker :: "bool \<Rightarrow> token_broker_crates \<Rightarrow> policy_crates \<Rightarrow> ear_broker \<Rightarrow> token_broker" where
  "ear_token_broker oc c pc b = \<lparr>tb_issue = (\<lambda>now jti. ear_issue oc c pc b now), tb_set_policy = ear_set_policy pc b,
     tb_list_policies = ear_list_policies pc b, tb_get_policy = ear_get_policy pc b\<rparr>"

text \<open>\<open>texts\<close> are the three policy files that are compiled in.\<close>

definition to_token_broker ::
  "bool \<Rightarrow> token_broker_crates \<Rightarrow> policy_crates \<Rightarrow> string \<times> string \<times> string \<Rightarrow> bytes option \<Rightarrow>
     attestation_token_config \<Rightarrow> (fs, string, token_broker) prog" where
  "to_token_broker oc c pc texts fresh_key config =
     (case texts of (simple_policy, cpu_policy, gpu_policy) \<Rightarrow>
      (case config of
         SimpleConfig cfg \<Rightarrow>
           bindP (simple_broker_new c pc simple_policy fresh_key cfg) (\<lambda>b. retP (simple_token_broker c pc b))
       | EarConfig cfg \<Rightarrow>
           bindP (ear_broker_new c pc cpu_policy gpu_policy fresh_key cfg) (\<lambda>b. retP (ear_token_broker oc c pc b))))"

subsection \<open>Flattening is exact\<close>

text \<open>The value at a path, for a path that ends at a value that is not an object.\<close>

fun lookup_path :: "json \<Rightarrow> string list \<Rightarrow> json option" where
  "lookup_path (JObject m) [] = None"
| "lookup_path v [] = Some v"
| "lookup_path (JObject m) (k # ks) = Option.bind (map_of m k) (\<lambda>v. lookup_path v ks)"
| "lookup_path v (k # ks) = None"

definition dotted :: "string list \<Rightarrow> string" where
  "dotted path = concat (map (\<lambda>k. CHR ''.'' # k) path)"

definition dot_free :: "string \<Rightarrow> bool" where
  "dot_free k \<longleftrightarrow> CHR ''.'' \<notin> set k"

text \<open>Claims whose keys contain no dot, at every level.\<close>

fun plain_keys :: "json \<Rightarrow> bool" where
  "plain_keys (JObject m) \<longleftrightarrow> sorted_object m \<and> (\<forall>(k, v) \<in> set m. dot_free k \<and> plain_keys v)"
| "plain_keys v \<longleftrightarrow> True"

fun leaves :: "string \<Rightarrow> json \<Rightarrow> (string \<times> json) list"
  and leaf_fields :: "string \<Rightarrow> (string \<times> json) list \<Rightarrow> (string \<times> json) list" where
  "leaves prefix (JObject m) = leaf_fields prefix m"
| "leaves prefix v = [(prefix, v)]"
| "leaf_fields prefix [] = []"
| "leaf_fields prefix ((k, v) # m) = leaves (prefix @ ''.'' @ k) v @ leaf_fields prefix m"

abbreviation insert_leaves :: "(string \<times> json) list \<Rightarrow> (string \<times> json) list \<Rightarrow> (string \<times> json) list" where
  "insert_leaves \<equiv> fold (\<lambda>(k, v). obj_insert k v)"

lemma flatten_helper_leaves:
  "flatten_helper m v prefix = insert_leaves (leaves prefix v) m"
  "flatten_fields m obj prefix = insert_leaves (leaf_fields prefix obj) m"
  by (induction m v prefix and m obj prefix rule: flatten_helper_flatten_fields.induct) simp_all

lemma map_of_insert_leaves:
  "sorted_object m \<Longrightarrow> sorted_object (insert_leaves xs m) \<and> map_of (insert_leaves xs m) = map_of m ++ map_of (rev xs)"
  using sorted_insert_all [of m xs] map_of_insert_all [of m xs] by (simp only: insert_all_def)

lemma dotted_simps [simp]: "dotted [] = []" "dotted (k # p) = CHR ''.'' # k @ dotted p"
  by (simp_all add: dotted_def)

lemma dot_free_append_eq:
  assumes "dot_free a" and "dot_free b" and "a @ dotted p = b @ dotted q"
  shows "a = b \<and> dotted p = dotted q"
proof -
  let ?t = "takeWhile (\<lambda>ch. ch \<noteq> CHR ''.'')"
  have *: "?t (x @ dotted y) = x" if "dot_free x" for x y
  proof -
    have "?t (dotted y) = []" by (cases y) simp_all
    with that show ?thesis by (auto simp: takeWhile_append dot_free_def)
  qed
  show ?thesis using assms * [OF assms(1), of p] * [OF assms(2), of q] by simp
qed

lemma dotted_inj: "list_all dot_free p \<Longrightarrow> list_all dot_free q \<Longrightarrow> dotted p = dotted q \<Longrightarrow> p = q"
proof (induction p arbitrary: q)
  case Nil
  then show ?case by (cases q) simp_all
next
  case (Cons k p)
  from Cons.prems obtain l r where q: "q = l # r" by (cases q) simp_all
  show ?case using Cons.IH [of r] Cons.prems dot_free_append_eq [of k l p r] unfolding q by simp
qed

lemma leaf_fields_iff: "x \<in> set (leaf_fields prefix m) \<longleftrightarrow> (\<exists>(k, v) \<in> set m. x \<in> set (leaves (prefix @ ''.'' @ k) v))"
  by (induction m) auto

lemma lookup_path_leaf: "lookup_path v (k # p) = (case v of JObject m \<Rightarrow> Option.bind (map_of m k) (\<lambda>v. lookup_path v p) | _ \<Rightarrow> None)"
  "lookup_path v [] = (case v of JObject m \<Rightarrow> None | _ \<Rightarrow> Some v)"
  by (cases v; simp)+

lemma sorted_map_of: "sorted_object m \<Longrightarrow> map_of m k = Some v \<longleftrightarrow> (k, v) \<in> set m"
  by (rule map_of_eq_Some_iff) (simp add: sorted_object_def strict_sorted_iff)

lemma ex_list: "(\<exists>p. P p) \<longleftrightarrow> P [] \<or> (\<exists>k p. P (k # p))"
  by (metis neq_Nil_conv)

lemma leaves_iff:
  "plain_keys v \<Longrightarrow> (key, w) \<in> set (leaves prefix v) \<longleftrightarrow>
     (\<exists>p. list_all dot_free p \<and> key = prefix @ dotted p \<and> lookup_path v p = Some w)"
proof (induction v arbitrary: prefix)
  case (JObject m)
  have IH: "(key, w) \<in> set (leaves pre v) \<longleftrightarrow> (\<exists>p. list_all dot_free p \<and> key = pre @ dotted p \<and> lookup_path v p = Some w)"
    if "(k, v) \<in> set m" for k v pre
    using JObject.IH [OF that, of v pre] that JObject.prems by auto
  have m: "map_of m k = Some v \<longleftrightarrow> (k, v) \<in> set m" for k v
    using JObject.prems by (simp add: sorted_map_of)
  have "(key, w) \<in> set (leaves prefix (JObject m)) \<longleftrightarrow>
      (\<exists>k v. (k, v) \<in> set m \<and> (\<exists>p. list_all dot_free p \<and> key = (prefix @ ''.'' @ k) @ dotted p \<and> lookup_path v p = Some w))"
    unfolding leaves.simps leaf_fields_iff split_beta Bex_def using IH by force
  also have "\<dots> \<longleftrightarrow> (\<exists>k p. list_all dot_free (k # p) \<and> key = prefix @ dotted (k # p) \<and> lookup_path (JObject m) (k # p) = Some w)"
    using JObject.prems by (force simp: Option.bind_eq_Some_conv m)
  also have "\<dots> \<longleftrightarrow> (\<exists>p. list_all dot_free p \<and> key = prefix @ dotted p \<and> lookup_path (JObject m) p = Some w)"
    by (subst (2) ex_list) simp
  finally show ?case .
qed (subst ex_list; auto)+

text \<open>The leaves that \<open>flatten_claims\<close> inserts, each under a key of its own.\<close>

lemma lookup_flatten:
  assumes "plain_keys v" and "list_all dot_free p" and "sorted_object m"
  shows "map_of (insert_leaves (leaves prefix v) m) (prefix @ dotted p) =
    (case lookup_path v p of Some w \<Rightarrow> Some w | None \<Rightarrow> map_of m (prefix @ dotted p))"
proof -
  have "map_of (rev (leaves prefix v)) (prefix @ dotted p) = lookup_path v p"
  proof (cases "lookup_path v p")
    case None
    then have "prefix @ dotted p \<notin> fst ` set (leaves prefix v)"
      using leaves_iff [OF assms(1), of "prefix @ dotted p" _ prefix] dotted_inj [OF assms(2)] by force
    with None show ?thesis by (simp add: map_of_eq_None_iff)
  next
    case (Some w)
    then have "(prefix @ dotted p, w) \<in> set (rev (leaves prefix v))"
      using leaves_iff [OF assms(1), of "prefix @ dotted p" w prefix] assms(2) by auto
    then obtain u where u: "map_of (rev (leaves prefix v)) (prefix @ dotted p) = Some u"
      by (metis domD dom_map_of_conv_image_fst image_eqI fst_conv)
    then have "(prefix @ dotted p, u) \<in> set (leaves prefix v)" using map_of_SomeD by fastforce
    then have "lookup_path v p = Some u"
      using leaves_iff [OF assms(1), of "prefix @ dotted p" u prefix] dotted_inj [OF assms(2)] by auto
    with u show ?thesis by simp
  qed
  then show ?thesis using map_of_insert_leaves [OF assms(3), of "leaves prefix v"] by (simp add: map_add_def)
qed

lemma lookup_flatten_empty:
  "plain_keys v \<Longrightarrow> list_all dot_free p \<Longrightarrow> map_of (insert_leaves (leaves prefix v) []) (prefix @ dotted p) = lookup_path v p"
  by (subst lookup_flatten) (simp_all add: sorted_object_def split: option.split)

text \<open>The object without its two special claims, whose leaves are inserted.\<close>

definition ordinary :: "(string \<times> json) list \<Rightarrow> (string \<times> json) list" where
  "ordinary obj = filter (\<lambda>(k, v). k \<noteq> ''report_data'' \<and> k \<noteq> ''init_data'') obj"

lemma fold_ordinary:
  "fold (\<lambda>(k, v) m. if k \<noteq> ''report_data'' \<and> k \<noteq> ''init_data'' then flatten_helper m v (t @ ''.'' @ k) else m) obj m =
     insert_leaves (leaves t (JObject (ordinary obj))) m"
  by (induction obj arbitrary: m) (auto simp: ordinary_def flatten_helper_leaves)

lemma plain_ordinary: "plain_keys (JObject obj) \<Longrightarrow> plain_keys (JObject (ordinary obj))"
  by (auto simp: ordinary_def sorted_object_def sorted_wrt_map sorted_wrt_filter)

lemma map_of_ordinary: "k \<noteq> ''report_data'' \<Longrightarrow> k \<noteq> ''init_data'' \<Longrightarrow> map_of (ordinary obj) k = map_of obj k"
  by (induction obj) (auto simp: ordinary_def)

lemma has_dot_neq: "CHR ''.'' \<in> set k \<Longrightarrow> k \<noteq> ''report_data'' \<and> k \<noteq> ''init_data''"
  by auto

text \<open>C37. Flattening loses nothing and mixes nothing up, for claims whose keys contain no dot: the flattened map has
  under the dotted path, prefixed with the name of the TEE, exactly the value found at that path of
  the claims, and the report data and the init data under their own names, empty when absent.\<close>

theorem flatten_claims_exact:
  assumes "plain_keys (JObject obj)" and "bc_variant_name c t = Some name"
  shows "\<exists>m. flatten_claims c t (JObject obj) = Inr m \<and>
    obj_get m ''report_data'' = Some (case obj_get obj ''report_data'' of Some v \<Rightarrow> v | None \<Rightarrow> JString '''') \<and>
    obj_get m ''init_data'' = Some (case obj_get obj ''init_data'' of Some v \<Rightarrow> v | None \<Rightarrow> JString '''') \<and>
    (\<forall>k p. list_all dot_free (k # p) \<longrightarrow> k \<noteq> ''report_data'' \<longrightarrow> k \<noteq> ''init_data'' \<longrightarrow>
       obj_get m (name @ dotted (k # p)) = lookup_path (JObject obj) (k # p))"
proof -
  let ?l = "insert_leaves (leaves name (JObject (ordinary obj))) []"
  let ?v = "\<lambda>k. case obj_get obj k of Some v \<Rightarrow> v | None \<Rightarrow> JString ''''"
  let ?r = "obj_insert ''report_data'' (?v ''report_data'') ?l"
  let ?m = "obj_insert ''init_data'' (?v ''init_data'') ?r"
  have srt: "sorted_object ?l" "sorted_object ?r"
    using map_of_insert_leaves [of "[]"] by (simp_all add: sorted_object_def [of "[]"] sorted_obj_insert)
  have m: "obj_get ?m x = ((map_of ?l)(''report_data'' \<mapsto> ?v ''report_data'', ''init_data'' \<mapsto> ?v ''init_data'')) x" for x
    unfolding obj_get_def [of ?m] using srt by (simp only: map_of_obj_insert)
  have "obj_get ?m (name @ dotted (k # p)) = lookup_path (JObject obj) (k # p)"
    if "list_all dot_free (k # p)" "k \<noteq> ''report_data''" "k \<noteq> ''init_data''" for k p
  proof -
    have "name @ dotted (k # p) \<noteq> ''report_data'' \<and> name @ dotted (k # p) \<noteq> ''init_data''"
      by (rule has_dot_neq) simp
    then have "obj_get ?m (name @ dotted (k # p)) = map_of ?l (name @ dotted (k # p))"
      unfolding m by (simp only: fun_upd_apply if_False simp_thms)
    also have "\<dots> = lookup_path (JObject (ordinary obj)) (k # p)"
      using lookup_flatten_empty [OF plain_ordinary [OF assms(1)] that(1)] by simp
    also have "\<dots> = lookup_path (JObject obj) (k # p)" unfolding lookup_path.simps map_of_ordinary [OF that(2,3)] ..
    finally show ?thesis .
  qed
  moreover have "flatten_claims c t (JObject obj) = Inr ?m"
    using assms(2) by (simp add: flatten_claims_def Let_def fold_ordinary)
  moreover have "obj_get ?m ''report_data'' = Some (?v ''report_data'')" "obj_get ?m ''init_data'' = Some (?v ''init_data'')"
    unfolding m by simp_all
  ultimately show ?thesis by blast
qed

definition sample_broker_crates :: token_broker_crates where
  "sample_broker_crates = \<lparr>bc_variant_name = (\<lambda>t. Some ''sample''), bc_raw = Some,
     bc_json_to_string = (\<lambda>v. Some ''{}''), bc_json_from_str = (\<lambda>s. Some JNull), bc_hash_order = (\<lambda>xs. xs),
     bc_reference_to_string = (\<lambda>m. Some ''{}''), bc_tags = [''executables''],
     bc_has_claim = (\<lambda>k. k = ''executables''),
     bc_as_i8 = (\<lambda>v. case v of JNumber (PosInt n) \<Rightarrow> Some (uint n) | _ \<Rightarrow> None),
     bc_any_set = (\<lambda>tv. tv ''executables'' \<noteq> None), bc_status = (\<lambda>tv. the (tv ''executables'')),
     bc_minutes = (\<lambda>n. Some (60 * n)), bc_checked_add = (\<lambda>t d. Some (t + d)), bc_set_exp = (\<lambda>t. True),
     bc_new_jwt_header = True, bc_sign_ear = (\<lambda>e k p. Some ''token''), bc_rs384_sign = (\<lambda>k p. Some p),
     bc_b64_encode = string_of_bytes, bc_x509_from_pem = Some, bc_x509_to_der = Some,
     bc_ec_key_from_pem = Some, bc_ec_key_to_pem = Some, bc_affine_coordinates = (\<lambda>k. Some (k, k)),
     bc_rsa_key_from_pem = Some, bc_rsa_n = (\<lambda>k. k), bc_rsa_e = (\<lambda>k. k)\<rparr>"

theorem flatten_claims_exact_witness:
  "\<exists>m. flatten_claims sample_broker_crates Sample (JObject [(''a'', JObject [(''b'', JString ''c'')]), (''d'', JNull)]) = Inr m \<and>
     obj_get m ''sample.a.b'' = Some (JString ''c'') \<and> obj_get m ''report_data'' = Some (JString '''')"
proof -
  let ?o = "[(''a'', JObject [(''b'', JString ''c'')]), (''d'', JNull)]"
  have "plain_keys (JObject ?o)" "bc_variant_name sample_broker_crates Sample = Some ''sample''"
    by (simp_all add: sorted_object_def dot_free_def sample_broker_crates_def)
  note * = flatten_claims_exact [OF this]
  have "list_all dot_free [''a'', ''b'']" by (simp add: dot_free_def)
  with * show ?thesis by (force simp: obj_get_def dest!: spec [of _ "''a''"] spec [of _ "[''b'']"])
qed

subsection \<open>The submodules of an EAR token\<close>

definition class_count :: "tee_claims list \<Rightarrow> string \<Rightarrow> nat" where
  "class_count tcs cls = length (filter (\<lambda>t. tc_tee_class t = cls) tcs)"

text \<open>The devices with the names of their submodules, when \<open>n\<close> devices of each class came before.\<close>

fun named :: "(string \<Rightarrow> nat) \<Rightarrow> tee_claims list \<Rightarrow> (string \<times> tee_claims) list" where
  "named n [] = []"
| "named n (t # ts) =
     (submod_name (tc_tee_class t) (of_nat (n (tc_tee_class t))), t) #
       named (n(tc_tee_class t := Suc (n (tc_tee_class t)))) ts"

definition indices_of :: "(string \<Rightarrow> nat) \<Rightarrow> string \<rightharpoonup> 8 word" where
  "indices_of n cls = (case n cls of 0 \<Rightarrow> None | Suc k \<Rightarrow> Some (of_nat k))"

lemma class_count_simps [simp]:
  "class_count [] cls = 0"
  "class_count (t # ts) cls = (if tc_tee_class t = cls then 1 else 0) + class_count ts cls"
  by (simp_all add: class_count_def)

lemma unat_u8_of_nat: "k < 256 \<Longrightarrow> unat (of_nat k :: 8 word) = k"
  by (simp add: unat_of_nat take_bit_nat_eq_self)

lemma byte_of_nat_inj: "a < 256 \<Longrightarrow> b < 256 \<Longrightarrow> (of_nat a :: 8 word) = of_nat b \<longleftrightarrow> a = b"
  by (metis unat_u8_of_nat)

lemma byte_255: "k < 256 \<Longrightarrow> (of_nat k :: 8 word) = 255 \<longleftrightarrow> k = 255"
  using byte_of_nat_inj [of k 255] by simp

lemma indices_of_upd: "indices_of (n(cls := Suc (n cls))) = (indices_of n)(cls \<mapsto> of_nat (n cls))"
  by (simp add: indices_of_def fun_eq_iff)

lemma next_index_of:
  "next_index oc (indices_of n) cls = (if oc \<and> n cls = 256 then panic ''attempt to add with overflow'' else Inr (of_nat (n cls)))"
  if "oc \<longrightarrow> n cls \<le> 256"
  using that by (auto simp: next_index_def indices_of_def byte_255 add.commute split: nat.splits)

lemma snd_named [simp]: "map snd (named n tcs) = tcs" "length (named n tcs) = length tcs"
  by (induction tcs arbitrary: n) simp_all

lemma ear_submods_named:
  assumes "\<And>t. t \<in> set tcs \<Longrightarrow> appraise t = Inr (ap t)" and "oc \<Longrightarrow> \<forall>cls. n cls + class_count tcs cls \<le> 256"
  shows "ear_submods oc appraise tcs (indices_of n) m = Inr (m ++ map_of (rev (map (apsnd ap) (named n tcs))))"
  using assms
proof (induction tcs arbitrary: n m)
  case (Cons t tcs)
  let ?c = "tc_tee_class t"
  define n' where "n' = n(?c := Suc (n ?c))"
  have "oc \<longrightarrow> n ?c < 256" using Cons.prems(2) [THEN spec, of ?c] by auto
  then have "next_index oc (indices_of n) ?c = Inr (of_nat (n ?c))" by (subst next_index_of) auto
  moreover have "n' cls + class_count tcs cls \<le> 256" if oc for cls
    using Cons.prems(2) [OF that, THEN spec, of cls] by (auto simp: n'_def split: if_splits)
  ultimately show ?case
    using Cons.prems(1) Cons.IH [of n'] by (simp add: n'_def [symmetric] indices_of_upd [symmetric])
qed simp

lemma ear_submods_panics:
  assumes "\<And>t. t \<in> set tcs \<Longrightarrow> appraise t = Inr (ap t)" and "256 < n cls + class_count tcs cls"
    and "\<forall>cls. n cls \<le> 256"
  shows "panics (ear_submods True appraise tcs (indices_of n) m)"
  using assms
proof (induction tcs arbitrary: n m)
  case Nil
  then show ?case by (auto dest: spec [of _ cls])
next
  case (Cons t tcs)
  let ?c = "tc_tee_class t"
  define n' where "n' = n(?c := Suc (n ?c))"
  show ?case
  proof (cases "n ?c = 256")
    case True
    with Cons.prems(1) show ?thesis by (simp add: next_index_of panics_def panic_def result_simps)
  next
    case False
    have "n' d \<le> 256" for d using Cons.prems(3) [THEN spec, of d] False by (auto simp: n'_def)
    moreover have "256 < n' cls + class_count tcs cls" using Cons.prems(2) by (auto simp: n'_def split: if_splits)
    ultimately have "panics (ear_submods True appraise tcs (indices_of n') m')" for m'
      using Cons.prems(1) by (intro Cons.IH) simp_all
    moreover have "next_index True (indices_of n) ?c = Inr (of_nat (n ?c))"
      using Cons.prems(3) False by (subst next_index_of) simp_all
    ultimately show ?thesis using Cons.prems(1) by (simp add: n'_def indices_of_upd)
  qed
qed

text \<open>Names of classes that do not end in a digit cannot be confused by the index behind them.\<close>

definition is_digit :: "char \<Rightarrow> bool" where
  "is_digit ch \<longleftrightarrow> 48 \<le> (of_char ch :: nat) \<and> (of_char ch :: nat) \<le> 57"

definition ends_in_digit :: "string \<Rightarrow> bool" where
  "ends_in_digit s \<longleftrightarrow> s \<noteq> [] \<and> is_digit (last s)"

fun digits_value :: "string \<Rightarrow> nat" where
  "digits_value [] = 0"
| "digits_value (ch # s) = (of_char ch - 48) * 10 ^ length s + digits_value s"

lemma digits_value_append: "digits_value (s @ t) = digits_value s * 10 ^ length t + digits_value t"
  by (induction s) (simp_all add: power_add algebra_simps)

lemma digit_char_dec: "d < 10 \<Longrightarrow> is_digit (digit_char False d) \<and> (of_char (digit_char False d) :: nat) = 48 + d"
  by (simp add: digit_char_def is_digit_def)

lemma fmt_dec_digits: "list_all is_digit (fmt_dec n) \<and> fmt_dec n \<noteq> [] \<and> digits_value (fmt_dec n) = n"
proof (induction n rule: less_induct)
  case (less n)
  show ?case
  proof (cases "n < 10")
    case True
    then show ?thesis by (simp add: fmt_dec_def nat_digits.simps [of 10 n] digit_char_dec)
  next
    case False
    then have "fmt_dec n = fmt_dec (n div 10) @ [digit_char False (n mod 10)]"
      by (simp add: fmt_dec_def nat_digits.simps [of 10 n])
    then show ?thesis using less.IH [of "n div 10"] False digit_char_dec [of "n mod 10"]
      by (simp add: digits_value_append)
  qed
qed

lemma submod_name_inj:
  assumes "submod_name a i = submod_name b j" and "\<not> ends_in_digit a" and "\<not> ends_in_digit b"
  shows "a = b \<and> i = j"
proof -
  have *: "rev (dropWhile is_digit (rev (submod_name x k))) = x" if "\<not> ends_in_digit x" for x k
  proof -
    have "dropWhile is_digit (rev (fmt_dec (unat k))) = []"
      using fmt_dec_digits [of "unat k"] by (simp add: list_all_iff)
    moreover have "dropWhile is_digit (rev x) = rev x"
      using that by (cases x rule: rev_cases) (simp_all add: ends_in_digit_def)
    ultimately show ?thesis by (simp add: submod_name_def dropWhile_append)
  qed
  have ab: "a = b" using * [OF assms(2), of i] * [OF assms(3), of j] unfolding assms(1) by (rule trans [OF sym])
  then have "fmt_dec (unat i) = fmt_dec (unat j)" using assms(1) by (simp add: submod_name_def)
  then have "unat i = unat j" using fmt_dec_digits [of "unat i"] fmt_dec_digits [of "unat j"] by metis
  with ab show ?thesis by (auto intro: unsigned_word_eqI)
qed

lemma named_bounds:
  assumes "(x, t) \<in> set (named n tcs)"
  obtains k where "x = submod_name (tc_tee_class t) (of_nat k)" and "n (tc_tee_class t) \<le> k"
    and "k < n (tc_tee_class t) + class_count tcs (tc_tee_class t)" and "t \<in> set tcs"
  using assms
proof (induction tcs arbitrary: n thesis)
  case (Cons u tcs)
  show ?case
  proof (cases "(x, t) \<in> set (named (n(tc_tee_class u := Suc (n (tc_tee_class u)))) tcs)")
    case True
    from Cons.IH [OF _ True] obtain k where "x = submod_name (tc_tee_class t) (of_nat k)"
      "(n(tc_tee_class u := Suc (n (tc_tee_class u)))) (tc_tee_class t) \<le> k"
      "k < (n(tc_tee_class u := Suc (n (tc_tee_class u)))) (tc_tee_class t) + class_count tcs (tc_tee_class t)"
      "t \<in> set tcs" by blast
    then show ?thesis by (intro Cons.prems(1)) (auto split: if_splits)
  next
    case False
    with Cons.prems show ?thesis by auto
  qed
qed simp

lemma distinct_named:
  assumes "\<And>t. t \<in> set tcs \<Longrightarrow> \<not> ends_in_digit (tc_tee_class t)" and "\<And>cls. n cls + class_count tcs cls \<le> 256"
  shows "distinct (map fst (named n tcs))"
  using assms
proof (induction tcs arbitrary: n)
  case (Cons u tcs)
  define n' where "n' = n(tc_tee_class u := Suc (n (tc_tee_class u)))"
  have le: "n' cls + class_count tcs cls \<le> 256" for cls
    using Cons.prems(2) [of cls] by (auto simp: n'_def split: if_splits)
  have "submod_name (tc_tee_class u) (of_nat (n (tc_tee_class u))) \<noteq> x" if x: "(x, t) \<in> set (named n' tcs)" for x t
  proof
    assume eq: "submod_name (tc_tee_class u) (of_nat (n (tc_tee_class u))) = x"
    from named_bounds [OF x] obtain k where k: "x = submod_name (tc_tee_class t) (of_nat k)" "n' (tc_tee_class t) \<le> k"
      "k < n' (tc_tee_class t) + class_count tcs (tc_tee_class t)" "t \<in> set tcs" .
    have "k < 256" using k(3) le [of "tc_tee_class t"] by simp
    moreover have "tc_tee_class u = tc_tee_class t" "(of_nat (n (tc_tee_class u)) :: 8 word) = of_nat k"
      using submod_name_inj [of "tc_tee_class u" _ "tc_tee_class t"] eq k(1,4) Cons.prems(1) by auto
    moreover from this have "n (tc_tee_class u) < k" using k(2) by (simp add: n'_def)
    ultimately show False
      using byte_of_nat_inj [of "n (tc_tee_class u)" k] by simp
  qed
  then have "submod_name (tc_tee_class u) (of_nat (n (tc_tee_class u))) \<notin> fst ` set (named n' tcs)" by force
  then show ?case using Cons.IH [of n'] Cons.prems(1) le by (simp add: n'_def [symmetric])
qed simp

lemma nth_named:
  "j < length tcs \<Longrightarrow> named n tcs ! j =
     (submod_name (tc_tee_class (tcs ! j)) (of_nat (n (tc_tee_class (tcs ! j)) + class_count (take j tcs) (tc_tee_class (tcs ! j)))), tcs ! j)"
proof (induction tcs arbitrary: n j)
  case (Cons t tcs)
  then show ?case by (cases j) (simp_all add: ac_simps)
qed simp

lemma ear_submods_appraised:
  "ear_submods oc appraise tcs idx m = Inr r \<Longrightarrow> t \<in> set tcs \<Longrightarrow> appraise t = Inr (projr (appraise t))"
proof (induction tcs arbitrary: idx m)
  case (Cons u tcs)
  then show ?case by (auto simp: result_simps)
qed simp

lemma indices_of_zero: "indices_of (\<lambda>_. 0) = Map.empty"
  by (simp add: indices_of_def fun_eq_iff)

lemma map_of_rev_distinct: "distinct (map fst xs) \<Longrightarrow> map_of (rev xs) = map_of xs"
  by (rule map_of_eqI) (auto simp: map_of_is_SomeI rev_map [symmetric])

lemma ear_issue_signed:
  assumes "ear_issue oc c pc b now tcs (policy # ids) refs f = Inr token"
  obtains reference submods ear jwk key where "bc_reference_to_string c refs = Some reference"
    and "ear_submods oc (ear_appraise c pc b reference policy f) tcs Map.empty Map.empty = Inr submods"
    and "bc_sign_ear c ear jwk key = Some token" and "ea_submods ear = submods"
proof -
  from assms obtain reference submods exp jwk key where "bc_reference_to_string c refs = Some reference"
    "ear_submods oc (ear_appraise c pc b reference policy f) tcs Map.empty Map.empty = Inr submods"
    "bc_sign_ear c \<lparr>ea_profile = eb_profile_name b, ea_iat = now, ea_build = eb_build_name b,
       ea_developer = eb_developer_name b, ea_submods = submods, ea_exp = exp\<rparr> jwk key = Some token"
    by (auto simp: ear_issue_def result_simps Let_def split: if_splits)
  then show ?thesis by (rule that) simp
qed

lemma ear_appraise_checked:
  "ear_appraise c pc b reference policy f t = Inr a \<Longrightarrow> ap_policy_id a = Some policy \<and> bc_any_set c (ap_trust_vector a)"
  by (auto simp: ear_appraise_def result_simps Let_def split: if_splits)

text \<open>C36. An EAR token covers every device: when it is issued, no class has more than 256 devices and no name of a class
  ends in a digit, then the signed token has as many submodules as there are devices, and the device at each position is
  appraised under its class and its rank in the class, by the first policy, with at least one claim
  set.\<close>

theorem ear_token_covers_devices:
  assumes "ear_issue oc c pc b now tcs (policy # ids) refs f = Inr token"
    and "\<And>cls. class_count tcs cls \<le> 256" and "\<And>t. t \<in> set tcs \<Longrightarrow> \<not> ends_in_digit (tc_tee_class t)"
  shows "\<exists>ear jwk key reference. bc_sign_ear c ear jwk key = Some token \<and> card (dom (ea_submods ear)) = length tcs \<and>
    (\<forall>j < length tcs. \<exists>a. ear_appraise c pc b reference policy f (tcs ! j) = Inr a \<and>
       ea_submods ear (submod_name (tc_tee_class (tcs ! j)) (of_nat (class_count (take j tcs) (tc_tee_class (tcs ! j))))) = Some a \<and>
       ap_policy_id a = Some policy \<and> bc_any_set c (ap_trust_vector a))"
proof -
  from ear_issue_signed [OF assms(1)] obtain reference submods ear jwk key where
    s: "ear_submods oc (ear_appraise c pc b reference policy f) tcs Map.empty Map.empty = Inr submods"
    and ear: "ea_submods ear = submods" "bc_sign_ear c ear jwk key = Some token" by metis
  let ?appraise = "ear_appraise c pc b reference policy f"
  let ?xs = "map (apsnd (\<lambda>t. projr (?appraise t))) (named (\<lambda>_. 0) tcs)"
  have d: "distinct (map fst ?xs)" using distinct_named [of tcs "\<lambda>_. 0"] assms(2,3) by (simp add: comp_def)
  have "ear_submods oc ?appraise tcs (indices_of (\<lambda>_. 0)) Map.empty = Inr (Map.empty ++ map_of (rev ?xs))"
    using ear_submods_appraised [OF s] assms(2) by (intro ear_submods_named) auto
  with s have m: "submods = map_of ?xs" by (simp add: indices_of_zero map_of_rev_distinct [OF d])
  have "card (dom submods) = length tcs"
    using distinct_card [OF d] by (simp add: m dom_map_of_conv_image_fst del: map_map)
  moreover have "submods (submod_name (tc_tee_class (tcs ! j)) (of_nat (class_count (take j tcs) (tc_tee_class (tcs ! j))))) =
      Some (projr (?appraise (tcs ! j)))" if "j < length tcs" for j
  proof -
    have "?xs ! j = (submod_name (tc_tee_class (tcs ! j)) (of_nat (class_count (take j tcs) (tc_tee_class (tcs ! j)))),
        projr (?appraise (tcs ! j)))" using that by (simp add: nth_named)
    then show ?thesis using that nth_mem [of j ?xs] by (simp add: m map_of_eq_Some_iff [OF d])
  qed
  ultimately show ?thesis
    using ear ear_submods_appraised [OF s nth_mem] ear_appraise_checked [of c pc b reference policy f] by metis
qed

text \<open>The index of a device in its class is a \<^verbatim>\<open>u8\<close>: with more than 256 devices of one class the loop panics when overflow
  is checked, and otherwise it returns a map that has lost the appraisal of some device.\<close>

theorem ear_submods_overflow:
  assumes "\<And>t. t \<in> set tcs \<Longrightarrow> appraise t = Inr (ap t)" and "256 < class_count tcs cls"
  shows "panics (ear_submods True appraise tcs Map.empty Map.empty) \<and>
    (\<exists>m. ear_submods False appraise tcs Map.empty Map.empty = Inr m \<and> card (dom m) < length tcs)"
proof
  show "panics (ear_submods True appraise tcs Map.empty Map.empty)"
    using ear_submods_panics [of tcs appraise ap "\<lambda>_. 0" cls] assms by (simp add: indices_of_zero)
  let ?n = "named (\<lambda>_. 0) tcs"
  let ?m = "map_of (rev (map (apsnd ap) ?n))"
  have "\<not> distinct (map fst ?n)"
  proof
    let ?f = "filter (\<lambda>p. tc_tee_class (snd p) = cls) ?n"
    assume "distinct (map fst ?n)"
    then have "distinct (map fst ?f)" by (simp add: distinct_map_filter)
    moreover have "set (map fst ?f) \<subseteq> range (submod_name cls)" by (auto elim: named_bounds)
    then have "card (set (map fst ?f)) \<le> card (range (submod_name cls))" by (intro card_mono) simp_all
    moreover have "card (range (submod_name cls)) \<le> 256"
      using card_image_le [of "UNIV :: 8 word set" "submod_name cls"] by (simp add: card_word)
    ultimately have "length ?f \<le> 256" using distinct_card [of "map fst ?f"] by simp
    moreover have "length ?f = class_count (map snd ?n) cls"
      by (simp add: class_count_def filter_map comp_def case_prod_beta del: snd_named)
    ultimately show False using assms(2) by simp
  qed
  then have "card (fst ` set ?n) < length ?n"
    using card_distinct [of "map fst ?n"] card_length [of "map fst ?n"] by fastforce
  moreover have "ear_submods False appraise tcs (indices_of (\<lambda>_. 0)) Map.empty = Inr (Map.empty ++ ?m)"
    using assms(1) by (intro ear_submods_named) auto
  ultimately show "\<exists>m. ear_submods False appraise tcs Map.empty Map.empty = Inr m \<and> card (dom m) < length tcs"
    by (simp add: indices_of_zero dom_map_of_conv_image_fst image_image)
qed


subsection \<open>A broker with one policy\<close>

definition sample_ear_broker :: ear_broker where
  "sample_ear_broker = \<lparr>eb_duration_min = 5, eb_developer_name = ''dev'', eb_build_name = ''as'', eb_profile_name = ''p'',
     eb_private_key = [1], eb_cert_url = None, eb_cert_chain = None, eb_policy_dir = ''d''\<rparr>"

definition sample_simple_broker :: simple_broker where
  "sample_simple_broker = \<lparr>sb_private_key = [1], sb_duration_min = 5, sb_issuer_name = ''as'', sb_cert_url = None,
     sb_cert_chain = None, sb_policy_dir = ''d''\<rparr>"

definition sample_tee_claims :: tee_claims where
  "sample_tee_claims = \<lparr>tc_tee = Sample, tc_tee_class = ''cpu'', tc_claims = JObject [(''svn'', JString ''1'')],
     tc_init_data_claims = JNull, tc_runtime_data_claims = JNull\<rparr>"

definition sample_appraisal :: appraisal where
  "sample_appraisal = \<lparr>ap_trust_vector = [''executables'' \<mapsto> 2], ap_status = 2,
     ap_annotated_evidence = [(''sample'', JObject [(''svn'', JString ''1'')])], ap_policy_id = Some ''a''\<rparr>"

definition sample_ear_fs :: fs where
  "sample_ear_fs = [[] \<mapsto> Dir, [''d''] \<mapsto> Dir, [''d'', ''a_cpu.rego''] \<mapsto> File (as_bytes ''x'')]"

lemma sample_ear_policy: "fs_read sample_ear_fs ''d/a_cpu.rego'' = Some (as_bytes ''x'')" "from_utf8 (as_bytes ''x'') = Some ''x''"
  by (simp add: fs_read_def resolve_def components_def sample_ear_fs_def) code_simp

lemma sample_ear_appraise:
  "ear_appraise sample_broker_crates sample_pc sample_ear_broker r ''a'' sample_ear_fs sample_tee_claims =
     Inr sample_appraisal"
proof -
  have h: "hyphenate ''executables'' = ''executables''" by (simp add: hyphenate_def)
  show ?thesis
    by (simp add: ear_appraise_def transform_claims_def sample_broker_crates_def sample_tee_claims_def obj_get_def
        obj_remove_def as_opa_evaluate_def sample_ear_broker_def policy_file_def sample_ear_policy sample_pc_def h Let_def sample_appraisal_def
        result_simps)
qed

theorem ear_token_covers_devices_witness:
  "\<exists>ear jwk key a. bc_sign_ear sample_broker_crates ear jwk key = Some ''token'' \<and> card (dom (ea_submods ear)) = 1 \<and>
     ea_submods ear (submod_name ''cpu'' 0) = Some a \<and> ap_policy_id a = Some ''a''"
proof -
  have "ear_issue True sample_broker_crates sample_pc sample_ear_broker 0 [sample_tee_claims] [''a''] Map.empty sample_ear_fs =
      Inr ''token''"
    by (simp add: ear_issue_def sample_ear_appraise next_index_def result_simps Let_def)
      (simp add: sample_broker_crates_def sample_ear_broker_def ear_pubkey_jwk_def)
  moreover have "class_count [sample_tee_claims] cls \<le> 256" for cls by simp
  moreover have "\<not> ends_in_digit (tc_tee_class t)" if "t \<in> set [sample_tee_claims]" for t
    using that by (simp add: sample_tee_claims_def ends_in_digit_def is_digit_def)
  ultimately show ?thesis using ear_token_covers_devices by (fastforce simp: sample_tee_claims_def)
qed

theorem ear_submods_overflow_witness:
  "panics (ear_submods True (\<lambda>t. Inr sample_appraisal) (replicate 257 sample_tee_claims) Map.empty Map.empty)"
  using ear_submods_overflow [of "replicate 257 sample_tee_claims" "\<lambda>t. Inr sample_appraisal" "\<lambda>t. sample_appraisal" "''cpu''"]
  by (simp add: class_count_def filter_replicate sample_tee_claims_def)


end
