(* ===== verification/Verifier_Core.thy ===== *)
theory Verifier_Core
  imports Kbs_Session
begin

text \<open>
  The verifiers (\<^verbatim>\<open>deps/verifier/src/lib.rs\<close>) and the two sample ones (\<^verbatim>\<open>sample/\<close>, \<^verbatim>\<open>sample_device/\<close>).
  A verifier maps evidence, the expected report data and the expected hash of the init data to claims.
\<close>

datatype report_data = RdValue bytes | RdNotProvided

datatype init_data_hash = IdValue bytes | IdNotProvided

type_synonym tee_class = string

record verifier =
  ve_evaluate :: "json \<Rightarrow> report_data \<Rightarrow> init_data_hash \<Rightarrow> (json \<times> tee_class) list anyhow"
  ve_generate_supplemental_challenge :: "string \<Rightarrow> string anyhow"

text \<open>The default method of the trait.\<close>

definition default_supplemental_challenge :: "string \<Rightarrow> string anyhow" where
  "default_supplemental_challenge tee_parameters = Inr ''''"

definition regularize_data :: "bytes \<Rightarrow> usize \<Rightarrow> bytes" where
  "regularize_data data n =
     (if length data < n then data @ replicate (n - length data) 0
      else if length data = n then data
      else take n data)"

text \<open>The check that the verifiers make of the report data and of the init data they expect: the field of the evidence is the expected
  value, padded with zeros or cut to the size of the field.\<close>

definition check_report_data :: "report_data \<Rightarrow> usize \<Rightarrow> bytes \<Rightarrow> string \<Rightarrow> unit anyhow" where
  "check_report_data rd n field msg =
     (case rd of RdValue expected \<Rightarrow> ensure (regularize_data expected n = field) msg | RdNotProvided \<Rightarrow> Inr ())"

definition check_init_data :: "init_data_hash \<Rightarrow> usize \<Rightarrow> bytes \<Rightarrow> string \<Rightarrow> unit anyhow" where
  "check_init_data idh n field msg =
     (case idh of IdValue expected \<Rightarrow> ensure (regularize_data expected n = field) msg | IdNotProvided \<Rightarrow> Inr ())"

lemma check_report_data_simps [simp]:
  "check_report_data rd n field msg = Inr u \<longleftrightarrow> (\<forall>d. rd = RdValue d \<longrightarrow> field = regularize_data d n)"
  "\<not> panics (check_report_data rd n field msg)"
  by (auto simp: check_report_data_def split: report_data.splits)

lemma check_init_data_simps [simp]:
  "check_init_data idh n field msg = Inr u \<longleftrightarrow> (\<forall>h. idh = IdValue h \<longrightarrow> field = regularize_data h n)"
  "\<not> panics (check_init_data idh n field msg)"
  by (auto simp: check_init_data_def split: init_data_hash.splits)

subsection \<open>The sample verifiers\<close>

record sample_evidence =
  se_svn :: string
  se_report_data :: string

record verifier_crates =
  vc_sample_from_value :: "json \<Rightarrow> sample_evidence option"
  vc_b64_decode :: "string \<Rightarrow> bytes option"

definition verify_report_data :: "verifier_crates \<Rightarrow> report_data \<Rightarrow> string \<Rightarrow> unit anyhow" where
  "verify_report_data c expected encoded =
     (case expected of
        RdValue expected_report_data \<Rightarrow>
          and_then (ok_or (vc_b64_decode c encoded) ''base64 decode report data for sample evidence'')
            (\<lambda>ev_report_data.
            if expected_report_data \<noteq> ev_report_data then bail ''REPORT_DATA is different from that in Sample Quote''
            else Inr ())
      | RdNotProvided \<Rightarrow> Inr ())"

text \<open>The sample verifiers ignore the hash of the init data.\<close>

definition sample_verify_tee_evidence ::
  "verifier_crates \<Rightarrow> report_data \<Rightarrow> init_data_hash \<Rightarrow> sample_evidence \<Rightarrow> unit anyhow" where
  "sample_verify_tee_evidence c expected_report_data expected_init_data_hash evidence =
     verify_report_data c expected_report_data (se_report_data evidence)"

definition sample_parse_tee_evidence :: "sample_evidence \<Rightarrow> json anyhow" where
  "sample_parse_tee_evidence quote =
     Inr (json_object [(''svn'', JString (se_svn quote)), (''report_data'', JString (se_report_data quote)),
       (''launch_digest'', JString ''abcde''),
       (''platform_version'', json_object [(''major'', JNumber (PosInt 1)), (''minor'', JNumber (PosInt 4))]),
       (''debug'', JBool False)])"

definition sample_evaluate ::
  "verifier_crates \<Rightarrow> json \<Rightarrow> report_data \<Rightarrow> init_data_hash \<Rightarrow> (json \<times> tee_class) list anyhow" where
  "sample_evaluate c evidence expected_report_data expected_init_data_hash =
     and_then (ok_or (vc_sample_from_value c evidence) ''Deserialize Quote failed.'') (\<lambda>tee_evidence.
     and_then (with_context ''Evidence's identity verification error.''
                (sample_verify_tee_evidence c expected_report_data expected_init_data_hash tee_evidence)) (\<lambda>_.
     and_then (sample_parse_tee_evidence tee_evidence) (\<lambda>claims. Inr [(claims, ''cpu'')])))"

definition sample_device_verify_tee_evidence ::
  "verifier_crates \<Rightarrow> report_data \<Rightarrow> init_data_hash \<Rightarrow> sample_evidence \<Rightarrow> unit anyhow" where
  "sample_device_verify_tee_evidence c expected_report_data expected_init_data_hash evidence =
     verify_report_data c expected_report_data (se_report_data evidence)"

definition sample_device_parse_tee_evidence :: "sample_evidence \<Rightarrow> json anyhow" where
  "sample_device_parse_tee_evidence quote = Inr (json_object [(''svn'', JString (se_svn quote))])"

definition sample_device_evaluate ::
  "verifier_crates \<Rightarrow> json \<Rightarrow> report_data \<Rightarrow> init_data_hash \<Rightarrow> (json \<times> tee_class) list anyhow" where
  "sample_device_evaluate c evidence expected_report_data expected_init_data_hash =
     and_then (ok_or (vc_sample_from_value c evidence) ''Deserialize Quote failed.'') (\<lambda>tee_evidence.
     and_then (with_context ''Evidence's identity verification error.''
                (sample_device_verify_tee_evidence c expected_report_data expected_init_data_hash tee_evidence)) (\<lambda>_.
     and_then (sample_device_parse_tee_evidence tee_evidence) (\<lambda>claims. Inr [(claims, ''gpu'')])))"

definition sample_verifier :: "verifier_crates \<Rightarrow> verifier" where
  "sample_verifier c = \<lparr>ve_evaluate = sample_evaluate c,
     ve_generate_supplemental_challenge = default_supplemental_challenge\<rparr>"

definition sample_device_verifier :: "verifier_crates \<Rightarrow> verifier" where
  "sample_device_verifier c = \<lparr>ve_evaluate = sample_device_evaluate c,
     ve_generate_supplemental_challenge = default_supplemental_challenge\<rparr>"

subsection \<open>Choice of the verifier\<close>

text \<open>\<open>hardware\<close> gives the verifier of a hardware TEE, \<open>None\<close> when its feature is not compiled in; building
  it may fail.\<close>

definition to_verifier :: "verifier_crates \<Rightarrow> (tee \<Rightarrow> verifier anyhow option) \<Rightarrow> tee \<Rightarrow> verifier anyhow" where
  "to_verifier c hardware t =
     (case t of
        Sev \<Rightarrow> panic ''not yet implemented''
      | Sample \<Rightarrow> Inr (sample_verifier c)
      | SampleDevice \<Rightarrow> Inr (sample_device_verifier c)
      | _ \<Rightarrow> (case hardware t of
                Some v \<Rightarrow> v
              | None \<Rightarrow> bail ''feature is not enabled for `verifier` crate.''))"

subsection \<open>Lemmas\<close>

lemma length_regularize [simp]: "length (regularize_data data n) = n"
  by (simp add: regularize_data_def)

lemma with_context_eq_Inr [simp]: "with_context m r = Inr x \<longleftrightarrow> r = Inr x"
  by (simp add: with_context_def)

subsection \<open>What accepted evidence carries\<close>

text \<open>\<open>ca_report ca e d\<close> and \<open>ca_init ca e h\<close> say that evidence \<open>e\<close> carries the report data \<open>d\<close> and the hash \<open>h\<close> of the init
  data. A verifier binds evidence when it accepts only evidence that carries what was expected.\<close>

record carried =
  ca_report :: "json \<Rightarrow> bytes \<Rightarrow> bool"
  ca_init :: "json \<Rightarrow> bytes \<Rightarrow> bool"

definition binds :: "carried \<Rightarrow> verifier \<Rightarrow> bool" where
  "binds ca v \<longleftrightarrow>
     (\<forall>evidence rd idh claims. ve_evaluate v evidence rd idh = Inr claims \<longrightarrow>
        (\<forall>d. rd = RdValue d \<longrightarrow> ca_report ca evidence d) \<and> (\<forall>h. idh = IdValue h \<longrightarrow> ca_init ca evidence h))"

locale evidence_verifier =
  fixes v :: verifier and ca :: carried
  assumes report_bound: "ve_evaluate v evidence (RdValue d) idh = Inr claims \<Longrightarrow> ca_report ca evidence d"
    and init_bound: "ve_evaluate v evidence rd (IdValue h) = Inr claims \<Longrightarrow> ca_init ca evidence h"
begin

lemma binding: "binds ca v"
  using report_bound init_bound unfolding binds_def by blast

lemma rejects_other_report: "\<not> ca_report ca evidence d \<Longrightarrow> ve_evaluate v evidence (RdValue d) idh \<noteq> Inr claims"
  using report_bound by blast

end

text \<open>The sample verifiers compare the report data and ignore the init data.\<close>

definition sample_carried :: "verifier_crates \<Rightarrow> carried" where
  "sample_carried c = \<lparr>
     ca_report = (\<lambda>evidence d. Option.bind (vc_sample_from_value c evidence) (\<lambda>e. vc_b64_decode c (se_report_data e)) = Some d),
     ca_init = (\<lambda>_ _. True)\<rparr>"

lemmas sample_evaluate_defs = sample_carried_def sample_verifier_def sample_device_verifier_def sample_evaluate_def
  sample_device_evaluate_def sample_verify_tee_evidence_def sample_device_verify_tee_evidence_def verify_report_data_def

interpretation sample: evidence_verifier "sample_verifier c" "sample_carried c" for c
  by unfold_locales (auto simp: sample_evaluate_defs result_simps split: if_splits)

interpretation sample_device: evidence_verifier "sample_device_verifier c" "sample_carried c" for c
  by unfold_locales (auto simp: sample_evaluate_defs result_simps split: if_splits)

lemma to_verifier_panics_iff:
  "panics (to_verifier c hardware t) \<longleftrightarrow> t = Sev \<or>
     t \<notin> {Sample, SampleDevice} \<and> (\<exists>v. hardware t = Some v \<and> panics v)"
  by (cases t) (auto simp: to_verifier_def panics_def panic_def bail_def split: option.splits)

end
