(* ===== verification/As_Service.thy ===== *)
theory As_Service
  imports As_Token Verifier_Core Rvps Kbs_Handshake
begin

text \<open>
  The attestation service (\<^verbatim>\<open>attestation-service/src/lib.rs\<close>) over its verifiers, the reference value
  service and the token broker, its RESTful and gRPC front ends (\<^verbatim>\<open>attestation-service/src/bin/\<close>), and the
  two adapters through which the key broker uses it (\<^verbatim>\<open>kbs/src/attestation/coco/\<close>): in the same process,
  or over gRPC.
\<close>

subsection \<open>Requests\<close>

datatype hash_algorithm = HashSha256 | HashSha384 | HashSha512

datatype runtime_data = RawData bytes | Structured json

datatype init_data_input = InitDigest bytes | InitToml string

record verification_request =
  vr_evidence :: json
  vr_tee :: tee
  vr_runtime_data :: "runtime_data option"
  vr_runtime_data_hash_algorithm :: hash_algorithm
  vr_init_data :: "init_data_input option"

text \<open>\<open>sv_canon_json\<close> is the canonical JSON text of a value, \<open>sv_toml_initdata\<close> parses initdata to its algorithm and
  its data, \<open>sv_hash_try_from\<close> the name of a hash algorithm.\<close>

record service_crates =
  sv_canon_json :: "json \<Rightarrow> bytes option"
  sv_digest :: "hash_algorithm \<Rightarrow> bytes \<Rightarrow> bytes"
  sv_toml_initdata :: "string \<Rightarrow> (hash_algorithm \<times> (string \<rightharpoonup> string)) option"
  sv_data_to_value :: "(string \<rightharpoonup> string) \<Rightarrow> json option"
  sv_hash_try_from :: "string \<Rightarrow> hash_algorithm option"
  sv_b64_decode :: "string \<Rightarrow> bytes option"
  sv_b64_encode :: "bytes \<Rightarrow> string"
  sv_json_from_slice :: "bytes \<Rightarrow> json option"
  sv_json_display :: "json \<Rightarrow> string"
  sv_policies_to_string :: "(string \<rightharpoonup> string) \<Rightarrow> string option"
  sv_values_to_string :: "(string \<rightharpoonup> json) \<Rightarrow> string option"
  sv_values_from_str :: "string \<Rightarrow> (string \<rightharpoonup> json) option"

text \<open>The service holds a token broker and a reference value store.\<close>

record 'd service =
  sv_crates :: service_crates
  sv_verifier_crates :: verifier_crates
  sv_hardware :: "tee \<Rightarrow> verifier anyhow option"
  sv_rv_crates :: rv_crates
  sv_extractors :: "time \<Rightarrow> extractors"
  sv_storage :: "'d rv_storage"
  sv_broker :: token_broker

text \<open>The state: the file system, which has the policies, the state of the reference value storage, and what the
  environment gives: the successive readings of the clock and random ids.\<close>

record 'd service_state =
  ss_fs :: fs
  ss_values :: 'd
  ss_inputs :: "nat \<Rightarrow> time \<times> string"
  ss_step :: nat

definition tickP :: "('d service_state, string, time \<times> string) prog" where
  "tickP s = (Inr (ss_inputs s (ss_step s)), s\<lparr>ss_step := ss_step s + 1\<rparr>)"

definition fsP :: "(fs, string, 'a) prog \<Rightarrow> ('d service_state, string, 'a) prog" where
  "fsP = zoomP ss_fs (\<lambda>f s. s\<lparr>ss_fs := f\<rparr>)"

definition valuesP :: "('d, string, 'a) prog \<Rightarrow> ('d service_state, string, 'a) prog" where
  "valuesP = zoomP ss_values (\<lambda>v s. s\<lparr>ss_values := v\<rparr>)"

definition contextP :: "string \<Rightarrow> ('s, string, 'a) prog \<Rightarrow> ('s, string, 'a) prog" where
  "contextP msg = map_errP (\<lambda>_. msg)"

subsection \<open>The service\<close>

definition parse_runtime_data :: "service_crates \<Rightarrow> runtime_data option \<Rightarrow> hash_algorithm \<Rightarrow> (bytes option \<times> json) anyhow" where
  "parse_runtime_data c data hash_algorithm =
     (case data of
        Some (RawData raw) \<Rightarrow> Inr (Some raw, JNull)
      | Some (Structured structured) \<Rightarrow>
          and_then (with_context ''parse JSON structured data'' (ok_or (sv_canon_json c structured) ''serde'')) (\<lambda>hash_materials.
            Inr (Some (sv_digest c hash_algorithm hash_materials), structured))
      | None \<Rightarrow> Inr (None, JNull))"

definition parse_init_data :: "service_crates \<Rightarrow> init_data_input option \<Rightarrow> (bytes option \<times> json) anyhow" where
  "parse_init_data c data =
     (case data of
        Some (InitDigest raw) \<Rightarrow> Inr (Some raw, JNull)
      | Some (InitToml structured) \<Rightarrow>
          and_then (ok_or (sv_toml_initdata c structured) ''parse TOML structured data'') (\<lambda>(algorithm, data).
          let digest = sv_digest c algorithm (as_bytes structured) in
          and_then (ok_or (sv_data_to_value c data) ''serde'') (\<lambda>claims. Inr (Some digest, claims)))
      | None \<Rightarrow> Inr (None, JNull))"

text \<open>The body of the loop of \<^verbatim>\<open>evaluate\<close> over the requests.\<close>

definition evaluate_request :: "'d service \<Rightarrow> verification_request \<Rightarrow> tee_claims list anyhow" where
  "evaluate_request sv r =
     and_then (to_verifier (sv_verifier_crates sv) (sv_hardware sv) (vr_tee r)) (\<lambda>verifier.
     and_then (with_context ''parse runtime data''
         (parse_runtime_data (sv_crates sv) (vr_runtime_data r) (vr_runtime_data_hash_algorithm r)))
       (\<lambda>(report_data, runtime_data_claims).
     let report_data = (case report_data of Some data \<Rightarrow> RdValue data | None \<Rightarrow> RdNotProvided) in
     and_then (with_context ''parse init data'' (parse_init_data (sv_crates sv) (vr_init_data r))) (\<lambda>(init_data, init_data_claims).
     let init_data_hash = (case init_data of Some data \<Rightarrow> IdValue data | None \<Rightarrow> IdNotProvided) in
     and_then (map_err (\<lambda>e. ''Verifier evaluate failed: '' @ e) (ve_evaluate verifier (vr_evidence r) report_data init_data_hash))
       (\<lambda>claims.
       Inr (map (\<lambda>(claims_from_tee_evidence, tee_class).
              \<lparr>tc_tee = vr_tee r, tc_tee_class = tee_class, tc_claims = claims_from_tee_evidence,
               tc_init_data_claims = init_data_claims, tc_runtime_data_claims = runtime_data_claims\<rparr>) claims)))))"

fun evaluate_requests :: "'d service \<Rightarrow> verification_request list \<Rightarrow> tee_claims list anyhow" where
  "evaluate_requests sv [] = Inr []"
| "evaluate_requests sv (r # rs) =
     and_then (evaluate_request sv r) (\<lambda>claims.
     and_then (evaluate_requests sv rs) (\<lambda>rest. Inr (claims @ rest)))"

definition service_evaluate ::
  "'d service \<Rightarrow> verification_request list \<Rightarrow> string list \<Rightarrow> ('d service_state, string, string) prog" where
  "service_evaluate sv requests policy_ids =
     (if requests = [] then bailP ''No verification requests provided.''
      else
        bindP (liftP (evaluate_requests sv requests)) (\<lambda>tee_claims.
        bindP tickP (\<lambda>(now, _).
        bindP (contextP ''Generate reference data failed'' (valuesP (rvps_get_digests now (sv_storage sv))))
          (\<lambda>reference_data_map.
        bindP tickP (\<lambda>(now, id).
        bindP (readP (\<lambda>s. tb_issue (sv_broker sv) now id tee_claims policy_ids reference_data_map (ss_fs s)))
          (\<lambda>token. liftP token))))))"

definition service_set_policy :: "'d service \<Rightarrow> string \<Rightarrow> string \<Rightarrow> ('d service_state, string, unit) prog" where
  "service_set_policy sv policy_id policy = fsP (tb_set_policy (sv_broker sv) policy_id policy)"

definition service_list_policies :: "'d service \<Rightarrow> string list \<Rightarrow> ('d service_state, string, string \<rightharpoonup> string) prog" where
  "service_list_policies sv entries =
     bindP (readP (\<lambda>s. tb_list_policies (sv_broker sv) entries (ss_fs s))) (\<lambda>r. liftP (with_context ''Cannot List Policy'' r))"

definition service_get_policy :: "'d service \<Rightarrow> string \<Rightarrow> ('d service_state, string, string) prog" where
  "service_get_policy sv policy_id =
     bindP (readP (\<lambda>s. tb_get_policy (sv_broker sv) policy_id (ss_fs s))) (\<lambda>r. liftP (with_context ''Cannot Get Policy'' r))"

definition service_register_reference_value :: "'d service \<Rightarrow> string \<Rightarrow> ('d service_state, string, unit) prog" where
  "service_register_reference_value sv message =
     bindP tickP (\<lambda>(now, _).
       contextP ''register reference value''
         (valuesP (rvps_verify_and_extract (sv_rv_crates sv) (sv_extractors sv now) (sv_storage sv) message)))"

definition service_query_reference_values :: "'d service \<Rightarrow> ('d service_state, string, string \<rightharpoonup> json) prog" where
  "service_query_reference_values sv =
     bindP tickP (\<lambda>(now, _). contextP ''query reference values'' (valuesP (rvps_get_digests now (sv_storage sv))))"

definition service_supplemental_challenge :: "'d service \<Rightarrow> tee \<Rightarrow> string \<Rightarrow> string anyhow" where
  "service_supplemental_challenge sv t tee_parameters =
     and_then (to_verifier (sv_verifier_crates sv) (sv_hardware sv) t) (\<lambda>verifier.
       ve_generate_supplemental_challenge verifier tee_parameters)"

text \<open>\<open>broker\<close> builds the configured token broker and \<open>storage\<close> the reference value storage.\<close>

definition service_new ::
  "string \<Rightarrow> 'r anyhow \<Rightarrow> (fs, string, token_broker) prog \<Rightarrow> (fs, string, 'r \<times> token_broker) prog" where
  "service_new work_dir storage broker =
     bindP (readP (\<lambda>f. fs_exists f work_dir)) (\<lambda>ex.
     bindP (if \<not> ex then create_dir_allF ''Create AS work dir failed'' work_dir else retP ()) (\<lambda>_.
     bindP (liftP (with_context ''Create rvps failed'' storage)) (\<lambda>rvps.
     bindP broker (\<lambda>token_broker. retP (rvps, token_broker)))))"

subsection \<open>The RESTful front end\<close>

definition to_tee :: "string \<Rightarrow> tee anyhow" where
  "to_tee tee =
     (if tee = ''az-snp-vtpm'' then Inr AzSnpVtpm
      else if tee = ''sev'' then Inr Sev
      else if tee = ''sgx'' then Inr Sgx
      else if tee = ''snp'' then Inr Snp
      else if tee = ''tdx'' then Inr Tdx
      else if tee = ''cca'' then Inr Cca
      else if tee = ''csv'' then Inr Csv
      else if tee = ''sample'' then Inr Sample
      else if tee = ''sampledevice'' then Inr SampleDevice
      else if tee = ''az-tdx-vtpm'' then Inr AzTdxVtpm
      else if tee = ''se'' then Inr Se
      else if tee = ''hygondcu'' then Inr HygonDcu
      else bail (''tee `'' @ tee @ '' not supported`''))"

datatype rest_runtime_data = RestRaw string | RestStructured json

datatype rest_init_data = RestDigest string | RestToml string

record rest_request =
  rr_tee :: string
  rr_evidence :: string
  rr_runtime_data :: "rest_runtime_data option"
  rr_init_data :: "rest_init_data option"
  rr_runtime_data_hash_algorithm :: "string option"

definition rest_parse_runtime_data :: "service_crates \<Rightarrow> rest_runtime_data \<Rightarrow> runtime_data anyhow" where
  "rest_parse_runtime_data c data =
     (case data of
        RestRaw raw \<Rightarrow> and_then (ok_or (sv_b64_decode c raw) ''base64 decode raw runtime data'') (\<lambda>data. Inr (RawData data))
      | RestStructured structured \<Rightarrow> Inr (Structured structured))"

definition rest_parse_init_data :: "service_crates \<Rightarrow> rest_init_data \<Rightarrow> init_data_input anyhow" where
  "rest_parse_init_data c data =
     (case data of
        RestDigest raw \<Rightarrow> and_then (ok_or (sv_b64_decode c raw) ''base64 decode raw init data'') (\<lambda>data. Inr (InitDigest data))
      | RestToml structured \<Rightarrow> Inr (InitToml structured))"

text \<open>\<^verbatim>\<open>Option::map(f).transpose()\<close>.\<close>

definition transpose_map :: "('a \<Rightarrow> 'b anyhow) \<Rightarrow> 'a option \<Rightarrow> 'b option anyhow" where
  "transpose_map f x = (case x of None \<Rightarrow> Inr None | Some a \<Rightarrow> and_then (f a) (\<lambda>b. Inr (Some b)))"

definition rest_parse_request :: "service_crates \<Rightarrow> rest_request \<Rightarrow> verification_request anyhow" where
  "rest_parse_request c r =
     and_then (ok_or (sv_b64_decode c (rr_evidence r)) ''base64 decode evidence'') (\<lambda>evidence.
     and_then (ok_or (sv_json_from_slice c evidence) ''failed to parse evidence as JSON'') (\<lambda>evidence.
     and_then (to_tee (rr_tee r)) (\<lambda>tee.
     and_then (with_context ''decode given Runtime Data'' (transpose_map (rest_parse_runtime_data c) (rr_runtime_data r)))
       (\<lambda>runtime_data.
     and_then (with_context ''decode given Init Data'' (transpose_map (rest_parse_init_data c) (rr_init_data r))) (\<lambda>init_data.
     and_then (case rr_runtime_data_hash_algorithm r of
         Some alg \<Rightarrow> ok_or (sv_hash_try_from c alg) ''parse runtime data HashAlgorithm failed''
       | None \<Rightarrow> Inr HashSha384) (\<lambda>algorithm.
       Inr \<lparr>vr_evidence = evidence, vr_tee = tee, vr_runtime_data = runtime_data,
         vr_runtime_data_hash_algorithm = algorithm, vr_init_data = init_data\<rparr>))))))"

fun collect_results :: "('a \<Rightarrow> 'b anyhow) \<Rightarrow> 'a list \<Rightarrow> 'b list anyhow" where
  "collect_results f [] = Inr []"
| "collect_results f (x # xs) = and_then (f x) (\<lambda>y. and_then (collect_results f xs) (\<lambda>ys. Inr (y # ys)))"

definition default_policy_ids :: "string list \<Rightarrow> string list" where
  "default_policy_ids policy_ids = (if policy_ids = [] then [''default''] else policy_ids)"

definition rest_attestation ::
  "'d service \<Rightarrow> rest_request list \<Rightarrow> string list \<Rightarrow> ('d service_state, string, string) prog" where
  "rest_attestation sv requests policy_ids =
     bindP (liftP (collect_results (rest_parse_request (sv_crates sv)) requests)) (\<lambda>verification_requests.
       contextP ''attestation report evaluate'' (service_evaluate sv verification_requests (default_policy_ids policy_ids)))"

definition rest_set_policy :: "'d service \<Rightarrow> string \<Rightarrow> string \<Rightarrow> ('d service_state, string, string) prog" where
  "rest_set_policy sv policy_id policy =
     bindP (contextP ''set policy'' (service_set_policy sv policy_id policy)) (\<lambda>_. retP '''')"

definition rest_get_challenge :: "'d service \<Rightarrow> (string \<rightharpoonup> string) \<Rightarrow> string anyhow" where
  "rest_get_challenge sv inner =
     and_then (ok_or (inner ''tee'') ''Failed to get inner tee'') (\<lambda>inner_tee.
     and_then (ok_or (inner ''tee_params'') ''Failed to get inner tee_params'') (\<lambda>tee_params.
     and_then (to_tee inner_tee) (\<lambda>tee.
       with_context ''generate challenge'' (service_supplemental_challenge sv tee tee_params))))"

definition rest_get_policies ::
  "'d service \<Rightarrow> string list \<Rightarrow> string option \<Rightarrow> ('d service_state, string, string) prog" where
  "rest_get_policies sv entries policy_id =
     (case policy_id of
        Some policy_id \<Rightarrow> contextP ''get policy'' (service_get_policy sv policy_id)
      | None \<Rightarrow>
          bindP (contextP ''get policies'' (service_list_policies sv entries)) (\<lambda>policy_list.
            liftP (ok_or (sv_policies_to_string (sv_crates sv) policy_list) ''serialize response body'')))"

text \<open>The status and the body of the response; a panic gives none.\<close>

definition rest_response :: "string anyhow \<Rightarrow> (nat \<times> string) option" where
  "rest_response r = (case r of Inr body \<Rightarrow> Some (200, body) | Inl (Err e) \<Rightarrow> Some (500, e) | Inl (Panic p) \<Rightarrow> None)"

subsection \<open>The gRPC front end\<close>

definition to_kbs_tee :: "string \<Rightarrow> tee anyhow" where
  "to_kbs_tee tee =
     (if tee = ''sev'' then Inr Sev
      else if tee = ''sgx'' then Inr Sgx
      else if tee = ''snp'' then Inr Snp
      else if tee = ''tdx'' then Inr Tdx
      else if tee = ''csv'' then Inr Csv
      else if tee = ''sample'' then Inr Sample
      else if tee = ''az-snp-vtpm'' then Inr AzSnpVtpm
      else if tee = ''cca'' then Inr Cca
      else if tee = ''az-tdx-vtpm'' then Inr AzTdxVtpm
      else if tee = ''se'' then Inr Se
      else if tee = ''hygondcu'' then Inr HygonDcu
      else if tee = ''nvidia'' then Inr Nvidia
      else if tee = ''tpm'' then Inr Tpm
      else bail (''Unsupported TEE type: '' @ tee))"

datatype grpc_runtime_data = RawRuntimeData string | StructuredRuntimeData string

datatype grpc_init_data = InitDataDigest string | InitDataToml string

record grpc_request =
  gr_tee :: string
  gr_evidence :: string
  gr_runtime_data :: "grpc_runtime_data option"
  gr_init_data :: "grpc_init_data option"
  gr_runtime_data_hash_algorithm :: string

definition grpc_parse_runtime_data :: "service_crates \<Rightarrow> grpc_runtime_data \<Rightarrow> runtime_data anyhow" where
  "grpc_parse_runtime_data c data =
     (case data of
        RawRuntimeData raw \<Rightarrow> and_then (ok_or (sv_b64_decode c raw) ''base64 decode runtime data'') (\<lambda>raw. Inr (RawData raw))
      | StructuredRuntimeData structured \<Rightarrow>
          and_then (ok_or (sv_json_from_slice c (as_bytes structured)) ''parse structured runtime data'') (\<lambda>structured.
            Inr (Structured structured)))"

definition grpc_parse_init_data :: "service_crates \<Rightarrow> grpc_init_data \<Rightarrow> init_data_input anyhow" where
  "grpc_parse_init_data c data =
     (case data of
        InitDataDigest raw \<Rightarrow> and_then (ok_or (sv_b64_decode c raw) ''base64 decode init data'') (\<lambda>raw. Inr (InitDigest raw))
      | InitDataToml structured \<Rightarrow> Inr (InitToml structured))"

definition grpc_parse_request :: "service_crates \<Rightarrow> grpc_request \<Rightarrow> verification_request anyhow" where
  "grpc_parse_request c r =
     and_then (map_err (\<lambda>e. ''parse TEE type: '' @ e) (to_kbs_tee (gr_tee r))) (\<lambda>tee.
     and_then (ok_or (sv_b64_decode c (gr_evidence r)) ''Illegal input Evidence'') (\<lambda>evidence.
     and_then (ok_or (sv_json_from_slice c evidence) ''failed to parse tee evidence'') (\<lambda>evidence.
     and_then (transpose_map (grpc_parse_runtime_data c) (gr_runtime_data r)) (\<lambda>runtime_data.
     and_then (transpose_map (grpc_parse_init_data c) (gr_init_data r)) (\<lambda>init_data.
     and_then (if gr_runtime_data_hash_algorithm r \<noteq> ''''
         then ok_or (sv_hash_try_from c (gr_runtime_data_hash_algorithm r)) ''parse runtime data HashAlgorithm failed''
         else Inr HashSha384) (\<lambda>algorithm.
       Inr \<lparr>vr_evidence = evidence, vr_tee = tee, vr_runtime_data = runtime_data,
         vr_runtime_data_hash_algorithm = algorithm, vr_init_data = init_data\<rparr>))))))"

definition grpc_attestation_evaluate ::
  "'d service \<Rightarrow> grpc_request list \<Rightarrow> string list \<Rightarrow> ('d service_state, string, string) prog" where
  "grpc_attestation_evaluate sv requests policy_ids =
     bindP (liftP (collect_results (grpc_parse_request (sv_crates sv)) requests)) (\<lambda>verification_requests.
       contextP ''Attestation evaluation failed'' (service_evaluate sv verification_requests (default_policy_ids policy_ids)))"

definition grpc_set_attestation_policy :: "'d service \<Rightarrow> string \<Rightarrow> string \<Rightarrow> ('d service_state, string, unit) prog" where
  "grpc_set_attestation_policy sv policy_id policy =
     contextP ''Set Attestation Policy Failed'' (service_set_policy sv policy_id policy)"

definition grpc_get_attestation_challenge :: "'d service \<Rightarrow> (string \<rightharpoonup> string) \<Rightarrow> string anyhow" where
  "grpc_get_attestation_challenge sv inner =
     and_then (ok_or (inner ''tee'') ''Error parse inner_tee tee'') (\<lambda>inner_tee.
     and_then (ok_or (inner ''tee_params'') ''Error parse inner_tee tee_params'') (\<lambda>tee_params.
     and_then (map_err (\<lambda>e. ''Error parse TEE type: '' @ e) (to_kbs_tee inner_tee)) (\<lambda>tee.
       with_context ''Challenge'' (service_supplemental_challenge sv tee tee_params))))"

definition grpc_query_reference_value :: "'d service \<Rightarrow> ('d service_state, string, string) prog" where
  "grpc_query_reference_value sv =
     bindP (contextP ''Failed to query reference values'' (service_query_reference_values sv)) (\<lambda>values.
       liftP (ok_or (sv_values_to_string (sv_crates sv) values) ''Failed to serialize reference values''))"

definition grpc_register_reference_value :: "'d service \<Rightarrow> string \<Rightarrow> ('d service_state, string, unit) prog" where
  "grpc_register_reference_value sv message =
     contextP ''Register reference value'' (service_register_reference_value sv message)"

subsection \<open>The adapters of the key broker\<close>

text \<open>In the same process.\<close>

definition builtin_request :: "independent_evidence \<Rightarrow> verification_request anyhow" where
  "builtin_request evidence =
     (let request = (\<lambda>init_data. \<lparr>vr_evidence = ie_tee_evidence evidence, vr_tee = ie_tee evidence,
            vr_runtime_data = Some (Structured (ie_runtime_data evidence)),
            vr_runtime_data_hash_algorithm = HashSha384, vr_init_data = init_data\<rparr>) in
      (case ie_init_data evidence of
         None \<Rightarrow> Inr (request None)
       | Some init_data \<Rightarrow>
           if id_format init_data \<noteq> ''toml'' then bail (''Unsupported initdata format: '' @ id_format init_data)
           else Inr (request (Some (InitToml (id_body init_data))))))"

definition builtin_verify :: "'d service \<Rightarrow> independent_evidence list \<Rightarrow> ('d service_state, string, string) prog" where
  "builtin_verify sv evidence_to_verify =
     bindP (liftP (collect_results builtin_request evidence_to_verify)) (\<lambda>verification_requests.
       service_evaluate sv verification_requests [''default''])"

definition builtin_generate_challenge ::
  "kbs_crates \<Rightarrow> 'd service \<Rightarrow> entropy \<Rightarrow> tee \<Rightarrow> json \<Rightarrow> ('d service_state, string, challenge) prog" where
  "builtin_generate_challenge k sv rnd t tee_parameters =
     bindP (liftP (case t of
         Se \<Rightarrow> service_supplemental_challenge sv t (sv_json_display (sv_crates sv) tee_parameters)
       | _ \<Rightarrow> make_nonce k rnd)) (\<lambda>nonce.
       retP \<lparr>ch_nonce = nonce, ch_extra_params = JString ''''\<rparr>)"

definition builtin_attest :: "kbs_crates \<Rightarrow> 'd service \<Rightarrow> 'd service_state attest_impl" where
  "builtin_attest k sv = \<lparr>ai_set_policy = service_set_policy sv, ai_verify = builtin_verify sv,
     ai_generate_challenge = builtin_generate_challenge k sv,
     ai_register_reference_value = service_register_reference_value sv,
     ai_query_reference_values = service_query_reference_values sv\<rparr>"

text \<open>Over gRPC: \<open>conn\<close> is the result of taking a connection from the pool.\<close>

definition grpc_client_request :: "kbs_crates \<Rightarrow> service_crates \<Rightarrow> independent_evidence \<Rightarrow> grpc_request anyhow" where
  "grpc_client_request k c evidence =
     and_then (ok_or (tee_to_string k (ie_tee evidence)) ''CoCo AS client: serialize tee type failed.'') (\<lambda>quoted.
     let request = (\<lambda>init_data. \<lparr>gr_tee = trim_quotes quoted,
            gr_evidence = sv_b64_encode c (as_bytes (sv_json_display c (ie_tee_evidence evidence))),
            gr_runtime_data = Some (StructuredRuntimeData (sv_json_display c (ie_runtime_data evidence))),
            gr_init_data = init_data, gr_runtime_data_hash_algorithm = ''sha384''\<rparr>) in
      (case ie_init_data evidence of
         None \<Rightarrow> Inr (request None)
       | Some init_data \<Rightarrow>
           if id_format init_data \<noteq> ''toml'' then bail (''Unsupported initdata format: '' @ id_format init_data)
           else Inr (request (Some (InitDataToml (id_body init_data))))))"

definition grpc_verify ::
  "kbs_crates \<Rightarrow> unit anyhow \<Rightarrow> 'd service \<Rightarrow> independent_evidence list \<Rightarrow> ('d service_state, string, string) prog" where
  "grpc_verify k conn sv evidence_to_verify =
     bindP (liftP (collect_results (grpc_client_request k (sv_crates sv)) evidence_to_verify)) (\<lambda>verification_requests.
     bindP (liftP conn) (\<lambda>_.
       grpc_attestation_evaluate sv verification_requests [''default'']))"

definition grpc_generate_challenge ::
  "kbs_crates \<Rightarrow> unit anyhow \<Rightarrow> 'd service \<Rightarrow> entropy \<Rightarrow> tee \<Rightarrow> json \<Rightarrow> ('d service_state, string, challenge) prog" where
  "grpc_generate_challenge k conn sv rnd t tee_parameters =
     bindP (liftP (case t of
         Se \<Rightarrow> and_then conn (\<lambda>_. grpc_get_attestation_challenge sv
           [''tee'' \<mapsto> ''se'', ''tee_params'' \<mapsto> sv_json_display (sv_crates sv) tee_parameters])
       | _ \<Rightarrow> make_nonce k rnd)) (\<lambda>nonce.
       retP \<lparr>ch_nonce = nonce, ch_extra_params = JString ''''\<rparr>)"

definition grpc_attest :: "kbs_crates \<Rightarrow> unit anyhow \<Rightarrow> 'd service \<Rightarrow> 'd service_state attest_impl" where
  "grpc_attest k conn sv = \<lparr>
     ai_set_policy = (\<lambda>policy_id policy. bindP (liftP conn) (\<lambda>_.
       contextP ''Set Policy Failed'' (grpc_set_attestation_policy sv policy_id policy))),
     ai_verify = grpc_verify k conn sv,
     ai_generate_challenge = grpc_generate_challenge k conn sv,
     ai_register_reference_value = (\<lambda>message. bindP (liftP conn) (\<lambda>_.
       contextP ''Failed to set reference values'' (grpc_register_reference_value sv message))),
     ai_query_reference_values = bindP (liftP conn) (\<lambda>_.
       bindP (contextP ''Failed to get reference values'' (grpc_query_reference_value sv)) (\<lambda>text.
         liftP (ok_or (sv_values_from_str (sv_crates sv) text) ''serde'')))\<rparr>"

subsection \<open>What a token was issued for\<close>

lemma evaluate_requests_each:
  "evaluate_requests sv rs = Inr tcs \<Longrightarrow> r \<in> set rs \<Longrightarrow> \<exists>claims. evaluate_request sv r = Inr claims \<and> set claims \<subseteq> set tcs"
proof (induction rs arbitrary: tcs)
  case (Cons x rs)
  then show ?case by (auto simp: result_simps) blast+
qed simp

lemma collect_results_each:
  "collect_results f xs = Inr ys \<Longrightarrow> length ys = length xs \<and> (\<forall>i < length xs. f (xs ! i) = Inr (ys ! i))"
proof (induction xs arbitrary: ys)
  case (Cons x xs)
  then show ?case by (auto simp: result_simps nth_Cons split: nat.splits)
qed simp

lemma service_evaluate_Inr:
  assumes "service_evaluate sv rs ids s = (Inr token, s')"
  obtains tcs now id refs where "rs \<noteq> []" and "evaluate_requests sv rs = Inr tcs"
    and "tb_issue (sv_broker sv) now id tcs ids refs (ss_fs s) = Inr token" and "ss_fs s' = ss_fs s"
  using assms
  by (auto simp: service_evaluate_def prog_simps bindP_eq tickP_def contextP_def map_errP_def valuesP_def zoomP_def bail_def
      split: if_splits sum.splits prod.splits)

text \<open>Acceptance of evidence by the verifier of a platform, for expected report data and init data.\<close>

definition accepted :: "'d service \<Rightarrow> tee \<Rightarrow> json \<Rightarrow> report_data \<Rightarrow> init_data_hash \<Rightarrow> bool" where
  "accepted sv t evidence rd idh \<longleftrightarrow>
     (\<exists>v claims. to_verifier (sv_verifier_crates sv) (sv_hardware sv) t = Inr v \<and> ve_evaluate v evidence rd idh = Inr claims)"

text \<open>The digest of init data in TOML, by the algorithm the text names.\<close>

definition toml_digest :: "service_crates \<Rightarrow> string \<Rightarrow> bytes option" where
  "toml_digest c body = map_option (\<lambda>(algorithm, _). sv_digest c algorithm (as_bytes body)) (sv_toml_initdata c body)"

lemma evaluate_request_accepted:
  assumes "evaluate_request sv r = Inr claims" and "vr_runtime_data r = Some (Structured j)"
  shows "\<exists>m idh. sv_canon_json (sv_crates sv) j = Some m \<and>
    accepted sv (vr_tee r) (vr_evidence r) (RdValue (sv_digest (sv_crates sv) (vr_runtime_data_hash_algorithm r) m)) idh \<and>
    (\<forall>body. vr_init_data r = Some (InitToml body) \<longrightarrow> (\<exists>h. toml_digest (sv_crates sv) body = Some h \<and> idh = IdValue h))"
  using assms
  by (auto simp: evaluate_request_def parse_runtime_data_def parse_init_data_def accepted_def toml_digest_def result_simps Let_def
      split: prod.splits option.splits init_data_input.splits) blast+

text \<open>What evidence carries: known for the sample verifiers, \<open>hw\<close> for the hardware ones, whose verifiers are to accept
  only evidence that carries what was expected.\<close>

definition carried_by :: "'d service \<Rightarrow> (tee \<Rightarrow> carried) \<Rightarrow> tee \<Rightarrow> carried" where
  "carried_by sv hw t = (if t \<in> {Sample, SampleDevice} then sample_carried (sv_verifier_crates sv) else hw t)"

definition hardware_binds :: "'d service \<Rightarrow> (tee \<Rightarrow> carried) \<Rightarrow> bool" where
  "hardware_binds sv hw \<longleftrightarrow> (\<forall>t v. sv_hardware sv t = Some (Inr v) \<longrightarrow> binds (hw t) v)"

lemma verifier_binds:
  assumes "hardware_binds sv hw" and "to_verifier (sv_verifier_crates sv) (sv_hardware sv) t = Inr v"
  shows "binds (carried_by sv hw t) v"
proof (cases "t \<in> {Sample, SampleDevice}")
  case True
  with assms(2) sample.binding sample_device.binding show ?thesis by (auto simp: to_verifier_def carried_by_def)
next
  case False
  with assms(2) have "sv_hardware sv t = Some (Inr v)"
    by (cases t) (auto simp: to_verifier_def panic_def bail_def split: option.splits)
  with assms(1) False show ?thesis by (simp add: hardware_binds_def carried_by_def)
qed

lemma accepted_carried:
  assumes "hardware_binds sv hw" and "accepted sv t evidence rd idh"
  shows "rd = RdValue d \<Longrightarrow> ca_report (carried_by sv hw t) evidence d"
    and "idh = IdValue h \<Longrightarrow> ca_init (carried_by sv hw t) evidence h"
  using assms verifier_binds unfolding accepted_def binds_def by blast+

lemma builtin_request_Inr:
  assumes "builtin_request e = Inr r"
  shows "vr_tee r = ie_tee e \<and> vr_evidence r = ie_tee_evidence e \<and>
     vr_runtime_data r = Some (Structured (ie_runtime_data e)) \<and> vr_runtime_data_hash_algorithm r = HashSha384"
    and "ie_init_data e = Some d \<Longrightarrow> vr_init_data r = Some (InitToml (id_body d))"
  using assms by (auto simp: builtin_request_def Let_def bail_def split: option.splits if_splits)

text \<open>A token of the built-in adapter was issued for claims of evidence that carries the digest of its runtime data and, where it has
  init data, the digest of it.\<close>

definition evidence_bound :: "'d service \<Rightarrow> (tee \<Rightarrow> carried) \<Rightarrow> independent_evidence \<Rightarrow> bool" where
  "evidence_bound sv hw e \<longleftrightarrow>
     (\<exists>m. sv_canon_json (sv_crates sv) (ie_runtime_data e) = Some m \<and>
        ca_report (carried_by sv hw (ie_tee e)) (ie_tee_evidence e) (sv_digest (sv_crates sv) HashSha384 m)) \<and>
     (\<forall>d. ie_init_data e = Some d \<longrightarrow> (\<exists>h. toml_digest (sv_crates sv) (id_body d) = Some h \<and>
        ca_init (carried_by sv hw (ie_tee e)) (ie_tee_evidence e) h))"

lemma builtin_verify_carried:
  assumes "fst (builtin_verify sv evs s) = Inr token" and "hardware_binds sv hw" and "e \<in> set evs"
  shows "evidence_bound sv hw e"
proof -
  obtain rs where rs: "collect_results builtin_request evs = Inr rs"
    and ev: "fst (service_evaluate sv rs [''default''] s) = Inr token"
    using assms(1) by (auto simp: builtin_verify_def bindP_lift split: sum.splits)
  from ev obtain s' where "service_evaluate sv rs [''default''] s = (Inr token, s')" by (metis prod.collapse)
  from service_evaluate_Inr [OF this] obtain tcs where tcs: "evaluate_requests sv rs = Inr tcs" .
  from assms(3) obtain i where i: "i < length evs" "e = evs ! i" by (auto simp: in_set_conv_nth)
  with collect_results_each [OF rs] have r: "builtin_request e = Inr (rs ! i)" "rs ! i \<in> set rs" by auto
  from evaluate_requests_each [OF tcs r(2)] obtain claims where "evaluate_request sv (rs ! i) = Inr claims" by blast
  from evaluate_request_accepted [OF this] builtin_request_Inr [OF r(1)] accepted_carried [OF assms(2)] show ?thesis
    unfolding evidence_bound_def by fastforce
qed

subsection \<open>The two adapters are equivalent\<close>

text \<open>Programs that agree on the state and the result, up to the texts of errors and panics.\<close>

definition verdict :: "('e, 'a) result \<Rightarrow> (unit, 'a) result" where
  "verdict r = outcome (map_err (\<lambda>_. ()) r)"

definition same :: "('s, 'e, 'a) prog \<Rightarrow> ('s, 'f, 'a) prog \<Rightarrow> bool" where
  "same m n \<longleftrightarrow> (\<forall>s. verdict (fst (m s)) = verdict (fst (n s)) \<and> snd (m s) = snd (n s))"

lemma same_refl [simp]: "same m m"
  by (simp add: same_def)

lemma same_contextP [simp]: "same (contextP msg m) n \<longleftrightarrow> same m n" "same n (contextP msg m) \<longleftrightarrow> same n m"
  by (auto simp: same_def contextP_def map_errP_apply verdict_def map_err_def outcome_def panics_def panic_def bail_def
      split: sum.splits failure.splits)

lemma same_bind_lift: "(\<And>x. r = Inr x \<Longrightarrow> same (k x) (l x)) \<Longrightarrow> same (bindP (liftP r) k) (bindP (liftP r) l)"
  by (auto simp: same_def bindP_lift split: sum.splits)

text \<open>The names under which the crate serialises the platforms.\<close>

definition tee_name :: "tee \<Rightarrow> string" where
  "tee_name t =
     (case t of Sev \<Rightarrow> ''sev'' | AzSnpVtpm \<Rightarrow> ''az-snp-vtpm'' | AzTdxVtpm \<Rightarrow> ''az-tdx-vtpm'' | Tdx \<Rightarrow> ''tdx'' | Snp \<Rightarrow> ''snp''
      | Sample \<Rightarrow> ''sample'' | SampleDevice \<Rightarrow> ''sampledevice'' | Sgx \<Rightarrow> ''sgx'' | Csv \<Rightarrow> ''csv'' | Cca \<Rightarrow> ''cca''
      | Se \<Rightarrow> ''se'' | HygonDcu \<Rightarrow> ''hygondcu'' | Nvidia \<Rightarrow> ''nvidia'' | Tpm \<Rightarrow> ''tpm'')"

text \<open>What the wire format relies on: JSON text, base64 and reference values are read back, a platform is written as its quoted
  name and \<^verbatim>\<open>sha384\<close> is a known algorithm.\<close>

definition wire_law :: "kbs_crates \<Rightarrow> service_crates \<Rightarrow> bool" where
  "wire_law k c \<longleftrightarrow>
     (\<forall>j. sv_json_from_slice c (as_bytes (sv_json_display c j)) = Some j) \<and>
     (\<forall>b. sv_b64_decode c (sv_b64_encode c b) = Some b) \<and>
     (\<forall>t. tee_to_string k t = Some ([CHR 0x22] @ tee_name t @ [CHR 0x22])) \<and>
     (\<forall>m. finite (dom m) \<longrightarrow> (\<exists>text. sv_values_to_string c m = Some text \<and> sv_values_from_str c text = Some m)) \<and>
     sv_hash_try_from c ''sha384'' = Some HashSha384"

lemma trim_quotes_tee: "trim_quotes ([CHR 0x22] @ tee_name t @ [CHR 0x22]) = tee_name t"
  by (cases t) (simp_all add: trim_quotes_def trim_end_matches_def tee_name_def)

lemma to_kbs_tee_name: "to_kbs_tee (tee_name t) = (if t = SampleDevice then bail ''Unsupported TEE type: sampledevice'' else Inr t)"
  by (cases t) (simp_all add: to_kbs_tee_def tee_name_def)

lemma client_then_parse:
  assumes "wire_law k c" and "ie_tee e \<noteq> SampleDevice"
  shows "and_then (grpc_client_request k c e) (grpc_parse_request c) = builtin_request e"
    and "grpc_client_request k c e = Inr g \<Longrightarrow> \<exists>r. grpc_parse_request c g = Inr r"
  using assms
  by (auto simp: wire_law_def grpc_client_request_def builtin_request_def grpc_parse_request_def trim_quotes_tee [simplified]
      to_kbs_tee_name transpose_map_def grpc_parse_runtime_data_def grpc_parse_init_data_def Let_def result_simps
      split: option.splits if_splits)

lemma collect_results_compose:
  assumes "\<And>x. x \<in> set xs \<Longrightarrow> and_then (g x) p = b x" and "\<And>x y. x \<in> set xs \<Longrightarrow> g x = Inr y \<Longrightarrow> \<exists>z. p y = Inr z"
  shows "and_then (collect_results g xs) (collect_results p) = collect_results b xs"
  using assms
proof (induction xs)
  case (Cons x xs)
  then have IH: "and_then (collect_results g xs) (collect_results p) = collect_results b xs" by (meson list.set_intros(2))
  have b: "b x = and_then (g x) p" using Cons.prems(1) [of x] by simp
  show ?case
  proof (cases "g x")
    case (Inl f)
    then show ?thesis by (simp add: b and_then_def)
  next
    case (Inr y)
    with Cons.prems(2) [of x] obtain z where "p y = Inr z" by auto
    with Inr show ?thesis unfolding collect_results.simps b IH [symmetric] by (simp add: and_then_def split: sum.splits)
  qed
qed simp

definition same_attest :: "(independent_evidence list \<Rightarrow> bool) \<Rightarrow> 's attest_impl \<Rightarrow> 's attest_impl \<Rightarrow> bool" where
  "same_attest ok a b \<longleftrightarrow>
     (\<forall>evidence. ok evidence \<longrightarrow> same (ai_verify a evidence) (ai_verify b evidence)) \<and>
     (\<forall>rnd t params. same (ai_generate_challenge a rnd t params) (ai_generate_challenge b rnd t params)) \<and>
     (\<forall>policy_id policy. same (ai_set_policy a policy_id policy) (ai_set_policy b policy_id policy)) \<and>
     (\<forall>message. same (ai_register_reference_value a message) (ai_register_reference_value b message)) \<and>
     same (ai_query_reference_values a) (ai_query_reference_values b)"

definition no_sample_device :: "independent_evidence list \<Rightarrow> bool" where
  "no_sample_device evidence \<longleftrightarrow> list_all (\<lambda>e. ie_tee e \<noteq> SampleDevice) evidence"

lemma bindP_lift_lift: "bindP (liftP r) (\<lambda>x. bindP (liftP (f x)) k) = bindP (liftP (and_then r f)) k"
  by (simp add: fun_eq_iff bindP_def liftP_def and_then_def split: sum.splits)

lemma same_verify:
  assumes "wire_law k (sv_crates sv)" and "no_sample_device evidence"
  shows "same (grpc_verify k (Inr ()) sv evidence) (builtin_verify sv evidence)"
proof -
  have "and_then (collect_results (grpc_client_request k (sv_crates sv)) evidence) (collect_results (grpc_parse_request (sv_crates sv))) =
      collect_results builtin_request evidence"
    using assms(2) client_then_parse [OF assms(1)]
    by (intro collect_results_compose) (auto simp: no_sample_device_def list_all_iff)
  then show ?thesis
    by (simp add: grpc_verify_def grpc_attestation_evaluate_def builtin_verify_def bindP_lift_lift default_policy_ids_def same_bind_lift)
qed

lemma verdict_bail [simp]: "verdict (bail e) = bail ()" "verdict (Inr x) = Inr x" "verdict (panic p) = panic ''''"
  by (simp_all add: verdict_def)

lemma verdict_with_context [simp]: "verdict (with_context m r) = verdict r"
  by (simp add: verdict_def with_context_def map_err_def outcome_def panics_def panic_def bail_def split: sum.splits failure.splits)

lemma ex_bail: "\<exists>msg. Inl (Err e) = bail msg"
  by (simp add: bail_def)

lemma verdict_cases:
  "verdict r = (case r of Inr x \<Rightarrow> Inr x | Inl (Err e) \<Rightarrow> Inl (Err ()) | Inl (Panic p) \<Rightarrow> Inl (Panic ''''))"
  by (simp add: verdict_def map_err_def outcome_def panics_def panic_def bail_def split: sum.splits failure.splits)

lemma verdict_and_then:
  "verdict r = verdict r' \<Longrightarrow> verdict (and_then r (\<lambda>x. Inr (f x))) = verdict (and_then r' (\<lambda>x. Inr (f x)))"
  by (cases r; cases r') (auto simp: verdict_cases and_then_def split: failure.splits)

lemma bind_ret: "bindP (liftP r) (\<lambda>x. retP (f x)) = liftP (and_then r (\<lambda>x. Inr (f x)))"
  by (simp add: fun_eq_iff bindP_def liftP_def retP_def and_then_def split: sum.splits)

lemma same_lift: "same (liftP r) (liftP r') \<longleftrightarrow> verdict r = verdict r'"
  by (simp add: same_def liftP_def)

lemma same_challenge: "same (grpc_generate_challenge k (Inr ()) sv rnd t params) (builtin_generate_challenge k sv rnd t params)"
proof -
  have "verdict (grpc_get_attestation_challenge sv [''tee'' \<mapsto> ''se'', ''tee_params'' \<mapsto> p]) =
      verdict (service_supplemental_challenge sv Se p)" for p
    by (simp add: grpc_get_attestation_challenge_def to_kbs_tee_def)
  then show ?thesis
    unfolding grpc_generate_challenge_def builtin_generate_challenge_def bind_ret same_lift
    by (intro verdict_and_then) (cases t; simp)
qed

lemma finite_unexpired: "finite (dom m) \<Longrightarrow> finite (dom (fold (insert_unexpired now) rvs m))"
  by (induction rvs arbitrary: m) (simp_all add: insert_unexpired_def)

lemma service_query_finite: "service_query_reference_values sv s = (Inr m, s') \<Longrightarrow> finite (dom m)"
  by (auto simp: service_query_reference_values_def rvps_get_digests_def contextP_def map_errP_def valuesP_def zoomP_def tickP_def
      bindP_eq retP_def finite_unexpired split: prod.splits sum.splits)

lemma same_query:
  assumes "wire_law k (sv_crates sv)"
  shows "same (bindP (contextP msg (grpc_query_reference_value sv)) (\<lambda>text. liftP (ok_or (sv_values_from_str (sv_crates sv) text) ''serde'')))
    (service_query_reference_values sv)"
proof -
  have v: "\<exists>text. sv_values_to_string (sv_crates sv) m = Some text \<and> sv_values_from_str (sv_crates sv) text = Some m"
    if "finite (dom m)" for m using assms that by (simp add: wire_law_def)
  show ?thesis unfolding same_def
  proof
    fix s
    let ?q = "bindP (contextP msg (grpc_query_reference_value sv)) (\<lambda>text. liftP (ok_or (sv_values_from_str (sv_crates sv) text) ''serde'')) s"
    obtain r s' where q: "service_query_reference_values sv s = (r, s')" by fastforce
    show "verdict (fst ?q) = verdict (fst (service_query_reference_values sv s)) \<and> snd ?q = snd (service_query_reference_values sv s)"
    proof (cases r)
      case (Inl f)
      with q show ?thesis
        by (cases f) (simp_all add: grpc_query_reference_value_def contextP_def map_errP_def bindP_eq verdict_cases map_err_def)
    next
      case (Inr m)
      with q v [OF service_query_finite [of sv s]] show ?thesis
        by (auto simp: grpc_query_reference_value_def contextP_def map_errP_def bindP_eq liftP_def map_err_def)
    qed
  qed
qed


subsection \<open>A service with the sample verifier\<close>

definition sample_wire_kbs :: kbs_crates where
  "sample_wire_kbs = sample_kbs\<lparr>tee_to_string := (\<lambda>t. Some ([CHR 0x22] @ tee_name t @ [CHR 0x22]))\<rparr>"

text \<open>A serialisation by the enumeration of values, as for the reference values.\<close>

definition sample_service_crates :: service_crates where
  "sample_service_crates = \<lparr>sv_canon_json = (\<lambda>_. Some []), sv_digest = (\<lambda>_ _. [7]), sv_toml_initdata = (\<lambda>_. None),
     sv_data_to_value = (\<lambda>_. None), sv_hash_try_from = (\<lambda>_. Some HashSha384), sv_b64_decode = (\<lambda>t. Some (as_bytes t)),
     sv_b64_encode = string_of_bytes, sv_json_from_slice = (\<lambda>b. Some (from_nat (length b))),
     sv_json_display = (\<lambda>j. replicate (to_nat j) (CHR ''x'')), sv_policies_to_string = (\<lambda>_. None),
     sv_values_to_string = (\<lambda>m. Some (replicate (to_nat (inv map_of m)) (CHR ''x''))),
     sv_values_from_str = (\<lambda>t. Some (map_of (from_nat (length t))))\<rparr>"

definition sample_verifier_crates :: verifier_crates where
  "sample_verifier_crates = \<lparr>vc_sample_from_value = (\<lambda>_. Some \<lparr>se_svn = ''1'', se_report_data = ''Bw''\<rparr>),
     vc_b64_decode = (\<lambda>_. Some [7])\<rparr>"

definition sample_service :: "(string \<times> bytes) list service" where
  "sample_service = \<lparr>sv_crates = sample_service_crates, sv_verifier_crates = sample_verifier_crates, sv_hardware = (\<lambda>_. None),
     sv_rv_crates = sample_rv, sv_extractors = (\<lambda>_. Map.empty), sv_storage = rvps_local_fs sample_rv sample_sled,
     sv_broker = ear_token_broker True sample_broker_crates sample_pc sample_ear_broker\<rparr>"

definition sample_service_state :: "(string \<times> bytes) list service_state" where
  "sample_service_state = \<lparr>ss_fs = [[] \<mapsto> Dir, [''d''] \<mapsto> Dir, [''d'', ''default_cpu.rego''] \<mapsto> File (as_bytes ''x'')],
     ss_values = [], ss_inputs = (\<lambda>n. (0, ''id'')), ss_step = 0\<rparr>"

lemma length_as_bytes: "length (as_bytes s) = length s"
  by (simp add: as_bytes_def)

lemma sample_wire_law: "wire_law sample_wire_kbs (sv_crates sample_service)"
proof -
  have "map_of (inv map_of m) = m" if "finite (dom m)" for m :: "string \<rightharpoonup> json"
    using finite_list [OF that] map_of_map_keys [of _ m] by (metis f_inv_into_f rangeI)
  then show ?thesis
    by (simp add: wire_law_def sample_wire_kbs_def sample_service_def sample_service_crates_def length_as_bytes)
qed


lemma sample_default_policy: "fs_read (ss_fs sample_service_state) ''d/default_cpu.rego'' = Some (as_bytes ''x'')"
  by (simp add: fs_read_def resolve_def components_def sample_service_state_def)

lemma sample_claims_issued:
  "ear_issue True sample_broker_crates sample_pc sample_ear_broker now
     [\<lparr>tc_tee = Sample, tc_tee_class = ''cpu'', tc_claims = JObject m, tc_init_data_claims = JNull, tc_runtime_data_claims = j\<rparr>]
     [''default''] refs (ss_fs sample_service_state) = Inr ''token''"
  if "map_of m ''report_data'' = Some (JString x)" "map_of m ''init_data'' = None"
proof -
  have h: "hyphenate ''executables'' = ''executables''" by (simp add: hyphenate_def)
  have t: "\<exists>tcb. transform_claims sample_broker_crates (JObject m) JNull j Sample = Inr tcb"
    using that by (simp add: transform_claims_def sample_broker_crates_def obj_get_def as_str_def map_of_obj_remove result_simps)
  from t obtain tcb where tcb: "transform_claims sample_broker_crates (JObject m) JNull j Sample = Inr tcb" by blast
  have sel: "bc_json_to_string sample_broker_crates v = Some ''{}''" "bc_tags sample_broker_crates = [''executables'']"
    "bc_has_claim sample_broker_crates ''executables''" "bc_as_i8 sample_broker_crates (JNumber (PosInt 2)) = Some 2"
    "bc_any_set sample_broker_crates [''executables'' \<mapsto> 2]" for v
    by (simp_all add: sample_broker_crates_def)
  have "ear_appraise sample_broker_crates sample_pc sample_ear_broker r ''default'' (ss_fs sample_service_state)
      \<lparr>tc_tee = Sample, tc_tee_class = ''cpu'', tc_claims = JObject m, tc_init_data_claims = JNull, tc_runtime_data_claims = j\<rparr> =
      Inr \<lparr>ap_trust_vector = [''executables'' \<mapsto> 2], ap_status = bc_status sample_broker_crates [''executables'' \<mapsto> 2],
        ap_annotated_evidence = tcb, ap_policy_id = Some ''default''\<rparr>" for r
    by (simp add: ear_appraise_def tcb sel as_opa_evaluate_def sample_ear_broker_def policy_file_def sample_default_policy
        sample_ear_policy sample_pc_def h Let_def result_simps)
  then show ?thesis
    by (simp add: ear_issue_def next_index_def Let_def)
      (simp add: sample_broker_crates_def sample_ear_broker_def ear_pubkey_jwk_def)
qed

lemma sample_builtin_verify:
  "fst (builtin_verify sample_service [\<lparr>ie_tee = Sample, ie_tee_evidence = ev, ie_runtime_data = j, ie_init_data = None\<rparr>] sample_service_state) =
     Inr ''token''"
proof -
  let ?claims = "[(''svn'', JString ''1''), (''report_data'', JString ''Bw''), (''launch_digest'', JString ''abcde''),
       (''platform_version'', json_object [(''major'', JNumber (PosInt 1)), (''minor'', JNumber (PosInt 4))]), (''debug'', JBool False)]"
  obtain m where m: "json_object ?claims = JObject m" by (simp add: json_object_def)
  then have "map_of m ''report_data'' = Some (JString ''Bw'')" "map_of m ''init_data'' = None"
    by (auto simp: json_object_def)
  note issued = sample_claims_issued [OF this]
  have v: "evaluate_request sample_service \<lparr>vr_evidence = ev, vr_tee = Sample, vr_runtime_data = Some (Structured j),
      vr_runtime_data_hash_algorithm = HashSha384, vr_init_data = None\<rparr> =
      Inr [\<lparr>tc_tee = Sample, tc_tee_class = ''cpu'', tc_claims = JObject m, tc_init_data_claims = JNull, tc_runtime_data_claims = j\<rparr>]"
    using m by (simp add: evaluate_request_def sample_service_def to_verifier_def sample_verifier_def sample_evaluate_def
        sample_verifier_crates_def sample_service_crates_def parse_runtime_data_def parse_init_data_def Let_def
        sample_verify_tee_evidence_def verify_report_data_def sample_parse_tee_evidence_def)
  have g: "rvps_get_digests now (rvps_local_fs sample_rv sample_sled) [] = (Inr Map.empty, [])" for now
    by (simp add: rvps_get_digests_def rvps_local_fs_def rvps_local_fs_get_values_def sample_sled_def prog_simps bindP_eq)
  have sel: "sv_broker sample_service = ear_token_broker True sample_broker_crates sample_pc sample_ear_broker"
    "sv_storage sample_service = rvps_local_fs sample_rv sample_sled" "ss_values sample_service_state = []"
    by (simp_all add: sample_service_def sample_service_state_def)
  show ?thesis
    by (simp add: builtin_verify_def builtin_request_def Let_def prog_simps service_evaluate_def v tickP_def bindP_eq
        contextP_def map_errP_def valuesP_def zoomP_def sel g ear_token_broker_def issued split: prod.splits)
qed

end
