(* ===== verification/Intel_Dcap.thy ===== *)
theory Intel_Dcap
  imports Verifier_Core
begin

text \<open>
  Verification of Intel quotes through the DCAP library (\<^verbatim>\<open>deps/verifier/src/intel_dcap/\<close>): the calls of the
  library, the verdicts that are accepted, and the claims made of the supplemental data. The library and the
  crate \<^verbatim>\<open>time\<close> are the record \<open>dcap\<close>; a call that returns an error code is \<open>None\<close>.
\<close>

text \<open>The verdicts of the library that the code names; every other one is terminal.\<close>

datatype qv_result =
    QvOk | QvConfigNeeded | QvOutOfDate | QvOutOfDateConfigNeeded | QvSwHardeningNeeded
  | QvConfigAndSwHardeningNeeded | QvTdRelaunchAdvised | QvTdRelaunchAdvisedConfigNeeded | QvTerminal u32

text \<open>The fields of \<^verbatim>\<open>sgx_ql_qv_supplemental_t\<close> that the code reads.\<close>

record supplemental =
  su_earliest_issue_date :: time
  su_latest_issue_date :: time
  su_earliest_expiration_date :: time
  su_tcb_level_date_tag :: time
  su_pck_crl_num :: u32
  su_root_ca_crl_num :: u32
  su_pck_ppid :: bytes
  su_sgx_type :: byte
  su_dynamic_platform :: u32
  su_cached_keys :: u32
  su_smt_enabled :: u32
  su_root_key_id :: bytes
  su_sa_list :: bytes

record dcap =
  dc_supplemental_version_and_size :: "bytes \<Rightarrow> (u32 \<times> u32) option"
  dc_supplemental_size :: u32
  dc_supplemental_default :: supplemental
  dc_get_collateral :: "bytes \<Rightarrow> bytes option"
  dc_verify_quote :: "bytes \<Rightarrow> bytes option \<Rightarrow> time \<Rightarrow> (u32 \<times> qv_result \<times> supplemental) option"
  dc_from_unix_timestamp :: "time \<Rightarrow> time option"
  dc_format_rfc3339 :: "time \<Rightarrow> string option"
  dc_hex_encode :: "bytes \<Rightarrow> string"

subsection \<open>Claims\<close>

definition qv_result_as_str :: "qv_result \<Rightarrow> json" where
  "qv_result_as_str r = JString (case r of
     QvOk \<Rightarrow> ''UpToDate''
   | QvConfigNeeded \<Rightarrow> ''ConfigurationNeeded''
   | QvOutOfDate \<Rightarrow> ''OutOfDate''
   | QvOutOfDateConfigNeeded \<Rightarrow> ''OutOfDateConfigurationNeeded''
   | QvSwHardeningNeeded \<Rightarrow> ''SWHardeningNeeded''
   | QvConfigAndSwHardeningNeeded \<Rightarrow> ''ConfigurationAndSWHardeningNeeded''
   | QvTdRelaunchAdvised \<Rightarrow> ''TDRelaunchAdvised''
   | QvTdRelaunchAdvisedConfigNeeded \<Rightarrow> ''TDRelaunchAdvisedConfigurationNeeded''
   | QvTerminal _ \<Rightarrow> ''TerminalStatus'')"

definition format_rfc3339 :: "dcap \<Rightarrow> time \<Rightarrow> string anyhow" where
  "format_rfc3339 c timestamp =
     (case dc_from_unix_timestamp c timestamp of
        None \<Rightarrow> panic ''invalid unix timestamp.''
      | Some t \<Rightarrow> (case dc_format_rfc3339 c t of
            None \<Rightarrow> panic ''failed to format timestamp.''
          | Some s \<Rightarrow> Inr s))"

text \<open>The list of advisories is a C string, up to its NUL byte.\<close>

definition get_sa_list :: "bytes \<Rightarrow> json" where
  "get_sa_list sa_list =
     (let advisory_ids = from_utf8_lossy (takeWhile (\<lambda>b. b \<noteq> 0) sa_list) in
      if advisory_ids = '''' then JArray []
      else JArray (map JString (split_on (CHR '','') advisory_ids)))"

definition sgx_type_name :: "byte \<Rightarrow> string" where
  "sgx_type_name t =
     (if t = 0 then ''Standard'' else if t = 1 then ''Scalable'' else if t = 2 then ''Scalable with Integrity''
      else ''Unknown ('' @ fmt_dec (unat t) @ '')'')"

definition prepare_custom_claims_map :: "dcap \<Rightarrow> supplemental \<Rightarrow> u32 \<Rightarrow> qv_result \<Rightarrow> (string \<times> json) list anyhow" where
  "prepare_custom_claims_map c supp_data collateral_expiration_status quote_verification_result =
     and_then (format_rfc3339 c (su_earliest_issue_date supp_data)) (\<lambda>earliest_issue_date.
     and_then (format_rfc3339 c (su_latest_issue_date supp_data)) (\<lambda>latest_issue_date.
     and_then (format_rfc3339 c (su_earliest_expiration_date supp_data)) (\<lambda>earliest_expiration_date.
     and_then (format_rfc3339 c (su_tcb_level_date_tag supp_data)) (\<lambda>tcb_date.
     let claims_map = insert_all
          [(''earliest_issue_date'', JString earliest_issue_date),
           (''latest_issue_date'', JString latest_issue_date),
           (''earliest_expiration_date'', JString earliest_expiration_date),
           (''tcb_date'', JString tcb_date),
           (''pck_crl_num'', JNumber (PosInt (ucast (su_pck_crl_num supp_data)))),
           (''root_ca_crl_num'', JNumber (PosInt (ucast (su_root_ca_crl_num supp_data)))),
           (''tcb_eval_num'', JNumber (PosInt (ucast (su_root_ca_crl_num supp_data)))),
           (''platform_provider_id'', JString (dc_hex_encode c (su_pck_ppid supp_data))),
           (''sgx_type'', JString (sgx_type_name (su_sgx_type supp_data)))] [];
         claims_map = (if su_sgx_type supp_data > 0 then insert_all
          [(''is_dynamic_platform'', JBool (su_dynamic_platform supp_data = 1)),
           (''is_cached_keys'', JBool (su_cached_keys supp_data = 1)),
           (''is_smt_enabled'', JBool (su_smt_enabled supp_data = 1))] claims_map else claims_map)
     in Inr (insert_all
          [(''root_key_id'', JString (dc_hex_encode c (su_root_key_id supp_data))),
           (''tcb_status'', qv_result_as_str quote_verification_result),
           (''collateral_expiration_status'', JString (fmt_dec (unat collateral_expiration_status))),
           (''advisory_ids'', get_sa_list (su_sa_list supp_data))] claims_map)))))"

subsection \<open>Verification\<close>

text \<open>The supplemental data is a buffer of the code, which the library fills only when it is passed to it.\<close>

definition ecdsa_quote_verification :: "dcap \<Rightarrow> time \<Rightarrow> bytes \<Rightarrow> (string \<times> json) list anyhow" where
  "ecdsa_quote_verification c now quote =
     and_then (ok_or (dc_supplemental_version_and_size c quote) ''tee_get_quote_supplemental_data_size failed'')
       (\<lambda>(supp_ver, supp_size).
     let data_size = (if supp_size = dc_supplemental_size c then supp_size else 0);
         collateral = dc_get_collateral c quote;
         current_time = max now 0 in
     and_then (ok_or (dc_verify_quote c quote collateral current_time) ''tee_verify_quote failed'')
       (\<lambda>(collateral_expiration_status, quote_verification_result, filled).
     let supp_data = (if data_size = 0 then dc_supplemental_default c else filled) in
     case quote_verification_result of
       QvTerminal _ \<Rightarrow> bail ''Verification completed with Terminal result''
     | _ \<Rightarrow> prepare_custom_claims_map c supp_data collateral_expiration_status quote_verification_result))"

definition extend_using_custom_claims :: "json \<Rightarrow> (string \<times> json) list \<Rightarrow> json anyhow" where
  "extend_using_custom_claims claim custom =
     (case claim of
        JObject obj \<Rightarrow> Inr (JObject (insert_all custom obj))
      | _ \<Rightarrow> bail ''failed to extend the claim, not an object'')"

subsection \<open>Lemmas\<close>

definition custom_keys :: "string list" where
  "custom_keys = [''earliest_issue_date'', ''latest_issue_date'', ''earliest_expiration_date'', ''tcb_date'', ''pck_crl_num'',
     ''root_ca_crl_num'', ''tcb_eval_num'', ''platform_provider_id'', ''sgx_type'', ''is_dynamic_platform'', ''is_cached_keys'',
     ''is_smt_enabled'', ''root_key_id'', ''tcb_status'', ''collateral_expiration_status'', ''advisory_ids'']"

lemma prepare_custom_claims_keys:
  assumes "prepare_custom_claims_map c su e r = Inr m"
  shows "fst ` set m \<subseteq> set custom_keys" and "sorted_object m"
proof -
  from assms obtain xs ys zs where m: "m = insert_all xs (if su_sgx_type su > 0 then insert_all ys (insert_all zs []) else insert_all zs [])"
    and k: "fst ` (set xs \<union> set ys \<union> set zs) \<subseteq> set custom_keys"
    unfolding prepare_custom_claims_map_def Let_def and_then_eq_Inr_iff sum.inject
    by (elim exE conjE) (rule that, erule sym, simp add: custom_keys_def)
  show "sorted_object m" by (simp add: m sorted_insert_all)
  show "fst ` set m \<subseteq> set custom_keys" using k unfolding m by (simp add: keys_insert_all image_Un)
qed

text \<open>What the library has accepted: a verdict that is not terminal.\<close>

definition dcap_accepts :: "dcap \<Rightarrow> time \<Rightarrow> bytes \<Rightarrow> qv_result \<Rightarrow> bool" where
  "dcap_accepts c now quote r \<longleftrightarrow>
     (\<exists>e filled. dc_verify_quote c quote (dc_get_collateral c quote) (max now 0) = Some (e, r, filled)) \<and> (\<forall>n. r \<noteq> QvTerminal n)"

lemma ecdsa_quote_verification_Inr:
  assumes "ecdsa_quote_verification c now quote = Inr m"
  shows "\<exists>r e su. dcap_accepts c now quote r \<and> prepare_custom_claims_map c su e r = Inr m"
proof -
  obtain n e r f where v: "dc_verify_quote c quote (dc_get_collateral c quote) (max now 0) = Some (e, r, f)"
    and p: "(case r of QvTerminal _ \<Rightarrow> bail ''Verification completed with Terminal result''
      | _ \<Rightarrow> prepare_custom_claims_map c (if (if n = dc_supplemental_size c then n else 0) = 0
          then dc_supplemental_default c else f) e r) = Inr m"
    using assms unfolding ecdsa_quote_verification_def Let_def and_then_eq_Inr_iff split_paired_Ex prod.case ok_or_eq_Inr_iff
    by (elim exE conjE) (rule that)
  then show ?thesis unfolding dcap_accepts_def by (cases r) auto
qed

lemma ecdsa_claims_keys:
  assumes "ecdsa_quote_verification c now quote = Inr m"
  shows "fst ` set m \<subseteq> set custom_keys" and "sorted_object m"
  using ecdsa_quote_verification_Inr [OF assms] prepare_custom_claims_keys by blast+

text \<open>The custom claims replace no other claim.\<close>

lemma extend_using_custom_claims_get:
  assumes "extend_using_custom_claims (JObject m) custom = Inr (JObject m')" and "sorted_object m"
    and "fst ` set custom \<subseteq> set custom_keys" and "k \<notin> set custom_keys"
  shows "map_of m' k = map_of m k"
proof -
  have "map_of (rev custom) k = None" using assms(3,4) by (auto simp: map_of_eq_None_iff)
  with assms(1,2) show ?thesis by (auto simp: extend_using_custom_claims_def map_of_insert_all map_add_def)
qed

lemma tcb_status_claim:
  assumes "prepare_custom_claims_map c su e r = Inr m"
  shows "map_of m ''tcb_status'' = Some (qv_result_as_str r)"
    and "map_of m ''tcb_eval_num'' = map_of m ''root_ca_crl_num''"
  using assms
  by (auto simp: prepare_custom_claims_map_def result_simps Let_def map_of_insert_all sorted_insert_all)

text \<open>A library that accepts every quote.\<close>

definition sample_supplemental :: supplemental where
  "sample_supplemental = \<lparr>su_earliest_issue_date = 0, su_latest_issue_date = 1, su_earliest_expiration_date = 2,
     su_tcb_level_date_tag = 3, su_pck_crl_num = 1, su_root_ca_crl_num = 1, su_pck_ppid = [1], su_sgx_type = 1,
     su_dynamic_platform = 1, su_cached_keys = 0, su_smt_enabled = 1, su_root_key_id = [2], su_sa_list = [73, 44, 74, 0]\<rparr>"

definition sample_dcap :: dcap where
  "sample_dcap = \<lparr>dc_supplemental_version_and_size = (\<lambda>_. Some (3, 512)), dc_supplemental_size = 512,
     dc_supplemental_default = sample_supplemental, dc_get_collateral = (\<lambda>_. None),
     dc_verify_quote = (\<lambda>_ _ _. Some (0, QvOk, sample_supplemental)), dc_from_unix_timestamp = Some,
     dc_format_rfc3339 = (\<lambda>t. Some (fmt_dec (nat t))), dc_hex_encode = string_of_bytes\<rparr>"

lemma sample_dcap_verifies: "\<exists>m. ecdsa_quote_verification sample_dcap now bin = Inr m"
  by (simp add: ecdsa_quote_verification_def sample_dcap_def prepare_custom_claims_map_def format_rfc3339_def sample_supplemental_def Let_def)

end
