(* ===== verification/Struct_Layout.thy ===== *)
theory Struct_Layout
  imports Rust_Prelude
begin

text \<open>
  C structures of byte arrays read with scroll's derived \<^verbatim>\<open>Pread\<close>: the fields are read in order, each from
  where the one before ended. The reader of one array is third-party code and a parameter; \<open>array_reader\<close>
  states its documented behaviour. A layout is the list of the sizes of the fields.
\<close>

type_synonym array_read = "nat \<Rightarrow> bytes \<Rightarrow> usize \<Rightarrow> (bytes \<times> usize) option"

fun pread_fields :: "array_read \<Rightarrow> nat list \<Rightarrow> bytes \<Rightarrow> usize \<Rightarrow> (bytes list \<times> usize) option" where
  "pread_fields g [] d i = Some ([], i)"
| "pread_fields g (n # ns) d i =
     Option.bind (g n d i) (\<lambda>(b, i). Option.bind (pread_fields g ns d i) (\<lambda>(bs, i). Some (b # bs, i)))"

definition read_array :: array_read where
  "read_array n d i = (if i + n \<le> length d then Some (take n (drop i d), i + n) else None)"

definition array_reader :: "array_read \<Rightarrow> bool" where
  "array_reader g \<longleftrightarrow> g = read_array"

text \<open>The fields of a layout, cut out of the front of a list.\<close>

fun cut :: "nat list \<Rightarrow> 'a list \<Rightarrow> 'a list list" where
  "cut [] xs = []"
| "cut (n # ns) xs = take n xs # cut ns (drop n xs)"

lemma length_cut [simp]: "length (cut ns xs) = length ns"
  by (induction ns arbitrary: xs) auto

lemma cut_concat: "map length fs = ns \<Longrightarrow> cut ns (concat fs @ r) = fs"
  by (induction fs arbitrary: ns) auto

lemma map_length_cut: "sum_list ns \<le> length xs \<Longrightarrow> map length (cut ns xs) = ns"
  by (induction ns arbitrary: xs) auto

lemma concat_cut: "sum_list ns \<le> length xs \<Longrightarrow> concat (cut ns xs) = take (sum_list ns) xs"
  by (induction ns arbitrary: xs) (auto simp: take_add)

lemma pread_fields_eq:
  assumes "array_reader g"
  shows "pread_fields g ns d i =
    (if i + sum_list ns \<le> length d \<or> ns = [] then Some (cut ns (drop i d), i + sum_list ns) else None)"
proof (induction ns arbitrary: i)
  case (Cons n ns)
  then show ?case using assms by (auto simp: array_reader_def read_array_def add_ac)
qed simp

text \<open>A layout and its encoding are inverse: fields of the right sizes are read exactly from their concatenation.\<close>

lemma pread_fields_iff:
  assumes "array_reader g" and "ns \<noteq> []" and "i \<le> length d"
  shows "pread_fields g ns d i = Some (fs, j) \<longleftrightarrow>
    map length fs = ns \<and> (\<exists>r. drop i d = concat fs @ r) \<and> j = i + sum_list ns"
proof
  assume "pread_fields g ns d i = Some (fs, j)"
  then have "i + sum_list ns \<le> length d" "fs = cut ns (drop i d)" "j = i + sum_list ns"
    using assms by (auto simp: pread_fields_eq split: if_splits)
  moreover from this have "concat fs = take (sum_list ns) (drop i d)" by (simp add: concat_cut)
  ultimately show "map length fs = ns \<and> (\<exists>r. drop i d = concat fs @ r) \<and> j = i + sum_list ns"
    by (metis append_take_drop_id le_diff_conv2 length_drop map_length_cut add.commute assms(3))
next
  assume r: "map length fs = ns \<and> (\<exists>r. drop i d = concat fs @ r) \<and> j = i + sum_list ns"
  then obtain r where "drop i d = concat fs @ r" by blast
  moreover from this r have "length d - i = sum_list ns + length r" by (metis length_append length_concat length_drop)
  ultimately show "pread_fields g ns d i = Some (fs, j)"
    using assms r cut_concat [of fs ns r] by (auto simp: pread_fields_eq)
qed

lemma field_at:
  assumes "map length fs = ns" and "i < length fs"
  shows "take (ns ! i) (drop (sum_list (take i ns)) (concat fs @ r)) = fs ! i"
  using assms
proof (induction fs arbitrary: ns i)
  case (Cons f fs)
  show ?case
  proof (cases i)
    case 0
    then show ?thesis using Cons.prems by auto
  next
    case (Suc j)
    have "drop (length f + n) (f @ concat fs @ r) = drop n (concat fs @ r)" for n by simp
    with Cons.IH [OF refl, of j] Cons.prems show ?thesis by (auto simp: Suc simp del: drop_append take_append)
  qed
qed simp

end
