(* ===== verification/Tdx.thy ===== *)
theory Tdx
  imports Intel_Dcap Struct_Layout Event_Log
begin

text \<open>
  The verifier of Intel TDX (\<^verbatim>\<open>deps/verifier/src/tdx/\<close>): the parser of TD quotes of version 4 and 5, the claims
  made of a quote and its event log, and the verification of evidence.
\<close>

subsection \<open>Quotes\<close>

definition QUOTE_HEADER_SIZE :: usize where
  "QUOTE_HEADER_SIZE = 48"

record quote_header =
  qh_version :: bytes
  qh_att_key_type :: bytes
  qh_tee_type :: bytes
  qh_reserved :: bytes
  qh_vendor_id :: bytes
  qh_user_data :: bytes

definition quote_header_layout :: "nat list" where
  "quote_header_layout = [2, 2, 4, 4, 16, 20]"

definition quote_header_of :: "bytes list \<Rightarrow> quote_header" where
  "quote_header_of fs = \<lparr>qh_version = fs ! 0, qh_att_key_type = fs ! 1, qh_tee_type = fs ! 2, qh_reserved = fs ! 3,
     qh_vendor_id = fs ! 4, qh_user_data = fs ! 5\<rparr>"

record report_body2 =
  rb_tcb_svn :: bytes
  rb_mr_seam :: bytes
  rb_mrsigner_seam :: bytes
  rb_seam_attributes :: bytes
  rb_td_attributes :: bytes
  rb_xfam :: bytes
  rb_mr_td :: bytes
  rb_mr_config_id :: bytes
  rb_mr_owner :: bytes
  rb_mr_owner_config :: bytes
  rb_rtmr_0 :: bytes
  rb_rtmr_1 :: bytes
  rb_rtmr_2 :: bytes
  rb_rtmr_3 :: bytes
  rb_report_data :: bytes

definition report_body2_layout :: "nat list" where
  "report_body2_layout = [16, 48, 48, 8, 8, 8, 48, 48, 48, 48, 48, 48, 48, 48, 64]"

definition report_body2_of :: "bytes list \<Rightarrow> report_body2" where
  "report_body2_of fs = \<lparr>rb_tcb_svn = fs ! 0, rb_mr_seam = fs ! 1, rb_mrsigner_seam = fs ! 2, rb_seam_attributes = fs ! 3,
     rb_td_attributes = fs ! 4, rb_xfam = fs ! 5, rb_mr_td = fs ! 6, rb_mr_config_id = fs ! 7, rb_mr_owner = fs ! 8,
     rb_mr_owner_config = fs ! 9, rb_rtmr_0 = fs ! 10, rb_rtmr_1 = fs ! 11, rb_rtmr_2 = fs ! 12, rb_rtmr_3 = fs ! 13,
     rb_report_data = fs ! 14\<rparr>"

text \<open>The body of TDX 1.5 has the fields of the body of TDX 1.0 and two more.\<close>

record report_body2v15 = report_body2 +
  rb_tee_tcb_svn2 :: bytes
  rb_mr_servicetd :: bytes

definition report_body2v15_layout :: "nat list" where
  "report_body2v15_layout = [16, 48, 48, 8, 8, 8, 48, 48, 48, 48, 48, 48, 48, 48, 64, 16, 48]"

definition report_body2v15_of :: "bytes list \<Rightarrow> report_body2v15" where
  "report_body2v15_of fs = report_body2.extend (report_body2_of fs) (report_body2v15.fields (fs ! 15) (fs ! 16))"

datatype quote_v5_type = TDX10 | TDX15

definition quote_v5_type_from_bytes :: "bytes \<Rightarrow> quote_v5_type anyhow" where
  "quote_v5_type_from_bytes bs =
     (if length bs < 2 then bail ''parse QuoteV5 Type failed. Bytes length < 2 bytes''
      else
        and_then (slice bs 0 2) (\<lambda>t.
        let t = (from_le_bytes t :: u16) in
        if t = 2 then Inr TDX10 else if t = 3 then Inr TDX15
        else bail ''parse QuoteV5 Type failed. not defined.''))"

text \<open>The native order of bytes is that of the platforms the verifier runs on, little-endian.\<close>

definition quote_v5_type_as_bytes :: "quote_v5_type \<Rightarrow> bytes" where
  "quote_v5_type_as_bytes t = le_enc 2 (case t of TDX10 \<Rightarrow> 2 | TDX15 \<Rightarrow> 3)"

datatype quote_v5_body = Tdx10 report_body2 | Tdx15 report_body2v15

datatype quote = V4 quote_header report_body2 | V5 quote_header quote_v5_type bytes quote_v5_body

definition body_field :: "(report_body2 \<Rightarrow> bytes) \<Rightarrow> quote \<Rightarrow> bytes" where
  "body_field r q =
     (case q of
        V4 _ body \<Rightarrow> r body
      | V5 _ _ _ (Tdx10 body) \<Rightarrow> r body
      | V5 _ _ _ (Tdx15 body) \<Rightarrow> r (report_body2.truncate body))"

definition parse_tdx_quote :: "array_read \<Rightarrow> bytes \<Rightarrow> quote anyhow" where
  "parse_tdx_quote g quote_bin =
     and_then (slice quote_bin 0 QUOTE_HEADER_SIZE) (\<lambda>header_bin.
     and_then (ok_or (pread_fields g quote_header_layout header_bin 0) ''Parse TD quote header failed'') (\<lambda>(fs, _).
     let header = quote_header_of fs in
     if qh_version header = [4, 0] then
       and_then (ok_or (pread_fields g report_body2_layout quote_bin QUOTE_HEADER_SIZE) ''Parse TD quote v4 body failed'')
         (\<lambda>(fs, _). Inr (V4 header (report_body2_of fs)))
     else if qh_version header = [5, 0] then
       and_then (slice quote_bin QUOTE_HEADER_SIZE (QUOTE_HEADER_SIZE + 2)) (\<lambda>type_bin.
       and_then (quote_v5_type_from_bytes type_bin) (\<lambda>t.
       and_then (slice quote_bin (QUOTE_HEADER_SIZE + 2) (QUOTE_HEADER_SIZE + 2 + 4)) (\<lambda>size.
       let offset = QUOTE_HEADER_SIZE + 2 + 4 in
       case t of
         TDX10 \<Rightarrow>
           and_then (ok_or (pread_fields g report_body2_layout quote_bin offset) ''Parse TD quote v5 TDX1.0 body failed'')
             (\<lambda>(fs, _). Inr (V5 header t size (Tdx10 (report_body2_of fs))))
       | TDX15 \<Rightarrow>
           and_then (ok_or (pread_fields g report_body2v15_layout quote_bin offset) ''Parse TD quote v5 TDX1.5 body failed'')
             (\<lambda>(fs, _). Inr (V5 header t size (Tdx15 (report_body2v15_of fs)))))))
     else bail ''Quote version not defined.''))"

subsection \<open>Claims\<close>

definition td_attributes_flags :: "(string \<times> u64) list" where
  "td_attributes_flags = [(''debug'', 1), (''septve_disable'', push_bit 28 1), (''protection_keys'', push_bit 30 1),
     (''key_locker'', push_bit 31 1), (''perfmon'', push_bit 63 1)]"

definition parse_td_attributes :: "bytes \<Rightarrow> (string \<times> json) list anyhow" where
  "parse_td_attributes data =
     (if length data \<noteq> 8 then bail ''could not convert slice to array''
      else
        let td = (from_le_bytes data :: u64) in
        Inr (insert_all (map (\<lambda>(name, value). (name, JBool (and td value = value))) td_attributes_flags) []))"

definition tcg_algorithm_name :: "tcg_algorithm \<Rightarrow> string" where
  "tcg_algorithm_name a =
     (case a of Rsa \<Rightarrow> ''RSA'' | Tdes \<Rightarrow> ''TDES'' | Sha1 \<Rightarrow> ''SHA-1'' | Sha256 \<Rightarrow> ''SHA-256'' | Sha384 \<Rightarrow> ''SHA-384''
      | Sha512 \<Rightarrow> ''SHA-512'' | Sm3 \<Rightarrow> ''SM3'')"

definition tcg_event_type_name :: "tcg_event_type \<Rightarrow> string" where
  "tcg_event_type_name t =
     (case t of EvPrebootCert \<Rightarrow> ''EV_PREBOOT_CERT'' | EvPostCode \<Rightarrow> ''EV_POST_CODE'' | EvUnused \<Rightarrow> ''EV_UNUSED''
      | EvNoAction \<Rightarrow> ''EV_NO_ACTION'' | EvSeparator \<Rightarrow> ''EV_SEPARATOR'' | EvAction \<Rightarrow> ''EV_ACTION''
      | EvEventTag \<Rightarrow> ''EV_EVENT_TAG'' | EvSCrtmContents \<Rightarrow> ''EV_S_CRTM_CONTENTS'' | EvSCrtmVersion \<Rightarrow> ''EV_S_CRTM_VERSION''
      | EvCpuMicrocode \<Rightarrow> ''EV_CPU_MICROCODE'' | EvPlatformConfigFlags \<Rightarrow> ''EV_PLATFORM_CONFIG_FLAGS''
      | EvTableOfDevices \<Rightarrow> ''EV_TABLE_OF_DEVICES'' | EvCompactHash \<Rightarrow> ''EV_COMPACT_HASH'' | EvIpl \<Rightarrow> ''EV_IPL''
      | EvIplPartitionData \<Rightarrow> ''EV_IPL_PARTITION_DATA'' | EvNonhostCode \<Rightarrow> ''EV_NONHOST_CODE''
      | EvNonhostConfig \<Rightarrow> ''EV_NONHOST_CONFIG'' | EvNonhostInfo \<Rightarrow> ''EV_NONHOST_INFO''
      | EvOmitBootDeviceEvents \<Rightarrow> ''EV_OMIT_BOOT_DEVICE_EVENTS'' | EvEfiEventBase \<Rightarrow> ''EV_EFI_EVENT_BASE''
      | EvEfiVariableDriverConfig \<Rightarrow> ''EV_EFI_VARIABLE_DRIVER_CONFIG'' | EvEfiVariableBoot \<Rightarrow> ''EV_EFI_VARIABLE_BOOT''
      | EvEfiBootServicesApplication \<Rightarrow> ''EV_EFI_BOOT_SERVICES_APPLICATION''
      | EvEfiBootServicesDriver \<Rightarrow> ''EV_EFI_BOOT_SERVICES_DRIVER'' | EvEfiRuntimeServicesDriver \<Rightarrow> ''EV_EFI_RUNTIME_SERVICES_DRIVER''
      | EvEfiGptEvent \<Rightarrow> ''EV_EFI_GPT_EVENT'' | EvEfiAction \<Rightarrow> ''EV_EFI_ACTION''
      | EvEfiPlatformFirmwareBlob \<Rightarrow> ''EV_EFI_PLATFORM_FIRMWARE_BLOB'' | EvEfiHandoffTables \<Rightarrow> ''EV_EFI_HANDOFF_TABLES''
      | EvEfiPlatformFirmwareBlob2 \<Rightarrow> ''EV_EFI_PLATFORM_FIRMWARE_BLOB2'' | EvEfiHandoffTables2 \<Rightarrow> ''EV_EFI_HANDOFF_TABLES2''
      | EvEfiVariableBoot2 \<Rightarrow> ''EV_EFI_VARIABLE_BOOT2'' | EvEfiHcrtmEvent \<Rightarrow> ''EV_EFI_HCRTM_EVENT''
      | EvEfiVariableAuthority \<Rightarrow> ''EV_EFI_VARIABLE_AUTHORITY'' | EvEfiSpdmFirmwareBlob \<Rightarrow> ''EV_EFI_SPDM_FIRMWARE_BLOB''
      | EvEfiSpdmFirmwareConfig \<Rightarrow> ''EV_EFI_SPDM_FIRMWARE_CONFIG'')"

text \<open>The derived \<^verbatim>\<open>Serialize\<close> of the entries of an event log; a detail that is \<open>None\<close> is left out.\<close>

definition opt_field :: "string \<Rightarrow> ('a \<Rightarrow> json) \<Rightarrow> 'a option \<Rightarrow> (string \<times> json) list" where
  "opt_field k f v = (case v of None \<Rightarrow> [] | Some x \<Rightarrow> [(k, f x)])"

definition event_details_json :: "event_details \<Rightarrow> json" where
  "event_details_json d = json_object
     (opt_field ''string'' JString (ed_string d) @
      opt_field ''unicode_name'' JString (unicode_name d) @
      opt_field ''unicode_name_length'' (\<lambda>n. JNumber (PosInt n)) (unicode_name_length d) @
      opt_field ''variable_data'' JString (variable_data d) @
      opt_field ''variable_data_length'' (\<lambda>n. JNumber (PosInt n)) (variable_data_length d) @
      opt_field ''variable_name'' JString (variable_name d) @
      opt_field ''device_paths'' (\<lambda>ps. JArray (map JString ps)) (device_paths d) @
      opt_field ''data'' (\<lambda>v. v) (ed_data d))"

definition el_digest_json :: "crates \<Rightarrow> el_digest \<Rightarrow> json" where
  "el_digest_json c d = json_object
     [(''alg'', JString (tcg_algorithm_name (alg d))), (''digest'', JString (hex_encode c (digest d)))]"

definition eventlog_entry_json :: "crates \<Rightarrow> eventlog_entry \<Rightarrow> json" where
  "eventlog_entry_json c e = json_object
     [(''details'', event_details_json (details e)),
      (''digest_matches_event'', JBool (digest_matches_event e)),
      (''digests'', JArray (map (el_digest_json c) (digests e))),
      (''event'', JString (event e)),
      (''index'', JNumber (PosInt (ucast (index e)))),
      (''type_name'', JString (tcg_event_type_name (event_type e)))]"

definition header_claims :: "crates \<Rightarrow> bytes \<Rightarrow> quote_header \<Rightarrow> (string \<times> json) list" where
  "header_claims c version header =
     (let hex = (\<lambda>b. JString (hex_encode c b)) in insert_all
       [(''version'', hex version), (''att_key_type'', hex (qh_att_key_type header)),
        (''tee_type'', hex (qh_tee_type header)), (''reserved'', hex (qh_reserved header)),
        (''vendor_id'', hex (qh_vendor_id header)), (''user_data'', hex (qh_user_data header))] [])"

definition body_claims :: "crates \<Rightarrow> report_body2 \<Rightarrow> (string \<times> json) list" where
  "body_claims c body =
     (let hex = (\<lambda>b. JString (hex_encode c b)) in insert_all
       [(''tcb_svn'', hex (rb_tcb_svn body)), (''mr_seam'', hex (rb_mr_seam body)),
        (''mrsigner_seam'', hex (rb_mrsigner_seam body)), (''seam_attributes'', hex (rb_seam_attributes body)),
        (''td_attributes'', hex (rb_td_attributes body)), (''xfam'', hex (rb_xfam body)), (''mr_td'', hex (rb_mr_td body)),
        (''mr_config_id'', hex (rb_mr_config_id body)), (''mr_owner'', hex (rb_mr_owner body)),
        (''mr_owner_config'', hex (rb_mr_owner_config body)), (''rtmr_0'', hex (rb_rtmr_0 body)),
        (''rtmr_1'', hex (rb_rtmr_1 body)), (''rtmr_2'', hex (rb_rtmr_2 body)), (''rtmr_3'', hex (rb_rtmr_3 body)),
        (''report_data'', hex (rb_report_data body))] [])"

definition quote_claims :: "crates \<Rightarrow> quote \<Rightarrow> (string \<times> json) list" where
  "quote_claims c q =
     (let hex = (\<lambda>b. JString (hex_encode c b)) in
      case q of
        V4 header body \<Rightarrow> insert_all
          [(''header'', JObject (header_claims c [4, 0] header)), (''body'', JObject (body_claims c body))] []
      | V5 header t sz body \<Rightarrow> insert_all
          [(''type'', hex (quote_v5_type_as_bytes t)), (''size'', hex sz),
           (''header'', JObject (header_claims c [5, 0] header)),
           (''body'', JObject (case body of
               Tdx10 body \<Rightarrow> body_claims c body
             | Tdx15 body \<Rightarrow> insert_all
                 [(''tee_tcb_svn2'', hex (rb_tee_tcb_svn2 body)), (''mr_servicetd'', hex (rb_mr_servicetd body))]
                 (body_claims c (report_body2.truncate body))))] [])"

definition generate_parsed_claim :: "crates \<Rightarrow> quote \<Rightarrow> cc_event_log option \<Rightarrow> json anyhow" where
  "generate_parsed_claim c q cc_eventlog =
     and_then (parse_td_attributes (body_field rb_td_attributes q)) (\<lambda>td_attributes.
     Inr (JObject (insert_all
       (opt_field ''uefi_event_logs'' (\<lambda>ccel. JArray (map (eventlog_entry_json c) (log ccel))) cc_eventlog @
        [(''quote'', JObject (quote_claims c q)), (''td_attributes'', JObject td_attributes),
         (''report_data'', JString (hex_encode c (body_field rb_report_data q))),
         (''init_data'', JString (hex_encode c (body_field rb_mr_config_id q)))]) [])))"

subsection \<open>The platform information of td-shim\<close>

datatype platform_config_info_error = ParseDescriptor | ReadInfoLength | InvalidHeader | NotEnoughData

record td_shim_platform_config_info =
  ts_descriptor :: bytes
  ts_info_length :: u32
  ts_data :: bytes

text \<open>\<open>rd\<close> is byteorder's \<^verbatim>\<open>read_u32::<LittleEndian>\<close>.\<close>

definition td_shim_try_from ::
  "(bytes \<Rightarrow> u32 option) \<Rightarrow> bytes \<Rightarrow> (platform_config_info_error, td_shim_platform_config_info) result" where
  "td_shim_try_from rd data =
     (let descriptor_size = 16; info_size = 4; header_size = descriptor_size + info_size in
      if length data < header_size then bail InvalidHeader
      else
        and_then (slice data 0 descriptor_size) (\<lambda>descriptor.
        and_then (if length descriptor = 16 then Inr descriptor else bail ParseDescriptor) (\<lambda>descriptor.
        and_then (slice data descriptor_size header_size) (\<lambda>len_bin.
        and_then (ok_or (rd len_bin) ReadInfoLength) (\<lambda>info_length.
        let total_size = header_size + unat info_length in
        and_then (ok_or (slice_get data header_size total_size) NotEnoughData) (\<lambda>data.
          Inr \<lparr>ts_descriptor = descriptor, ts_info_length = info_length, ts_data = data\<rparr>))))))"

subsection \<open>The verifier\<close>

record tdx_evidence =
  te_cc_eventlog :: "string option"
  te_quote :: string

record tdx_env =
  tx_crates :: crates
  tx_oc :: bool
  tx_from_value :: "json \<Rightarrow> tdx_evidence option"
  tx_b64_decode :: "string \<Rightarrow> bytes option"
  tx_read :: array_read
  tx_dcap :: dcap
  tx_now :: time

text \<open>A log on which the parser would not return stands for a panic; \<open>parse_ccel_returns\<close> shows that there is none.\<close>

definition parse_ccel :: "crates \<Rightarrow> bool \<Rightarrow> bytes \<Rightarrow> cc_event_log anyhow" where
  "parse_ccel c oc data =
     (case cc_event_log_try_from c oc data of
        None \<Rightarrow> panic ''does not return''
      | Some r \<Rightarrow> map_err (\<lambda>_. ''Parse CC Eventlog failed'') r)"

definition rtmr_references :: "quote \<Rightarrow> reference_measurement list" where
  "rtmr_references q =
     [\<lparr>rm_index = 1, algorithm = Sha384, reference = body_field rb_rtmr_0 q\<rparr>,
      \<lparr>rm_index = 2, algorithm = Sha384, reference = body_field rb_rtmr_1 q\<rparr>,
      \<lparr>rm_index = 3, algorithm = Sha384, reference = body_field rb_rtmr_2 q\<rparr>,
      \<lparr>rm_index = 4, algorithm = Sha384, reference = body_field rb_rtmr_3 q\<rparr>]"

definition tdx_verify_evidence :: "tdx_env \<Rightarrow> report_data \<Rightarrow> init_data_hash \<Rightarrow> tdx_evidence \<Rightarrow> json anyhow" where
  "tdx_verify_evidence env expected_report_data expected_init_data_hash evidence =
     (if te_quote evidence = '''' then bail ''TDX Quote is empty.''
      else
        and_then (ok_or (tx_b64_decode env (te_quote evidence)) ''base64'') (\<lambda>quote_bin.
        and_then (ecdsa_quote_verification (tx_dcap env) (tx_now env) quote_bin) (\<lambda>custom_claims.
        and_then (parse_tdx_quote (tx_read env) quote_bin) (\<lambda>quote.
        and_then (check_report_data expected_report_data 64 (body_field rb_report_data quote)
            ''REPORT_DATA is different from that in TDX Quote'') (\<lambda>_.
        and_then (check_init_data expected_init_data_hash 48 (body_field rb_mr_config_id quote)
            ''MRCONFIGID is different from that in TDX Quote'') (\<lambda>_.
        and_then (case te_cc_eventlog evidence of
            Some el \<Rightarrow>
              if el \<noteq> '''' then
                and_then (ok_or (tx_b64_decode env el) ''base64'') (\<lambda>ccel_data.
                and_then (parse_ccel (tx_crates env) (tx_oc env) ccel_data) (\<lambda>ccel.
                and_then (replay_and_match (tx_crates env) ccel (rtmr_references quote)) (\<lambda>_. Inr (Some ccel))))
              else Inr None
          | None \<Rightarrow> Inr None) (\<lambda>ccel_option.
        and_then (generate_parsed_claim (tx_crates env) quote ccel_option) (\<lambda>claim.
          extend_using_custom_claims claim custom_claims))))))))"

definition tdx_evaluate ::
  "tdx_env \<Rightarrow> json \<Rightarrow> report_data \<Rightarrow> init_data_hash \<Rightarrow> (json \<times> tee_class) list anyhow" where
  "tdx_evaluate env evidence expected_report_data expected_init_data_hash =
     and_then (ok_or (tx_from_value env evidence) ''Deserialize TDX Evidence failed.'') (\<lambda>tdx_evidence.
     and_then (map_err (\<lambda>e. ''TDX Verifier: '' @ e)
         (tdx_verify_evidence env expected_report_data expected_init_data_hash tdx_evidence)) (\<lambda>claims.
       Inr [(claims, ''cpu'')]))"

definition tdx_verifier :: "tdx_env \<Rightarrow> verifier" where
  "tdx_verifier env = \<lparr>ve_evaluate = tdx_evaluate env, ve_generate_supplemental_challenge = default_supplemental_challenge\<rparr>"

subsection \<open>Quotes and their encoding\<close>

definition header_fields :: "quote_header \<Rightarrow> bytes list" where
  "header_fields h = [qh_version h, qh_att_key_type h, qh_tee_type h, qh_reserved h, qh_vendor_id h, qh_user_data h]"

definition body_fields :: "report_body2 \<Rightarrow> bytes list" where
  "body_fields b = [rb_tcb_svn b, rb_mr_seam b, rb_mrsigner_seam b, rb_seam_attributes b, rb_td_attributes b, rb_xfam b, rb_mr_td b,
     rb_mr_config_id b, rb_mr_owner b, rb_mr_owner_config b, rb_rtmr_0 b, rb_rtmr_1 b, rb_rtmr_2 b, rb_rtmr_3 b, rb_report_data b]"

definition v15_fields :: "report_body2v15 \<Rightarrow> bytes list" where
  "v15_fields b = body_fields (report_body2.truncate b) @ [rb_tee_tcb_svn2 b, rb_mr_servicetd b]"

fun v5_body_fields :: "quote_v5_body \<Rightarrow> bytes list" where
  "v5_body_fields (Tdx10 b) = body_fields b"
| "v5_body_fields (Tdx15 b) = v15_fields b"

fun enc_quote :: "quote \<Rightarrow> bytes" where
  "enc_quote (V4 h b) = concat (header_fields h) @ concat (body_fields b)"
| "enc_quote (V5 h t sz b) = concat (header_fields h) @ quote_v5_type_as_bytes t @ sz @ concat (v5_body_fields b)"

fun quote_ok :: "quote \<Rightarrow> bool" where
  "quote_ok (V4 h b) \<longleftrightarrow>
     map length (header_fields h) = quote_header_layout \<and> qh_version h = [4, 0] \<and> map length (body_fields b) = report_body2_layout"
| "quote_ok (V5 h t sz b) \<longleftrightarrow>
     map length (header_fields h) = quote_header_layout \<and> qh_version h = [5, 0] \<and> length sz = 4 \<and>
     (case b of
        Tdx10 _ \<Rightarrow> t = TDX10 \<and> map length (v5_body_fields b) = report_body2_layout
      | Tdx15 _ \<Rightarrow> t = TDX15 \<and> map length (v5_body_fields b) = report_body2v15_layout)"

lemma fields_of [simp]:
  "length fs = 6 \<Longrightarrow> header_fields (quote_header_of fs) = fs"
  "length fs = 15 \<Longrightarrow> body_fields (report_body2_of fs) = fs"
  "length fs = 17 \<Longrightarrow> v15_fields (report_body2v15_of fs) = fs"
  by (auto simp: header_fields_def quote_header_of_def body_fields_def report_body2_of_def v15_fields_def report_body2v15_of_def
      report_body2.defs report_body2v15.defs eval_nat_numeral length_Suc_conv)

lemma of_fields [simp]:
  "quote_header_of (header_fields h) = h"
  "report_body2_of (body_fields b) = b"
  "report_body2v15_of (v15_fields b') = b'"
  by (cases h, simp add: header_fields_def quote_header_of_def)
    (cases b, simp add: body_fields_def report_body2_of_def,
     cases b', simp add: v15_fields_def body_fields_def report_body2v15_of_def report_body2_of_def report_body2.defs report_body2v15.defs)

lemma layout_sums [simp]:
  "sum_list quote_header_layout = 48" "sum_list report_body2_layout = 584" "sum_list report_body2v15_layout = 648"
  "length quote_header_layout = 6" "length report_body2_layout = 15" "length report_body2v15_layout = 17"
  "quote_header_layout \<noteq> []" "report_body2_layout \<noteq> []" "report_body2v15_layout \<noteq> []"
  by (simp_all add: quote_header_layout_def report_body2_layout_def report_body2v15_layout_def)

lemma le_val_eq_iff: "length bs = n \<Longrightarrow> v < 256 ^ n \<Longrightarrow> le_val bs = v \<longleftrightarrow> bs = le_enc n v"
  using le_enc_le_val [of bs] le_val_le_enc [of n v] by auto

lemma quote_v5_type_from_bytes_iff:
  assumes "length bs = 2"
  shows "quote_v5_type_from_bytes bs = Inr t \<longleftrightarrow> bs = quote_v5_type_as_bytes t"
proof -
  have u: "unat (from_le_bytes bs :: u16) = le_val bs" by (rule unat_from_le_bytes [OF assms]) simp
  have "from_le_bytes bs = (v :: u16) \<longleftrightarrow> bs = le_enc 2 (unat v)" for v
  proof -
    have "unat v < 256 ^ 2" using unsigned_less [where 'a = nat, of v] by simp
    then show ?thesis using le_val_eq_iff [OF assms] u by (metis unsigned_word_eqI)
  qed
  from this [of 2] this [of 3] show ?thesis
    using assms by (cases t) (auto simp: quote_v5_type_from_bytes_def quote_v5_type_as_bytes_def slice_in_range le_enc_2)
qed

lemma length_type_bytes [simp]: "length (quote_v5_type_as_bytes t) = 2"
  by (simp add: quote_v5_type_as_bytes_def)

text \<open>The header, then the body of the version, of a quote that is long enough for its header.\<close>

definition header_at_start :: "bytes \<Rightarrow> quote_header" where
  "header_at_start bin = quote_header_of (cut quote_header_layout (take 48 bin))"

lemma header_at_start_fields:
  assumes "48 \<le> length bin"
  shows "map length (header_fields (header_at_start bin)) = quote_header_layout"
    and "concat (header_fields (header_at_start bin)) = take 48 bin"
  using assms by (simp_all add: header_at_start_def map_length_cut concat_cut)

lemma header_at_start_append:
  assumes "map length (header_fields h) = quote_header_layout"
  shows "header_at_start (concat (header_fields h) @ r) = h" and "length (concat (header_fields h)) = 48"
proof -
  show l: "length (concat (header_fields h)) = 48" using assms layout_sums(1) by (metis length_concat)
  then show "header_at_start (concat (header_fields h) @ r) = h"
    using cut_concat [OF assms, of "[]"] by (simp add: header_at_start_def)
qed

lemma parse_tdx_quote_long:
  assumes "array_reader g" and "48 \<le> length bin"
  shows "parse_tdx_quote g bin =
    (let h = header_at_start bin in
     if qh_version h = [4, 0] then
       if 632 \<le> length bin then Inr (V4 h (report_body2_of (cut report_body2_layout (drop 48 bin))))
       else bail ''Parse TD quote v4 body failed''
     else if qh_version h = [5, 0] then
       if length bin < 50 then panic ''slice index out of range''
       else and_then (quote_v5_type_from_bytes (take 2 (drop 48 bin))) (\<lambda>t.
         if length bin < 54 then panic ''slice index out of range''
         else case t of
           TDX10 \<Rightarrow> if 638 \<le> length bin
             then Inr (V5 h t (take 4 (drop 50 bin)) (Tdx10 (report_body2_of (cut report_body2_layout (drop 54 bin)))))
             else bail ''Parse TD quote v5 TDX1.0 body failed''
         | TDX15 \<Rightarrow> if 702 \<le> length bin
             then Inr (V5 h t (take 4 (drop 50 bin)) (Tdx15 (report_body2v15_of (cut report_body2v15_layout (drop 54 bin)))))
             else bail ''Parse TD quote v5 TDX1.5 body failed'')
     else bail ''Quote version not defined.'')"
proof -
  have s: "slice bin a b = (if b \<le> length bin then Inr (take (b - a) (drop a bin)) else panic ''slice index out of range'')"
    if "a \<le> b" for a b using that by (simp add: slice_def slice_get_def)
  show ?thesis
    using assms
    by (simp add: parse_tdx_quote_def QUOTE_HEADER_SIZE_def s pread_fields_eq header_at_start_def Let_def not_le not_less
        cong: quote_v5_type.case_cong)
qed

lemma parse_tdx_quote_short: "length bin < 48 \<Longrightarrow> parse_tdx_quote g bin = panic ''slice index out of range''"
  by (simp add: parse_tdx_quote_def QUOTE_HEADER_SIZE_def slice_def slice_get_def)

lemma split_three: "a + b \<le> length bin \<Longrightarrow> bin = take a bin @ take b (drop a bin) @ drop (a + b) bin"
  by (metis append_take_drop_id drop_drop add.commute)

lemma parse_tdx_quote_sound:
  assumes "array_reader g" and "parse_tdx_quote g bin = Inr q"
  shows "quote_ok q \<and> (\<exists>sig. bin = enc_quote q @ sig)"
proof -
  have l: "48 \<le> length bin" using assms(2) parse_tdx_quote_short [of bin g] by (cases "length bin < 48") auto
  note h = header_at_start_fields [OF l]
  have t: "map length (cut ns (drop i bin)) = ns \<and> concat (cut ns (drop i bin)) = take (sum_list ns) (drop i bin)"
    if "i + sum_list ns \<le> length bin" for ns i using that by (simp add: map_length_cut concat_cut)
  have tt: "take 54 bin = take 48 bin @ take 2 (drop 48 bin) @ take 4 (drop 50 bin)"
    using take_add [of 48 6 bin] take_add [of 2 4 "drop 48 bin"] by simp
  consider "qh_version (header_at_start bin) = [4, 0]" | "qh_version (header_at_start bin) = [5, 0]"
    using assms l by (auto simp: parse_tdx_quote_long Let_def split: if_splits)
  then show ?thesis
  proof cases
    case 1
    then have "632 \<le> length bin" and q: "q = V4 (header_at_start bin) (report_body2_of (cut report_body2_layout (drop 48 bin)))"
      using assms l by (auto simp: parse_tdx_quote_long Let_def split: if_splits)
    with t [of 48 report_body2_layout] h 1 split_three [of 48 584 bin] show ?thesis by (auto simp: q)
  next
    case 2
    then have len: "54 \<le> length bin" using assms l by (auto simp: parse_tdx_quote_long Let_def result_simps split: if_splits)
    from 2 obtain ty where ty: "quote_v5_type_from_bytes (take 2 (drop 48 bin)) = Inr ty"
      and q: "(case ty of TDX10 \<Rightarrow> 638 \<le> length bin \<and>
          q = V5 (header_at_start bin) ty (take 4 (drop 50 bin)) (Tdx10 (report_body2_of (cut report_body2_layout (drop 54 bin))))
        | TDX15 \<Rightarrow> 702 \<le> length bin \<and>
          q = V5 (header_at_start bin) ty (take 4 (drop 50 bin)) (Tdx15 (report_body2v15_of (cut report_body2v15_layout (drop 54 bin)))))"
      using assms l by (auto simp: parse_tdx_quote_long Let_def result_simps split: if_splits quote_v5_type.splits)
    have e: "quote_v5_type_as_bytes ty = take 2 (drop 48 bin)"
      using ty len quote_v5_type_from_bytes_iff [of "take 2 (drop 48 bin)" ty] by simp
    have b: "bin = take 48 bin @ quote_v5_type_as_bytes ty @ take 4 (drop 50 bin) @ take n (drop 54 bin) @ drop (54 + n) bin"
      if "54 + n \<le> length bin" for n using split_three [OF that] tt e by (metis append_assoc)
    from q t [of 54 report_body2_layout] t [of 54 report_body2v15_layout] h 2 len b [of 584] b [of 648] show ?thesis
      by (cases ty) auto
  qed
qed

lemma parse_tdx_quote_complete:
  assumes "array_reader g" and "quote_ok q"
  shows "parse_tdx_quote g (enc_quote q @ sig) = Inr q"
proof (cases q)
  case (V4 h b)
  with assms(2) have h: "map length (header_fields h) = quote_header_layout" "qh_version h = [4, 0]"
    and b: "map length (body_fields b) = report_body2_layout" by simp_all
  have "length (concat (body_fields b)) = 584" using b layout_sums(2) by (metis length_concat)
  then show ?thesis
    using parse_tdx_quote_long [OF assms(1), of "enc_quote q @ sig"] header_at_start_append [OF h(1)] h(2) cut_concat [OF b, of sig]
    by (simp add: V4)
next
  case (V5 h t sz b)
  with assms(2) have h: "map length (header_fields h) = quote_header_layout" "qh_version h = [5, 0]" "length sz = 4" by simp_all
  have ty: "quote_v5_type_from_bytes (quote_v5_type_as_bytes t) = Inr t" by (simp add: quote_v5_type_from_bytes_iff)
  note H = parse_tdx_quote_long [OF assms(1), of "enc_quote q @ sig"] header_at_start_append [OF h(1)] h(2,3) ty
  show ?thesis
  proof (cases b)
    case (Tdx10 r)
    with V5 assms(2) have r: "map length (body_fields r) = report_body2_layout" "t = TDX10" by simp_all
    moreover have "length (concat (body_fields r)) = 584" using r layout_sums(2) by (metis length_concat)
    ultimately show ?thesis using H cut_concat [OF r(1), of sig] by (simp add: V5 Tdx10)
  next
    case (Tdx15 r)
    with V5 assms(2) have r: "map length (v15_fields r) = report_body2v15_layout" "t = TDX15" by simp_all
    moreover have "length (concat (v15_fields r)) = 648" using r layout_sums(3) by (metis length_concat)
    ultimately show ?thesis using H cut_concat [OF r(1), of sig] by (simp add: V5 Tdx15)
  qed
qed

lemma parse_tdx_quote_eq_Inr_iff:
  "array_reader g \<Longrightarrow> parse_tdx_quote g bin = Inr q \<longleftrightarrow> quote_ok q \<and> (\<exists>sig. bin = enc_quote q @ sig)"
  using parse_tdx_quote_sound parse_tdx_quote_complete by blast

text \<open>A field of the body by its offset in the bytes of the quote.\<close>

definition quote_field_at :: "nat \<Rightarrow> nat \<Rightarrow> bytes \<Rightarrow> bytes" where
  "quote_field_at off n bin = take n (drop ((if take 2 bin = [5, 0] then 54 else 48) + off) bin)"

lemma version_at_start:
  assumes "map length (header_fields h) = quote_header_layout"
  shows "take 2 (concat (header_fields h) @ r) = qh_version h"
  using field_at [OF assms, of 0 r] by (simp add: header_fields_def quote_header_layout_def)

lemma enc_quote_body:
  assumes "quote_ok q"
  obtains fs pre r where "enc_quote q = pre @ concat fs @ r" and "length pre = (if take 2 (enc_quote q @ sig) = [5, 0] then 54 else 48)"
    and "map length fs = report_body2_layout" and "\<And>f. body_field f q = f (report_body2_of fs)"
proof (cases q)
  case (V4 h b)
  with assms have h: "map length (header_fields h) = quote_header_layout" "qh_version h = [4, 0]" by simp_all
  then show thesis
    using that [of "concat (header_fields h)" "body_fields b" "[]"] assms version_at_start [OF h(1), of "concat (body_fields b) @ sig"]
      header_at_start_append(2) [OF h(1)]
    by (simp add: V4 body_field_def)
next
  case (V5 h t sz b)
  with assms have h: "map length (header_fields h) = quote_header_layout" "qh_version h = [5, 0]" "length sz = 4" by simp_all
  have v: "take 2 (enc_quote q @ sig) = [5, 0]" using version_at_start [OF h(1)] h(2) by (simp add: V5)
  have p: "length (concat (header_fields h) @ quote_v5_type_as_bytes t @ sz) = 54" using header_at_start_append(2) [OF h(1)] h(3) by simp
  show thesis
  proof (cases b)
    case (Tdx10 r)
    with V5 assms that [of "concat (header_fields h) @ quote_v5_type_as_bytes t @ sz" "body_fields r" "[]"] v p show thesis
      by (simp add: body_field_def)
  next
    case (Tdx15 r)
    have "map length (body_fields (report_body2.truncate r)) = report_body2_layout"
      using assms V5 Tdx15 by (simp add: v15_fields_def report_body2_layout_def report_body2v15_layout_def body_fields_def)
    with V5 Tdx15 assms that [of "concat (header_fields h) @ quote_v5_type_as_bytes t @ sz" "body_fields (report_body2.truncate r)"
        "rb_tee_tcb_svn2 r @ rb_mr_servicetd r"] v p show thesis
      by (simp add: body_field_def v15_fields_def)
  qed
qed

lemma quote_fields:
  assumes "array_reader g" and "parse_tdx_quote g bin = Inr q"
  shows "body_field rb_td_attributes q = quote_field_at 120 8 bin" and "body_field rb_mr_config_id q = quote_field_at 184 48 bin"
    and "body_field rb_rtmr_0 q = quote_field_at 328 48 bin" and "body_field rb_rtmr_1 q = quote_field_at 376 48 bin"
    and "body_field rb_rtmr_2 q = quote_field_at 424 48 bin" and "body_field rb_rtmr_3 q = quote_field_at 472 48 bin"
    and "body_field rb_report_data q = quote_field_at 520 64 bin" and "length (body_field rb_td_attributes q) = 8"
proof -
  obtain sig where ok: "quote_ok q" and bin: "bin = enc_quote q @ sig" using parse_tdx_quote_sound [OF assms] by blast
  obtain fs pre r where e: "enc_quote q = pre @ concat fs @ r" and p: "length pre = (if take 2 (enc_quote q @ sig) = [5, 0] then 54 else 48)"
    and l: "map length fs = report_body2_layout" and f: "\<And>f. body_field f q = f (report_body2_of fs)"
    using enc_quote_body [OF ok, of sig] by metis
  have len: "length fs = 15" using l layout_sums(5) by (metis length_map)
  have at: "fs ! i = quote_field_at (sum_list (take i report_body2_layout)) (report_body2_layout ! i) bin" if "i < 15" for i
  proof -
    from field_at [OF l, of i "r @ sig"] that len
    have "fs ! i = take (report_body2_layout ! i) (drop (sum_list (take i report_body2_layout)) (concat fs @ r @ sig))" by simp
    moreover have "drop ((if take 2 bin = [5, 0] then 54 else 48) + n) bin = drop n (concat fs @ r @ sig)" for n
      using p unfolding bin by (simp add: e)
    ultimately show ?thesis unfolding quote_field_at_def by simp
  qed
  show "body_field rb_td_attributes q = quote_field_at 120 8 bin" "body_field rb_mr_config_id q = quote_field_at 184 48 bin"
    "body_field rb_rtmr_0 q = quote_field_at 328 48 bin" "body_field rb_rtmr_1 q = quote_field_at 376 48 bin"
    "body_field rb_rtmr_2 q = quote_field_at 424 48 bin" "body_field rb_rtmr_3 q = quote_field_at 472 48 bin"
    "body_field rb_report_data q = quote_field_at 520 64 bin"
    using at [of 4] at [of 7] at [of 10] at [of 11] at [of 12] at [of 13] at [of 14]
    by (simp_all add: f report_body2_of_def) (simp_all add: report_body2_layout_def)
  have "length (fs ! 4) = map length fs ! 4" by (simp add: len)
  then show "length (body_field rb_td_attributes q) = 8" by (simp add: f report_body2_of_def l) (simp add: report_body2_layout_def)
qed

lemma parse_ccel_returns:
  assumes "scroll_le c"
  shows "\<exists>r. cc_event_log_try_from c oc d = Some r \<and> parse_ccel c oc d = map_err (\<lambda>_. ''Parse CC Eventlog failed'') r"
proof -
  have "\<exists>r. cc_event_log_try_from c oc d = Some r"
    using parse_entries_returns [OF assms] by (auto simp: cc_event_log_try_from_def split: sum.splits)
  then show ?thesis by (auto simp: parse_ccel_def)
qed

lemma parse_ccel_Inr: "parse_ccel c oc d = Inr lg \<longleftrightarrow> cc_event_log_try_from c oc d = Some (Inr lg)"
  by (auto simp: parse_ccel_def split: option.splits)

lemma generate_parsed_claim_Inr:
  assumes "generate_parsed_claim c q l = Inr v"
  obtains m where "v = JObject m" and "sorted_object m"
    and "map_of m ''report_data'' = Some (JString (hex_encode c (body_field rb_report_data q)))"
    and "map_of m ''init_data'' = Some (JString (hex_encode c (body_field rb_mr_config_id q)))"
proof -
  from assms obtain td where v: "v = JObject (insert_all
       (opt_field ''uefi_event_logs'' (\<lambda>ccel. JArray (map (eventlog_entry_json c) (log ccel))) l @
        [(''quote'', JObject (quote_claims c q)), (''td_attributes'', JObject td),
         (''report_data'', JString (hex_encode c (body_field rb_report_data q))),
         (''init_data'', JString (hex_encode c (body_field rb_mr_config_id q)))]) [])"
    by (auto simp: generate_parsed_claim_def result_simps)
  show thesis by (rule that [OF v]) (simp_all add: sorted_insert_all map_of_insert_all)
qed

lemma tdx_verify_evidence_Inr:
  assumes "tdx_verify_evidence env rd idh e = Inr v"
  obtains bin custom q where "tx_b64_decode env (te_quote e) = Some bin"
    and "ecdsa_quote_verification (tx_dcap env) (tx_now env) bin = Inr custom" and "parse_tdx_quote (tx_read env) bin = Inr q"
    and "\<And>d. rd = RdValue d \<Longrightarrow> body_field rb_report_data q = regularize_data d 64"
    and "\<And>h. idh = IdValue h \<Longrightarrow> body_field rb_mr_config_id q = regularize_data h 48"
    and "\<And>el. te_cc_eventlog e = Some el \<Longrightarrow> el \<noteq> '''' \<Longrightarrow> \<exists>data lg. tx_b64_decode env el = Some data \<and>
      cc_event_log_try_from (tx_crates env) (tx_oc env) data = Some (Inr lg) \<and>
      replay_and_match (tx_crates env) lg (rtmr_references q) = Inr ()"
    and "\<exists>l m. generate_parsed_claim (tx_crates env) q l = Inr m \<and> extend_using_custom_claims m custom = Inr v"
proof -
  note d = assms [unfolded tdx_verify_evidence_def]
  from d have "te_quote e \<noteq> ''''" by (auto split: if_splits)
  with d obtain bin custom q l m where s: "tx_b64_decode env (te_quote e) = Some bin"
      "ecdsa_quote_verification (tx_dcap env) (tx_now env) bin = Inr custom" "parse_tdx_quote (tx_read env) bin = Inr q"
    and r: "check_report_data rd 64 (body_field rb_report_data q) ''REPORT_DATA is different from that in TDX Quote'' = Inr ()"
    and i: "check_init_data idh 48 (body_field rb_mr_config_id q) ''MRCONFIGID is different from that in TDX Quote'' = Inr ()"
    and l: "(case te_cc_eventlog e of Some el \<Rightarrow> if el \<noteq> '''' then
                and_then (ok_or (tx_b64_decode env el) ''base64'') (\<lambda>ccel_data.
                and_then (parse_ccel (tx_crates env) (tx_oc env) ccel_data) (\<lambda>ccel.
                and_then (replay_and_match (tx_crates env) ccel (rtmr_references q)) (\<lambda>_. Inr (Some ccel)))) else Inr None
          | None \<Rightarrow> Inr None) = Inr l"
    and m: "generate_parsed_claim (tx_crates env) q l = Inr m" "extend_using_custom_claims m custom = Inr v"
    unfolding if_not_P [OF \<open>te_quote e \<noteq> ''''\<close>] and_then_eq_Inr_iff ok_or_eq_Inr_iff by (elim exE conjE) (rule that; simp)
  show thesis
    by (rule that [OF s]) (use r i l m in \<open>auto simp: result_simps parse_ccel_Inr split: if_splits\<close>)
qed

subsection \<open>What accepted evidence carries\<close>

text \<open>The report data and the id of the configuration are compared with the expected values, padded with zeros or cut to the
  size of the field.\<close>

definition tdx_quote_bin :: "tdx_env \<Rightarrow> json \<Rightarrow> bytes \<Rightarrow> bool" where
  "tdx_quote_bin env evidence bin \<longleftrightarrow>
     (\<exists>e r. tx_from_value env evidence = Some e \<and> tx_b64_decode env (te_quote e) = Some bin \<and> dcap_accepts (tx_dcap env) (tx_now env) bin r)"

definition tdx_carried :: "tdx_env \<Rightarrow> carried" where
  "tdx_carried env = \<lparr>
     ca_report = (\<lambda>evidence d. \<exists>bin. tdx_quote_bin env evidence bin \<and> quote_field_at 520 64 bin = regularize_data d 64),
     ca_init = (\<lambda>evidence h. \<exists>bin. tdx_quote_bin env evidence bin \<and> quote_field_at 184 48 bin = regularize_data h 48)\<rparr>"

lemma tdx_evaluate_Inr:
  assumes "array_reader (tx_read env)" and "tdx_evaluate env evidence rd idh = Inr claims"
  obtains e bin r m where "tx_from_value env evidence = Some e" and "tx_b64_decode env (te_quote e) = Some bin"
    and "dcap_accepts (tx_dcap env) (tx_now env) bin r"
    and "\<And>d. rd = RdValue d \<Longrightarrow> quote_field_at 520 64 bin = regularize_data d 64"
    and "\<And>h. idh = IdValue h \<Longrightarrow> quote_field_at 184 48 bin = regularize_data h 48"
    and "\<And>el. te_cc_eventlog e = Some el \<Longrightarrow> el \<noteq> '''' \<Longrightarrow> \<exists>data lg. tx_b64_decode env el = Some data \<and>
      cc_event_log_try_from (tx_crates env) (tx_oc env) data = Some (Inr lg) \<and>
      list_all (\<lambda>(i, off). register_value (tx_crates env) (log lg) i Sha384 = Some (quote_field_at off 48 bin))
        [(1, 328), (2, 376), (3, 424), (4, 472)]"
    and "claims = [(JObject m, ''cpu'')]" and "map_of m ''report_data'' = Some (JString (hex_encode (tx_crates env) (quote_field_at 520 64 bin)))"
    and "map_of m ''init_data'' = Some (JString (hex_encode (tx_crates env) (quote_field_at 184 48 bin)))"
    and "map_of m ''tcb_status'' = Some (qv_result_as_str r)"
proof -
  obtain e v where e: "tx_from_value env evidence = Some e" and v: "tdx_verify_evidence env rd idh e = Inr v" "claims = [(v, ''cpu'')]"
    using assms(2) by (auto simp: tdx_evaluate_def result_simps)
  from v(1) obtain bin custom q l w where b: "tx_b64_decode env (te_quote e) = Some bin"
    and c: "ecdsa_quote_verification (tx_dcap env) (tx_now env) bin = Inr custom" and q: "parse_tdx_quote (tx_read env) bin = Inr q"
    and rd: "\<And>d. rd = RdValue d \<Longrightarrow> body_field rb_report_data q = regularize_data d 64"
    and idh: "\<And>h. idh = IdValue h \<Longrightarrow> body_field rb_mr_config_id q = regularize_data h 48"
    and el: "\<And>el. te_cc_eventlog e = Some el \<Longrightarrow> el \<noteq> '''' \<Longrightarrow> \<exists>data lg. tx_b64_decode env el = Some data \<and>
      cc_event_log_try_from (tx_crates env) (tx_oc env) data = Some (Inr lg) \<and>
      replay_and_match (tx_crates env) lg (rtmr_references q) = Inr ()"
    and w: "generate_parsed_claim (tx_crates env) q l = Inr w" "extend_using_custom_claims w custom = Inr v"
    by (rule tdx_verify_evidence_Inr) blast
  note F = quote_fields [OF assms(1) q]
  obtain r x su where r: "dcap_accepts (tx_dcap env) (tx_now env) bin r" "prepare_custom_claims_map (tx_dcap env) su x r = Inr custom"
    using ecdsa_quote_verification_Inr [OF c] by blast
  obtain m0 where m0: "w = JObject m0" "sorted_object m0"
      "map_of m0 ''report_data'' = Some (JString (hex_encode (tx_crates env) (body_field rb_report_data q)))"
      "map_of m0 ''init_data'' = Some (JString (hex_encode (tx_crates env) (body_field rb_mr_config_id q)))"
    using generate_parsed_claim_Inr [OF w(1)] by metis
  obtain m where m: "v = JObject m" using w(2) by (auto simp: m0(1) extend_using_custom_claims_def)
  note get = extend_using_custom_claims_get [OF w(2) [unfolded m0(1) m] m0(2) ecdsa_claims_keys(1) [OF c]]
  have st: "map_of m ''tcb_status'' = Some (qv_result_as_str r)"
    using w(2) tcb_status_claim(1) [OF r(2)] prepare_custom_claims_keys(2) [OF r(2)] m0(2)
    by (auto simp: m m0(1) extend_using_custom_claims_def map_of_insert_all map_of_rev_sorted)
  show thesis
  proof (rule that [OF e b r(1)])
    show "claims = [(JObject m, ''cpu'')]" using v(2) m by simp
    show "map_of m ''report_data'' = Some (JString (hex_encode (tx_crates env) (quote_field_at 520 64 bin)))"
      using get [of "''report_data''"] m0(3) by (simp add: custom_keys_def F)
    show "map_of m ''init_data'' = Some (JString (hex_encode (tx_crates env) (quote_field_at 184 48 bin)))"
      using get [of "''init_data''"] m0(4) by (simp add: custom_keys_def F)
    show "\<exists>data lg. tx_b64_decode env el = Some data \<and> cc_event_log_try_from (tx_crates env) (tx_oc env) data = Some (Inr lg) \<and>
      list_all (\<lambda>(i, off). register_value (tx_crates env) (log lg) i Sha384 = Some (quote_field_at off 48 bin))
        [(1, 328), (2, 376), (3, 424), (4, 472)]" if "te_cc_eventlog e = Some el" "el \<noteq> ''''" for el
      using el [OF that] unfolding replay_and_match_def match_references_iff by (auto simp: rtmr_references_def F)
  qed (use rd idh st F in auto)
qed

lemma array_reader_env: "array_reader (tx_read env) \<longleftrightarrow> env = env\<lparr>tx_read := read_array\<rparr>"
  by (cases env) (simp add: array_reader_def)

interpretation tdx: evidence_verifier "tdx_verifier (env\<lparr>tx_read := read_array\<rparr>)" "tdx_carried (env\<lparr>tx_read := read_array\<rparr>)" for env
proof (unfold_locales, goal_cases)
  have a: "array_reader (tx_read (env\<lparr>tx_read := read_array\<rparr>))" by (simp add: array_reader_def)
  note E = tdx_evaluate_Inr [OF a]
  case (1 evidence d idh claims)
  then have "tdx_evaluate (env\<lparr>tx_read := read_array\<rparr>) evidence (RdValue d) idh = Inr claims" by (simp add: tdx_verifier_def)
  then show ?case by (rule E) (auto simp: tdx_carried_def tdx_quote_bin_def)
next
  have a: "array_reader (tx_read (env\<lparr>tx_read := read_array\<rparr>))" by (simp add: array_reader_def)
  note E = tdx_evaluate_Inr [OF a]
  case (2 evidence rd h claims)
  then have "tdx_evaluate (env\<lparr>tx_read := read_array\<rparr>) evidence rd (IdValue h) = Inr claims" by (simp add: tdx_verifier_def)
  then show ?case by (rule E) (auto simp: tdx_carried_def tdx_quote_bin_def)
qed

lemma tdx_binds: "array_reader (tx_read env) \<Longrightarrow> binds (tdx_carried env) (tdx_verifier env)"
  using tdx.binding [of env] array_reader_env [of env] by metis

subsection \<open>A quote and its evidence\<close>

definition sample_body :: report_body2 where
  "sample_body = report_body2_of (map (\<lambda>n. replicate n 0) (butlast report_body2_layout) @ [regularize_data [1, 2, 3] 64])"

definition sample_quote :: quote where
  "sample_quote = V4 (quote_header_of ([4, 0] # map (\<lambda>n. replicate n 0) (tl quote_header_layout))) sample_body"

definition sample_tdx_env :: tdx_env where
  "sample_tdx_env = \<lparr>tx_crates = sample_crates, tx_oc = True,
     tx_from_value = (\<lambda>_. Some \<lparr>te_cc_eventlog = None, te_quote = ''q''\<rparr>), tx_b64_decode = (\<lambda>_. Some (enc_quote sample_quote)),
     tx_read = read_array, tx_dcap = sample_dcap, tx_now = 0\<rparr>"

lemma sample_quote_ok: "quote_ok sample_quote" "body_field rb_report_data sample_quote = regularize_data [1, 2, 3] 64"
  "body_field rb_td_attributes sample_quote = replicate 8 0"
  by (simp_all add: sample_quote_def sample_body_def quote_header_layout_def report_body2_layout_def body_field_def report_body2_of_def
      header_fields_def quote_header_of_def body_fields_def)

lemma sample_tdx_sel [simp]:
  "tx_crates sample_tdx_env = sample_crates" "tx_from_value sample_tdx_env j = Some \<lparr>te_cc_eventlog = None, te_quote = ''q''\<rparr>"
  "tx_b64_decode sample_tdx_env t = Some (enc_quote sample_quote)" "tx_read sample_tdx_env = read_array"
  "tx_dcap sample_tdx_env = sample_dcap" "tx_now sample_tdx_env = 0" "array_reader (tx_read sample_tdx_env)"
  by (simp_all add: sample_tdx_env_def array_reader_def)

lemma sample_tdx_parse: "parse_tdx_quote read_array (enc_quote sample_quote) = Inr sample_quote"
  using parse_tdx_quote_complete [of read_array sample_quote "[]"] sample_quote_ok(1) by (simp add: array_reader_def)

lemma sample_tdx_accepts: "\<exists>claims. tdx_evaluate sample_tdx_env JNull (RdValue [1, 2, 3]) IdNotProvided = Inr claims"
proof -
  obtain m where "ecdsa_quote_verification sample_dcap 0 (enc_quote sample_quote) = Inr m" using sample_dcap_verifies by blast
  then show ?thesis
    by (simp add: tdx_evaluate_def tdx_verify_evidence_def sample_tdx_parse sample_quote_ok generate_parsed_claim_def
        parse_td_attributes_def extend_using_custom_claims_def check_report_data_def check_init_data_def)
qed

subsection \<open>Properties\<close>

text \<open>C11. TDX evidence that is accepted is sound: the DCAP library accepted the quote with a verdict that is not terminal, which is the
  claimed TCB status; the bytes of the quote at the offset of REPORTDATA are the expected report data and those at MRCONFIGID the
  expected hash of the init data, both padded with zeros or cut to the field; an event log in the evidence parses and replays to the
  four RTMRs of the quote; and the claims report the fields of that quote.\<close>

theorem tdx_evidence_sound:
  assumes "array_reader (tx_read env)" and "tdx_evaluate env evidence (RdValue d) idh = Inr claims"
  shows "\<exists>e bin r m. tx_from_value env evidence = Some e \<and> tx_b64_decode env (te_quote e) = Some bin \<and>
    dcap_accepts (tx_dcap env) (tx_now env) bin r \<and> quote_field_at 520 64 bin = regularize_data d 64 \<and>
    (\<forall>h. idh = IdValue h \<longrightarrow> quote_field_at 184 48 bin = regularize_data h 48) \<and>
    (\<forall>el. te_cc_eventlog e = Some el \<and> el \<noteq> '''' \<longrightarrow> (\<exists>data lg. tx_b64_decode env el = Some data \<and>
       cc_event_log_try_from (tx_crates env) (tx_oc env) data = Some (Inr lg) \<and>
       list_all (\<lambda>(i, off). register_value (tx_crates env) (log lg) i Sha384 = Some (quote_field_at off 48 bin))
         [(1, 328), (2, 376), (3, 424), (4, 472)])) \<and>
    claims = [(JObject m, ''cpu'')] \<and> map_of m ''tcb_status'' = Some (qv_result_as_str r) \<and>
    map_of m ''report_data'' = Some (JString (hex_encode (tx_crates env) (quote_field_at 520 64 bin))) \<and>
    map_of m ''init_data'' = Some (JString (hex_encode (tx_crates env) (quote_field_at 184 48 bin)))"
  using assms(2) by (rule tdx_evaluate_Inr [OF assms(1)]) blast

theorem tdx_evidence_sound_witness:
  "\<exists>claims m. tdx_evaluate sample_tdx_env JNull (RdValue [1, 2, 3]) IdNotProvided = Inr claims \<and> claims = [(JObject m, ''cpu'')] \<and>
     quote_field_at 520 64 (enc_quote sample_quote) = regularize_data [1, 2, 3] 64"
proof -
  obtain claims where c: "tdx_evaluate sample_tdx_env JNull (RdValue [1, 2, 3]) IdNotProvided = Inr claims" using sample_tdx_accepts ..
  from tdx_evidence_sound [OF sample_tdx_sel(7) c] show ?thesis using c by auto
qed

text \<open>C12. The parser of TD quotes is the inverse of the format: it returns a quote exactly when the bytes start with the encoding of
  that quote, with every field of its size and the body that goes with the version and the type.\<close>

theorem tdx_quote_roundtrip:
  assumes "array_reader g"
  shows "parse_tdx_quote g bin = Inr q \<longleftrightarrow> quote_ok q \<and> (\<exists>sig. bin = enc_quote q @ sig)"
  by (rule parse_tdx_quote_eq_Inr_iff [OF assms])

theorem tdx_quote_roundtrip_witness: "parse_tdx_quote read_array (enc_quote sample_quote @ [1, 2, 3]) = Inr sample_quote"
  using tdx_quote_roundtrip [of read_array "enc_quote sample_quote @ [1, 2, 3]" sample_quote] sample_quote_ok(1)
  by (auto simp: array_reader_def)

text \<open>C13. The parser panics on exactly the quotes that end inside the header, or, for version 5, inside the type or, when the type is
  known, inside the size; every other malformed quote is an error.\<close>

theorem tdx_quote_panics_iff:
  assumes "array_reader g"
  shows "panics (parse_tdx_quote g bin) \<longleftrightarrow> length bin < 48 \<or>
    take 2 bin = [5, 0] \<and> (length bin < 50 \<or> length bin < 54 \<and> take 2 (drop 48 bin) \<in> {[2, 0], [3, 0]})"
proof (cases "length bin < 48")
  case True
  then show ?thesis by (simp add: parse_tdx_quote_short)
next
  case False
  have v: "qh_version (header_at_start bin) = take 2 bin"
    using version_at_start [OF header_at_start_fields(1), of bin "drop 48 bin"] header_at_start_fields(2) [of bin] False by simp
  have t: "take 2 (drop 48 bin) \<in> {[2, 0], [3, 0]} \<longleftrightarrow> (\<exists>t. quote_v5_type_from_bytes (take 2 (drop 48 bin)) = Inr t)"
    if "50 \<le> length bin"
    using that quote_v5_type_from_bytes_iff [of "take 2 (drop 48 bin)"] quote_v5_type.nchotomy
    by (auto simp: quote_v5_type_as_bytes_def le_enc_2 split: quote_v5_type.splits)
  have "\<not> panics (quote_v5_type_from_bytes bs)" for bs
    by (auto simp: quote_v5_type_from_bytes_def Let_def slice_in_range)
  moreover have "panics (case ty of TDX10 \<Rightarrow> a | TDX15 \<Rightarrow> b) \<longleftrightarrow> (ty = TDX10 \<and> panics a) \<or> (ty = TDX15 \<and> panics b)" for ty and a b :: "quote anyhow"
    by (cases ty) simp_all
  ultimately show ?thesis using False t parse_tdx_quote_long [OF assms, of bin] by (simp add: Let_def v) (auto split: if_splits)
qed

theorem tdx_quote_panics_iff_witness: "panics (parse_tdx_quote read_array ([5, 0] @ replicate 46 0 @ [2, 0, 9]))"
  using tdx_quote_panics_iff [of read_array "[5, 0] @ replicate 46 0 @ [2, 0, 9]"] by (simp add: array_reader_def)

end
