(* ===== verification/Sgx.thy ===== *)
theory Sgx
  imports Intel_Dcap Struct_Layout Tcg_Enum
begin

text \<open>
  The verifier of Intel SGX (\<^verbatim>\<open>deps/verifier/src/sgx/\<close>): the parser of quotes of version 3, their claims, and the
  verification of evidence.
\<close>

subsection \<open>Quotes\<close>

record sgx_attributes =
  sa_flags :: bytes
  sa_xfrm :: bytes

record sgx_report_body =
  sb_cpu_svn :: bytes
  sb_misc_select :: bytes
  sb_reserved1 :: bytes
  sb_isv_ext_prod_id :: bytes
  sb_attributes :: sgx_attributes
  sb_mr_enclave :: bytes
  sb_reserved2 :: bytes
  sb_mr_signer :: bytes
  sb_reserved3 :: bytes
  sb_config_id :: bytes
  sb_isv_prod_id :: bytes
  sb_isv_svn :: bytes
  sb_config_svn :: bytes
  sb_reserved4 :: bytes
  sb_isv_family_id :: bytes
  sb_report_data :: bytes

record sgx_quote_header =
  sh_version :: bytes
  sh_att_key_type :: bytes
  sh_att_key_data_0 :: bytes
  sh_qe_svn :: bytes
  sh_pce_svn :: bytes
  sh_vendor_id :: bytes
  sh_user_data :: bytes

record sgx_quote3 =
  sq_header :: sgx_quote_header
  sq_report_body :: sgx_report_body
  sq_signature_data_len :: u32

definition QUOTE_SIZE :: usize where
  "QUOTE_SIZE = 436"

text \<open>The fields of the header and of the report body in order, those of the attributes among them.\<close>

definition sgx_header_layout :: "nat list" where
  "sgx_header_layout = [2, 2, 4, 2, 2, 16, 20]"

definition sgx_body_layout :: "nat list" where
  "sgx_body_layout = [16, 4, 12, 16, 8, 8, 32, 32, 32, 32, 64, 2, 2, 2, 42, 16, 64]"

definition sgx_header_of :: "bytes list \<Rightarrow> sgx_quote_header" where
  "sgx_header_of fs = \<lparr>sh_version = fs ! 0, sh_att_key_type = fs ! 1, sh_att_key_data_0 = fs ! 2, sh_qe_svn = fs ! 3,
     sh_pce_svn = fs ! 4, sh_vendor_id = fs ! 5, sh_user_data = fs ! 6\<rparr>"

definition sgx_body_of :: "bytes list \<Rightarrow> sgx_report_body" where
  "sgx_body_of fs = \<lparr>sb_cpu_svn = fs ! 0, sb_misc_select = fs ! 1, sb_reserved1 = fs ! 2, sb_isv_ext_prod_id = fs ! 3,
     sb_attributes = \<lparr>sa_flags = fs ! 4, sa_xfrm = fs ! 5\<rparr>, sb_mr_enclave = fs ! 6, sb_reserved2 = fs ! 7, sb_mr_signer = fs ! 8,
     sb_reserved3 = fs ! 9, sb_config_id = fs ! 10, sb_isv_prod_id = fs ! 11, sb_isv_svn = fs ! 12, sb_config_svn = fs ! 13,
     sb_reserved4 = fs ! 14, sb_isv_family_id = fs ! 15, sb_report_data = fs ! 16\<rparr>"

definition pread_sgx_quote3 :: "crates \<Rightarrow> array_read \<Rightarrow> bytes \<Rightarrow> usize \<Rightarrow> sgx_quote3 option" where
  "pread_sgx_quote3 c g d i =
     Option.bind (pread_fields g sgx_header_layout d i) (\<lambda>(hs, i).
     Option.bind (pread_fields g sgx_body_layout d i) (\<lambda>(bs, i).
     Option.bind (gread_u32 c d i) (\<lambda>(len, i).
       Some \<lparr>sq_header = sgx_header_of hs, sq_report_body = sgx_body_of bs, sq_signature_data_len = len\<rparr>)))"

definition parse_sgx_quote :: "crates \<Rightarrow> array_read \<Rightarrow> bytes \<Rightarrow> sgx_quote3 anyhow" where
  "parse_sgx_quote c g quote =
     and_then (slice quote 0 QUOTE_SIZE) (\<lambda>quote_body.
       ok_or (pread_sgx_quote3 c g quote_body 0) ''Parse SGX quote failed'')"

subsection \<open>Claims\<close>

definition sgx_generate_parsed_claims :: "crates \<Rightarrow> sgx_quote3 \<Rightarrow> json anyhow" where
  "sgx_generate_parsed_claims c quote =
     (let hex = (\<lambda>b. JString (hex_encode c b)); header = sq_header quote; body = sq_report_body quote;
          quote_header = insert_all
            [(''version'', hex (sh_version header)), (''att_key_type'', hex (sh_att_key_type header)),
             (''att_key_data_0'', hex (sh_att_key_data_0 header)), (''qe_svn'', hex (sh_qe_svn header)),
             (''pce_svn'', hex (sh_pce_svn header)), (''vendor_id'', hex (sh_vendor_id header)),
             (''user_data'', hex (sh_user_data header))] [];
          quote_body = insert_all
            [(''cpu_svn'', hex (sb_cpu_svn body)), (''misc_select'', hex (sb_misc_select body)),
             (''reserved1'', hex (sb_reserved1 body)), (''isv_ext_prod_id'', hex (sb_isv_ext_prod_id body)),
             (''attributes.flags'', hex (sa_flags (sb_attributes body))),
             (''attributes.xfrm'', hex (sa_xfrm (sb_attributes body))), (''mr_enclave'', hex (sb_mr_enclave body)),
             (''reserved2'', hex (sb_reserved2 body)), (''mr_signer'', hex (sb_mr_signer body)),
             (''reserved3'', hex (sb_reserved3 body)), (''config_id'', hex (sb_config_id body)),
             (''isv_prod_id'', hex (sb_isv_prod_id body)), (''isv_svn'', hex (sb_isv_svn body)),
             (''config_svn'', hex (sb_config_svn body)), (''reserved4'', hex (sb_reserved4 body)),
             (''isv_family_id'', hex (sb_isv_family_id body)), (''report_data'', hex (sb_report_data body))] []
      in Inr (JObject (insert_all
            [(''header'', JObject quote_header), (''body'', JObject quote_body),
             (''report_data'', hex (sb_report_data body)), (''init_data'', hex (sb_config_id body))] [])))"

subsection \<open>The verifier\<close>

record sgx_env =
  sx_crates :: crates
  sx_from_value :: "json \<Rightarrow> string option"
  sx_b64_decode :: "string \<Rightarrow> bytes option"
  sx_read :: array_read
  sx_dcap :: dcap
  sx_now :: time

text \<open>The evidence of SGX is a structure with one field, the quote.\<close>

definition sgx_verify_evidence :: "sgx_env \<Rightarrow> report_data \<Rightarrow> init_data_hash \<Rightarrow> string \<Rightarrow> json anyhow" where
  "sgx_verify_evidence env expected_report_data expected_init_data_hash evidence_quote =
     (if evidence_quote = '''' then bail ''SGX Quote is empty.''
      else
        and_then (ok_or (sx_b64_decode env evidence_quote) ''base64'') (\<lambda>quote_bin.
        and_then (with_context ''Evidence's identity verification error.''
            (ecdsa_quote_verification (sx_dcap env) (sx_now env) quote_bin)) (\<lambda>custom_claims.
        and_then (parse_sgx_quote (sx_crates env) (sx_read env) quote_bin) (\<lambda>quote.
        and_then (check_report_data expected_report_data 64 (sb_report_data (sq_report_body quote))
            ''REPORT_DATA is different from that in SGX Quote'') (\<lambda>_.
        and_then (check_init_data expected_init_data_hash 64 (sb_config_id (sq_report_body quote))
            ''CONFIGID is different from that in SGX Quote'') (\<lambda>_.
        and_then (sgx_generate_parsed_claims (sx_crates env) quote) (\<lambda>claim.
          extend_using_custom_claims claim custom_claims)))))))"

definition sgx_evaluate ::
  "sgx_env \<Rightarrow> json \<Rightarrow> report_data \<Rightarrow> init_data_hash \<Rightarrow> (json \<times> tee_class) list anyhow" where
  "sgx_evaluate env evidence expected_report_data expected_init_data_hash =
     and_then (ok_or (sx_from_value env evidence) ''Deserialize Quote failed.'') (\<lambda>tee_evidence.
     and_then (map_err (\<lambda>e. ''SGX Verifier: '' @ e)
         (sgx_verify_evidence env expected_report_data expected_init_data_hash tee_evidence)) (\<lambda>claims.
       Inr [(claims, ''cpu'')]))"

definition sgx_verifier :: "sgx_env \<Rightarrow> verifier" where
  "sgx_verifier env = \<lparr>ve_evaluate = sgx_evaluate env, ve_generate_supplemental_challenge = default_supplemental_challenge\<rparr>"

subsection \<open>Where the fields are\<close>

lemma sgx_layouts [simp]:
  "sum_list sgx_header_layout = 48" "sum_list sgx_body_layout = 384" "sgx_header_layout \<noteq> []" "sgx_body_layout \<noteq> []"
  "length sgx_body_layout = 17"
  by (simp_all add: sgx_header_layout_def sgx_body_layout_def)

definition sgx_field_at :: "nat \<Rightarrow> nat \<Rightarrow> bytes \<Rightarrow> bytes" where
  "sgx_field_at off n bin = take n (drop (48 + off) bin)"

lemma parse_sgx_quote_short: "length bin < 436 \<Longrightarrow> parse_sgx_quote c g bin = panic ''slice index out of range''"
  by (simp add: parse_sgx_quote_def QUOTE_SIZE_def slice_def slice_get_def)

lemma cut_take: "sum_list ns \<le> n \<Longrightarrow> cut ns (take n xs) = cut ns xs"
  by (induction ns arbitrary: n xs) (auto simp: drop_take)

lemma parse_sgx_quote_long:
  assumes "array_reader g" and "scroll_le c" and "436 \<le> length bin"
  shows "parse_sgx_quote c g bin = Inr \<lparr>sq_header = sgx_header_of (cut sgx_header_layout bin),
    sq_report_body = sgx_body_of (cut sgx_body_layout (drop 48 bin)), sq_signature_data_len = from_le_bytes (take 4 (drop 432 bin))\<rparr>"
proof -
  define b where "b = take 436 bin"
  have l: "length b = 436" using assms(3) by (simp add: b_def)
  have e: "drop 48 b = take 388 (drop 48 bin)" "take 4 (drop 432 b) = take 4 (drop 432 bin)" by (simp_all add: b_def drop_take)
  have c: "cut sgx_header_layout b = cut sgx_header_layout bin" "cut sgx_body_layout (drop 48 b) = cut sgx_body_layout (drop 48 bin)"
    using cut_take [of sgx_header_layout 436 bin] cut_take [of sgx_body_layout 388 "drop 48 bin"] unfolding e by (simp_all add: b_def)
  have "pread_sgx_quote3 c g b 0 = Some \<lparr>sq_header = sgx_header_of (cut sgx_header_layout b),
      sq_report_body = sgx_body_of (cut sgx_body_layout (drop 48 b)), sq_signature_data_len = from_le_bytes (take 4 (drop 432 b))\<rparr>"
    using assms(1,2) l by (simp add: pread_sgx_quote3_def pread_fields_eq gread_le_def)
  moreover have "slice bin 0 436 = (Inr b :: bytes anyhow)" using assms(3) by (simp add: slice_in_range b_def)
  ultimately show ?thesis by (simp add: parse_sgx_quote_def QUOTE_SIZE_def c e(2))
qed

lemma sgx_fields:
  assumes "array_reader g" and "scroll_le c" and "parse_sgx_quote c g bin = Inr q"
  shows "sb_report_data (sq_report_body q) = sgx_field_at 320 64 bin" and "sb_config_id (sq_report_body q) = sgx_field_at 192 64 bin"
proof -
  have "436 \<le> length bin" using assms(3) parse_sgx_quote_short [of bin c g] by (cases "length bin < 436") auto
  with assms have "sq_report_body q = sgx_body_of (cut sgx_body_layout (drop 48 bin))" by (auto simp: parse_sgx_quote_long)
  then show "sb_report_data (sq_report_body q) = sgx_field_at 320 64 bin" "sb_config_id (sq_report_body q) = sgx_field_at 192 64 bin"
    by (simp_all add: sgx_body_of_def sgx_body_layout_def sgx_field_at_def)
qed

subsection \<open>What accepted evidence carries\<close>

definition sgx_quote_bin :: "sgx_env \<Rightarrow> json \<Rightarrow> bytes \<Rightarrow> bool" where
  "sgx_quote_bin env evidence bin \<longleftrightarrow>
     (\<exists>e r. sx_from_value env evidence = Some e \<and> sx_b64_decode env e = Some bin \<and> dcap_accepts (sx_dcap env) (sx_now env) bin r)"

definition sgx_carried :: "sgx_env \<Rightarrow> carried" where
  "sgx_carried env = \<lparr>
     ca_report = (\<lambda>evidence d. \<exists>bin. sgx_quote_bin env evidence bin \<and> sgx_field_at 320 64 bin = regularize_data d 64),
     ca_init = (\<lambda>evidence h. \<exists>bin. sgx_quote_bin env evidence bin \<and> sgx_field_at 192 64 bin = regularize_data h 64)\<rparr>"

lemma sgx_verify_evidence_Inr:
  assumes "sgx_verify_evidence env rd idh e = Inr v"
  obtains bin custom q where "sx_b64_decode env e = Some bin"
    and "ecdsa_quote_verification (sx_dcap env) (sx_now env) bin = Inr custom" and "parse_sgx_quote (sx_crates env) (sx_read env) bin = Inr q"
    and "\<And>d. rd = RdValue d \<Longrightarrow> sb_report_data (sq_report_body q) = regularize_data d 64"
    and "\<And>h. idh = IdValue h \<Longrightarrow> sb_config_id (sq_report_body q) = regularize_data h 64"
    and "\<exists>m. sgx_generate_parsed_claims (sx_crates env) q = Inr m \<and> extend_using_custom_claims m custom = Inr v"
proof -
  note d = assms [unfolded sgx_verify_evidence_def]
  from d have n: "e \<noteq> ''''" by (auto split: if_splits)
  with d obtain bin custom q m where s: "sx_b64_decode env e = Some bin"
      "ecdsa_quote_verification (sx_dcap env) (sx_now env) bin = Inr custom" "parse_sgx_quote (sx_crates env) (sx_read env) bin = Inr q"
    and r: "check_report_data rd 64 (sb_report_data (sq_report_body q)) ''REPORT_DATA is different from that in SGX Quote'' = Inr ()"
    and i: "check_init_data idh 64 (sb_config_id (sq_report_body q)) ''CONFIGID is different from that in SGX Quote'' = Inr ()"
    and m: "sgx_generate_parsed_claims (sx_crates env) q = Inr m" "extend_using_custom_claims m custom = Inr v"
    unfolding if_not_P [OF n] and_then_eq_Inr_iff ok_or_eq_Inr_iff with_context_eq_Inr by (elim exE conjE) (rule that; simp)
  show thesis by (rule that [OF s]) (use r i m in \<open>auto split: if_splits\<close>)
qed

lemma sgx_evaluate_Inr:
  assumes "array_reader (sx_read env)" and "scroll_le (sx_crates env)" and "sgx_evaluate env evidence rd idh = Inr claims"
  obtains e bin r where "sx_from_value env evidence = Some e" and "sx_b64_decode env e = Some bin"
    and "dcap_accepts (sx_dcap env) (sx_now env) bin r"
    and "\<And>d. rd = RdValue d \<Longrightarrow> sgx_field_at 320 64 bin = regularize_data d 64"
    and "\<And>h. idh = IdValue h \<Longrightarrow> sgx_field_at 192 64 bin = regularize_data h 64"
proof -
  obtain e v where e: "sx_from_value env evidence = Some e" and v: "sgx_verify_evidence env rd idh e = Inr v"
    using assms(3) by (auto simp: sgx_evaluate_def result_simps)
  from v obtain bin custom q where b: "sx_b64_decode env e = Some bin"
    and c: "ecdsa_quote_verification (sx_dcap env) (sx_now env) bin = Inr custom" and q: "parse_sgx_quote (sx_crates env) (sx_read env) bin = Inr q"
    and rd: "\<And>d. rd = RdValue d \<Longrightarrow> sb_report_data (sq_report_body q) = regularize_data d 64"
    and idh: "\<And>h. idh = IdValue h \<Longrightarrow> sb_config_id (sq_report_body q) = regularize_data h 64"
    by (rule sgx_verify_evidence_Inr) blast
  obtain r where "dcap_accepts (sx_dcap env) (sx_now env) bin r" using ecdsa_quote_verification_Inr [OF c] by blast
  then show thesis using that [OF e b] rd idh sgx_fields [OF assms(1,2) q] by metis
qed

text \<open>The environment with the third-party readers as documented.\<close>

definition sgx_documented :: "sgx_env \<Rightarrow> sgx_env" where
  "sgx_documented env = env\<lparr>sx_read := read_array, sx_crates := (sx_crates env)\<lparr>gread_u8 := gread_le 1, gread_u16 := gread_le 2,
     gread_u32 := gread_le 4, gread_u64 := gread_le 8, read_u16 := from_le_bytes\<rparr>\<rparr>"

lemma sgx_documented_laws: "array_reader (sx_read (sgx_documented env))" "scroll_le (sx_crates (sgx_documented env))"
  unfolding sgx_documented_def array_reader_def scroll_le_def by simp_all

lemma sgx_documented_id: "array_reader (sx_read env) \<Longrightarrow> scroll_le (sx_crates env) \<Longrightarrow> sgx_documented env = env"
  unfolding sgx_documented_def array_reader_def scroll_le_def by (cases env; cases "sx_crates env"; simp)

interpretation sgx: evidence_verifier "sgx_verifier (sgx_documented env)" "sgx_carried (sgx_documented env)" for env
proof (unfold_locales, goal_cases)
  case (1 evidence d idh claims)
  then have "sgx_evaluate (sgx_documented env) evidence (RdValue d) idh = Inr claims" by (simp add: sgx_verifier_def)
  then show ?case by (rule sgx_evaluate_Inr [OF sgx_documented_laws]) (auto simp: sgx_carried_def sgx_quote_bin_def)
next
  case (2 evidence rd h claims)
  then have "sgx_evaluate (sgx_documented env) evidence rd (IdValue h) = Inr claims" by (simp add: sgx_verifier_def)
  then show ?case by (rule sgx_evaluate_Inr [OF sgx_documented_laws]) (auto simp: sgx_carried_def sgx_quote_bin_def)
qed

lemma sgx_binds:
  "array_reader (sx_read env) \<Longrightarrow> scroll_le (sx_crates env) \<Longrightarrow> binds (sgx_carried env) (sgx_verifier env)"
  using sgx.binding [of env] by (simp add: sgx_documented_id)

end
