(* ===== verification/Snp.thy ===== *)
theory Snp
  imports Verifier_Core
begin

text \<open>
  The verifier of AMD SEV-SNP (\<^verbatim>\<open>deps/verifier/src/snp/mod.rs\<close>): the choice of the vendor certificates, the endorsement
  key from the evidence or from AMD's key distribution service, the report's signature and TCB, and the claims. The
  crates \<^verbatim>\<open>sev\<close>, \<^verbatim>\<open>openssl\<close>, \<^verbatim>\<open>x509_parser\<close>, \<^verbatim>\<open>asn1_rs\<close> and \<^verbatim>\<open>reqwest\<close> are the record \<open>snp_crates\<close>, over a type \<open>'c\<close> of
  certificates; a call that returns an error is \<open>None\<close>.
\<close>

subsection \<open>Reports and certificates\<close>

datatype processor_generation = Milan | Genoa | Turin

text \<open>What the code reads of \<^verbatim>\<open>sev\<close>'s attestation report.\<close>

record tcb_version =
  tcb_fmc :: "byte option"
  tcb_bootloader :: byte
  tcb_tee :: byte
  tcb_snp :: byte
  tcb_microcode :: byte

record guest_policy =
  gp_abi_major :: byte
  gp_abi_minor :: byte
  gp_smt_allowed :: bool
  gp_migrate_ma_allowed :: bool
  gp_debug_allowed :: bool
  gp_single_socket_required :: bool

record attestation_report =
  ar_version :: u32
  ar_policy :: guest_policy
  ar_vmpl :: u32
  ar_tsme_enabled :: bool
  ar_smt_enabled :: bool
  ar_report_data :: bytes
  ar_measurement :: bytes
  ar_host_data :: bytes
  ar_reported_tcb :: tcb_version
  ar_cpuid_fam_id :: "byte option"
  ar_cpuid_mod_id :: "byte option"
  ar_chip_id :: bytes

datatype cert_type = ARK | ASK | VCEK | VLEK | OtherCert

record snp_evidence =
  sn_attestation_report :: attestation_report
  sn_cert_chain :: "(cert_type \<times> bytes) list option"

datatype vendor_endorsement_key = Vcek | Vlek

record 'c vendor_certificates =
  vn_ask :: 'c
  vn_ark :: 'c
  vn_asvk :: 'c

text \<open>The extensions that hold the id of the chip and the versions of the TCB.\<close>

datatype snp_oid = HW_ID_OID | UCODE_SPL_OID | SNP_SPL_OID | TEE_SPL_OID | LOADER_SPL_OID | FMC_SPL_OID

text \<open>
  \<open>sc_pem\<close> are the cached chains of the vendor; \<open>sc_signed a b\<close> is \<^verbatim>\<open>(&a, &b).verify()\<close>; \<open>sc_chain_verify ark ask vek\<close> verifies
  a chain; \<open>sc_report_signed\<close> the signature of a report. \<open>sc_parse_der\<close> re-encodes and parses a certificate;
  \<open>sc_extension\<close> is \<^verbatim>\<open>get_extension_unique\<close>, whose value may be absent. \<open>sc_common_names\<close> are the entries of the subject
  under the common name, each \<open>None\<close> when it is not UTF-8. \<open>sc_http_get\<close> gives the status and the body.
\<close>

record ('c, 't) snp_crates =
  sc_from_value :: "json \<Rightarrow> snp_evidence option"
  sc_pem :: "processor_generation \<Rightarrow> bytes"
  sc_stack_from_pem :: "bytes \<Rightarrow> 'c list option"
  sc_from_bytes :: "bytes \<Rightarrow> 'c option"
  sc_signed :: "'c \<Rightarrow> 'c \<Rightarrow> bool"
  sc_chain_verify :: "'c \<Rightarrow> 'c \<Rightarrow> 'c \<Rightarrow> bool"
  sc_report_signed :: "'c \<Rightarrow> attestation_report \<Rightarrow> bool"
  sc_parse_der :: "'c \<Rightarrow> 't option"
  sc_extension :: "'t \<Rightarrow> snp_oid \<Rightarrow> bytes option option"
  sc_octet_string_from_der :: "bytes \<Rightarrow> bytes option"
  sc_integer_from_der :: "bytes \<Rightarrow> int option"
  sc_common_names :: "'c \<Rightarrow> string option list"
  sc_http_get :: "string \<Rightarrow> (nat \<times> bytes option) option"
  sc_hex_encode :: "bytes \<Rightarrow> string"
  sc_b64_encode :: "bytes \<Rightarrow> string"

definition REPORT_VERSION_MIN :: u32 where
  "REPORT_VERSION_MIN = 3"

definition REPORT_VERSION_MAX :: u32 where
  "REPORT_VERSION_MAX = 5"

definition vendor_certs_of :: "('c, 't) snp_crates \<Rightarrow> processor_generation \<Rightarrow> 'c vendor_certificates anyhow" where
  "vendor_certs_of c g =
     (case sc_stack_from_pem c (sc_pem c g) of
        Some [ask, ark, asvk] \<Rightarrow> Inr \<lparr>vn_ask = ask, vn_ark = ark, vn_asvk = asvk\<rparr>
      | Some _ \<Rightarrow> panic ''Malformed cached Vendor Certs''
      | None \<Rightarrow> panic ''unwrap'')"

text \<open>The map is built for all generations when it is first used.\<close>

definition CERT_CHAINS :: "('c, 't) snp_crates \<Rightarrow> (processor_generation \<rightharpoonup> 'c vendor_certificates) anyhow" where
  "CERT_CHAINS c =
     and_then (vendor_certs_of c Milan) (\<lambda>milan.
     and_then (vendor_certs_of c Genoa) (\<lambda>genoa.
     and_then (vendor_certs_of c Turin) (\<lambda>turin.
       Inr [Milan \<mapsto> milan, Genoa \<mapsto> genoa, Turin \<mapsto> turin])))"

subsection \<open>Extensions of certificates\<close>

definition oid_value :: "('c, 't) snp_crates \<Rightarrow> 't \<Rightarrow> snp_oid \<Rightarrow> bytes anyhow" where
  "oid_value c cert oid =
     and_then (ok_or (sc_extension c cert oid) ''x509'') (\<lambda>ext. ok_or ext ''Oid not found'')"

definition get_oid_octets :: "('c, 't) snp_crates \<Rightarrow> nat \<Rightarrow> 't \<Rightarrow> snp_oid \<Rightarrow> bytes anyhow" where
  "get_oid_octets c n vcek oid =
     and_then (oid_value c vcek oid) (\<lambda>val.
     if length val = n then Inr val
     else
       and_then (ok_or (sc_octet_string_from_der c val) ''asn1'') (\<lambda>val_octet.
       and_then (ensure (length val_octet = n) ''Unexpected data size'') (\<lambda>_. Inr val_octet)))"

definition get_oid_int :: "('c, 't) snp_crates \<Rightarrow> 't \<Rightarrow> snp_oid \<Rightarrow> byte anyhow" where
  "get_oid_int c cert oid =
     and_then (oid_value c cert oid) (\<lambda>val.
     and_then (ok_or (sc_integer_from_der c val) ''asn1'') (\<lambda>val_int.
     and_then (ensure (0 \<le> val_int \<and> val_int < 256) ''Unexpected data size'') (\<lambda>_. Inr (of_int val_int))))"

definition get_common_name :: "('c, 't) snp_crates \<Rightarrow> 'c \<Rightarrow> string anyhow" where
  "get_common_name c cert =
     (case sc_common_names c cert of
        [e] \<Rightarrow> ok_or e ''utf8''
      | _ \<Rightarrow> bail ''No CN found'')"

text \<open>The checks of the id of the chip and of the versions that both SNP verifiers make.\<close>

definition check_oid :: "('c, 't) snp_crates \<Rightarrow> 't \<Rightarrow> snp_oid \<Rightarrow> byte \<Rightarrow> string \<Rightarrow> unit anyhow" where
  "check_oid c cert oid expected msg =
     and_then (get_oid_int c cert oid) (\<lambda>v. ensure (v = expected) msg)"

definition verify_report_tcb :: "('c, 't) snp_crates \<Rightarrow> attestation_report \<Rightarrow> 'c \<Rightarrow> processor_generation \<Rightarrow> unit anyhow" where
  "verify_report_tcb c report vek proc_gen =
     and_then (ok_or (sc_parse_der c vek) ''der'') (\<lambda>parsed_endorsement_key.
     and_then (with_context ''No common name found in certificate'' (get_common_name c vek)) (\<lambda>common_name.
     and_then (if common_name = ''VCEK''
         then and_then (get_oid_octets c 64 parsed_endorsement_key HW_ID_OID) (\<lambda>id. ensure (id = ar_chip_id report) ''Chip ID mismatch'')
         else Inr ()) (\<lambda>_.
     let tcb = ar_reported_tcb report in
     and_then (check_oid c parsed_endorsement_key UCODE_SPL_OID (tcb_microcode tcb) ''Microcode version mismatch'') (\<lambda>_.
     and_then (check_oid c parsed_endorsement_key SNP_SPL_OID (tcb_snp tcb) ''SNP version mismatch'') (\<lambda>_.
     and_then (check_oid c parsed_endorsement_key TEE_SPL_OID (tcb_tee tcb) ''TEE version mismatch'') (\<lambda>_.
     and_then (check_oid c parsed_endorsement_key LOADER_SPL_OID (tcb_bootloader tcb) ''Boot loader version mismatch'') (\<lambda>_.
     if proc_gen = Turin then
       and_then (get_oid_int c parsed_endorsement_key FMC_SPL_OID) (\<lambda>fmc.
         case tcb_fmc tcb of
           None \<Rightarrow> panic ''unwrap''
         | Some f \<Rightarrow> ensure (fmc = f) ''FMC version mismatch'')
     else Inr ())))))))"

subsection \<open>Claims\<close>

definition json_u8 :: "byte \<Rightarrow> json" where
  "json_u8 b = JNumber (PosInt (ucast b))"

definition snp_parse_tee_evidence :: "('c, 't) snp_crates \<Rightarrow> attestation_report \<Rightarrow> json" where
  "snp_parse_tee_evidence c report =
     (let policy = ar_policy report; tcb = ar_reported_tcb report in
      json_object
       [(''policy_abi_major'', json_u8 (gp_abi_major policy)),
        (''policy_abi_minor'', json_u8 (gp_abi_minor policy)),
        (''policy_smt_allowed'', JBool (gp_smt_allowed policy)),
        (''policy_migrate_ma'', JBool (gp_migrate_ma_allowed policy)),
        (''policy_debug_allowed'', JBool (gp_debug_allowed policy)),
        (''policy_single_socket'', JBool (gp_single_socket_required policy)),
        (''reported_tcb_bootloader'', json_u8 (tcb_bootloader tcb)),
        (''reported_tcb_tee'', json_u8 (tcb_tee tcb)),
        (''reported_tcb_snp'', json_u8 (tcb_snp tcb)),
        (''reported_tcb_microcode'', json_u8 (tcb_microcode tcb)),
        (''platform_tsme_enabled'', JBool (ar_tsme_enabled report)),
        (''platform_smt_enabled'', JBool (ar_smt_enabled report)),
        (''measurement'', JString (sc_b64_encode c (ar_measurement report))),
        (''report_data'', JString (sc_b64_encode c (ar_report_data report))),
        (''init_data'', JString (sc_b64_encode c (ar_host_data report)))])"

subsection \<open>The key distribution service\<close>

definition KDS_CERT_SITE :: string where
  "KDS_CERT_SITE = ''https://kdsintf.amd.com''"

definition KDS_VCEK :: string where
  "KDS_VCEK = ''/vcek/v1''"

definition proc_name :: "processor_generation \<Rightarrow> string" where
  "proc_name g = (case g of Milan \<Rightarrow> ''Milan'' | Genoa \<Rightarrow> ''Genoa'' | Turin \<Rightarrow> ''Turin'')"

definition fmt02 :: "byte \<Rightarrow> string" where
  "fmt02 b = pad_zero 2 (fmt_dec (unat b))"

definition vcek_url :: "('c, 't) snp_crates \<Rightarrow> attestation_report \<Rightarrow> processor_generation \<Rightarrow> string anyhow" where
  "vcek_url c att_report proc_gen =
     and_then (if ar_chip_id att_report \<noteq> replicate 64 0 then
         (case proc_gen of
            Turin \<Rightarrow> and_then (slice (ar_chip_id att_report) 0 8) (\<lambda>shorter_bytes. Inr (sc_hex_encode c shorter_bytes))
          | _ \<Rightarrow> Inr (sc_hex_encode c (ar_chip_id att_report)))
       else bail ''Hardware ID is 0s on attestation report.'') (\<lambda>hw_id.
     let tcb = ar_reported_tcb att_report;
         versions = ''blSPL='' @ fmt02 (tcb_bootloader tcb) @ ''&teeSPL='' @ fmt02 (tcb_tee tcb) @
           ''&snpSPL='' @ fmt02 (tcb_snp tcb) @ ''&ucodeSPL='' @ fmt02 (tcb_microcode tcb);
         site = KDS_CERT_SITE @ KDS_VCEK @ ''/'' @ proc_name proc_gen @ ''/'' @ hw_id @ ''?'' in
     case proc_gen of
       Turin \<Rightarrow> and_then (ok_or (tcb_fmc tcb) ''A Turin processor must have a fmc value'') (\<lambda>fmc.
         Inr (site @ ''fmcSPL='' @ fmt02 fmc @ ''&'' @ versions))
     | _ \<Rightarrow> Inr (site @ versions))"

definition fetch_vcek_from_kds :: "('c, 't) snp_crates \<Rightarrow> attestation_report \<Rightarrow> processor_generation \<Rightarrow> bytes anyhow" where
  "fetch_vcek_from_kds c att_report proc_gen =
     and_then (vcek_url c att_report proc_gen) (\<lambda>url.
     and_then (ok_or (sc_http_get c url) ''Unable to send request for VCEK'') (\<lambda>(status, body).
     if status = 200 then ok_or body ''Unable to parse VCEK''
     else bail ''Unable to fetch VCEK from URL''))"

definition get_processor_generation :: "attestation_report \<Rightarrow> processor_generation anyhow" where
  "get_processor_generation att_report =
     and_then (ok_or (ar_cpuid_fam_id att_report) ''Attestation report version 3+ is missing CPU family ID'') (\<lambda>cpu_fam.
     and_then (ok_or (ar_cpuid_mod_id att_report) ''Attestation report version 3+ is missing CPU model ID'') (\<lambda>cpu_mod.
     if cpu_fam = 0x19 then
       if cpu_mod \<le> 0xF then Inr Milan
       else if 0x10 \<le> cpu_mod \<and> cpu_mod \<le> 0x1F \<or> 0xA0 \<le> cpu_mod \<and> cpu_mod < 0xAF then Inr Genoa
       else bail ''Processor model not supported''
     else if cpu_fam = 0x1A then
       if cpu_mod \<le> 0x11 then Inr Turin else bail ''Processor model not supported''
     else bail ''Processor family not supported''))"

subsection \<open>The verifier\<close>

text \<open>The certificates found in the chain of the evidence.\<close>

record 'c found_certs =
  fc_ask :: "'c option"
  fc_ark :: "'c option"
  fc_vek :: "'c option"
  fc_vek_type :: vendor_endorsement_key

definition found_none :: "'c found_certs" where
  "found_none = \<lparr>fc_ask = None, fc_ark = None, fc_vek = None, fc_vek_type = Vcek\<rparr>"

definition collect_cert ::
  "('c, 't) snp_crates \<Rightarrow> 'c vendor_certificates \<Rightarrow> cert_type \<times> bytes \<Rightarrow> 'c found_certs \<Rightarrow> 'c found_certs anyhow" where
  "collect_cert c vn cert f =
     (case fst cert of
        ARK \<Rightarrow>
          and_then (ok_or (sc_from_bytes c (snd cert)) ''cert'') (\<lambda>ark.
          and_then (ensure (sc_signed c (vn_ark vn) ark) ''Provided ARK has an invalid signature'') (\<lambda>_.
            Inr (f\<lparr>fc_ark := Some ark\<rparr>)))
      | ASK \<Rightarrow> and_then (ok_or (sc_from_bytes c (snd cert)) ''cert'') (\<lambda>ask. Inr (f\<lparr>fc_ask := Some ask\<rparr>))
      | VCEK \<Rightarrow>
          if fc_vek f = None
          then and_then (ok_or (sc_from_bytes c (snd cert)) ''cert'') (\<lambda>vek. Inr (f\<lparr>fc_vek := Some vek\<rparr>))
          else Inr f
      | VLEK \<Rightarrow>
          if fc_vek f = None
          then and_then (ok_or (sc_from_bytes c (snd cert)) ''cert'') (\<lambda>vek. Inr (f\<lparr>fc_vek := Some vek, fc_vek_type := Vlek\<rparr>))
          else Inr f
      | OtherCert \<Rightarrow> Inr f)"

fun scan_chain ::
  "('c, 't) snp_crates \<Rightarrow> 'c vendor_certificates \<Rightarrow> (cert_type \<times> bytes) list \<Rightarrow> 'c found_certs \<Rightarrow> 'c found_certs anyhow" where
  "scan_chain c vn [] f = Inr f"
| "scan_chain c vn (cert # chain) f = and_then (collect_cert c vn cert f) (scan_chain c vn chain)"

definition provided_vek ::
  "('c, 't) snp_crates \<Rightarrow> 'c vendor_certificates \<Rightarrow> (cert_type \<times> bytes) list \<Rightarrow> 'c anyhow" where
  "provided_vek c vn chain =
     and_then (scan_chain c vn chain found_none) (\<lambda>f.
     and_then (ok_or (fc_vek f) ''If a cert chain is provided, it must include a VCEK/VLEK'') (\<lambda>vek.
     let ark = (case fc_ark f of Some ark \<Rightarrow> ark | None \<Rightarrow> vn_ark vn);
         ask = (case fc_ask f of Some ask \<Rightarrow> ask
                | None \<Rightarrow> (case fc_vek_type f of Vlek \<Rightarrow> vn_asvk vn | Vcek \<Rightarrow> vn_ask vn)) in
     and_then (ensure (sc_chain_verify c ark ask vek) ''Certificate chain provided by user failed to verify'') (\<lambda>_.
       Inr vek)))"

definition kds_vek ::
  "('c, 't) snp_crates \<Rightarrow> 'c vendor_certificates \<Rightarrow> attestation_report \<Rightarrow> processor_generation \<Rightarrow> 'c anyhow" where
  "kds_vek c vn report proc_gen =
     and_then (with_context ''Failed to fetch VCEK from KDS'' (fetch_vcek_from_kds c report proc_gen)) (\<lambda>vcek_buf.
     and_then (ok_or (sc_from_bytes c vcek_buf) ''Failed to convert KDS VCEK into certificate'') (\<lambda>vcek.
     and_then (ensure (sc_chain_verify c (vn_ark vn) (vn_ask vn) vcek) ''Certificate chain from KDS failed verification'') (\<lambda>_.
       Inr vcek)))"

definition snp_evaluate ::
  "('c, 't) snp_crates \<Rightarrow> json \<Rightarrow> report_data \<Rightarrow> init_data_hash \<Rightarrow> (json \<times> tee_class) list anyhow" where
  "snp_evaluate c evidence expected_report_data expected_init_data_hash =
     and_then (ok_or (sc_from_value c evidence) ''Deserialize SNP Evidence failed'') (\<lambda>ev.
     let report = sn_attestation_report ev in
     and_then (ensure (\<not> ar_version report < REPORT_VERSION_MIN)
         ''Attestation Report version is too old. Please update your firmware.'') (\<lambda>_.
     and_then (ensure (\<not> ar_version report > REPORT_VERSION_MAX)
         ''Unexpected attestation report version. Check SNP Firmware ABI specification'') (\<lambda>_.
     and_then (get_processor_generation report) (\<lambda>proc_gen.
     and_then (CERT_CHAINS c) (\<lambda>chains.
     and_then (ok_or (chains proc_gen) ''Vendor certs not found for processor type'') (\<lambda>vendor_certs.
     and_then (case sn_cert_chain ev of
         Some chain \<Rightarrow> provided_vek c vendor_certs chain
       | None \<Rightarrow> kds_vek c vendor_certs report proc_gen) (\<lambda>vek.
     and_then (ensure (sc_report_signed c vek report) ''Report signature verification against VEK signature failed'') (\<lambda>_.
     and_then (with_context ''Reported TCB values do not match'' (verify_report_tcb c report vek proc_gen)) (\<lambda>_.
     and_then (ensure (ar_vmpl report = 0) ''VMPL Check Failed'') (\<lambda>_.
     and_then (check_report_data expected_report_data 64 (ar_report_data report) ''Report Data Mismatch'') (\<lambda>_.
     and_then (check_init_data expected_init_data_hash 32 (ar_host_data report) ''Host Data Mismatch'') (\<lambda>_.
       Inr [(snp_parse_tee_evidence c report, ''cpu'')]))))))))))))"

definition snp_verifier :: "('c, 't) snp_crates \<Rightarrow> verifier" where
  "snp_verifier c = \<lparr>ve_evaluate = snp_evaluate c, ve_generate_supplemental_challenge = default_supplemental_challenge\<rparr>"

subsection \<open>The endorsement key\<close>

text \<open>An endorsement key is trusted for a generation when a chain verifies that ends in the vendor's root, or in a root the vendor's
  root has signed.\<close>

definition trusted_vek :: "('c, 't) snp_crates \<Rightarrow> 'c vendor_certificates \<Rightarrow> 'c \<Rightarrow> bool" where
  "trusted_vek c vn vek \<longleftrightarrow>
     (\<exists>ark ask. sc_chain_verify c ark ask vek \<and> (ark = vn_ark vn \<or> sc_signed c (vn_ark vn) ark))"

definition ark_ok :: "('c, 't) snp_crates \<Rightarrow> 'c vendor_certificates \<Rightarrow> 'c found_certs \<Rightarrow> bool" where
  "ark_ok c vn f \<longleftrightarrow> (\<forall>a. fc_ark f = Some a \<longrightarrow> sc_signed c (vn_ark vn) a)"

lemma collect_cert_ark: "collect_cert c vn cert f = Inr f' \<Longrightarrow> ark_ok c vn f \<Longrightarrow> ark_ok c vn f'"
  by (auto simp: collect_cert_def ark_ok_def result_simps split: cert_type.splits if_splits)

lemma scan_chain_ark: "scan_chain c vn chain f = Inr f' \<Longrightarrow> ark_ok c vn f \<Longrightarrow> ark_ok c vn f'"
  by (induction chain arbitrary: f) (auto simp: result_simps dest: collect_cert_ark)

lemma provided_vek_trusted: "provided_vek c vn chain = Inr vek \<Longrightarrow> trusted_vek c vn vek"
  using scan_chain_ark [of c vn chain found_none]
  by (fastforce simp: provided_vek_def result_simps Let_def trusted_vek_def ark_ok_def found_none_def split: option.splits)

lemma kds_vek_trusted: "kds_vek c vn report g = Inr vek \<Longrightarrow> trusted_vek c vn vek"
  by (auto simp: kds_vek_def result_simps trusted_vek_def)

subsection \<open>The TCB\<close>

text \<open>The endorsement key names the chip and the versions that the report has; \<open>tcb_matches\<close> adds the version of the FMC of Turin.\<close>

definition tcb_base :: "('c, 't) snp_crates \<Rightarrow> attestation_report \<Rightarrow> 'c \<Rightarrow> 't \<Rightarrow> bool" where
  "tcb_base c report vek t \<longleftrightarrow>
     sc_parse_der c vek = Some t \<and>
     (\<exists>cn. get_common_name c vek = Inr cn \<and> (cn = ''VCEK'' \<longrightarrow> get_oid_octets c 64 t HW_ID_OID = Inr (ar_chip_id report))) \<and>
     get_oid_int c t UCODE_SPL_OID = Inr (tcb_microcode (ar_reported_tcb report)) \<and>
     get_oid_int c t SNP_SPL_OID = Inr (tcb_snp (ar_reported_tcb report)) \<and>
     get_oid_int c t TEE_SPL_OID = Inr (tcb_tee (ar_reported_tcb report)) \<and>
     get_oid_int c t LOADER_SPL_OID = Inr (tcb_bootloader (ar_reported_tcb report))"

definition tcb_matches :: "('c, 't) snp_crates \<Rightarrow> attestation_report \<Rightarrow> 'c \<Rightarrow> processor_generation \<Rightarrow> bool" where
  "tcb_matches c report vek g \<longleftrightarrow>
     (\<exists>t. tcb_base c report vek t \<and>
        (g = Turin \<longrightarrow> (\<exists>f. tcb_fmc (ar_reported_tcb report) = Some f \<and> get_oid_int c t FMC_SPL_OID = Inr f)))"

lemma check_oid_Inr [simp]: "check_oid c t oid b m = Inr u \<longleftrightarrow> get_oid_int c t oid = Inr b"
  by (auto simp: check_oid_def result_simps)

lemma no_panic_oid [simp]:
  "\<not> panics (oid_value c t oid)" "\<not> panics (get_oid_octets c n t oid)" "\<not> panics (get_oid_int c t oid)"
  "\<not> panics (get_common_name c vek)" "\<not> panics (check_oid c t oid b m)"
  by (auto simp: oid_value_def get_oid_octets_def get_oid_int_def get_common_name_def check_oid_def split: list.splits)

lemma verify_report_tcb_cases:
  assumes "sc_parse_der c vek = Some t" and "get_common_name c vek = Inr cn"
  shows "verify_report_tcb c report vek g =
    and_then (if cn = ''VCEK'' then and_then (get_oid_octets c 64 t HW_ID_OID) (\<lambda>id. ensure (id = ar_chip_id report) ''Chip ID mismatch'')
       else Inr ()) (\<lambda>_.
     and_then (check_oid c t UCODE_SPL_OID (tcb_microcode (ar_reported_tcb report)) ''Microcode version mismatch'') (\<lambda>_.
     and_then (check_oid c t SNP_SPL_OID (tcb_snp (ar_reported_tcb report)) ''SNP version mismatch'') (\<lambda>_.
     and_then (check_oid c t TEE_SPL_OID (tcb_tee (ar_reported_tcb report)) ''TEE version mismatch'') (\<lambda>_.
     and_then (check_oid c t LOADER_SPL_OID (tcb_bootloader (ar_reported_tcb report)) ''Boot loader version mismatch'') (\<lambda>_.
     if g = Turin then and_then (get_oid_int c t FMC_SPL_OID) (\<lambda>fmc.
         case tcb_fmc (ar_reported_tcb report) of None \<Rightarrow> panic ''unwrap'' | Some f \<Rightarrow> ensure (fmc = f) ''FMC version mismatch'')
     else Inr ())))))"
  by (simp add: verify_report_tcb_def assms Let_def)

lemma verify_report_tcb_early:
  assumes "\<nexists>t cn. sc_parse_der c vek = Some t \<and> get_common_name c vek = Inr cn"
  shows "\<exists>m. verify_report_tcb c report vek g = bail m"
proof (cases "sc_parse_der c vek")
  case (Some t)
  with assms obtain m where "get_common_name c vek = bail m"
    by (metis no_panic_oid(4) panics_simps(3) result_cases)
  then show ?thesis by (simp add: verify_report_tcb_def Some)
qed (simp add: verify_report_tcb_def)

lemma chip_check_Inr:
  "(if b then and_then (get_oid_octets c n t oid) (\<lambda>id. ensure (id = x) m) else Inr ()) = Inr u \<longleftrightarrow> (b \<longrightarrow> get_oid_octets c n t oid = Inr x)"
  by (auto simp: result_simps)

lemma verify_report_tcb_iff: "verify_report_tcb c report vek g = Inr u \<longleftrightarrow> tcb_matches c report vek g"
proof (cases "\<exists>t cn. sc_parse_der c vek = Some t \<and> get_common_name c vek = Inr cn")
  case True
  then obtain t cn where t: "sc_parse_der c vek = Some t" "get_common_name c vek = Inr cn" by blast
  have "(if g = Turin then and_then (get_oid_int c t FMC_SPL_OID) (\<lambda>fmc.
      case tcb_fmc (ar_reported_tcb report) of None \<Rightarrow> panic ''unwrap'' | Some f \<Rightarrow> ensure (fmc = f) ''FMC version mismatch'')
      else Inr ()) = Inr u \<longleftrightarrow>
    (g = Turin \<longrightarrow> (\<exists>f. tcb_fmc (ar_reported_tcb report) = Some f \<and> get_oid_int c t FMC_SPL_OID = Inr f))"
    by (auto simp: result_simps split: option.splits)
  then show ?thesis
    unfolding verify_report_tcb_cases [OF t] and_then_eq_Inr_iff chip_check_Inr check_oid_Inr tcb_matches_def tcb_base_def
    by (simp add: t)
next
  case False
  then show ?thesis using verify_report_tcb_early [OF False, of report g] by (auto simp: tcb_matches_def tcb_base_def)
qed

lemma verify_report_tcb_panics_iff:
  "panics (verify_report_tcb c report vek g) \<longleftrightarrow> g = Turin \<and> tcb_fmc (ar_reported_tcb report) = None \<and>
     (\<exists>t v. tcb_base c report vek t \<and> get_oid_int c t FMC_SPL_OID = Inr v)"
proof (cases "\<exists>t cn. sc_parse_der c vek = Some t \<and> get_common_name c vek = Inr cn")
  case True
  then obtain t cn where t: "sc_parse_der c vek = Some t" "get_common_name c vek = Inr cn" by blast
  have "panics (if b then and_then (get_oid_octets c n t oid) (\<lambda>id. ensure (id = x) m) else Inr ()) \<longleftrightarrow> False" for b n oid x m by simp
  moreover have "panics (if g = Turin then and_then (get_oid_int c t FMC_SPL_OID) (\<lambda>fmc.
      case tcb_fmc (ar_reported_tcb report) of None \<Rightarrow> panic ''unwrap'' | Some f \<Rightarrow> ensure (fmc = f) ''FMC version mismatch'')
      else Inr ()) \<longleftrightarrow> g = Turin \<and> tcb_fmc (ar_reported_tcb report) = None \<and> (\<exists>v. get_oid_int c t FMC_SPL_OID = Inr v)"
    by (auto split: option.splits)
  ultimately show ?thesis
    unfolding verify_report_tcb_cases [OF t] panics_and_then chip_check_Inr check_oid_Inr tcb_base_def
    by (simp add: t) blast
next
  case False
  then show ?thesis using verify_report_tcb_early [OF False, of report g] by (auto simp: tcb_base_def)
qed

subsection \<open>What accepted evidence carries\<close>

definition snp_genuine :: "('c, 't) snp_crates \<Rightarrow> attestation_report \<Rightarrow> bool" where
  "snp_genuine c report \<longleftrightarrow>
     (\<exists>g chains vn vek. get_processor_generation report = Inr g \<and> CERT_CHAINS c = Inr chains \<and> chains g = Some vn \<and>
        trusted_vek c vn vek \<and> sc_report_signed c vek report \<and> tcb_matches c report vek g) \<and>
     3 \<le> ar_version report \<and> ar_version report \<le> 5 \<and> ar_vmpl report = 0"

lemma snp_evaluate_Inr:
  assumes "snp_evaluate c evidence rd idh = Inr claims"
  obtains e where "sc_from_value c evidence = Some e" and "snp_genuine c (sn_attestation_report e)"
    and "\<And>d. rd = RdValue d \<Longrightarrow> ar_report_data (sn_attestation_report e) = regularize_data d 64"
    and "\<And>h. idh = IdValue h \<Longrightarrow> ar_host_data (sn_attestation_report e) = regularize_data h 32"
    and "claims = [(snp_parse_tee_evidence c (sn_attestation_report e), ''cpu'')]"
proof -
  from assms obtain e g chains vn vek where e: "sc_from_value c evidence = Some e"
    and v: "\<not> ar_version (sn_attestation_report e) < REPORT_VERSION_MIN" "\<not> ar_version (sn_attestation_report e) > REPORT_VERSION_MAX"
    and g: "get_processor_generation (sn_attestation_report e) = Inr g" "CERT_CHAINS c = Inr chains" "chains g = Some vn"
    and k: "(case sn_cert_chain e of Some chain \<Rightarrow> provided_vek c vn chain | None \<Rightarrow> kds_vek c vn (sn_attestation_report e) g) = Inr vek"
    and s: "sc_report_signed c vek (sn_attestation_report e)" "tcb_matches c (sn_attestation_report e) vek g"
      "ar_vmpl (sn_attestation_report e) = 0"
    and r: "\<forall>d. rd = RdValue d \<longrightarrow> ar_report_data (sn_attestation_report e) = regularize_data d 64"
      "\<forall>h. idh = IdValue h \<longrightarrow> ar_host_data (sn_attestation_report e) = regularize_data h 32"
      "(Inr [(snp_parse_tee_evidence c (sn_attestation_report e), ''cpu'')] :: (json \<times> tee_class) list anyhow) = Inr claims"
    unfolding snp_evaluate_def Let_def and_then_eq_Inr_iff ok_or_eq_Inr_iff ensure_simps with_context_eq_Inr
      check_report_data_simps check_init_data_simps verify_report_tcb_iff
    by (elim exE conjE) (rule that, assumption+)
  have "trusted_vek c vn vek" using k provided_vek_trusted kds_vek_trusted by (auto split: option.splits)
  with g s v have "snp_genuine c (sn_attestation_report e)"
    unfolding snp_genuine_def REPORT_VERSION_MIN_def REPORT_VERSION_MAX_def by (auto simp: not_less)
  then show thesis using that e r by auto
qed

definition snp_carried :: "('c, 't) snp_crates \<Rightarrow> carried" where
  "snp_carried c = \<lparr>
     ca_report = (\<lambda>evidence d. \<exists>e. sc_from_value c evidence = Some e \<and> snp_genuine c (sn_attestation_report e) \<and>
       ar_report_data (sn_attestation_report e) = regularize_data d 64),
     ca_init = (\<lambda>evidence h. \<exists>e. sc_from_value c evidence = Some e \<and> snp_genuine c (sn_attestation_report e) \<and>
       ar_host_data (sn_attestation_report e) = regularize_data h 32)\<rparr>"

interpretation snp: evidence_verifier "snp_verifier c" "snp_carried c" for c
  by unfold_locales (auto simp: snp_verifier_def snp_carried_def elim!: snp_evaluate_Inr)

subsection \<open>A platform\<close>

text \<open>Certificates are numbers: 0, 1 and 2 are the vendor's, any other one an endorsement key that the vendor's chain certifies. The
  extensions of a certificate hold one byte, the versions of the sample report.\<close>

definition sample_crates_snp :: "(nat, nat) snp_crates" where
  "sample_crates_snp = \<lparr>sc_from_value = (\<lambda>_. None), sc_pem = (\<lambda>_. []), sc_stack_from_pem = (\<lambda>_. Some [0, 1, 2]),
     sc_from_bytes = (\<lambda>b. Some (3 + length b)), sc_signed = (\<lambda>a b. a = 1 \<and> b = 1), sc_chain_verify = (\<lambda>ark ask vek. ark = 1 \<and> ask = 0 \<and> 3 \<le> vek),
     sc_report_signed = (\<lambda>vek _. 3 \<le> vek), sc_parse_der = Some, sc_extension = (\<lambda>_ _. Some (Some [7])),
     sc_octet_string_from_der = (\<lambda>_. Some (replicate 64 7)), sc_integer_from_der = (\<lambda>_. Some 7),
     sc_common_names = (\<lambda>_. [Some ''VCEK'']), sc_http_get = (\<lambda>_. Some (200, Some [1])), sc_hex_encode = string_of_bytes,
     sc_b64_encode = string_of_bytes\<rparr>"

definition sample_report :: "byte \<Rightarrow> attestation_report" where
  "sample_report fam = \<lparr>ar_version = 3, ar_policy = \<lparr>gp_abi_major = 1, gp_abi_minor = 0, gp_smt_allowed = True, gp_migrate_ma_allowed = False,
       gp_debug_allowed = False, gp_single_socket_required = False\<rparr>, ar_vmpl = 0, ar_tsme_enabled = False, ar_smt_enabled = True,
     ar_report_data = regularize_data [1, 2] 64, ar_measurement = [], ar_host_data = replicate 32 0,
     ar_reported_tcb = \<lparr>tcb_fmc = None, tcb_bootloader = 7, tcb_tee = 7, tcb_snp = 7, tcb_microcode = 7\<rparr>,
     ar_cpuid_fam_id = Some fam, ar_cpuid_mod_id = Some 1, ar_chip_id = replicate 64 7\<rparr>"

definition sample_snp :: "byte \<Rightarrow> (cert_type \<times> bytes) list option \<Rightarrow> (nat, nat) snp_crates" where
  "sample_snp fam chain = sample_crates_snp\<lparr>sc_from_value := \<lambda>_. Some \<lparr>sn_attestation_report = sample_report fam, sn_cert_chain = chain\<rparr>\<rparr>"

lemmas sample_snp_defs = sample_snp_def sample_crates_snp_def sample_report_def CERT_CHAINS_def vendor_certs_of_def provided_vek_def
  collect_cert_def found_none_def get_processor_generation_def verify_report_tcb_def get_common_name_def get_oid_octets_def
  get_oid_int_def oid_value_def check_oid_def REPORT_VERSION_MIN_def REPORT_VERSION_MAX_def

subsection \<open>Properties\<close>

text \<open>C14. SNP evidence that is accepted is genuine and bound: the report has a supported version and was made at VMPL 0, it is signed by
  an endorsement key that a chain ending in the vendor's root of this processor generation certifies, that key names the TCB versions
  of the report (with the chip for a VCEK and the FMC for Turin), and the report carries the expected report data and host data,
  padded with zeros or cut to 64 and 32 bytes; the claims are those of this report.\<close>

theorem snp_evidence_sound:
  assumes "snp_evaluate c evidence (RdValue d) idh = Inr claims"
  shows "\<exists>e. sc_from_value c evidence = Some e \<and> snp_genuine c (sn_attestation_report e) \<and>
    ar_report_data (sn_attestation_report e) = regularize_data d 64 \<and>
    (\<forall>h. idh = IdValue h \<longrightarrow> ar_host_data (sn_attestation_report e) = regularize_data h 32) \<and>
    claims = [(snp_parse_tee_evidence c (sn_attestation_report e), ''cpu'')]"
  using assms by (rule snp_evaluate_Inr) blast

lemma sample_snp_accepts:
  "snp_evaluate (sample_snp 0x19 (Some [(VCEK, [])])) JNull (RdValue [1, 2]) IdNotProvided =
     Inr [(snp_parse_tee_evidence (sample_snp 0x19 (Some [(VCEK, [])])) (sample_report 0x19), ''cpu'')]"
  by (simp add: snp_evaluate_def sample_snp_defs check_report_data_def check_init_data_def Let_def)

theorem snp_evidence_sound_witness:
  "snp_genuine (sample_snp 0x19 (Some [(VCEK, [])])) (sample_report 0x19) \<and>
   ar_report_data (sample_report 0x19) = regularize_data [1, 2] 64"
  using snp_evidence_sound [OF sample_snp_accepts] by (auto simp: sample_snp_def)

text \<open>C22. Once the vendor's chains are well formed and the chip id has its 64 bytes, the verifier panics exactly on evidence of a Turin
  processor whose report has no FMC version, that brings its own certificate chain and passes every check before that of the FMC;
  without a chain the same report is an error.\<close>

theorem snp_panics_iff:
  assumes "CERT_CHAINS c = Inr cs" and "sc_from_value c evidence = Some \<lparr>sn_attestation_report = report, sn_cert_chain = ch\<rparr>"
    and "length (ar_chip_id report) = 64" and "cs Turin = Some vn"
  shows "panics (snp_evaluate c evidence rd idh) \<longleftrightarrow> 3 \<le> ar_version report \<and> ar_version report \<le> 5 \<and>
    get_processor_generation report = Inr Turin \<and> tcb_fmc (ar_reported_tcb report) = None \<and>
    (\<exists>chain vek t v. ch = Some chain \<and> provided_vek c vn chain = Inr vek \<and> sc_report_signed c vek report \<and>
       tcb_base c report vek t \<and> get_oid_int c t FMC_SPL_OID = Inr v)"
proof -
  have np: "\<not> panics (collect_cert c vn' x f)" for vn' x f
    by (auto simp: collect_cert_def split: cert_type.splits)
  have "\<not> panics (scan_chain c vn' chain f)" for vn' chain f by (induction chain arbitrary: f) (auto simp: np)
  then have pv: "\<not> panics (provided_vek c vn' chain)" for vn' chain by (auto simp: provided_vek_def Let_def)
  have kv: "\<not> panics (kds_vek c vn' report g)" for vn' g
    using assms(3) by (auto simp: kds_vek_def fetch_vcek_from_kds_def vcek_url_def Let_def split: processor_generation.splits prod.splits)
  have kf: "kds_vek c vn' report Turin \<noteq> Inr vek" if "tcb_fmc (ar_reported_tcb report) = None" for vn' vek
    using that by (auto simp: kds_vek_def fetch_vcek_from_kds_def vcek_url_def Let_def result_simps)
  have gp: "\<not> panics (get_processor_generation report)" by (auto simp: get_processor_generation_def)
  show ?thesis
    unfolding snp_evaluate_def Let_def assms(1,2)
    by (cases ch; auto simp: gp verify_report_tcb_panics_iff REPORT_VERSION_MIN_def REPORT_VERSION_MAX_def not_less pv kv assms(4) dest: kf; blast)
qed

theorem snp_panics_iff_witness:
  "panics (snp_evaluate (sample_snp 0x1A (Some [(VCEK, [])])) JNull RdNotProvided IdNotProvided)"
proof -
  let ?c = "sample_snp 0x1A (Some [(VCEK, [])])"
  have "CERT_CHAINS ?c = Inr [Milan \<mapsto> \<lparr>vn_ask = 0, vn_ark = 1, vn_asvk = 2\<rparr>, Genoa \<mapsto> \<lparr>vn_ask = 0, vn_ark = 1, vn_asvk = 2\<rparr>,
      Turin \<mapsto> \<lparr>vn_ask = 0, vn_ark = 1, vn_asvk = 2\<rparr>]" by (simp add: sample_snp_defs)
  from snp_panics_iff [OF this, of JNull "sample_report 0x1A" "Some [(VCEK, [])]"]
  show ?thesis by (simp add: sample_snp_defs tcb_base_def)
qed

end
