(* ===== verification/Az_Vtpm.thy ===== *)
theory Az_Vtpm
  imports Snp Tdx
begin

text \<open>
  The verifiers of Azure's confidential VMs (\<^verbatim>\<open>deps/verifier/src/az_snp_vtpm/\<close>, \<^verbatim>\<open>az_tdx_vtpm/\<close>). The guest's report data is the nonce of a
  quote of the virtual TPM; the TPM's key is in the HCL report, whose variable data the hardware report or quote is bound to. The
  crates of Azure and \<^verbatim>\<open>openssl\<close> are the record \<open>az_crates\<close>, over types \<open>'q\<close> of TPM quotes and \<open>'h\<close> of HCL reports.
\<close>

record ('q, 'h, 'c) az_crates =
  az_hcl_new :: "bytes \<Rightarrow> 'h option"
  az_ak_pub :: "'h \<Rightarrow> bytes option"
  az_try_to_der :: "bytes \<Rightarrow> bytes option"
  az_public_key_from_der :: "bytes \<Rightarrow> bytes option"
  az_var_data_sha256 :: "'h \<Rightarrow> bytes"
  az_snp_report :: "'h \<Rightarrow> attestation_report option"
  az_verify_signature :: "'q \<Rightarrow> bytes \<Rightarrow> bool"
  az_nonce :: "'q \<Rightarrow> bytes option"
  az_verify_pcrs :: "'q \<Rightarrow> bool"
  az_pcrs_sha256 :: "'q \<Rightarrow> bytes list"
  az_vcek_from_pem :: "string \<Rightarrow> 'c option"
  az_ca_validate :: "'c \<Rightarrow> 'c \<Rightarrow> bool"
  az_vcek_validate :: "'c \<Rightarrow> 'c \<Rightarrow> 'c \<Rightarrow> bool"
  az_report_signature :: "attestation_report \<Rightarrow> bytes option"
  az_write_bytes :: "attestation_report \<Rightarrow> bytes option"
  az_cert_public_key :: "'c \<Rightarrow> bytes option"
  az_ecdsa_verify :: "bytes \<Rightarrow> bytes \<Rightarrow> bytes \<Rightarrow> bool option"
  az_sha256 :: "bytes \<Rightarrow> bytes"
  az_sha384 :: "bytes \<Rightarrow> bytes"
  az_hex_encode :: "bytes \<Rightarrow> string"

definition HCL_VMPL_VALUE :: u32 where
  "HCL_VMPL_VALUE = 0"

definition INITDATA_PCR :: usize where
  "INITDATA_PCR = 8"

definition SNP_REPORT_SIGNATURE_OFFSET :: usize where
  "SNP_REPORT_SIGNATURE_OFFSET = 0x2a0"

subsection \<open>The virtual TPM\<close>

definition verify_nonce :: "('q, 'h, 'c) az_crates \<Rightarrow> 'q \<Rightarrow> bytes \<Rightarrow> unit anyhow" where
  "verify_nonce z quote report_data =
     and_then (ok_or (az_nonce z quote) ''quote'') (\<lambda>nonce.
       ensure (nonce = report_data) ''TPM quote nonce doesn't match expected report_data'')"

definition verify_signature :: "('q, 'h, 'c) az_crates \<Rightarrow> 'q \<Rightarrow> 'h \<Rightarrow> unit anyhow" where
  "verify_signature z quote hcl_report =
     and_then (ok_or (az_ak_pub z hcl_report) ''Failed to get AKpub'') (\<lambda>ak_pub.
     and_then (ok_or (az_try_to_der z ak_pub) ''der'') (\<lambda>der.
     and_then (ok_or (az_public_key_from_der z der) ''Failed to parse AKpub'') (\<lambda>ak_pub.
       ensure (az_verify_signature z quote ak_pub) ''vTPM quote is not signed by AKpub'')))"

definition verify_pcrs :: "('q, 'h, 'c) az_crates \<Rightarrow> 'q \<Rightarrow> unit anyhow" where
  "verify_pcrs z quote = ensure (az_verify_pcrs z quote) ''Digest of PCRs does not match digest in Quote''"

text \<open>\<^verbatim>\<open>input[32..].copy_from_slice(expected)\<close> panics unless the expected hash has 32 bytes.\<close>

definition verify_init_data :: "('q, 'h, 'c) az_crates \<Rightarrow> init_data_hash \<Rightarrow> bytes list \<Rightarrow> unit anyhow" where
  "verify_init_data z expected pcrs =
     (case expected of
        IdNotProvided \<Rightarrow> Inr ()
      | IdValue expected_init_data_hash \<Rightarrow>
          if length expected_init_data_hash \<noteq> 32 then panic ''source slice length does not match destination slice length''
          else
            let digest = az_sha256 z (replicate 32 0 @ expected_init_data_hash) in
            and_then (index_at pcrs INITDATA_PCR) (\<lambda>init_data_pcr.
              ensure (digest = init_data_pcr) ''Expected init_data digest is different from the content of PCR8''))"

definition extend_claim :: "('q, 'h, 'c) az_crates \<Rightarrow> json \<Rightarrow> 'q \<Rightarrow> json anyhow" where
  "extend_claim z claim quote =
     (case claim of
        JObject m \<Rightarrow>
          let pcrs = az_pcrs_sha256 z quote;
              tpm_values = insert_all (map (\<lambda>(i, pcr). (''pcr'' @ pad_zero 2 (fmt_dec i), JString (az_hex_encode z pcr)))
                (enumerate 0 pcrs)) [] in
          and_then (index_at pcrs INITDATA_PCR) (\<lambda>init_data_pcr.
          and_then (ok_or (az_nonce z quote) ''quote'') (\<lambda>nonce.
            Inr (JObject (insert_all [(''tpm'', JObject tpm_values), (''init_data'', JString (az_hex_encode z init_data_pcr)),
              (''report_data'', JString (az_hex_encode z nonce))] m))))
      | _ \<Rightarrow> bail ''failed to extend the claim, not an object'')"

subsection \<open>SNP\<close>

record 'q az_snp_evidence =
  ae_quote :: 'q
  ae_report :: bytes
  ae_vcek :: string

record 'c az_snp_vtpm =
  av_ask :: 'c
  av_ark :: 'c

definition az_snp_vtpm_new :: "('c, 't) snp_crates \<Rightarrow> 'c az_snp_vtpm anyhow" where
  "az_snp_vtpm_new c =
     and_then (CERT_CHAINS c) (\<lambda>chains.
     and_then (ok_or (chains Milan) ''Failed to load Milan cert chain'') (\<lambda>vendor_certs.
       Inr \<lparr>av_ask = vn_ask vendor_certs, av_ark = vn_ark vendor_certs\<rparr>))"

definition az_verify_report_data :: "bytes \<Rightarrow> attestation_report \<Rightarrow> unit anyhow" where
  "az_verify_report_data var_data_hash snp_report =
     and_then (slice (ar_report_data snp_report) 0 32) (\<lambda>half.
       ensure (var_data_hash = half) ''SNP report report_data mismatch'')"

definition verify_report_signature ::
  "('c, 't) snp_crates \<Rightarrow> ('q, 'h, 'c) az_crates \<Rightarrow> attestation_report \<Rightarrow> 'c \<Rightarrow> unit anyhow" where
  "verify_report_signature c z report vcek =
     and_then (ok_or (sc_parse_der c vcek) ''der'') (\<lambda>parsed_endorsement_key.
     and_then (with_context ''No common name found in certificate'' (get_common_name c vcek)) (\<lambda>common_name.
     and_then (if common_name = ''VCEK''
         then and_then (get_oid_octets c 64 parsed_endorsement_key HW_ID_OID) (\<lambda>id. ensure (id = ar_chip_id report) ''Chip ID mismatch'')
         else Inr ()) (\<lambda>_.
     let tcb = ar_reported_tcb report in
     and_then (check_oid c parsed_endorsement_key UCODE_SPL_OID (tcb_microcode tcb) ''Microcode version mismatch'') (\<lambda>_.
     and_then (check_oid c parsed_endorsement_key SNP_SPL_OID (tcb_snp tcb) ''SNP version mismatch'') (\<lambda>_.
     and_then (check_oid c parsed_endorsement_key TEE_SPL_OID (tcb_tee tcb) ''TEE version mismatch'') (\<lambda>_.
     and_then (check_oid c parsed_endorsement_key LOADER_SPL_OID (tcb_bootloader tcb) ''Boot loader version mismatch'') (\<lambda>_.
     and_then (ok_or (az_report_signature z report) ''ecdsa'') (\<lambda>sig.
     and_then (ok_or (az_write_bytes z report) ''Failed to write report bytes'') (\<lambda>raw_report_bytes.
     and_then (slice raw_report_bytes 0 SNP_REPORT_SIGNATURE_OFFSET) (\<lambda>data.
     and_then (ok_or (az_cert_public_key z vcek) ''key'') (\<lambda>pub_key.
     and_then (ok_or (az_ecdsa_verify z sig (az_sha384 z data) pub_key) ''ecdsa'') (\<lambda>signed.
       ensure signed ''Signature validation failed.''))))))))))))"

definition verify_snp_report ::
  "('c, 't) snp_crates \<Rightarrow> ('q, 'h, 'c) az_crates \<Rightarrow> attestation_report \<Rightarrow> 'c \<Rightarrow> unit anyhow" where
  "verify_snp_report c z snp_report vcek =
     and_then (verify_report_signature c z snp_report vcek) (\<lambda>_.
       ensure (ar_vmpl snp_report = HCL_VMPL_VALUE) ''VMPL of SNP report is not 0'')"

definition fmt_bool :: "bool \<Rightarrow> string" where
  "fmt_bool b = (if b then ''true'' else ''false'')"

definition parse_tee_evidence_az :: "('c, 't) snp_crates \<Rightarrow> attestation_report \<Rightarrow> json" where
  "parse_tee_evidence_az c report =
     (let policy = ar_policy report; tcb = ar_reported_tcb report; num = (\<lambda>b :: byte. JString (fmt_dec (unat b)));
          bool = (\<lambda>b. JString (fmt_bool b)) in
      json_object
       [(''policy_abi_major'', num (gp_abi_major policy)),
        (''policy_abi_minor'', num (gp_abi_minor policy)),
        (''policy_smt_allowed'', bool (gp_smt_allowed policy)),
        (''policy_migrate_ma'', bool (gp_migrate_ma_allowed policy)),
        (''policy_debug_allowed'', bool (gp_debug_allowed policy)),
        (''policy_single_socket'', bool (gp_single_socket_required policy)),
        (''reported_tcb_bootloader'', num (tcb_bootloader tcb)),
        (''reported_tcb_tee'', num (tcb_tee tcb)),
        (''reported_tcb_snp'', num (tcb_snp tcb)),
        (''reported_tcb_microcode'', num (tcb_microcode tcb)),
        (''platform_tsme_enabled'', bool (ar_tsme_enabled report)),
        (''platform_smt_enabled'', bool (ar_smt_enabled report)),
        (''measurement'', JString (sc_b64_encode c (ar_measurement report))),
        (''report_data'', JString (sc_b64_encode c (ar_report_data report))),
        (''init_data'', JString (sc_b64_encode c (ar_host_data report)))])"

definition az_snp_evaluate ::
  "('c, 't) snp_crates \<Rightarrow> ('q, 'h, 'c) az_crates \<Rightarrow> (json \<Rightarrow> 'q az_snp_evidence option) \<Rightarrow> 'c az_snp_vtpm \<Rightarrow> json \<Rightarrow>
     report_data \<Rightarrow> init_data_hash \<Rightarrow> (json \<times> tee_class) list anyhow" where
  "az_snp_evaluate c z from_value self evidence expected_report_data expected_init_data_hash =
     (case expected_report_data of
        RdNotProvided \<Rightarrow> bail ''unexpected empty report data''
      | RdValue expected_report_data \<Rightarrow>
          and_then (ok_or (from_value evidence) ''Failed to deserialize Azure vTPM SEV-SNP evidence'') (\<lambda>evidence.
          and_then (ok_or (az_hcl_new z (ae_report evidence)) ''hcl'') (\<lambda>hcl_report.
          and_then (verify_signature z (ae_quote evidence) hcl_report) (\<lambda>_.
          and_then (verify_nonce z (ae_quote evidence) expected_report_data) (\<lambda>_.
          and_then (verify_pcrs z (ae_quote evidence)) (\<lambda>_.
          let var_data_hash = az_var_data_sha256 z hcl_report in
          and_then (ok_or (az_snp_report z hcl_report) ''hcl'') (\<lambda>snp_report.
          and_then (az_verify_report_data var_data_hash snp_report) (\<lambda>_.
          and_then (ok_or (az_vcek_from_pem z (ae_vcek evidence)) ''pem'') (\<lambda>vcek.
          and_then (ensure (az_ca_validate z (av_ark self) (av_ask self)) ''Failed to validate CA chain'') (\<lambda>_.
          and_then (ensure (az_vcek_validate z (av_ark self) (av_ask self) vcek) ''Failed to validate VCEK'') (\<lambda>_.
          and_then (verify_snp_report c z snp_report vcek) (\<lambda>_.
          and_then (verify_init_data z expected_init_data_hash (az_pcrs_sha256 z (ae_quote evidence))) (\<lambda>_.
          and_then (extend_claim z (parse_tee_evidence_az c snp_report) (ae_quote evidence)) (\<lambda>claim.
            Inr [(claim, ''cpu'')]))))))))))))))"

definition az_snp_verifier ::
  "('c, 't) snp_crates \<Rightarrow> ('q, 'h, 'c) az_crates \<Rightarrow> (json \<Rightarrow> 'q az_snp_evidence option) \<Rightarrow> 'c az_snp_vtpm \<Rightarrow> verifier" where
  "az_snp_verifier c z from_value self = \<lparr>ve_evaluate = az_snp_evaluate c z from_value self,
     ve_generate_supplemental_challenge = default_supplemental_challenge\<rparr>"

subsection \<open>TDX\<close>

record 'q az_tdx_evidence =
  at_tpm_quote :: 'q
  at_hcl_report :: bytes
  at_td_quote :: bytes

definition verify_hcl_var_data :: "('q, 'h, 'c) az_crates \<Rightarrow> 'h \<Rightarrow> quote \<Rightarrow> unit anyhow" where
  "verify_hcl_var_data z hcl_report td_quote =
     and_then (slice (body_field rb_report_data td_quote) 0 32) (\<lambda>half.
       ensure (az_var_data_sha256 z hcl_report = half) ''TDX Quote report data mismatch'')"

text \<open>\<open>verify_tpm_signature\<close> and \<open>verify_tpm_nonce\<close> are copies of the functions of the SNP verifier; only the text of the error of the
  signature differs.\<close>

definition verify_tpm_signature :: "('q, 'h, 'c) az_crates \<Rightarrow> 'q \<Rightarrow> 'h \<Rightarrow> unit anyhow" where
  "verify_tpm_signature z quote hcl_report =
     and_then (ok_or (az_ak_pub z hcl_report) ''Failed to get AKpub'') (\<lambda>ak_pub.
     and_then (ok_or (az_try_to_der z ak_pub) ''der'') (\<lambda>der.
     and_then (ok_or (az_public_key_from_der z der) ''Failed to parse AKpub'') (\<lambda>ak_pub.
       ensure (az_verify_signature z quote ak_pub) ''Failed to verify vTPM quote'')))"

definition verify_tpm_nonce :: "('q, 'h, 'c) az_crates \<Rightarrow> 'q \<Rightarrow> bytes \<Rightarrow> unit anyhow" where
  "verify_tpm_nonce z quote report_data =
     and_then (ok_or (az_nonce z quote) ''quote'') (\<lambda>nonce.
       ensure (nonce = report_data) ''TPM quote nonce doesn't match expected report_data'')"

definition az_tdx_evaluate ::
  "tdx_env \<Rightarrow> ('q, 'h, 'c) az_crates \<Rightarrow> (json \<Rightarrow> 'q az_tdx_evidence option) \<Rightarrow> json \<Rightarrow> report_data \<Rightarrow> init_data_hash \<Rightarrow>
     (json \<times> tee_class) list anyhow" where
  "az_tdx_evaluate env z from_value evidence expected_report_data expected_init_data_hash =
     (case expected_report_data of
        RdNotProvided \<Rightarrow> bail ''unexpected empty report data''
      | RdValue expected_report_data \<Rightarrow>
          and_then (ok_or (from_value evidence) ''Failed to deserialize Azure vTPM TDX evidence'') (\<lambda>evidence.
          and_then (ok_or (az_hcl_new z (at_hcl_report evidence)) ''hcl'') (\<lambda>hcl_report.
          and_then (verify_tpm_signature z (at_tpm_quote evidence) hcl_report) (\<lambda>_.
          and_then (verify_tpm_nonce z (at_tpm_quote evidence) expected_report_data) (\<lambda>_.
          and_then (verify_pcrs z (at_tpm_quote evidence)) (\<lambda>_.
          and_then (ecdsa_quote_verification (tx_dcap env) (tx_now env) (at_td_quote evidence)) (\<lambda>custom_claims.
          and_then (parse_tdx_quote (tx_read env) (at_td_quote evidence)) (\<lambda>td_quote.
          and_then (verify_hcl_var_data z hcl_report td_quote) (\<lambda>_.
          and_then (verify_init_data z expected_init_data_hash (az_pcrs_sha256 z (at_tpm_quote evidence))) (\<lambda>_.
          and_then (generate_parsed_claim (tx_crates env) td_quote None) (\<lambda>claim.
          and_then (extend_claim z claim (at_tpm_quote evidence)) (\<lambda>claim.
          and_then (extend_using_custom_claims claim custom_claims) (\<lambda>claim.
            Inr [(claim, ''cpu'')])))))))))))))"

definition az_tdx_verifier ::
  "tdx_env \<Rightarrow> ('q, 'h, 'c) az_crates \<Rightarrow> (json \<Rightarrow> 'q az_tdx_evidence option) \<Rightarrow> verifier" where
  "az_tdx_verifier env z from_value = \<lparr>ve_evaluate = az_tdx_evaluate env z from_value,
     ve_generate_supplemental_challenge = default_supplemental_challenge\<rparr>"

subsection \<open>What accepted evidence carries\<close>

text \<open>\<open>tpm_quoted z quote hcl\<close>: the quote is signed by the TPM key in the HCL report, and the PCRs are those the quote digests.\<close>

definition tpm_quoted :: "('q, 'h, 'c) az_crates \<Rightarrow> 'q \<Rightarrow> 'h \<Rightarrow> bool" where
  "tpm_quoted z quote hcl \<longleftrightarrow>
     (\<exists>k der ak. az_ak_pub z hcl = Some k \<and> az_try_to_der z k = Some der \<and> az_public_key_from_der z der = Some ak \<and>
        az_verify_signature z quote ak) \<and> az_verify_pcrs z quote"

definition pcr_holds :: "('q, 'h, 'c) az_crates \<Rightarrow> 'q \<Rightarrow> bytes \<Rightarrow> bool" where
  "pcr_holds z quote h \<longleftrightarrow> length h = 32 \<and> 8 < length (az_pcrs_sha256 z quote) \<and>
     az_pcrs_sha256 z quote ! 8 = az_sha256 z (replicate 32 0 @ h)"

definition az_report_genuine :: "('c, 't) snp_crates \<Rightarrow> ('q, 'h, 'c) az_crates \<Rightarrow> 'c az_snp_vtpm \<Rightarrow> string \<Rightarrow> attestation_report \<Rightarrow> bool" where
  "az_report_genuine c z self pem report \<longleftrightarrow>
     (\<exists>vcek t sig raw key. az_vcek_from_pem z pem = Some vcek \<and> az_ca_validate z (av_ark self) (av_ask self) \<and>
        az_vcek_validate z (av_ark self) (av_ask self) vcek \<and> tcb_base c report vcek t \<and>
        az_report_signature z report = Some sig \<and> az_write_bytes z report = Some raw \<and> 0x2a0 \<le> length raw \<and>
        az_cert_public_key z vcek = Some key \<and> az_ecdsa_verify z sig (az_sha384 z (take 0x2a0 raw)) key = Some True) \<and>
     ar_vmpl report = 0"

lemma vtpm_checks_Inr:
  "verify_nonce z quote d = Inr u \<longleftrightarrow> az_nonce z quote = Some d"
  "verify_tpm_nonce z quote d = Inr u \<longleftrightarrow> az_nonce z quote = Some d"
  "verify_pcrs z quote = Inr u \<longleftrightarrow> az_verify_pcrs z quote"
  "verify_signature z quote hcl = Inr u \<and> az_verify_pcrs z quote \<longleftrightarrow> tpm_quoted z quote hcl"
  "verify_tpm_signature z quote hcl = Inr u \<and> az_verify_pcrs z quote \<longleftrightarrow> tpm_quoted z quote hcl"
  by (auto simp: verify_nonce_def verify_tpm_nonce_def verify_pcrs_def verify_signature_def verify_tpm_signature_def tpm_quoted_def result_simps)

lemma verify_init_data_Inr:
  "verify_init_data z idh (az_pcrs_sha256 z quote) = Inr u \<longleftrightarrow> (\<forall>h. idh = IdValue h \<longrightarrow> pcr_holds z quote h)"
  by (cases idh) (auto simp: verify_init_data_def pcr_holds_def INITDATA_PCR_def Let_def result_simps)

text \<open>The claims of the guest: the nonce of the quote and the PCR of the init data.\<close>

definition vtpm_claims :: "('q, 'h, 'c) az_crates \<Rightarrow> 'q \<Rightarrow> (string \<times> json) list \<Rightarrow> bool" where
  "vtpm_claims z quote m \<longleftrightarrow> 8 < length (az_pcrs_sha256 z quote) \<and>
     map_of m ''init_data'' = Some (JString (az_hex_encode z (az_pcrs_sha256 z quote ! 8))) \<and>
     (\<exists>nonce. az_nonce z quote = Some nonce \<and> map_of m ''report_data'' = Some (JString (az_hex_encode z nonce)))"

lemma extend_claim_Inr:
  assumes "extend_claim z (JObject m0) quote = Inr v" and "sorted_object m0"
  obtains m where "v = JObject m" and "sorted_object m" and "vtpm_claims z quote m"
  using assms by (auto simp: extend_claim_def INITDATA_PCR_def Let_def result_simps vtpm_claims_def map_of_insert_all sorted_insert_all)

lemma az_claims_object: "\<exists>m. parse_tee_evidence_az c report = JObject m \<and> sorted_object m"
  unfolding parse_tee_evidence_az_def Let_def json_object_def
  using sorted_fold_obj_insert [OF sorted_object_Nil] by blast

lemma az_report_data_Inr:
  "az_verify_report_data h report = Inr u \<longleftrightarrow> 32 \<le> length (ar_report_data report) \<and> take 32 (ar_report_data report) = h"
  by (auto simp: az_verify_report_data_def result_simps)

lemma hcl_var_data_Inr:
  "verify_hcl_var_data z hcl q = Inr u \<longleftrightarrow>
     32 \<le> length (body_field rb_report_data q) \<and> take 32 (body_field rb_report_data q) = az_var_data_sha256 z hcl"
  by (auto simp: verify_hcl_var_data_def result_simps)

lemma verify_report_signature_Inr:
  assumes "verify_report_signature c z report vcek = Inr u"
  obtains t sig raw key where "tcb_base c report vcek t" and "az_report_signature z report = Some sig"
    and "az_write_bytes z report = Some raw" and "0x2a0 \<le> length raw" and "az_cert_public_key z vcek = Some key"
    and "az_ecdsa_verify z sig (az_sha384 z (take 0x2a0 raw)) key = Some True"
proof -
  from assms obtain t cn sig raw dat key signed where b: "sc_parse_der c vcek = Some t" "get_common_name c vcek = Inr cn"
      "cn = ''VCEK'' \<longrightarrow> get_oid_octets c 64 t HW_ID_OID = Inr (ar_chip_id report)"
      "get_oid_int c t UCODE_SPL_OID = Inr (tcb_microcode (ar_reported_tcb report))"
      "get_oid_int c t SNP_SPL_OID = Inr (tcb_snp (ar_reported_tcb report))"
      "get_oid_int c t TEE_SPL_OID = Inr (tcb_tee (ar_reported_tcb report))"
      "get_oid_int c t LOADER_SPL_OID = Inr (tcb_bootloader (ar_reported_tcb report))"
    and s: "az_report_signature z report = Some sig" "az_write_bytes z report = Some raw"
      "(slice raw 0 SNP_REPORT_SIGNATURE_OFFSET :: bytes anyhow) = Inr dat"
      "az_cert_public_key z vcek = Some key" "az_ecdsa_verify z sig (az_sha384 z dat) key = Some signed" "signed"
    unfolding verify_report_signature_def Let_def and_then_eq_Inr_iff ok_or_eq_Inr_iff ensure_simps with_context_eq_Inr
      chip_check_Inr check_oid_Inr
    by (elim exE conjE) (rule that, assumption+)
  from b have "tcb_base c report vcek t" by (auto simp: tcb_base_def)
  then show thesis using that s by (auto simp: SNP_REPORT_SIGNATURE_OFFSET_def result_simps)
qed

lemma az_snp_evaluate_Inr:
  assumes "az_snp_evaluate c z fv self evidence rd idh = Inr claims"
  obtains d e hcl report where "rd = RdValue d" and "fv evidence = Some e" and "az_hcl_new z (ae_report e) = Some hcl"
    and "tpm_quoted z (ae_quote e) hcl" and "az_nonce z (ae_quote e) = Some d" and "az_snp_report z hcl = Some report"
    and "take 32 (ar_report_data report) = az_var_data_sha256 z hcl" and "az_report_genuine c z self (ae_vcek e) report"
    and "\<And>h. idh = IdValue h \<Longrightarrow> pcr_holds z (ae_quote e) h"
    and "\<exists>m. claims = [(JObject m, ''cpu'')] \<and> vtpm_claims z (ae_quote e) m"
proof (cases rd)
  case (RdValue d)
  from assms obtain e hcl u report vcek u' claim where e: "fv evidence = Some e" "az_hcl_new z (ae_report e) = Some hcl"
      "verify_signature z (ae_quote e) hcl = Inr u" "az_nonce z (ae_quote e) = Some d" "az_verify_pcrs z (ae_quote e)"
      "az_snp_report z hcl = Some report" "32 \<le> length (ar_report_data report) \<and> take 32 (ar_report_data report) = az_var_data_sha256 z hcl"
      "az_vcek_from_pem z (ae_vcek e) = Some vcek"
      "az_ca_validate z (av_ark self) (av_ask self)" "az_vcek_validate z (av_ark self) (av_ask self) vcek"
      "verify_snp_report c z report vcek = Inr u'" "\<forall>h. idh = IdValue h \<longrightarrow> pcr_holds z (ae_quote e) h"
      "extend_claim z (parse_tee_evidence_az c report) (ae_quote e) = Inr claim" "(Inr [(claim, ''cpu'')] :: (json \<times> tee_class) list anyhow) = Inr claims"
    unfolding az_snp_evaluate_def RdValue report_data.case Let_def and_then_eq_Inr_iff ok_or_eq_Inr_iff ensure_simps
      vtpm_checks_Inr(1,3) az_report_data_Inr verify_init_data_Inr
    by (elim exE conjE) (rule that, (assumption | simp)+)
  from e(11) obtain v where "verify_report_signature c z report vcek = Inr v" "ar_vmpl report = 0"
    by (auto simp: verify_snp_report_def HCL_VMPL_VALUE_def result_simps)
  then have "az_report_genuine c z self (ae_vcek e) report"
    using e(8-10) by (auto simp: az_report_genuine_def elim!: verify_report_signature_Inr)
  moreover have "\<exists>m. claims = [(JObject m, ''cpu'')] \<and> vtpm_claims z (ae_quote e) m"
    using az_claims_object [of c report] e(13,14) extend_claim_Inr by (metis Inr_inject)
  ultimately show thesis
    using that [OF RdValue e(1,2)] e vtpm_checks_Inr(4) [of z "ae_quote e" hcl u] by blast
qed (use assms in \<open>simp add: az_snp_evaluate_def\<close>)

lemma az_tdx_evaluate_Inr:
  assumes "array_reader (tx_read env)" and "az_tdx_evaluate env z fv evidence rd idh = Inr claims"
  obtains d e hcl r where "rd = RdValue d" and "fv evidence = Some e" and "az_hcl_new z (at_hcl_report e) = Some hcl"
    and "tpm_quoted z (at_tpm_quote e) hcl" and "az_nonce z (at_tpm_quote e) = Some d"
    and "dcap_accepts (tx_dcap env) (tx_now env) (at_td_quote e) r"
    and "take 32 (quote_field_at 520 64 (at_td_quote e)) = az_var_data_sha256 z hcl"
    and "\<And>h. idh = IdValue h \<Longrightarrow> pcr_holds z (at_tpm_quote e) h"
    and "\<exists>m. claims = [(JObject m, ''cpu'')] \<and> vtpm_claims z (at_tpm_quote e) m"
proof (cases rd)
  case (RdValue d)
  from assms(2) obtain e hcl u custom q claim claim' claim'' where e: "fv evidence = Some e" "az_hcl_new z (at_hcl_report e) = Some hcl"
      "verify_tpm_signature z (at_tpm_quote e) hcl = Inr u" "az_nonce z (at_tpm_quote e) = Some d" "az_verify_pcrs z (at_tpm_quote e)"
      "ecdsa_quote_verification (tx_dcap env) (tx_now env) (at_td_quote e) = Inr custom" "parse_tdx_quote (tx_read env) (at_td_quote e) = Inr q"
      "32 \<le> length (body_field rb_report_data q) \<and> take 32 (body_field rb_report_data q) = az_var_data_sha256 z hcl"
      "\<forall>h. idh = IdValue h \<longrightarrow> pcr_holds z (at_tpm_quote e) h"
      "generate_parsed_claim (tx_crates env) q None = Inr claim" "extend_claim z claim (at_tpm_quote e) = Inr claim'"
      "extend_using_custom_claims claim' custom = Inr claim''" "(Inr [(claim'', ''cpu'')] :: (json \<times> tee_class) list anyhow) = Inr claims"
    unfolding az_tdx_evaluate_def RdValue report_data.case and_then_eq_Inr_iff ok_or_eq_Inr_iff
      vtpm_checks_Inr(2,3) hcl_var_data_Inr verify_init_data_Inr
    by (elim exE conjE) (rule that, (assumption | simp)+)
  obtain m0 where "claim = JObject m0" "sorted_object m0" using generate_parsed_claim_Inr [OF e(10)] by metis
  then obtain m1 where m1: "claim' = JObject m1" "sorted_object m1" "vtpm_claims z (at_tpm_quote e) m1" using e(11) extend_claim_Inr by metis
  then obtain m where m: "claim'' = JObject m" using e(12) by (auto simp: extend_using_custom_claims_def)
  note get = extend_using_custom_claims_get [OF e(12) [unfolded m1(1) m] m1(2) ecdsa_claims_keys(1) [OF e(6)]]
  have "vtpm_claims z (at_tpm_quote e) m"
    using m1(3) get [of "''init_data''"] get [of "''report_data''"] by (simp add: vtpm_claims_def custom_keys_def)
  moreover obtain r where "dcap_accepts (tx_dcap env) (tx_now env) (at_td_quote e) r" using ecdsa_quote_verification_Inr [OF e(6)] by blast
  ultimately show thesis
    using that [OF RdValue e(1,2)] e m vtpm_checks_Inr(5) [of z "at_tpm_quote e" hcl u] quote_fields(7) [OF assms(1) e(7)] by auto
qed (use assms in \<open>simp add: az_tdx_evaluate_def\<close>)

text \<open>The report data is the nonce of the quote, compared as it is; the hash of the init data is extended into PCR 8.\<close>

definition az_snp_carried :: "('q, 'h, 'c) az_crates \<Rightarrow> (json \<Rightarrow> 'q az_snp_evidence option) \<Rightarrow> carried" where
  "az_snp_carried z fv = \<lparr>
     ca_report = (\<lambda>evidence d. \<exists>e hcl. fv evidence = Some e \<and> az_hcl_new z (ae_report e) = Some hcl \<and> tpm_quoted z (ae_quote e) hcl \<and>
       az_nonce z (ae_quote e) = Some d),
     ca_init = (\<lambda>evidence h. \<exists>e hcl. fv evidence = Some e \<and> az_hcl_new z (ae_report e) = Some hcl \<and> tpm_quoted z (ae_quote e) hcl \<and>
       pcr_holds z (ae_quote e) h)\<rparr>"

definition az_tdx_carried :: "('q, 'h, 'c) az_crates \<Rightarrow> (json \<Rightarrow> 'q az_tdx_evidence option) \<Rightarrow> carried" where
  "az_tdx_carried z fv = \<lparr>
     ca_report = (\<lambda>evidence d. \<exists>e hcl. fv evidence = Some e \<and> az_hcl_new z (at_hcl_report e) = Some hcl \<and>
       tpm_quoted z (at_tpm_quote e) hcl \<and> az_nonce z (at_tpm_quote e) = Some d),
     ca_init = (\<lambda>evidence h. \<exists>e hcl. fv evidence = Some e \<and> az_hcl_new z (at_hcl_report e) = Some hcl \<and>
       tpm_quoted z (at_tpm_quote e) hcl \<and> pcr_holds z (at_tpm_quote e) h)\<rparr>"

interpretation az_snp: evidence_verifier "az_snp_verifier c z fv self" "az_snp_carried z fv" for c z fv self
  by unfold_locales (auto simp: az_snp_verifier_def az_snp_carried_def elim!: az_snp_evaluate_Inr)

interpretation az_tdx: evidence_verifier "az_tdx_verifier (env\<lparr>tx_read := read_array\<rparr>) z fv" "az_tdx_carried z fv" for env z fv
  by unfold_locales (auto simp: az_tdx_verifier_def az_tdx_carried_def array_reader_def elim!: az_tdx_evaluate_Inr [rotated])

text \<open>Evidence that is accepted when no init data is expected fails only on the check of the init data when it is.\<close>

lemma az_snp_init_data:
  assumes "az_snp_evaluate c z fv self evidence rd IdNotProvided = Inr claims"
  shows "\<exists>e. 8 < length (az_pcrs_sha256 z (ae_quote e)) \<and> fv evidence = Some e \<and>
    az_snp_evaluate c z fv self evidence rd idh = and_then (verify_init_data z idh (az_pcrs_sha256 z (ae_quote e))) (\<lambda>_. Inr claims)"
  using assms
proof (rule az_snp_evaluate_Inr, goal_cases)
  case (1 d e hcl report)
  have "verify_init_data z IdNotProvided ps = Inr ()" for ps by (simp add: verify_init_data_def)
  with assms 1 show ?case
    unfolding az_snp_evaluate_def Let_def
    by (auto simp: result_simps vtpm_claims_def)
qed

lemma az_tdx_init_data:
  assumes "array_reader (tx_read env)" and "az_tdx_evaluate env z fv evidence rd IdNotProvided = Inr claims"
  shows "\<exists>e. 8 < length (az_pcrs_sha256 z (at_tpm_quote e)) \<and> fv evidence = Some e \<and>
    az_tdx_evaluate env z fv evidence rd idh = and_then (verify_init_data z idh (az_pcrs_sha256 z (at_tpm_quote e))) (\<lambda>_. Inr claims)"
  using assms(2)
proof (rule az_tdx_evaluate_Inr [OF assms(1)], goal_cases)
  case (1 d e hcl r)
  have "verify_init_data z IdNotProvided ps = Inr ()" for ps by (simp add: verify_init_data_def)
  with assms(2) 1 show ?case
    unfolding az_tdx_evaluate_def
    by (auto simp: result_simps vtpm_claims_def)
qed

subsection \<open>A guest\<close>

text \<open>A TPM quote is its nonce; the digest of a text is its last 32 bytes, so that PCR 8 holds the hash of the init data itself.\<close>

definition sample_az :: "(bytes, unit, nat) az_crates" where
  "sample_az = \<lparr>az_hcl_new = (\<lambda>_. Some ()), az_ak_pub = (\<lambda>_. Some [1]), az_try_to_der = Some, az_public_key_from_der = Some,
     az_var_data_sha256 = (\<lambda>_. regularize_data [1, 2] 32), az_snp_report = (\<lambda>_. Some (sample_report 0x19)),
     az_verify_signature = (\<lambda>_ k. k = [1]), az_nonce = Some, az_verify_pcrs = (\<lambda>_. True), az_pcrs_sha256 = (\<lambda>_. replicate 24 (replicate 32 5)),
     az_vcek_from_pem = (\<lambda>_. Some 3), az_ca_validate = (\<lambda>ark ask. ark = 1 \<and> ask = 0), az_vcek_validate = (\<lambda>_ _ vek. 3 \<le> vek),
     az_report_signature = (\<lambda>_. Some [2]), az_write_bytes = (\<lambda>_. Some (replicate 1184 0)), az_cert_public_key = (\<lambda>_. Some [3]),
     az_ecdsa_verify = (\<lambda>sig _ key. Some (sig = [2] \<and> key = [3])), az_sha256 = drop 32, az_sha384 = id, az_hex_encode = string_of_bytes\<rparr>"

definition sample_az_self :: "nat az_snp_vtpm" where
  "sample_az_self = \<lparr>av_ask = 0, av_ark = 1\<rparr>"

definition sample_az_evidence :: "json \<Rightarrow> bytes az_snp_evidence option" where
  "sample_az_evidence _ = Some \<lparr>ae_quote = [9, 9], ae_report = [], ae_vcek = ''pem''\<rparr>"

lemma sample_az_new: "az_snp_vtpm_new (sample_snp 0x19 None) = Inr sample_az_self"
  by (simp add: az_snp_vtpm_new_def sample_az_self_def sample_snp_defs)

lemma sample_az_accepts:
  "\<exists>claims. az_snp_evaluate (sample_snp 0x19 None) sample_az sample_az_evidence sample_az_self JNull (RdValue [9, 9]) IdNotProvided = Inr claims"
proof -
  have "verify_report_signature (sample_snp 0x19 None) sample_az (sample_report 0x19) 3 = Inr ()"
    by (simp add: verify_report_signature_def sample_snp_defs sample_az_def SNP_REPORT_SIGNATURE_OFFSET_def slice_in_range Let_def)
  then have "verify_snp_report (sample_snp 0x19 None) sample_az (sample_report 0x19) 3 = Inr ()"
    by (simp add: verify_snp_report_def HCL_VMPL_VALUE_def) (simp add: sample_report_def)
  moreover have "\<exists>v. extend_claim sample_az (parse_tee_evidence_az (sample_snp 0x19 None) (sample_report 0x19)) [9, 9] = Inr v"
    using az_claims_object [of "sample_snp 0x19 None" "sample_report 0x19"]
    by (auto simp: extend_claim_def sample_az_def INITDATA_PCR_def index_at_def Let_def)
  moreover have "az_verify_report_data (regularize_data [1, 2] 32) (sample_report 0x19) = Inr ()"
    by (simp add: az_report_data_Inr) (simp add: sample_report_def regularize_data_def)
  ultimately show ?thesis
    by (auto simp: az_snp_evaluate_def sample_az_evidence_def verify_signature_def verify_nonce_def verify_pcrs_def verify_init_data_def
        sample_az_self_def Let_def) (auto simp: sample_az_def)
qed

subsection \<open>Properties\<close>

text \<open>C15. Evidence of an SNP guest on Azure that is accepted has an unbroken chain to the vendor: the expected report data is the nonce
  of a TPM quote, signed by the key in the HCL report, over its PCRs; the hash of that report's variable data, which holds the key, is
  the first half of the report data of an SNP report made at VMPL 0; the report is signed by an endorsement key that the vendor's chain
  validates and that names its TCB; PCR 8 holds the extension of an expected hash of the init data; and the claims report the nonce
  and the PCR instead of the fields of the SNP report.\<close>

theorem az_snp_evidence_sound:
  assumes "az_snp_evaluate c z fv self evidence (RdValue d) idh = Inr claims"
  shows "\<exists>e hcl report m. fv evidence = Some e \<and> az_hcl_new z (ae_report e) = Some hcl \<and> tpm_quoted z (ae_quote e) hcl \<and>
    az_nonce z (ae_quote e) = Some d \<and> az_snp_report z hcl = Some report \<and>
    take 32 (ar_report_data report) = az_var_data_sha256 z hcl \<and> az_report_genuine c z self (ae_vcek e) report \<and>
    (\<forall>h. idh = IdValue h \<longrightarrow> pcr_holds z (ae_quote e) h) \<and> claims = [(JObject m, ''cpu'')] \<and> vtpm_claims z (ae_quote e) m"
  using assms by (rule az_snp_evaluate_Inr) blast

theorem az_snp_evidence_sound_witness:
  "az_report_genuine (sample_snp 0x19 None) sample_az sample_az_self ''pem'' (sample_report 0x19)"
proof -
  obtain claims where "az_snp_evaluate (sample_snp 0x19 None) sample_az sample_az_evidence sample_az_self JNull (RdValue [9, 9]) IdNotProvided
    = Inr claims" using sample_az_accepts ..
  from az_snp_evidence_sound [OF this] show ?thesis by (auto simp: sample_az_evidence_def) (simp add: sample_az_def)
qed

text \<open>The same for TDX guests.\<close>

lemma az_tdx_init_data_panics_iff:
  assumes "array_reader (tx_read env)" and "az_tdx_evaluate env z fv evidence rd IdNotProvided = Inr claims" and "fv evidence = Some e"
  shows "panics (az_tdx_evaluate env z fv evidence rd (IdValue h)) \<longleftrightarrow> length h \<noteq> 32"
    and "az_tdx_evaluate env z fv evidence rd (IdValue h) = Inr claims \<longleftrightarrow> pcr_holds z (at_tpm_quote e) h"
  using az_tdx_init_data [OF assms(1,2), of "IdValue h"] assms(3)
  by (auto simp: verify_init_data_Inr and_then_eq_Inr_iff) (auto simp: verify_init_data_def INITDATA_PCR_def Let_def)



end
