(* ===== verification/Nvidia_Spdm.thy ===== *)
theory Nvidia_Spdm
  imports Verifier_Core
begin

text \<open>
  The messages of an Nvidia device (\<^verbatim>\<open>deps/verifier/src/nvidia/spdm_request.rs\<close>, \<^verbatim>\<open>spdm_response.rs\<close>): the request and the response
  of the SPDM measurements, the measurement blocks and the opaque data. \<open>hx\<close> is \<^verbatim>\<open>hex::encode\<close>. Sums of an offset and a size stay
  below the bound of \<^verbatim>\<open>usize\<close>, since an offset is at most the length of a slice and a size is below \<open>2 ^ 24\<close>. Bytes are indexed
  after the check of the length that makes the index valid.
\<close>

unbundle bit_operations_syntax

definition SPDM_VERSION_SUPPORTED :: byte where
  "SPDM_VERSION_SUPPORTED = 0x11"

definition SPDM_NONCE_SIZE :: usize where
  "SPDM_NONCE_SIZE = 32"

definition DMTF_MEASUREMENT_SPECIFICATION_VALUE :: byte where
  "DMTF_MEASUREMENT_SPECIFICATION_VALUE = 1"

text \<open>The size of the struct of the request, all of whose fields are bytes.\<close>

definition SPDM_GET_MEASUREMENT_REQUEST_SIZE :: usize where
  "SPDM_GET_MEASUREMENT_REQUEST_SIZE = 5 + SPDM_NONCE_SIZE"

subsection \<open>Request\<close>

record spdm_request =
  sq_spdm_version :: byte
  sq_request_response_code :: byte
  sq_param1 :: byte
  sq_param2 :: byte
  sq_nonce :: bytes
  sq_slot_id_param :: byte

definition spdm_request_decode :: "bytes \<Rightarrow> (spdm_request \<times> usize) anyhow" where
  "spdm_request_decode bytes =
     and_then (ensure (\<not> length bytes < SPDM_GET_MEASUREMENT_REQUEST_SIZE) ''SpdmGetMeasurmentRequest message is too small'') (\<lambda>_.
     and_then (ensure (bytes ! 0 = SPDM_VERSION_SUPPORTED) ''SPDM version not supported'') (\<lambda>_.
       Inr (\<lparr>sq_spdm_version = bytes ! 0, sq_request_response_code = bytes ! 1, sq_param1 = bytes ! 2, sq_param2 = bytes ! 3,
         sq_nonce = take 32 (drop 4 bytes), sq_slot_id_param = bytes ! 36\<rparr>, SPDM_GET_MEASUREMENT_REQUEST_SIZE)))"

subsection \<open>Measurements\<close>

record dmtf_measurement =
  dm_type :: byte
  dm_size :: usize
  dm_value :: bytes

record measurement_block =
  mb_index :: byte
  mb_measurement_specification :: byte
  mb_measurement_size :: usize
  mb_measurement :: dmtf_measurement

definition u24_from_le_bytes :: "byte \<Rightarrow> byte \<Rightarrow> byte \<Rightarrow> usize" where
  "u24_from_le_bytes b0 b1 b2 = unat b0 OR push_bit 8 (unat b1) OR push_bit 16 (unat b2)"

text \<open>\<open>u16_at bytes i\<close> is \<^verbatim>\<open>u16::from_le_bytes\<close> of the two bytes at \<open>i\<close>.\<close>

definition u16_at :: "bytes \<Rightarrow> usize \<Rightarrow> nat" where
  "u16_at bytes i = le_val (take 2 (drop i bytes))"

definition dmtf_measurement_decode :: "bytes \<Rightarrow> dmtf_measurement anyhow" where
  "dmtf_measurement_decode bytes =
     and_then (ensure (\<not> length bytes < 3) ''DMTF measurement must be bigger than 3 bytes'') (\<lambda>_.
     let size = u16_at bytes 1 in
     and_then (ok_or (slice_get bytes 3 (3 + size)) ''DMTF measurement overflow'') (\<lambda>value.
       Inr \<lparr>dm_type = bytes ! 0, dm_size = size, dm_value = value\<rparr>))"

primrec measurement_record_loop :: "nat \<Rightarrow> bytes \<Rightarrow> usize \<Rightarrow> measurement_block list anyhow" where
  "measurement_record_loop 0 bytes offset = Inr []"
| "measurement_record_loop (Suc n) bytes offset =
     and_then (ensure (\<not> length bytes < offset + 4) ''MeasurementBlock overflow'') (\<lambda>_.
     and_then (ensure (bytes ! (offset + 1) = DMTF_MEASUREMENT_SPECIFICATION_VALUE)
         ''Only measurements encoded in the DMTF layout are supported'') (\<lambda>_.
     let size = u16_at bytes (offset + 2) in
     and_then (ok_or (slice_get bytes (offset + 4) (offset + 4 + size)) ''Measurement overflow'') (\<lambda>measurement_data.
     and_then (dmtf_measurement_decode measurement_data) (\<lambda>measurement.
     and_then (measurement_record_loop n bytes (offset + 4 + size)) (\<lambda>blocks.
       Inr (\<lparr>mb_index = bytes ! offset, mb_measurement_specification = bytes ! (offset + 1), mb_measurement_size = size,
         mb_measurement = measurement\<rparr> # blocks))))))"

definition measurement_record_decode :: "nat \<Rightarrow> bytes \<Rightarrow> measurement_block list anyhow" where
  "measurement_record_decode number_of_blocks bytes = measurement_record_loop number_of_blocks bytes 0"

subsection \<open>Opaque data\<close>

datatype opaque_data_type =
    CertIssuerName | CertAuthorityKeyIdentifier | DriverVersion | GpuInfo | IdSku | VbiosVersion | ManufacturerId | TamperDetection
  | Smc | Vpr | Nvdec0Status | MsrsCnt | CprInfo | BoardId | ChipSku | ChipSkuMod | Project | ProjectSku | ProjectSkuMod | Fwid
  | ProtectedPcieStatus | SwitchPdi | FloorsweptPorts | PositionId | LockSwitchStatus | GpuLinkConn | InvalidOpaqueData

definition opaque_types :: "(nat \<times> opaque_data_type) list" where
  "opaque_types =
     [(1, CertIssuerName), (2, CertAuthorityKeyIdentifier), (3, DriverVersion), (4, GpuInfo), (5, IdSku), (6, VbiosVersion),
      (7, ManufacturerId), (8, TamperDetection), (9, Smc), (10, Vpr), (11, Nvdec0Status), (12, MsrsCnt), (13, CprInfo), (14, BoardId),
      (15, ChipSku), (16, ChipSkuMod), (17, Project), (18, ProjectSku), (19, ProjectSkuMod), (20, Fwid), (21, ProtectedPcieStatus),
      (22, SwitchPdi), (23, FloorsweptPorts), (24, PositionId), (25, LockSwitchStatus), (32, GpuLinkConn)]"

definition opaque_from_u16 :: "nat \<Rightarrow> opaque_data_type option" where
  "opaque_from_u16 v = map_of opaque_types v"

fun opaque_name :: "opaque_data_type \<Rightarrow> string" where
  "opaque_name CertIssuerName = ''cert_issuer_name''"
| "opaque_name CertAuthorityKeyIdentifier = ''cert_authority_key_identifier''"
| "opaque_name DriverVersion = ''driver_version''"
| "opaque_name GpuInfo = ''gpu_info''"
| "opaque_name IdSku = ''id_sku''"
| "opaque_name VbiosVersion = ''vbios_version''"
| "opaque_name ManufacturerId = ''manufacturer_id''"
| "opaque_name TamperDetection = ''tamper_detection''"
| "opaque_name Smc = ''smc''"
| "opaque_name Vpr = ''vpr''"
| "opaque_name Nvdec0Status = ''nvdec0_status''"
| "opaque_name MsrsCnt = ''measurement_count''"
| "opaque_name CprInfo = ''cpr_info''"
| "opaque_name BoardId = ''board_id''"
| "opaque_name ChipSku = ''chip_sku''"
| "opaque_name ChipSkuMod = ''chip_sku_mod''"
| "opaque_name Project = ''project''"
| "opaque_name ProjectSku = ''project_sku''"
| "opaque_name ProjectSkuMod = ''project_sku_mod''"
| "opaque_name Fwid = ''fwid''"
| "opaque_name ProtectedPcieStatus = ''protected_pcie_status''"
| "opaque_name SwitchPdi = ''switch_pdi''"
| "opaque_name FloorsweptPorts = ''floorswept_ports''"
| "opaque_name PositionId = ''position_id''"
| "opaque_name LockSwitchStatus = ''lock_switch_status''"
| "opaque_name GpuLinkConn = ''gpu_link_conn''"
| "opaque_name InvalidOpaqueData = ''invalid''"

definition fmt_02x :: "byte \<Rightarrow> string" where
  "fmt_02x b = pad_zero 2 (fmt_hex (unat b))"

fun join_dots :: "string list \<Rightarrow> string" where
  "join_dots [] = ''''"
| "join_dots [x] = x"
| "join_dots (x # xs) = x @ ''.'' @ join_dots xs"

definition format_vbios_version :: "bytes \<Rightarrow> string option" where
  "format_vbios_version bytes =
     (let half = length bytes div 2; version = join_dots (map fmt_02x (rev (take half bytes))) in
      if half < length bytes then Some (version @ ''.'' @ fmt_02x (bytes ! half)) else None)"

text \<open>\<^verbatim>\<open>chunks(n)\<close> for \<open>n\<close> above 0; the last chunk may be shorter.\<close>

function chunks :: "nat \<Rightarrow> 'a list \<Rightarrow> 'a list list" where
  "chunks n xs = (if n = 0 \<or> xs = [] then [] else take n xs # chunks n (drop n xs))"
  by pat_completeness auto
termination
  by (relation "measure (length \<circ> snd)") auto

declare chunks.simps [simp del]

definition decode_switch_pdi :: "(bytes \<Rightarrow> string) \<Rightarrow> bytes \<Rightarrow> json anyhow" where
  "decode_switch_pdi hx bytes =
     (if length bytes mod 8 \<noteq> 0 then bail ''OpaqueDataType is not multiple of 8''
      else Inr (JArray (map (\<lambda>chunk. JString (hx chunk)) (chunks 8 bytes))))"

text \<open>The index is a \<^verbatim>\<open>u8\<close> that is incremented after every chunk, the last one included.\<close>

fun measurement_count_loop :: "bool \<Rightarrow> byte \<Rightarrow> bytes list \<Rightarrow> (string \<times> json) list \<Rightarrow> (string \<times> json) list anyhow" where
  "measurement_count_loop oc index [] vals = Inr vals"
| "measurement_count_loop oc index (chunk # cs) vals =
     (let vals = obj_insert (fmt_dec (unat index)) (JNumber (PosInt (of_nat (le_val chunk)))) vals in
      if oc \<and> index = 255 then panic ''attempt to add with overflow''
      else measurement_count_loop oc (index + 1) cs vals)"

definition decode_measurement_count :: "bool \<Rightarrow> bytes \<Rightarrow> json anyhow" where
  "decode_measurement_count oc bytes =
     (if length bytes mod 4 \<noteq> 0 then bail ''OpaqueDataType is not multiple of 4''
      else and_then (measurement_count_loop oc 1 (chunks 4 bytes) []) (\<lambda>vals. Inr (JObject vals)))"

definition opaque_value :: "bool \<Rightarrow> (bytes \<Rightarrow> string) \<Rightarrow> opaque_data_type \<Rightarrow> bytes \<Rightarrow> json anyhow" where
  "opaque_value oc hx ty bytes =
     (if ty \<in> {DriverVersion, ChipSku, ChipSkuMod, Nvdec0Status, Project, ProjectSku, ProtectedPcieStatus}
      then Inr (JString (trim_end_matches (CHR 0x00) (from_utf8_lossy bytes)))
      else case ty of
        VbiosVersion \<Rightarrow> and_then (ok_or (format_vbios_version bytes) ''Invalid gpu vbios version'') (\<lambda>v. Inr (JString v))
      | MsrsCnt \<Rightarrow> decode_measurement_count oc bytes
      | SwitchPdi \<Rightarrow> decode_switch_pdi hx bytes
      | InvalidOpaqueData \<Rightarrow> bail ''Hashmap: Invalid OpaqueDataType''
      | _ \<Rightarrow> Inr (JString (hx bytes)))"

text \<open>The loop ends when at most four bytes are left, whatever they are.\<close>

function opaque_loop :: "bool \<Rightarrow> (bytes \<Rightarrow> string) \<Rightarrow> bytes \<Rightarrow> usize \<Rightarrow> (string \<times> json) list \<Rightarrow> (string \<times> json) list anyhow" where
  "opaque_loop oc hx bytes offset opaque_data =
     (if offset + 4 < length bytes then
        and_then (ok_or (opaque_from_u16 (u16_at bytes offset)) ''Invalid OpaqueDataType'') (\<lambda>ty.
        and_then (ok_or (slice_get bytes (offset + 4) (offset + 4 + u16_at bytes (offset + 2))) ''OpaqueData overflow'') (\<lambda>data_bytes.
        and_then (opaque_value oc hx ty data_bytes) (\<lambda>value.
        and_then (ensure (obj_get opaque_data (opaque_name ty) = None) ''Duplicated OpaqueDataType'') (\<lambda>_.
          opaque_loop oc hx bytes (offset + 4 + u16_at bytes (offset + 2)) (obj_insert (opaque_name ty) value opaque_data)))))
      else Inr opaque_data)"
  by pat_completeness auto
termination
  by (relation "measure (\<lambda>(oc, hx, bytes, offset, m). length bytes - offset)") auto

declare opaque_loop.simps [simp del]

definition opaque_data_decode :: "bool \<Rightarrow> (bytes \<Rightarrow> string) \<Rightarrow> bytes \<Rightarrow> (string \<times> json) list anyhow" where
  "opaque_data_decode oc hx bytes =
     (if length bytes = 0 then Inr []
      else
        and_then (opaque_loop oc hx bytes 0 []) (\<lambda>opaque_data.
        and_then (ensure (obj_get opaque_data (opaque_name VbiosVersion) \<noteq> None \<and> obj_get opaque_data (opaque_name DriverVersion) \<noteq> None)
            ''Both vbios_version and driver_version must be present in the report'') (\<lambda>_.
          Inr opaque_data)))"

subsection \<open>Response\<close>

record spdm_response =
  sr_spdm_version :: byte
  sr_request_response_code :: byte
  sr_param1 :: byte
  sr_param2 :: byte
  sr_number_of_blocks :: usize
  sr_measurement_record_length :: usize
  sr_measurement_record :: "measurement_block list"
  sr_nonce :: bytes
  sr_opaque_data_length :: usize
  sr_opaque_data :: "(string \<times> json) list"
  sr_signature :: bytes

definition spdm_response_decode :: "bool \<Rightarrow> (bytes \<Rightarrow> string) \<Rightarrow> bytes \<Rightarrow> usize \<Rightarrow> (spdm_response \<times> usize) anyhow" where
  "spdm_response_decode oc hx bytes signature_length =
     and_then (ensure (\<not> length bytes < 8) ''SpdmGetMeasurementsResponse message smaller 8 bytes'') (\<lambda>_.
     and_then (ensure (bytes ! 0 = SPDM_VERSION_SUPPORTED) ''SPDM version not supported'') (\<lambda>_.
     let number_of_blocks = unat (bytes ! 4);
         record_length = u24_from_le_bytes (bytes ! 5) (bytes ! 6) (bytes ! 7);
         offset = 8 in
     and_then (if record_length > 0 then
         and_then (ok_or (slice_get bytes offset (offset + record_length)) ''MeasurementRecord overflow'') (\<lambda>measurements_bytes.
           measurement_record_decode number_of_blocks measurements_bytes)
       else Inr []) (\<lambda>measurement_record.
     let offset = offset + record_length in
     and_then (ok_or (slice_get bytes offset (offset + 32)) ''Nonce overflow'') (\<lambda>nonce.
     let offset = offset + 32 in
     and_then (ok_or (slice_get bytes offset (offset + 2)) ''OpaqueDataLength overlow'') (\<lambda>len_bytes.
     let opaque_data_length = le_val len_bytes;
         offset = offset + 2 in
     and_then (if opaque_data_length > 0 then
         and_then (ok_or (slice_get bytes offset (offset + opaque_data_length)) ''OpaqueData overflow'') (\<lambda>opaque_data_bytes.
           opaque_data_decode oc hx opaque_data_bytes)
       else Inr []) (\<lambda>opaque_data.
     let offset = offset + opaque_data_length in
     and_then (ok_or (slice_get bytes offset (offset + signature_length)) ''Signature overflow'') (\<lambda>signature.
       Inr (\<lparr>sr_spdm_version = bytes ! 0, sr_request_response_code = bytes ! 1, sr_param1 = bytes ! 2, sr_param2 = bytes ! 3,
         sr_number_of_blocks = number_of_blocks, sr_measurement_record_length = record_length, sr_measurement_record = measurement_record,
         sr_nonce = nonce, sr_opaque_data_length = opaque_data_length, sr_opaque_data = opaque_data, sr_signature = signature\<rparr>,
         offset + signature_length))))))))"

subsection \<open>Lemmas\<close>

lemma or_push_bit: "a < 2 ^ n \<Longrightarrow> a OR push_bit n b = a + push_bit n b" for a b :: nat
proof -
  assume a: "a < 2 ^ n"
  have h: "\<not> bit a k" if "n \<le> k" for k
  proof -
    have "a < 2 ^ k" by (rule less_le_trans [OF a]) (rule power_increasing [OF that], simp)
    then show ?thesis by (simp add: bit_iff_odd)
  qed
  have "a AND push_bit n b = 0"
  proof (rule bit_eqI)
    show "bit (a AND push_bit n b) k = bit 0 k" for k using h [of k] by (cases "n \<le> k") (simp_all add: bit_and_iff bit_push_bit_iff)
  qed
  then show ?thesis by (rule disjunctive_add_eq_or [symmetric])
qed

lemma u24_le_val: "u24_from_le_bytes b0 b1 b2 = le_val [b0, b1, b2]"
proof -
  have "unat b < 2 ^ 8" for b :: byte using unsigned_less [of b] by simp
  note o = this [THEN or_push_bit]
  have "u24_from_le_bytes b0 b1 b2 = unat b0 OR push_bit 8 (unat b1 OR push_bit 8 (unat b2))"
    by (simp add: u24_from_le_bytes_def or.assoc push_bit_or)
  then show ?thesis by (simp only: o) (simp add: push_bit_eq_mult)
qed

lemma chunks_Nil [simp]: "chunks n [] = []"
  by (simp add: chunks.simps)

lemma length_chunks: "0 < n \<Longrightarrow> length xs mod n = 0 \<Longrightarrow> n * length (chunks n xs) = length xs"
proof (induction n xs rule: chunks.induct)
  case (1 n xs)
  show ?case
  proof (cases "xs = []")
    case False
    have "n \<le> length xs" using 1(3) False by (intro leI notI) simp
    moreover from this have "length (drop n xs) mod n = 0" using 1(3) by (simp add: le_mod_geq)
    moreover have "\<not> (n = 0 \<or> xs = [])" using 1(2) False by simp
    ultimately have "n * length (chunks n (drop n xs)) = length xs - n" using 1(1) [OF _ 1(2)] by simp
    moreover have "chunks n xs = take n xs # chunks n (drop n xs)" using 1(2) False by (subst chunks.simps) simp
    ultimately show ?thesis using \<open>n \<le> length xs\<close> by simp
  qed simp
qed

lemma unat_Suc_byte: "b \<noteq> 255 \<Longrightarrow> unat (b + 1) = unat b + 1" for b :: byte
proof -
  assume "b \<noteq> 255"
  moreover have "b = 255" if "1 + b = 0"
  proof -
    have "b = - 1" using that by (simp add: eq_neg_iff_add_eq_0 add.commute)
    then show ?thesis by simp
  qed
  ultimately show ?thesis using unatSuc [of b] by (auto simp: add.commute)
qed

lemma measurement_count_loop_release: "\<not> panics (measurement_count_loop False index cs vals)"
  by (induction cs arbitrary: index vals) (simp_all add: Let_def)

lemma measurement_count_loop_panics:
  "panics (measurement_count_loop oc index cs vals) \<longleftrightarrow> oc \<and> 256 \<le> unat index + length cs"
proof (induction cs arbitrary: index vals)
  case Nil
  show ?case using unsigned_less [of index, where 'a = nat] by simp
next
  case (Cons chunk cs)
  show ?case
  proof (cases "index = 255")
    case True
    then show ?thesis by (cases oc) (simp_all add: Let_def measurement_count_loop_release)
  next
    case False
    then show ?thesis by (simp add: Let_def Cons unat_Suc_byte)
  qed
qed

lemma decode_measurement_count_panics:
  "panics (decode_measurement_count oc bytes) \<longleftrightarrow> oc \<and> length bytes mod 4 = 0 \<and> 4 * 255 \<le> length bytes"
  using length_chunks [of 4 bytes] by (auto simp: decode_measurement_count_def measurement_count_loop_panics)

subsection \<open>The format of the messages\<close>

text \<open>The encoding that DSP0274 gives to measurement blocks, and Nvidia to the items of the opaque data.\<close>

definition enc_block :: "measurement_block \<Rightarrow> bytes" where
  "enc_block b = [mb_index b, 1] @ le_enc 2 (mb_measurement_size b) @
     [dm_type (mb_measurement b)] @ le_enc 2 (dm_size (mb_measurement b)) @ dm_value (mb_measurement b)"

definition block_ok :: "measurement_block \<Rightarrow> bool" where
  "block_ok b \<longleftrightarrow> mb_measurement_specification b = 1 \<and> dm_size (mb_measurement b) = length (dm_value (mb_measurement b)) \<and>
     mb_measurement_size b = 3 + dm_size (mb_measurement b) \<and> mb_measurement_size b < 2 ^ 16"

definition opaque_code :: "opaque_data_type \<Rightarrow> nat" where
  "opaque_code ty = (case map_of (map prod.swap opaque_types) ty of Some v \<Rightarrow> v | None \<Rightarrow> 255)"

definition enc_item :: "opaque_data_type \<times> bytes \<Rightarrow> bytes" where
  "enc_item it = le_enc 2 (opaque_code (fst it)) @ le_enc 2 (length (snd it)) @ snd it"

lemma le_enc_Nil_iff [simp]: "le_enc n v = [] \<longleftrightarrow> n = 0"
  by (cases n) simp_all

lemma enc_not_Nil [simp]: "enc_block b \<noteq> []" "enc_item it \<noteq> []"
  by (simp_all add: enc_block_def enc_item_def)

lemma opaque_code_inverse: "ty \<noteq> InvalidOpaqueData \<Longrightarrow> opaque_from_u16 (opaque_code ty) = Some ty" "opaque_code ty < 2 ^ 16"
  by (cases ty; simp add: opaque_from_u16_def opaque_code_def opaque_types_def)+

lemma u16_at_enc: "v < 2 ^ 16 \<Longrightarrow> u16_at (pre @ le_enc 2 v @ rest) (length pre) = v"
  by (simp add: u16_at_def le_val_le_enc)

lemma u16_at_enc':
  "v < 2 ^ 16 \<Longrightarrow> i = length pre \<Longrightarrow> bs = pre @ le_enc 2 v @ rest \<Longrightarrow> u16_at bs i = v"
  using u16_at_enc by blast

lemma slice_get_mid: "i = length pre \<Longrightarrow> j = length pre + length mid \<Longrightarrow> bs = pre @ mid @ rest \<Longrightarrow> slice_get bs i j = Some mid"
  by (simp add: slice_get_def)

lemma dmtf_measurement_roundtrip:
  assumes "dm_size m = length (dm_value m)" and "dm_size m < 2 ^ 16"
  shows "dmtf_measurement_decode ([dm_type m] @ le_enc 2 (dm_size m) @ dm_value m) = Inr m"
proof -
  have "u16_at ([dm_type m] @ le_enc 2 (dm_size m) @ dm_value m) 1 = dm_size m"
    by (rule u16_at_enc' [OF assms(2), where pre = "[dm_type m]"]) simp_all
  moreover have "slice_get ([dm_type m] @ le_enc 2 (dm_size m) @ dm_value m) 3 (3 + dm_size m) = Some (dm_value m)"
    by (rule slice_get_mid [where pre = "[dm_type m] @ le_enc 2 (dm_size m)" and rest = "[]"]) (simp_all add: assms(1))
  ultimately show ?thesis by (simp add: dmtf_measurement_decode_def)
qed

lemma measurement_record_roundtrip:
  "list_all block_ok bs \<Longrightarrow> measurement_record_loop (length bs) (pre @ concat (map enc_block bs) @ rest) (length pre) = Inr bs"
proof (induction bs arbitrary: pre)
  case (Cons b bs)
  let ?m = "[dm_type (mb_measurement b)] @ le_enc 2 (dm_size (mb_measurement b)) @ dm_value (mb_measurement b)"
  let ?all = "pre @ concat (map enc_block (b # bs)) @ rest"
  from Cons.prems have ok: "mb_measurement_specification b = 1" "dm_size (mb_measurement b) = length (dm_value (mb_measurement b))"
    "mb_measurement_size b = 3 + dm_size (mb_measurement b)" "mb_measurement_size b < 2 ^ 16" and bs: "list_all block_ok bs"
    by (simp_all add: block_ok_def [of b])
  have l: "length (enc_block b) = 4 + mb_measurement_size b" by (simp add: enc_block_def ok)
  have u: "u16_at ?all (length pre + 2) = mb_measurement_size b"
    by (rule u16_at_enc' [OF ok(4), where pre = "pre @ [mb_index b, 1]"]) (simp_all add: enc_block_def)
  have s: "slice_get ?all (length pre + 4) (length pre + 4 + mb_measurement_size b) = Some ?m"
    by (rule slice_get_mid [where pre = "pre @ [mb_index b, 1] @ le_enc 2 (mb_measurement_size b)"]) (simp_all add: enc_block_def ok)
  have d: "dmtf_measurement_decode ?m = Inr (mb_measurement b)" by (rule dmtf_measurement_roundtrip) (use ok in simp_all)
  have r: "measurement_record_loop (length bs) ?all (length pre + 4 + mb_measurement_size b) = Inr bs"
    using Cons.IH [OF bs, of "pre @ enc_block b"] by (simp add: l add_ac)
  have i: "?all ! length pre = mb_index b" "?all ! (length pre + 1) = 1" "\<not> length ?all < length pre + 4"
    by (simp_all add: enc_block_def nth_append)
  have e: "\<lparr>mb_index = mb_index b, mb_measurement_specification = 1, mb_measurement_size = mb_measurement_size b,
    mb_measurement = mb_measurement b\<rparr> = b" using ok(1) by (cases b) simp
  define al where "al = ?all"
  note i = i [folded al_def] and u = u [folded al_def] and s = s [folded al_def] and r = r [folded al_def]
  show ?case unfolding al_def [symmetric] using i u s d r e by (simp add: Let_def DMTF_MEASUREMENT_SPECIFICATION_VALUE_def)
qed simp

lemma inj_opaque_name: "opaque_name a = opaque_name b \<longleftrightarrow> a = b"
  by (cases a; cases b; simp)

text \<open>Items with known types, none twice, and with values that decode. An empty last item would not be read.\<close>

definition items_ok :: "bool \<Rightarrow> (bytes \<Rightarrow> string) \<Rightarrow> (opaque_data_type \<times> bytes) list \<Rightarrow> json list \<Rightarrow> bool" where
  "items_ok oc hx its vs \<longleftrightarrow>
     list_all2 (\<lambda>it v. fst it \<noteq> InvalidOpaqueData \<and> length (snd it) < 2 ^ 16 \<and> opaque_value oc hx (fst it) (snd it) = Inr v) its vs \<and>
     distinct (map fst its) \<and> (its \<noteq> [] \<longrightarrow> snd (last its) \<noteq> [])"

definition item_claims :: "(opaque_data_type \<times> bytes) list \<Rightarrow> json list \<Rightarrow> (string \<times> json) list" where
  "item_claims its vs = zip (map (\<lambda>it. opaque_name (fst it)) its) vs"

lemma opaque_loop_item:
  assumes "fst it \<noteq> InvalidOpaqueData" and "length (snd it) < 2 ^ 16" and "opaque_value oc hx (fst it) (snd it) = Inr v"
    and "map_of m (opaque_name (fst it)) = None" and "0 < length (snd it) + length rest"
  shows "opaque_loop oc hx (pre @ enc_item it @ rest) (length pre) m =
    opaque_loop oc hx (pre @ enc_item it @ rest) (length pre + length (enc_item it)) (obj_insert (opaque_name (fst it)) v m)"
proof -
  let ?all = "pre @ enc_item it @ rest"
  have t: "u16_at ?all (length pre) = opaque_code (fst it)"
    by (rule u16_at_enc' [OF opaque_code_inverse(2), where pre = pre]) (simp_all add: enc_item_def)
  have z: "u16_at ?all (length pre + 2) = length (snd it)"
    by (rule u16_at_enc' [OF assms(2), where pre = "pre @ le_enc 2 (opaque_code (fst it))"]) (simp_all add: enc_item_def)
  have s: "slice_get ?all (length pre + 4) (length pre + 4 + length (snd it)) = Some (snd it)"
    by (rule slice_get_mid [where pre = "pre @ le_enc 2 (opaque_code (fst it)) @ le_enc 2 (length (snd it))"]) (simp_all add: enc_item_def)
  have l: "length (enc_item it) = 4 + length (snd it)" by (simp add: enc_item_def)
  then have c: "length pre + 4 < length ?all" using assms(5) by auto
  define al where "al = ?all"
  note F = t [folded al_def] z [folded al_def] s [folded al_def] c [folded al_def]
  show ?thesis
    unfolding al_def [symmetric]
    by (subst opaque_loop.simps, simp only: F if_True) (simp add: opaque_code_inverse(1) [OF assms(1)] assms(3,4) obj_get_def l add_ac)
qed

lemma opaque_loop_roundtrip:
  assumes "items_ok oc hx its vs" and "sorted_object m" and "\<forall>it \<in> set its. map_of m (opaque_name (fst it)) = None"
  shows "opaque_loop oc hx (pre @ concat (map enc_item its)) (length pre) m = Inr (insert_all (item_claims its vs) m)"
  using assms
proof (induction its arbitrary: pre m vs)
  case Nil
  then show ?case by (subst opaque_loop.simps) (simp add: insert_all_def item_claims_def)
next
  case (Cons it its)
  from Cons.prems(1) obtain v vs' where vs: "vs = v # vs'"
    and it: "fst it \<noteq> InvalidOpaqueData" "length (snd it) < 2 ^ 16" "opaque_value oc hx (fst it) (snd it) = Inr v"
    and d: "fst it \<notin> fst ` set its" and ok: "items_ok oc hx its vs'"
    by (auto simp: items_ok_def list_all2_Cons1 split: if_splits)
  have "0 < length (snd it) + length (concat (map enc_item its))"
    using Cons.prems(1) by (cases its) (auto simp: items_ok_def enc_item_def)
  note step = opaque_loop_item [OF it _ this, of m pre]
  have "map_of (obj_insert (opaque_name (fst it)) v m) (opaque_name (fst it')) = None" if "it' \<in> set its" for it'
    using Cons.prems(2,3) d that by (auto simp: map_of_obj_insert inj_opaque_name image_iff)
  then have "opaque_loop oc hx ((pre @ enc_item it) @ concat (map enc_item its)) (length (pre @ enc_item it)) (obj_insert (opaque_name (fst it)) v m) =
    Inr (insert_all (item_claims its vs') (obj_insert (opaque_name (fst it)) v m))"
    by (intro Cons.IH ok sorted_obj_insert Cons.prems(2)) blast
  then show ?case using step Cons.prems(3) by (simp add: vs insert_all_def item_claims_def)
qed

definition enc_response ::
  "byte list \<Rightarrow> measurement_block list \<Rightarrow> bytes \<Rightarrow> (opaque_data_type \<times> bytes) list \<Rightarrow> bytes \<Rightarrow> bytes" where
  "enc_response h bs nonce its sig =
     h @ [of_nat (length bs)] @ le_enc 3 (length (concat (map enc_block bs))) @ concat (map enc_block bs) @ nonce @
     le_enc 2 (length (concat (map enc_item its))) @ concat (map enc_item its) @ sig"

text \<open>The parts of a message that fit their length fields; opaque data, when there is any, names the versions of the VBIOS and the
  driver.\<close>

definition response_ok ::
  "bool \<Rightarrow> (bytes \<Rightarrow> string) \<Rightarrow> byte list \<Rightarrow> measurement_block list \<Rightarrow> bytes \<Rightarrow> (opaque_data_type \<times> bytes) list \<Rightarrow> json list \<Rightarrow> bool" where
  "response_ok oc hx h bs nonce its vs \<longleftrightarrow>
     length h = 4 \<and> h ! 0 = SPDM_VERSION_SUPPORTED \<and> list_all block_ok bs \<and> length bs < 2 ^ 8 \<and>
     length (concat (map enc_block bs)) < 2 ^ 24 \<and> length nonce = 32 \<and> items_ok oc hx its vs \<and>
     length (concat (map enc_item its)) < 2 ^ 16 \<and> (its \<noteq> [] \<longrightarrow> {VbiosVersion, DriverVersion} \<subseteq> fst ` set its)"

definition response_of ::
  "byte list \<Rightarrow> measurement_block list \<Rightarrow> bytes \<Rightarrow> (opaque_data_type \<times> bytes) list \<Rightarrow> json list \<Rightarrow> bytes \<Rightarrow> spdm_response" where
  "response_of h bs nonce its vs sig =
     \<lparr>sr_spdm_version = h ! 0, sr_request_response_code = h ! 1, sr_param1 = h ! 2, sr_param2 = h ! 3, sr_number_of_blocks = length bs,
      sr_measurement_record_length = length (concat (map enc_block bs)), sr_measurement_record = bs, sr_nonce = nonce,
      sr_opaque_data_length = length (concat (map enc_item its)), sr_opaque_data = insert_all (item_claims its vs) [], sr_signature = sig\<rparr>"

lemma opaque_data_roundtrip:
  assumes "items_ok oc hx its vs" and "its \<noteq> []" and "{VbiosVersion, DriverVersion} \<subseteq> fst ` set its"
  shows "opaque_data_decode oc hx (concat (map enc_item its)) = Inr (insert_all (item_claims its vs) [])"
proof -
  have ne: "concat (map enc_item its) \<noteq> []" using assms(2) by (cases its) simp_all
  have l: "opaque_loop oc hx (concat (map enc_item its)) 0 [] = Inr (insert_all (item_claims its vs) [])"
    using opaque_loop_roundtrip [OF assms(1), of "[]" "[]"] by simp
  have len: "length its = length vs" using assms(1) by (auto simp: items_ok_def dest: list_all2_lengthD)
  have "map fst (item_claims its vs) = map (\<lambda>it. opaque_name (fst it)) its" by (simp add: item_claims_def len)
  from arg_cong [OF this, of set] have keys: "fst ` set (item_claims its vs) = (\<lambda>it. opaque_name (fst it)) ` set its" by (simp only: set_map)
  have "map_of (insert_all (item_claims its vs) []) (opaque_name ty) \<noteq> None" if "ty \<in> fst ` set its" for ty
  proof -
    have "opaque_name ty \<in> fst ` set (item_claims its vs)"
      using that by (auto simp: keys)
    then have "opaque_name ty \<in> fst ` set (insert_all (item_claims its vs) [])" by (simp add: keys_insert_all)
    then show ?thesis by (simp add: map_of_eq_None_iff)
  qed
  from this [of VbiosVersion] this [of DriverVersion] show ?thesis using assms(3) ne by (simp add: opaque_data_decode_def l obj_get_def)
qed

lemma record_decode_roundtrip:
  assumes "list_all block_ok bs"
  shows "(if 0 < length (concat (map enc_block bs)) then measurement_record_decode (length bs) (concat (map enc_block bs)) else Inr []) = Inr bs"
proof (cases "bs = []")
  case False
  then have pos: "0 < length (concat (map enc_block bs))" by (cases bs) simp_all
  show ?thesis unfolding if_P [OF pos] measurement_record_decode_def
    using measurement_record_roundtrip [OF assms, of "[]" "[]"] by (simp only: append_Nil append_Nil2 list.size)
qed simp

lemma opaque_decode_roundtrip:
  assumes "items_ok oc hx its vs" and "its \<noteq> [] \<longrightarrow> {VbiosVersion, DriverVersion} \<subseteq> fst ` set its"
  shows "(if 0 < length (concat (map enc_item its)) then opaque_data_decode oc hx (concat (map enc_item its)) else Inr []) =
    Inr (insert_all (item_claims its vs) [])"
proof (cases "its = []")
  case True
  then show ?thesis by (simp add: item_claims_def insert_all_def)
next
  case False
  then have pos: "0 < length (concat (map enc_item its))" by (cases its) simp_all
  show ?thesis unfolding if_P [OF pos] by (rule opaque_data_roundtrip [OF assms(1) False]) (use assms(2) False in blast)
qed

text \<open>What a decoded response leaves to the caller: the message ends with the signature.\<close>

lemma spdm_response_decode_Inr:
  assumes "spdm_response_decode oc hx bytes n = Inr (r, k)"
  shows "n \<le> k" and "k \<le> length bytes" and "sr_signature r = take n (drop (k - n) bytes)" and "42 + n \<le> k"
proof -
  from assms obtain l1 l2 sig where "slice_get bytes (8 + l1 + 32 + 2 + l2) (8 + l1 + 32 + 2 + l2 + n) = Some sig"
    "k = 8 + l1 + 32 + 2 + l2 + n" "sr_signature r = sig"
    unfolding spdm_response_decode_def Let_def and_then_eq_Inr_iff ok_or_eq_Inr_iff by (elim exE conjE) (rule that, assumption, auto)
  then show "n \<le> k" "k \<le> length bytes" "sr_signature r = take n (drop (k - n) bytes)" "42 + n \<le> k"
    by (auto simp: slice_get_def split: if_splits)
qed

lemma spdm_response_decode_enc:
  assumes "response_ok oc hx h bs nonce its vs"
  shows "spdm_response_decode oc hx (enc_response h bs nonce its sig @ rest) (length sig) =
    Inr (response_of h bs nonce its vs sig, length (enc_response h bs nonce its sig))"
proof -
  define R Q where "R = concat (map enc_block bs)" and "Q = concat (map enc_item its)"
  from assms have h: "length h = 4" "h ! 0 = SPDM_VERSION_SUPPORTED" and bs: "list_all block_ok bs" "length bs < 2 ^ 8" "length R < 2 ^ 24"
    and n: "length nonce = 32" and it: "items_ok oc hx its vs" "length Q < 2 ^ 16" "its \<noteq> [] \<longrightarrow> {VbiosVersion, DriverVersion} \<subseteq> fst ` set its"
    by (simp_all add: response_ok_def R_def Q_def)
  obtain h0 h1 h2 h3 where hs: "h = [h0, h1, h2, h3]" using h(1) by (auto simp: numeral_eq_Suc length_Suc_conv)
  obtain r0 r1 r2 where rs: "le_enc 3 (length R) = [r0, r1, r2]"
    using length_le_enc [of 3 "length R"] by (auto simp: numeral_eq_Suc length_Suc_conv simp del: length_le_enc le_enc.simps)
  define al where "al = enc_response h bs nonce its sig @ rest"
  have al: "al = [h0, h1, h2, h3, of_nat (length bs), r0, r1, r2] @ R @ nonce @ le_enc 2 (length Q) @ Q @ sig @ rest"
    by (simp add: al_def enc_response_def hs rs [symmetric] R_def Q_def)
  have nb: "unat (of_nat (length bs) :: byte) = length bs" using bs(2) by (simp add: unat_of_nat)
  have l: "u24_from_le_bytes r0 r1 r2 = length R"
    using bs(3) by (simp only: u24_le_val rs [symmetric] le_val_le_enc) simp
  let ?h = "[h0, h1, h2, h3, of_nat (length bs), r0, r1, r2]"
  have s1: "slice_get al 8 (8 + length R) = Some R" by (rule slice_get_mid [OF _ _ al]) simp_all
  have s2: "slice_get al (8 + length R) (8 + length R + 32) = Some nonce"
    by (rule slice_get_mid [where pre = "?h @ R" and rest = "le_enc 2 (length Q) @ Q @ sig @ rest"]) (simp_all add: al n)
  have s3: "slice_get al (8 + length R + 32) (8 + length R + 32 + 2) = Some (le_enc 2 (length Q))"
    by (rule slice_get_mid [where pre = "?h @ R @ nonce" and rest = "Q @ sig @ rest"]) (simp_all add: al n)
  have s4: "slice_get al (8 + length R + 32 + 2) (8 + length R + 32 + 2 + length Q) = Some Q"
    by (rule slice_get_mid [where pre = "?h @ R @ nonce @ le_enc 2 (length Q)" and rest = "sig @ rest"]) (simp_all add: al n)
  have s5: "slice_get al (8 + length R + 32 + 2 + length Q) (8 + length R + 32 + 2 + length Q + length sig) = Some sig"
    by (rule slice_get_mid [where pre = "?h @ R @ nonce @ le_enc 2 (length Q) @ Q" and rest = rest]) (simp_all add: al n)
  have lo: "le_val (le_enc 2 (length Q)) = length Q" using it(2) by (simp add: le_val_le_enc)
  have len: "length (enc_response h bs nonce its sig) = 8 + length R + 32 + 2 + length Q + length sig"
    by (simp add: enc_response_def hs R_def [symmetric] Q_def [symmetric] n)
  have idx: "al ! 0 = h0" "al ! 1 = h1" "al ! 2 = h2" "al ! 3 = h3" "al ! 4 = of_nat (length bs)" "al ! 5 = r0" "al ! 6 = r1" "al ! 7 = r2"
    "\<not> length al < 8" by (simp_all add: al)
  note rt = record_decode_roundtrip [OF bs(1), folded R_def] opaque_decode_roundtrip [OF it(1,3), folded Q_def]
  have if_ok: "(if b then and_then (Inr x) f else y) = (if b then f x else y)" for b x y and f :: "_ \<Rightarrow> 'x anyhow" by simp
  have v: "ensure (h0 = SPDM_VERSION_SUPPORTED) m = Inr ()" "ensure (\<not> length al < 8) m = Inr ()" for m :: string
    using h(2) idx(9) by (simp_all add: hs)
  have "spdm_response_decode oc hx al (length sig) =
    Inr (response_of h bs nonce its vs sig, 8 + length R + 32 + 2 + length Q + length sig)"
    by (simp only: spdm_response_decode_def Let_def v idx(1-8) nb l s1 s2 s3 s4 s5 lo ok_or_simps and_then_simps if_ok rt)
      (simp add: response_of_def hs R_def [symmetric] Q_def [symmetric])
  then show ?thesis by (simp only: al_def len)
qed

definition sample_block :: measurement_block where
  "sample_block = \<lparr>mb_index = 1, mb_measurement_specification = 1, mb_measurement_size = 5,
     mb_measurement = \<lparr>dm_type = 0, dm_size = 2, dm_value = [7, 8]\<rparr>\<rparr>"

text \<open>Opaque data with the versions and the id of the firmware.\<close>

definition sample_items :: "(opaque_data_type \<times> bytes) list" where
  "sample_items = [(VbiosVersion, [0, 0x9f, 1, 0]), (DriverVersion, [0x35]), (Fwid, replicate 48 6)]"

definition sample_item_values :: "json list" where
  "sample_item_values = [JString (join_dots (map fmt_02x [0x9f, 0]) @ ''.'' @ fmt_02x 1),
     JString (trim_end_matches (CHR 0x00) (from_utf8_lossy [0x35])), JString (string_of_bytes (replicate 48 6))]"

definition sample_header :: "byte list" where
  "sample_header = [0x11, 0x60, 0, 0]"

lemma sample_spdm_ok: "response_ok oc string_of_bytes sample_header [sample_block] (replicate 32 0) sample_items sample_item_values"
  by (simp add: response_ok_def sample_header_def SPDM_VERSION_SUPPORTED_def sample_block_def block_ok_def enc_block_def
      items_ok_def sample_items_def sample_item_values_def opaque_value_def format_vbios_version_def enc_item_def)

lemma sample_response_decodes:
  "spdm_response_decode oc string_of_bytes
     (enc_response sample_header [sample_block] (replicate 32 0) sample_items (replicate 96 9) @ rest) 96 =
   Inr (response_of sample_header [sample_block] (replicate 32 0) sample_items sample_item_values (replicate 96 9),
     length (enc_response sample_header [sample_block] (replicate 32 0) sample_items (replicate 96 9)))"
  using spdm_response_decode_enc [OF sample_spdm_ok, of oc "replicate 96 9" rest] by simp

subsection \<open>Properties\<close>

text \<open>C21. The parser of SPDM responses inverts the format: from the encoding of a header, measurement blocks, a nonce, items of opaque data
  and a signature, followed by anything, it returns exactly these, with one claim per item of the opaque data, and the length of the
  message. It asks that every part fit its length field, that no item occur twice, that the last item not be empty and that the
  versions of the VBIOS and the driver be there if any item is.\<close>

theorem spdm_response_roundtrip:
  assumes "response_ok oc hx h bs nonce its vs"
  shows "spdm_response_decode oc hx (enc_response h bs nonce its sig @ rest) (length sig) =
    Inr (response_of h bs nonce its vs sig, length (enc_response h bs nonce its sig))"
  using assms by (rule spdm_response_decode_enc)

theorem spdm_response_roundtrip_witness:
  "spdm_response_decode True string_of_bytes
     (enc_response sample_header [sample_block] (replicate 32 0) sample_items (replicate 96 9) @ [1]) 96 =
   Inr (response_of sample_header [sample_block] (replicate 32 0) sample_items sample_item_values (replicate 96 9),
     length (enc_response sample_header [sample_block] (replicate 32 0) sample_items (replicate 96 9)))"
  using spdm_response_roundtrip [OF sample_spdm_ok, of True "replicate 96 9" "[1]"] by simp

end
