(* ===== verification/Nvidia.thy ===== *)
theory Nvidia
  imports Nvidia_Spdm
begin

text \<open>
  The verifier of Nvidia devices (\<^verbatim>\<open>deps/verifier/src/nvidia/mod.rs\<close>, \<^verbatim>\<open>report.rs\<close>, \<^verbatim>\<open>cert_chain.rs\<close>, \<^verbatim>\<open>nras_response.rs\<close>,
  \<^verbatim>\<open>nras_jwks.rs\<close>): the local verification of a report under Nvidia's root certificate, and the remote one by Nvidia's attestation
  service. The crates are the record \<open>nv_crates\<close>, over the types \<open>'c\<close> of certificates, \<open>'a\<close> of device architectures and \<open>'k\<close>
  of keys; a call that returns an error is \<open>None\<close>.
\<close>

subsection \<open>Evidence and crates\<close>

record 'a nv_device_report_and_cert =
  nd_arch :: 'a
  nd_uuid :: string
  nd_evidence :: string
  nd_certificate :: string

text \<open>
  \<open>nv_fwid_extension\<close> re-encodes and parses a certificate and is \<^verbatim>\<open>get_extension_unique\<close> of the id of the firmware.
  \<open>nv_verify_cert root leaf chain\<close> is the verification by OpenSSL, \<open>None\<close> when a call fails. \<open>nv_post\<close> and \<open>nv_get\<close> give the
  status and the text of the response. \<open>nv_nras_from_str\<close> gives the fields \<^verbatim>\<open>jwt\<close> and \<^verbatim>\<open>eat\<close>. \<open>nv_decode_header\<close> is the key id of the
  header of a token; \<open>nv_jwt_decode\<close> checks a token with ES384.
\<close>

record ('c, 'a, 'k) nv_crates =
  nv_from_value :: "json \<Rightarrow> 'a nv_device_report_and_cert list option"
  nv_hopper :: 'a
  nv_arch_to_string :: "'a \<Rightarrow> string"
  nv_hex_encode :: "bytes \<Rightarrow> string"
  nv_hex_decode :: "string \<Rightarrow> bytes option"
  nv_b64_encode :: "bytes \<Rightarrow> string"
  nv_b64_decode :: "string \<Rightarrow> bytes option"
  nv_b64_decode_no_pad :: "string \<Rightarrow> bytes option"
  nv_root_pem :: bytes
  nv_from_pem :: "bytes \<Rightarrow> 'c option"
  nv_stack_from_pem :: "bytes \<Rightarrow> 'c list option"
  nv_sha1 :: "'c \<Rightarrow> bytes option"
  nv_fwid_extension :: "'c \<Rightarrow> bytes option option"
  nv_verify_cert :: "'c \<Rightarrow> 'c \<Rightarrow> 'c list \<Rightarrow> bool option"
  nv_signature_from_slice :: "bytes \<Rightarrow> bytes option"
  nv_public_key_der :: "'c \<Rightarrow> bytes option"
  nv_verifying_key :: "bytes \<Rightarrow> bytes option"
  nv_ecdsa_verify :: "bytes \<Rightarrow> bytes \<Rightarrow> bytes \<Rightarrow> bool"
  nv_post :: "string \<Rightarrow> json \<Rightarrow> (nat \<times> string option) option"
  nv_get :: "string \<Rightarrow> (nat \<times> string option) option"
  nv_json_from_str :: "string \<Rightarrow> json option"
  nv_json_to_string :: "json \<Rightarrow> string option"
  nv_pointer :: "json \<Rightarrow> string \<Rightarrow> json option"
  nv_nras_from_str :: "string \<Rightarrow> (string list \<times> (string \<times> string) list) option"
  nv_decode_header :: "string \<Rightarrow> string option option"
  nv_jwk_from_str :: "string \<Rightarrow> 'k option"
  nv_decoding_key :: "'k \<Rightarrow> 'k option"
  nv_jwt_decode :: "string \<Rightarrow> 'k \<Rightarrow> bool"

definition HOPPER_SIGNATURE_LENGTH :: usize where
  "HOPPER_SIGNATURE_LENGTH = 96"

definition NRAS_URL :: string where
  "NRAS_URL = ''https://nras.attestation.nvidia.com/v4/attest''"

definition NRAS_JWKS_URL :: string where
  "NRAS_JWKS_URL = ''https://nras.attestation.nvidia.com/.well-known/jwks.json''"

subsection \<open>The certificate chain\<close>

definition certificate_fingerprint :: "('c, 'a, 'k) nv_crates \<Rightarrow> 'c \<Rightarrow> string anyhow" where
  "certificate_fingerprint c cert = and_then (ok_or (nv_sha1 c cert) ''digest'') (\<lambda>d. Inr (nv_hex_encode c d))"

text \<open>The root certificate and its fingerprint are made when they are first used; an error of either panics.\<close>

definition NVIDIA_ROOT_CA :: "('c, 'a, 'k) nv_crates \<Rightarrow> ('c \<times> string) anyhow" where
  "NVIDIA_ROOT_CA c =
     (case nv_from_pem c (nv_root_pem c) of
        None \<Rightarrow> panic ''unwrap''
      | Some cert \<Rightarrow> (case certificate_fingerprint c cert of Inr digest \<Rightarrow> Inr (cert, digest) | Inl _ \<Rightarrow> panic ''unwrap''))"

definition cert_chain_decode :: "('c, 'a, 'k) nv_crates \<Rightarrow> bytes \<Rightarrow> 'c list anyhow" where
  "cert_chain_decode c bytes = ok_or (nv_stack_from_pem c bytes) ''pem''"

definition get_root_certificate :: "'c list \<Rightarrow> 'c anyhow" where
  "get_root_certificate certs =
     (if certs = [] then bail ''Root CA certificate not found in the NVIDIA certificate chain'' else Inr (last certs))"

definition get_leaf_certificate :: "'c list \<Rightarrow> 'c anyhow" where
  "get_leaf_certificate certs =
     (case certs of [] \<Rightarrow> bail ''Leaf certificate not found in the NVIDIA certificate chain'' | cert # _ \<Rightarrow> Inr cert)"

definition check_root_ca_is_trusted :: "('c, 'a, 'k) nv_crates \<Rightarrow> 'c list \<Rightarrow> unit anyhow" where
  "check_root_ca_is_trusted c certs =
     and_then (get_root_certificate certs) (\<lambda>root_ca.
     and_then (certificate_fingerprint c root_ca) (\<lambda>digest.
     and_then (NVIDIA_ROOT_CA c) (\<lambda>(_, trusted).
       ensure (digest = trusted) ''Root CA in the certificate chain is not trusted'')))"

definition get_fwid_from_cert :: "('c, 'a, 'k) nv_crates \<Rightarrow> bool \<Rightarrow> 'c \<Rightarrow> string anyhow" where
  "get_fwid_from_cert c oc cert =
     and_then (ok_or (nv_fwid_extension c cert) ''x509'') (\<lambda>ext.
     and_then (ok_or ext ''FwId oid not found in the NVIDIA signing certificate'') (\<lambda>value.
     and_then (usize_sub oc (length value) 48) (\<lambda>start.
     and_then (ok_or (slice_get value start (length value)) ''Unexpected fwid oid size'') (\<lambda>fwid.
       Inr (nv_hex_encode c fwid)))))"

definition cert_chain_verify :: "('c, 'a, 'k) nv_crates \<Rightarrow> bool \<Rightarrow> 'c list \<Rightarrow> string \<Rightarrow> unit anyhow" where
  "cert_chain_verify c oc certs expected_fwid =
     and_then (ensure (\<not> length certs < 2) ''Certificate chain must have at least the root CA and signing certificates'') (\<lambda>_.
     and_then (check_root_ca_is_trusted c certs) (\<lambda>_.
     and_then (get_leaf_certificate certs) (\<lambda>leaf_cert.
     and_then (get_fwid_from_cert c oc leaf_cert) (\<lambda>cert_fwid.
     and_then (ensure (cert_fwid = expected_fwid) ''Fwid mismatch'') (\<lambda>_.
     and_then (NVIDIA_ROOT_CA c) (\<lambda>(root, _).
     and_then (ok_or (nv_verify_cert c root leaf_cert (butlast certs)) ''openssl'') (\<lambda>verified.
       ensure verified ''Report certificate chain failed to verify'')))))))"

subsection \<open>Reports\<close>

record nvidia_attestation_report =
  nr_request :: spdm_request
  nr_response :: spdm_response

definition report_decode :: "('c, 'a, 'k) nv_crates \<Rightarrow> bool \<Rightarrow> bytes \<Rightarrow> usize \<Rightarrow> (nvidia_attestation_report \<times> usize) anyhow" where
  "report_decode c oc report_bytes signature_length =
     and_then (ensure (SPDM_GET_MEASUREMENT_REQUEST_SIZE \<le> length report_bytes) ''Attestation report data is too small'') (\<lambda>_.
     and_then (spdm_request_decode (take SPDM_GET_MEASUREMENT_REQUEST_SIZE report_bytes)) (\<lambda>(request, request_size).
     and_then (spdm_response_decode oc (nv_hex_encode c) (drop SPDM_GET_MEASUREMENT_REQUEST_SIZE report_bytes) signature_length)
       (\<lambda>(response, response_size).
       Inr (\<lparr>nr_request = request, nr_response = response\<rparr>, request_size + response_size))))"

definition get_fwid :: "nvidia_attestation_report \<Rightarrow> string anyhow" where
  "get_fwid report =
     and_then (ok_or (obj_get (sr_opaque_data (nr_response report)) (opaque_name Fwid)) ''Nvidia report fwid not found'') (\<lambda>fwid_value.
       case fwid_value of JString fwid \<Rightarrow> Inr fwid | _ \<Rightarrow> bail ''Nvidia report fwid value mismatch'')"

definition report_verify_signature :: "('c, 'a, 'k) nv_crates \<Rightarrow> bytes \<Rightarrow> bytes \<Rightarrow> 'c \<Rightarrow> unit anyhow" where
  "report_verify_signature c signed_bytes signature_bytes signing_cert =
     and_then (ok_or (nv_signature_from_slice c signature_bytes) ''signature'') (\<lambda>signature.
     and_then (ok_or (nv_public_key_der c signing_cert) ''key'') (\<lambda>public_key.
     and_then (ok_or (nv_verifying_key c public_key) ''key'') (\<lambda>verifying_key.
       ensure (nv_ecdsa_verify c verifying_key signed_bytes signature) ''NVIDIA report signature failed'')))"

definition validate_nonce :: "nvidia_attestation_report \<Rightarrow> bytes \<Rightarrow> unit anyhow" where
  "validate_nonce report expected_nonce = ensure (expected_nonce = sq_nonce (nr_request report)) ''Nvidia report nonce mismatch''"

definition report_try_new ::
  "('c, 'a, 'k) nv_crates \<Rightarrow> bool \<Rightarrow> bytes \<Rightarrow> usize \<Rightarrow> bytes \<Rightarrow> bytes \<Rightarrow> nvidia_attestation_report anyhow" where
  "report_try_new c oc report_bytes signature_length cert_chain_bytes expected_nonce =
     and_then (report_decode c oc report_bytes signature_length) (\<lambda>(report, report_size).
     and_then (cert_chain_decode c cert_chain_bytes) (\<lambda>cert_chain.
     and_then (get_leaf_certificate cert_chain) (\<lambda>leaf_cert.
     and_then (ensure (signature_length \<le> report_size) ''Nvidia report size too small'') (\<lambda>_.
     let signed_data_size = report_size - signature_length in
     and_then (ok_or (slice_get report_bytes 0 signed_data_size) ''Nvidia report signed data overflow'') (\<lambda>signed_data.
     and_then (report_verify_signature c signed_data (sr_signature (nr_response report)) leaf_cert) (\<lambda>_.
     and_then (get_fwid report) (\<lambda>fwid.
     and_then (cert_chain_verify c oc cert_chain fwid) (\<lambda>_.
     and_then (validate_nonce report expected_nonce) (\<lambda>_.
       Inr report)))))))))"

subsection \<open>Local verification\<close>

text \<open>The measurements are a hash map from the index of a block; a later block replaces an earlier one of the same index.\<close>

definition nv_claims :: "('c, 'a, 'k) nv_crates \<Rightarrow> 'a \<Rightarrow> string \<Rightarrow> nvidia_attestation_report \<Rightarrow> json" where
  "nv_claims c arch uuid report =
     json_object
       [(''arch'', JString (nv_arch_to_string c arch)), (''uuid'', JString uuid),
        (''measurements'', JObject (insert_all
           (map (\<lambda>b. (fmt_dec (unat (mb_index b)), JString (nv_hex_encode c (dm_value (mb_measurement b)))))
             (sr_measurement_record (nr_response report))) [])),
        (''config'', JObject (sr_opaque_data (nr_response report)))]"

definition evaluate_device_locally ::
  "('c, 'a, 'k) nv_crates \<Rightarrow> bool \<Rightarrow> 'a nv_device_report_and_cert \<Rightarrow> bytes \<Rightarrow> (json \<times> tee_class) anyhow" where
  "evaluate_device_locally c oc device expected_nonce =
     and_then (ensure (nd_arch device = nv_hopper c) ''Device architecture not supported'') (\<lambda>_.
     and_then (ok_or (nv_b64_decode c (nd_certificate device)) ''base64'') (\<lambda>cert_chain_vec.
     and_then (ok_or (nv_hex_decode c (nd_evidence device)) ''hex'') (\<lambda>report_vec.
     and_then (report_try_new c oc report_vec HOPPER_SIGNATURE_LENGTH cert_chain_vec expected_nonce) (\<lambda>report.
       Inr (nv_claims c (nd_arch device) (nd_uuid device) report, ''gpu'')))))"

subsection \<open>Remote verification\<close>

fun load_keys :: "('c, 'a, 'k) nv_crates \<Rightarrow> json list \<Rightarrow> (string \<rightharpoonup> string) \<Rightarrow> (string \<rightharpoonup> string) anyhow" where
  "load_keys c [] keys = Inr keys"
| "load_keys c (loaded_key # ks) keys =
     and_then (ok_or (nv_pointer c loaded_key ''/kid'') ''Could not find KID'') (\<lambda>kid.
     and_then (ok_or (as_str kid) ''Malformed KID'') (\<lambda>kid.
     and_then (ok_or (nv_json_to_string c loaded_key) ''json'') (\<lambda>text.
       load_keys c ks (keys(kid \<mapsto> text)))))"

definition is_success :: "nat \<Rightarrow> bool" where
  "is_success status \<longleftrightarrow> 200 \<le> status \<and> status < 300"

definition nras_jwks_new :: "('c, 'a, 'k) nv_crates \<Rightarrow> (string \<rightharpoonup> string) anyhow" where
  "nras_jwks_new c =
     and_then (ok_or (nv_get c NRAS_JWKS_URL) ''reqwest'') (\<lambda>(status, body).
     and_then (ensure (is_success status) ''JWKS Request Failed'') (\<lambda>_.
     and_then (ok_or (Option.bind body (nv_json_from_str c)) ''reqwest'') (\<lambda>loaded_keys.
     and_then (ok_or (nv_pointer c loaded_keys ''/keys'') ''Could not find JWKs'') (\<lambda>loaded_keys.
     and_then (case loaded_keys of JArray ks \<Rightarrow> Inr ks | _ \<Rightarrow> bail ''Could not find JWKs array'') (\<lambda>loaded_keys.
       load_keys c loaded_keys Map.empty)))))"

record nras_response =
  ns_jwt :: string
  ns_eat :: string

definition nras_response_from_str :: "('c, 'a, 'k) nv_crates \<Rightarrow> string \<Rightarrow> nras_response anyhow" where
  "nras_response_from_str c s =
     and_then (ok_or (nv_nras_from_str c s) ''json'') (\<lambda>(jwt, eat).
     and_then (ensure (length jwt = 2) ''Unexpected Payload Format'') (\<lambda>_.
     and_then (ensure (length eat = 1) ''Unexpected submod count.'') (\<lambda>_.
       Inr \<lparr>ns_jwt = jwt ! 1, ns_eat = snd (hd eat)\<rparr>)))"

definition get_jwt_payload :: "('c, 'a, 'k) nv_crates \<Rightarrow> string \<Rightarrow> json anyhow" where
  "get_jwt_payload c jwt =
     (let parts = split_on (CHR ''.'') jwt in
      and_then (ensure (length parts = 3) ''Malformed JWT'') (\<lambda>_.
      and_then (ok_or (nv_b64_decode_no_pad c (parts ! 1)) ''base64'') (\<lambda>payload_bytes.
        ok_or (nv_json_from_str c (from_utf8_lossy payload_bytes)) ''json'')))"

definition get_jwt_kid :: "('c, 'a, 'k) nv_crates \<Rightarrow> string \<Rightarrow> string anyhow" where
  "get_jwt_kid c jwt = and_then (ok_or (nv_decode_header c jwt) ''jwt'') (\<lambda>kid. ok_or kid ''Could not find KID'')"

definition validate_jwt :: "('c, 'a, 'k) nv_crates \<Rightarrow> string \<Rightarrow> (string \<rightharpoonup> string) \<Rightarrow> unit anyhow" where
  "validate_jwt c jwt jwks =
     and_then (get_jwt_kid c jwt) (\<lambda>kid.
     and_then (ok_or (jwks kid) ''Could not find KID in JWKs'') (\<lambda>jwk.
     and_then (ok_or (nv_jwk_from_str c jwk) ''json'') (\<lambda>jwk.
     and_then (ok_or (nv_decoding_key c jwk) ''jwk'') (\<lambda>decoding_key.
       ensure (nv_jwt_decode c jwt decoding_key) ''jwt''))))"

definition nras_validate :: "('c, 'a, 'k) nv_crates \<Rightarrow> nras_response \<Rightarrow> (string \<rightharpoonup> string) \<Rightarrow> unit anyhow" where
  "nras_validate c response jwks = and_then (validate_jwt c (ns_jwt response) jwks) (\<lambda>_. validate_jwt c (ns_eat response) jwks)"

definition nras_claims :: "('c, 'a, 'k) nv_crates \<Rightarrow> nras_response \<Rightarrow> json anyhow" where
  "nras_claims c response =
     and_then (get_jwt_payload c (ns_eat response)) (\<lambda>claims.
     and_then (get_jwt_payload c (ns_jwt response)) (\<lambda>jwt_claims.
       case nv_pointer c jwt_claims ''/x-nvidia-overall-att-result'' of
         Some overall_result \<Rightarrow>
           and_then (ok_or (as_object claims) ''Unexpected claims format.'') (\<lambda>claims_dict.
             Inr (JObject (obj_insert ''x-nvidia-overall-att-result'' overall_result claims_dict)))
       | None \<Rightarrow> Inr claims))"

definition evaluate_device_remotely ::
  "('c, 'a, 'k) nv_crates \<Rightarrow> string option \<Rightarrow> 'a nv_device_report_and_cert \<Rightarrow> bytes \<Rightarrow> (json \<times> tee_class) anyhow" where
  "evaluate_device_remotely c verifier_url device expected_nonce =
     and_then (if nd_arch device = nv_hopper c then Inr (''gpu'', ''gpu'') else panic ''not yet implemented'') (\<lambda>(tee_class, endpoint).
     and_then (ok_or (nv_hex_decode c (nd_evidence device)) ''hex'') (\<lambda>evidence.
     let request_url = (case verifier_url of Some url \<Rightarrow> url | None \<Rightarrow> NRAS_URL) @ ''/'' @ endpoint;
         request_json = json_object
           [(''nonce'', JString (nv_hex_encode c expected_nonce)),
            (''arch'', JString (map ascii_upper (nv_arch_to_string c (nd_arch device)))),
            (''evidence_list'', JArray [json_object
              [(''evidence'', JString (nv_b64_encode c evidence)), (''certificate'', JString (nd_certificate device))]]),
            (''claims_version'', JString ''3.0'')] in
     and_then (ok_or (nv_post c request_url request_json) ''reqwest'') (\<lambda>(status, body).
     and_then (ensure (is_success status) ''Request Failed'') (\<lambda>_.
     and_then (nras_jwks_new c) (\<lambda>jwks.
     and_then (ok_or body ''reqwest'') (\<lambda>text.
     and_then (nras_response_from_str c text) (\<lambda>response.
     and_then (nras_validate c response jwks) (\<lambda>_.
     and_then (nras_claims c response) (\<lambda>claims.
     and_then (ok_or (nv_pointer c claims ''/x-nvidia-gpu-attestation-report-nonce-match'') ''Couldn't find nonce status.'') (\<lambda>nonce_ok.
     and_then (ok_or (as_bool nonce_ok) ''Nonce status malformed'') (\<lambda>nonce_ok.
     and_then (ensure nonce_ok ''Report Data Mismatch'') (\<lambda>_.
       Inr (claims, tee_class)))))))))))))"

subsection \<open>The verifier\<close>

datatype nvidia_verifier_type = Local | Remote "string option"

definition nvidia_new :: "nvidia_verifier_type option \<Rightarrow> nvidia_verifier_type" where
  "nvidia_new config = (case config of Some verifier \<Rightarrow> verifier | None \<Rightarrow> Local)"

definition evaluate_device ::
  "('c, 'a, 'k) nv_crates \<Rightarrow> bool \<Rightarrow> nvidia_verifier_type \<Rightarrow> bytes \<Rightarrow> 'a nv_device_report_and_cert \<Rightarrow> (json \<times> tee_class) anyhow" where
  "evaluate_device c oc ty expected_nonce device =
     (case ty of
        Local \<Rightarrow> evaluate_device_locally c oc device expected_nonce
      | Remote url \<Rightarrow> evaluate_device_remotely c url device expected_nonce)"

fun evaluate_devices ::
  "('c, 'a, 'k) nv_crates \<Rightarrow> bool \<Rightarrow> nvidia_verifier_type \<Rightarrow> bytes \<Rightarrow> 'a nv_device_report_and_cert list \<Rightarrow> (json \<times> tee_class) list anyhow" where
  "evaluate_devices c oc ty expected_nonce [] = Inr []"
| "evaluate_devices c oc ty expected_nonce (device # devices) =
     and_then (evaluate_device c oc ty expected_nonce device) (\<lambda>claims.
     and_then (evaluate_devices c oc ty expected_nonce devices) (\<lambda>all_devices_claims. Inr (claims # all_devices_claims)))"

definition nvidia_evaluate ::
  "('c, 'a, 'k) nv_crates \<Rightarrow> bool \<Rightarrow> nvidia_verifier_type \<Rightarrow> json \<Rightarrow> report_data \<Rightarrow> init_data_hash \<Rightarrow> (json \<times> tee_class) list anyhow" where
  "nvidia_evaluate c oc ty evidence expected_report_data expected_init_data_hash =
     and_then (ok_or (nv_from_value c evidence) ''Failed to deserialize the NVIDIA device evidence'') (\<lambda>devices.
       case expected_report_data of
         RdNotProvided \<Rightarrow> bail ''Nvidia report data not provided''
       | RdValue expected_nonce \<Rightarrow> evaluate_devices c oc ty (regularize_data expected_nonce SPDM_NONCE_SIZE) devices)"

definition nvidia_verifier :: "('c, 'a, 'k) nv_crates \<Rightarrow> bool \<Rightarrow> nvidia_verifier_type \<Rightarrow> verifier" where
  "nvidia_verifier c oc ty = \<lparr>ve_evaluate = nvidia_evaluate c oc ty,
     ve_generate_supplemental_challenge = default_supplemental_challenge\<rparr>"

subsection \<open>What accepted evidence carries\<close>

lemma spdm_request_decode_Inr:
  "spdm_request_decode bytes = Inr (q, n) \<Longrightarrow> 37 \<le> length bytes \<and> n = 37 \<and> sq_nonce q = take 32 (drop 4 bytes)"
  by (auto simp: spdm_request_decode_def SPDM_GET_MEASUREMENT_REQUEST_SIZE_def SPDM_NONCE_SIZE_def result_simps)

lemma report_decode_Inr:
  assumes "report_decode c oc bin n = Inr (report, k)"
  shows "sq_nonce (nr_request report) = take 32 (drop 4 bin)" and "sr_signature (nr_response report) = take n (drop (k - n) bin)"
    and "79 + n \<le> k" and "k \<le> length bin"
proof -
  from assms obtain r j where q: "spdm_request_decode (take 37 bin) = Inr (nr_request report, r)" and l: "37 \<le> length bin"
    and s: "spdm_response_decode oc (nv_hex_encode c) (drop 37 bin) n = Inr (nr_response report, j)" and k: "k = r + j"
    by (auto simp: report_decode_def SPDM_GET_MEASUREMENT_REQUEST_SIZE_def SPDM_NONCE_SIZE_def result_simps split: prod.splits)
  note Q = spdm_request_decode_Inr [OF q] and S = spdm_response_decode_Inr [OF s]
  show "sq_nonce (nr_request report) = take 32 (drop 4 bin)" using Q by (simp add: drop_take)
  show "79 + n \<le> k" "k \<le> length bin" using Q S k l by auto
  have "drop (j - n) (drop 37 bin) = drop (k - n) bin" using Q S(1) k by (simp add: add.commute)
  then show "sr_signature (nr_response report) = take n (drop (k - n) bin)" using S(3) by simp
qed

text \<open>A chain that ends in the trusted root and certifies its first certificate, for the firmware of the report.\<close>

definition chain_trusted :: "('c, 'a, 'k) nv_crates \<Rightarrow> bool \<Rightarrow> 'c list \<Rightarrow> string \<Rightarrow> bool" where
  "chain_trusted c oc certs fwid \<longleftrightarrow> 2 \<le> length certs \<and>
     (\<exists>root fp. NVIDIA_ROOT_CA c = Inr (root, fp) \<and> certificate_fingerprint c (last certs) = Inr fp \<and>
        nv_verify_cert c root (hd certs) (butlast certs) = Some True) \<and>
     get_fwid_from_cert c oc (hd certs) = Inr fwid"

lemma cert_chain_verify_iff: "cert_chain_verify c oc certs fwid = Inr u \<longleftrightarrow> chain_trusted c oc certs fwid"
  by (cases certs)
    (auto simp: cert_chain_verify_def chain_trusted_def check_root_ca_is_trusted_def get_root_certificate_def get_leaf_certificate_def
      Suc_le_eq result_simps split: prod.splits)

text \<open>\<open>signed_by c cert bytes sig\<close>: the key of the certificate has signed the bytes.\<close>

definition signed_by :: "('c, 'a, 'k) nv_crates \<Rightarrow> 'c \<Rightarrow> bytes \<Rightarrow> bytes \<Rightarrow> bool" where
  "signed_by c cert bs sig_bytes \<longleftrightarrow>
     (\<exists>sig der key. nv_signature_from_slice c sig_bytes = Some sig \<and> nv_public_key_der c cert = Some der \<and>
        nv_verifying_key c der = Some key \<and> nv_ecdsa_verify c key bs sig)"

lemma report_verify_signature_iff: "report_verify_signature c bs sig cert = Inr u \<longleftrightarrow> signed_by c cert bs sig"
  by (auto simp: report_verify_signature_def signed_by_def result_simps)

definition report_genuine :: "('c, 'a, 'k) nv_crates \<Rightarrow> bool \<Rightarrow> bytes \<Rightarrow> bytes \<Rightarrow> nvidia_attestation_report \<Rightarrow> usize \<Rightarrow> bool" where
  "report_genuine c oc pem bin report k \<longleftrightarrow>
     report_decode c oc bin 96 = Inr (report, k) \<and>
     (\<exists>certs fwid. nv_stack_from_pem c pem = Some certs \<and> chain_trusted c oc certs fwid \<and> get_fwid report = Inr fwid \<and>
        signed_by c (hd certs) (take (k - 96) bin) (take 96 (drop (k - 96) bin)))"

lemma report_try_new_iff:
  "report_try_new c oc bin 96 pem nonce = Inr report \<longleftrightarrow>
     (\<exists>k. report_genuine c oc pem bin report k \<and> nonce = sq_nonce (nr_request report))"
proof
  assume "report_try_new c oc bin 96 pem nonce = Inr report"
  then obtain k certs leaf bs fwid where d: "report_decode c oc bin 96 = Inr (report, k)" and p: "nv_stack_from_pem c pem = Some certs"
    and l: "get_leaf_certificate certs = Inr leaf" and s: "slice_get bin 0 (k - 96) = Some bs"
    and v: "signed_by c leaf bs (sr_signature (nr_response report))" and f: "get_fwid report = Inr fwid" "chain_trusted c oc certs fwid"
    and n: "nonce = sq_nonce (nr_request report)"
    by (auto simp: report_try_new_def cert_chain_decode_def validate_nonce_def report_verify_signature_iff cert_chain_verify_iff Let_def
        result_simps split: prod.splits)
  from l have "leaf = hd certs" by (cases certs) (simp_all add: get_leaf_certificate_def)
  moreover from s have "bs = take (k - 96) bin" by (simp add: slice_get_def split: if_splits)
  ultimately show "\<exists>k. report_genuine c oc pem bin report k \<and> nonce = sq_nonce (nr_request report)"
    using d p v f n report_decode_Inr(2) [OF d] unfolding report_genuine_def by auto
next
  assume "\<exists>k. report_genuine c oc pem bin report k \<and> nonce = sq_nonce (nr_request report)"
  then obtain k certs fwid where d: "report_decode c oc bin 96 = Inr (report, k)" and p: "nv_stack_from_pem c pem = Some certs"
    and f: "chain_trusted c oc certs fwid" "get_fwid report = Inr fwid" and n: "nonce = sq_nonce (nr_request report)"
    and v: "signed_by c (hd certs) (take (k - 96) bin) (take 96 (drop (k - 96) bin))" by (auto simp: report_genuine_def)
  from f(1) have "get_leaf_certificate certs = Inr (hd certs)" by (cases certs) (auto simp: chain_trusted_def get_leaf_certificate_def)
  moreover have "report_verify_signature c (take (k - 96) bin) (sr_signature (nr_response report)) (hd certs) = Inr ()"
    using v report_decode_Inr(2) [OF d] by (simp add: report_verify_signature_iff)
  moreover have "cert_chain_verify c oc certs fwid = Inr ()" using f(1) by (simp add: cert_chain_verify_iff)
  ultimately show "report_try_new c oc bin 96 pem nonce = Inr report"
    using d p f n report_decode_Inr(3,4) [OF d]
    by (simp add: report_try_new_def cert_chain_decode_def validate_nonce_def slice_get_def Let_def)
qed

definition device_genuine ::
  "('c, 'a, 'k) nv_crates \<Rightarrow> bool \<Rightarrow> bytes \<Rightarrow> 'a nv_device_report_and_cert \<Rightarrow> json \<times> tee_class \<Rightarrow> bool" where
  "device_genuine c oc nonce device claim \<longleftrightarrow>
     nd_arch device = nv_hopper c \<and>
     (\<exists>pem bin report k. nv_b64_decode c (nd_certificate device) = Some pem \<and> nv_hex_decode c (nd_evidence device) = Some bin \<and>
        report_genuine c oc pem bin report k \<and> 175 \<le> k \<and> k \<le> length bin \<and> take 32 (drop 4 (take (k - 96) bin)) = nonce \<and>
        claim = (nv_claims c (nd_arch device) (nd_uuid device) report, ''gpu''))"

lemma evaluate_device_locally_iff: "evaluate_device_locally c oc device nonce = Inr claim \<longleftrightarrow> device_genuine c oc nonce device claim"
proof -
  have "report_genuine c oc pem bin report k \<Longrightarrow>
      sq_nonce (nr_request report) = take 32 (drop 4 (take (k - 96) bin)) \<and> 175 \<le> k \<and> k \<le> length bin" for pem bin report k
    using report_decode_Inr [of c oc bin 96 report k] by (auto simp: report_genuine_def drop_take min_def)
  then show ?thesis
    by (fastforce simp: evaluate_device_locally_def device_genuine_def HOPPER_SIGNATURE_LENGTH_def report_try_new_iff result_simps)
qed

lemma evaluate_devices_Inr:
  "evaluate_devices c oc ty nonce devices = Inr claims \<longleftrightarrow> list_all2 (\<lambda>d cl. evaluate_device c oc ty nonce d = Inr cl) devices claims"
  by (induction devices arbitrary: claims) (auto simp: result_simps list_all2_Cons1)

text \<open>Only the local verifier compares the nonce itself; the remote one relies on the service's word. Evidence without devices is
  accepted, with no claims.\<close>

definition nvidia_carried :: "('c, 'a, 'k) nv_crates \<Rightarrow> bool \<Rightarrow> carried" where
  "nvidia_carried c oc = \<lparr>
     ca_report = (\<lambda>evidence d. \<exists>devices claims. nv_from_value c evidence = Some devices \<and>
       list_all2 (device_genuine c oc (regularize_data d 32)) devices claims),
     ca_init = (\<lambda>_ _. True)\<rparr>"

lemma nvidia_local_Inr:
  assumes "nvidia_evaluate c oc Local evidence rd idh = Inr claims"
  obtains devices d where "nv_from_value c evidence = Some devices" and "rd = RdValue d"
    and "list_all2 (device_genuine c oc (regularize_data d 32)) devices claims"
  using assms
  by (cases rd) (auto simp: nvidia_evaluate_def evaluate_devices_Inr evaluate_device_def evaluate_device_locally_iff SPDM_NONCE_SIZE_def result_simps)

interpretation nvidia: evidence_verifier "nvidia_verifier c oc Local" "nvidia_carried c oc" for c oc
  by unfold_locales (auto simp: nvidia_verifier_def nvidia_carried_def elim!: nvidia_local_Inr)

subsection \<open>Properties\<close>

text \<open>C16. Evidence of Nvidia devices that the local verifier accepts is genuine for every device: the device is a Hopper, its report
  decodes, and its bytes up to the signature, which hold the expected nonce, padded with zeros or cut to 32 bytes, at offset 4, are
  signed by the key of a certificate that a chain ending in Nvidia's root certifies for the firmware named in the report. The claims
  are those of the reports, one per device and in order, so evidence without devices is accepted without claims.\<close>

theorem nvidia_local_sound:
  assumes "nvidia_evaluate c oc Local evidence (RdValue d) idh = Inr claims"
  shows "\<exists>devices. nv_from_value c evidence = Some devices \<and> list_all2 (device_genuine c oc (regularize_data d 32)) devices claims"
  using assms by (rule nvidia_local_Inr) blast

text \<open>Certificates are numbers: 1 is the root, 2 a certificate of a device; its extension holds the id of the firmware.\<close>

definition sample_nvidia :: "bool list \<Rightarrow> (nat, bool, unit) nv_crates" where
  "sample_nvidia archs = \<lparr>
     nv_from_value = (\<lambda>_. Some (map (\<lambda>a. \<lparr>nd_arch = a, nd_uuid = ''u'', nd_evidence = ''e'', nd_certificate = ''c''\<rparr>) archs)), nv_hopper = True,
     nv_arch_to_string = (\<lambda>_. ''Hopper''), nv_hex_encode = string_of_bytes,
     nv_hex_decode = (\<lambda>_. Some ([0x11, 0, 0, 0] @ regularize_data [1] 32 @ [0] @
       enc_response sample_header [sample_block] (replicate 32 0) sample_items (replicate 96 9))),
     nv_b64_encode = string_of_bytes, nv_b64_decode = (\<lambda>_. Some []), nv_b64_decode_no_pad = (\<lambda>_. Some []), nv_root_pem = [],
     nv_from_pem = (\<lambda>_. Some 1), nv_stack_from_pem = (\<lambda>_. Some [2, 1]), nv_sha1 = (\<lambda>cert. Some [of_nat cert]),
     nv_fwid_extension = (\<lambda>_. Some (Some ([3, 3] @ replicate 48 6))), nv_verify_cert = (\<lambda>root leaf _. Some (root = 1 \<and> leaf = 2)),
     nv_signature_from_slice = Some, nv_public_key_der = (\<lambda>cert. Some [of_nat cert]), nv_verifying_key = Some,
     nv_ecdsa_verify = (\<lambda>key _ sig. key = [2] \<and> sig = replicate 96 9), nv_post = (\<lambda>_ _. None), nv_get = (\<lambda>_. None),
     nv_json_from_str = (\<lambda>_. None), nv_json_to_string = (\<lambda>_. None), nv_pointer = (\<lambda>_ _. None), nv_nras_from_str = (\<lambda>_. None),
     nv_decode_header = (\<lambda>_. None), nv_jwk_from_str = (\<lambda>_. None), nv_decoding_key = (\<lambda>_. None), nv_jwt_decode = (\<lambda>_ _. False)\<rparr>"

lemma sample_report_decodes:
  "\<exists>q k. report_decode (sample_nvidia archs) True ([0x11, 0, 0, 0] @ regularize_data [1] 32 @ [0] @
      enc_response sample_header [sample_block] (replicate 32 0) sample_items (replicate 96 9)) 96 =
     Inr (\<lparr>nr_request = q, nr_response = response_of sample_header [sample_block] (replicate 32 0) sample_items sample_item_values
       (replicate 96 9)\<rparr>, k) \<and> sq_nonce q = regularize_data [1] 32"
proof -
  have "spdm_request_decode ([0x11, 0, 0, 0] @ regularize_data [1] 32 @ [0]) =
      Inr (\<lparr>sq_spdm_version = 0x11, sq_request_response_code = 0, sq_param1 = 0, sq_param2 = 0, sq_nonce = regularize_data [1] 32,
        sq_slot_id_param = 0\<rparr>, 37)"
    by (simp add: spdm_request_decode_def SPDM_GET_MEASUREMENT_REQUEST_SIZE_def SPDM_NONCE_SIZE_def SPDM_VERSION_SUPPORTED_def nth_append)
  moreover have "spdm_response_decode True string_of_bytes (enc_response sample_header [sample_block] (replicate 32 0) sample_items (replicate 96 9)) 96 =
      Inr (response_of sample_header [sample_block] (replicate 32 0) sample_items sample_item_values (replicate 96 9),
        length (enc_response sample_header [sample_block] (replicate 32 0) sample_items (replicate 96 9)))"
    using sample_response_decodes [of True "[]"] by simp
  ultimately show ?thesis
    by (simp add: report_decode_def SPDM_GET_MEASUREMENT_REQUEST_SIZE_def SPDM_NONCE_SIZE_def sample_nvidia_def)
qed

lemma sample_nvidia_device:
  "\<exists>claim. device_genuine (sample_nvidia archs) True (regularize_data [1] 32)
     \<lparr>nd_arch = True, nd_uuid = ''u'', nd_evidence = ''e'', nd_certificate = ''c''\<rparr> claim"
proof -
  let ?c = "sample_nvidia archs"
  define bin where "bin = [0x11, 0, 0, 0] @ regularize_data [1] 32 @ [0] @
      enc_response sample_header [sample_block] (replicate 32 0) sample_items (replicate 96 9)"
  define resp where "resp = response_of sample_header [sample_block] (replicate 32 0) sample_items sample_item_values (replicate 96 9)"
  obtain q k where d: "report_decode ?c True bin 96 = Inr (\<lparr>nr_request = q, nr_response = resp\<rparr>, k)" and n: "sq_nonce q = regularize_data [1] 32"
    using sample_report_decodes unfolding bin_def resp_def by blast
  have "map_of (insert_all (item_claims sample_items sample_item_values) []) ''fwid'' = Some (JString (string_of_bytes (replicate 48 6)))"
    by (simp add: map_of_insert_all item_claims_def sample_items_def sample_item_values_def)
  then have f: "get_fwid \<lparr>nr_request = q, nr_response = resp\<rparr> = Inr (string_of_bytes (replicate 48 6))"
    by (simp add: get_fwid_def obj_get_def resp_def response_of_def)
  have t: "chain_trusted ?c True [2, 1] (string_of_bytes (replicate 48 6))"
    by (simp add: chain_trusted_def NVIDIA_ROOT_CA_def certificate_fingerprint_def get_fwid_from_cert_def usize_sub_def slice_get_def
        sample_nvidia_def)
  have "take 96 (drop (k - 96) bin) = replicate 96 9" using report_decode_Inr(2) [OF d] by (simp add: resp_def response_of_def)
  then have s: "signed_by ?c (hd [2, 1]) (take (k - 96) bin) (take 96 (drop (k - 96) bin))"
    by (simp add: signed_by_def sample_nvidia_def)
  have "nv_stack_from_pem ?c [] = Some [2, 1]" by (simp add: sample_nvidia_def)
  with d f t s have "report_genuine ?c True [] bin \<lparr>nr_request = q, nr_response = resp\<rparr> k" unfolding report_genuine_def by blast
  with n have "report_try_new ?c True bin 96 [] (regularize_data [1] 32) = Inr \<lparr>nr_request = q, nr_response = resp\<rparr>"
    unfolding report_try_new_iff by auto
  moreover have "nv_hex_decode ?c t = Some bin" "nv_b64_decode ?c t = Some []" "nv_hopper ?c" for t
    by (simp_all add: sample_nvidia_def bin_def)
  ultimately show ?thesis
    unfolding evaluate_device_locally_iff [symmetric] by (simp add: evaluate_device_locally_def HOPPER_SIGNATURE_LENGTH_def)
qed

theorem nvidia_local_sound_witness:
  "\<exists>claim. nvidia_evaluate (sample_nvidia [True]) True Local JNull (RdValue [1]) IdNotProvided = Inr [claim] \<and>
     device_genuine (sample_nvidia [True]) True (regularize_data [1] 32)
       \<lparr>nd_arch = True, nd_uuid = ''u'', nd_evidence = ''e'', nd_certificate = ''c''\<rparr> claim"
proof -
  have v: "nv_from_value (sample_nvidia [True]) j = Some [\<lparr>nd_arch = True, nd_uuid = ''u'', nd_evidence = ''e'', nd_certificate = ''c''\<rparr>]" for j
    by (simp add: sample_nvidia_def)
  obtain claim where "device_genuine (sample_nvidia [True]) True (regularize_data [1] 32)
       \<lparr>nd_arch = True, nd_uuid = ''u'', nd_evidence = ''e'', nd_certificate = ''c''\<rparr> claim" using sample_nvidia_device by blast
  then have e: "nvidia_evaluate (sample_nvidia [True]) True Local JNull (RdValue [1]) IdNotProvided = Inr [claim]"
    by (simp add: nvidia_evaluate_def v evaluate_device_def evaluate_device_locally_iff SPDM_NONCE_SIZE_def flip: evaluate_device_locally_iff)
  from nvidia_local_sound [OF e] show ?thesis using e by (auto simp: v)
qed

lemma evaluate_devices_panics_iff:
  "panics (evaluate_devices c oc ty nonce devices) \<longleftrightarrow>
     (\<exists>pre x post. devices = pre @ x # post \<and> panics (evaluate_device c oc ty nonce x) \<and>
        (\<forall>y \<in> set pre. \<exists>cl. evaluate_device c oc ty nonce y = Inr cl))"
proof (induction devices)
  case (Cons d ds)
  have "(\<exists>pre x post. d # ds = pre @ x # post \<and> P x \<and> (\<forall>y \<in> set pre. Q y)) \<longleftrightarrow>
      P d \<or> Q d \<and> (\<exists>pre x post. ds = pre @ x # post \<and> P x \<and> (\<forall>y \<in> set pre. Q y))" (is "?l \<longleftrightarrow> ?r") for P Q
  proof
    assume ?l
    then obtain pre x post where "d # ds = pre @ x # post" "P x" "\<forall>y \<in> set pre. Q y" by blast
    then show ?r by (cases pre) auto
  next
    assume ?r
    then show ?l
    proof
      assume "P d"
      then show ?l by (intro exI [of _ "[]"]) simp
    next
      assume "Q d \<and> (\<exists>pre x post. ds = pre @ x # post \<and> P x \<and> (\<forall>y \<in> set pre. Q y))"
      then obtain pre x post where "Q d" "ds = pre @ x # post" "P x" "\<forall>y \<in> set pre. Q y" by blast
      then show ?l by (intro exI [of _ "d # pre"]) auto
    qed
  qed
  then show ?case by (simp add: Cons)
qed simp

lemma load_keys_no_panic: "\<not> panics (load_keys c ks keys)"
  by (induction ks arbitrary: keys) simp_all

lemma evaluate_device_remotely_panics_iff:
  "panics (evaluate_device_remotely c url device nonce) \<longleftrightarrow> nd_arch device \<noteq> nv_hopper c"
proof -
  have "\<not> panics (nras_jwks_new c)"
    by (auto simp: nras_jwks_new_def load_keys_no_panic split: prod.splits json.splits)
  moreover have "\<not> panics (nras_response_from_str c t)" "\<not> panics (validate_jwt c t ks)" "\<not> panics (get_jwt_payload c t)" for t ks
    by (auto simp: nras_response_from_str_def validate_jwt_def get_jwt_kid_def get_jwt_payload_def Let_def split: prod.splits)
  moreover from this have "\<not> panics (nras_validate c r ks)" "\<not> panics (nras_claims c r)" for r ks
    by (auto simp: nras_validate_def nras_claims_def split: option.splits)
  ultimately show ?thesis by (auto simp: evaluate_device_remotely_def Let_def split: prod.splits)
qed

text \<open>The remote verifier panics exactly on evidence with a device that is not a Hopper and comes after devices that are all accepted;
  the local verifier returns an error for such a device.\<close>

theorem nvidia_remote_panics_iff:
  assumes "nv_from_value c evidence = Some devices"
  shows "(panics (nvidia_evaluate c oc (Remote url) evidence (RdValue d) idh) \<longleftrightarrow>
      (\<exists>pre x post. devices = pre @ x # post \<and> nd_arch x \<noteq> nv_hopper c \<and>
        (\<forall>y \<in> set pre. \<exists>cl. evaluate_device_remotely c url y (regularize_data d 32) = Inr cl))) \<and>
    (\<forall>x nonce. nd_arch x \<noteq> nv_hopper c \<longrightarrow> evaluate_device_locally c oc x nonce = bail ''Device architecture not supported'')"
  by (simp add: nvidia_evaluate_def assms evaluate_devices_panics_iff evaluate_device_def evaluate_device_remotely_panics_iff
      SPDM_NONCE_SIZE_def evaluate_device_locally_def)

theorem nvidia_remote_panics_iff_witness:
  "panics (nvidia_evaluate (sample_nvidia [False]) True (Remote None) JNull (RdValue [1]) IdNotProvided)"
proof -
  have "nv_from_value (sample_nvidia [False]) JNull = Some [\<lparr>nd_arch = False, nd_uuid = ''u'', nd_evidence = ''e'', nd_certificate = ''c''\<rparr>]"
    "nv_hopper (sample_nvidia [False])" by (simp_all add: sample_nvidia_def)
  from nvidia_remote_panics_iff [OF this(1), of True None "[1]" IdNotProvided] this(2) show ?thesis
    by (auto intro!: exI [of _ "[]"])
qed

end
