(* ===== verification/Tpm.thy ===== *)
theory Tpm
  imports File_System Verifier_Core
begin

text \<open>
  The verifier of TPM quotes (\<^verbatim>\<open>deps/verifier/src/tpm/\<close>): the trusted attestation keys of a directory, the conversion of a quote, and its
  verification. The crates are the record \<open>tpm_crates\<close>, over a type \<open>'q\<close> of quotes; a call that returns an error is \<open>None\<close>.
\<close>

definition MAX_TRUSTED_AK_KEYS :: usize where
  "MAX_TRUSTED_AK_KEYS = 100"

definition DEFAULT_TRUSTED_AK_KEYS_DIR :: string where
  "DEFAULT_TRUSTED_AK_KEYS_DIR = ''/etc/tpm/trusted_ak_keys''"

definition TPM_INITDATA_PCR :: usize where
  "TPM_INITDATA_PCR = 8"

definition TPM_REPORT_DATA_SIZE :: usize where
  "TPM_REPORT_DATA_SIZE = 64"

record tpm_quote =
  tq_signature :: string
  tq_message :: string
  tq_pcrs :: "string list"

record tpm_evidence =
  tp_ak_public :: string
  tp_tpm_quote :: tpm_quote

record tpm_verifier_config =
  tpc_trusted_ak_keys_dir :: string
  tpc_max_trusted_ak_keys :: usize

definition tpm_config_default :: tpm_verifier_config where
  "tpm_config_default = \<lparr>tpc_trusted_ak_keys_dir = DEFAULT_TRUSTED_AK_KEYS_DIR, tpc_max_trusted_ak_keys = MAX_TRUSTED_AK_KEYS\<rparr>"

datatype tss_signature = RsaSsa bytes | OtherSignature

record 'q tpm_crates =
  tpx_from_value :: "json \<Rightarrow> tpm_evidence option"
  tpx_b64_decode :: "string \<Rightarrow> bytes option"
  tpx_hex_decode :: "string \<Rightarrow> bytes option"
  tpx_hex_encode :: "bytes \<Rightarrow> string"
  tpx_unmarshall :: "bytes \<Rightarrow> tss_signature option"
  tpx_quote_from_value :: "json \<Rightarrow> 'q option"
  tpx_public_key_from_der :: "bytes \<Rightarrow> bytes option"
  tpx_public_key_from_pem :: "bytes \<Rightarrow> bytes option"
  tpx_public_key_to_der :: "bytes \<Rightarrow> bytes option"
  tpx_verify_signature :: "'q \<Rightarrow> bytes \<Rightarrow> bool"
  tpx_verify_pcrs :: "'q \<Rightarrow> bool"
  tpx_nonce :: "'q \<Rightarrow> bytes option"
  tpx_pcrs_sha256 :: "'q \<Rightarrow> bytes list"
  tpx_sha256 :: "bytes \<Rightarrow> bytes"

subsection \<open>Quotes\<close>

definition extract_raw_signature_bytes :: "'q tpm_crates \<Rightarrow> tpm_quote \<Rightarrow> bytes anyhow" where
  "extract_raw_signature_bytes c self =
     and_then (ok_or (tpx_b64_decode c (tq_signature self)) ''Failed to decode signature from base64'') (\<lambda>signature_marshalled.
     and_then (ok_or (tpx_unmarshall c signature_marshalled) ''Failed to unmarshal TSS signature'') (\<lambda>tss_signature.
       case tss_signature of RsaSsa sig \<Rightarrow> Inr sig | _ \<Rightarrow> bail ''Unsupported signature type, expected RSA-SSA''))"

fun parse_pcr_values :: "'q tpm_crates \<Rightarrow> string list \<Rightarrow> bytes list anyhow" where
  "parse_pcr_values c [] = Inr []"
| "parse_pcr_values c (pcr_str # ps) =
     and_then (ensure (length pcr_str = 64) ''PCR should be 64 hex characters (32 bytes)'') (\<lambda>_.
     and_then (ok_or (tpx_hex_decode c pcr_str) ''Failed to decode PCR from hex'') (\<lambda>pcr_bytes.
     and_then (ensure (length pcr_bytes = 32) ''PCR should be exactly 32 bytes'') (\<lambda>_.
     and_then (parse_pcr_values c ps) (\<lambda>pcrs. Inr (pcr_bytes # pcrs)))))"

definition json_bytes :: "bytes \<Rightarrow> json" where
  "json_bytes bs = JArray (map (\<lambda>b. JNumber (PosInt (ucast b))) bs)"

definition to_quote :: "'q tpm_crates \<Rightarrow> tpm_quote \<Rightarrow> 'q anyhow" where
  "to_quote c self =
     and_then (extract_raw_signature_bytes c self) (\<lambda>raw_signature_bytes.
     and_then (ok_or (tpx_b64_decode c (tq_message self)) ''Failed to decode message from base64'') (\<lambda>message.
     and_then (parse_pcr_values c (tq_pcrs self)) (\<lambda>pcrs.
       ok_or (tpx_quote_from_value c (json_object [(''signature'', json_bytes raw_signature_bytes), (''message'', json_bytes message),
         (''pcrs'', JArray (map json_bytes pcrs))])) ''Failed to construct Quote from parsed data'')))"

subsection \<open>Trusted keys\<close>

definition load_and_hash_key :: "'q tpm_crates \<Rightarrow> fs \<Rightarrow> string \<Rightarrow> bytes anyhow" where
  "load_and_hash_key c f path =
     and_then (ok_or (Option.bind (fs_read f path) from_utf8) ''Failed to read key file'') (\<lambda>key_content.
     and_then (ok_or (tpx_public_key_from_pem c (as_bytes key_content)) ''Failed to parse PEM public key'') (\<lambda>pkey.
     and_then (ok_or (tpx_public_key_to_der c pkey) ''Failed to convert PEM to DER'') (\<lambda>key_bytes.
       Inr (tpx_sha256 c key_bytes))))"

definition is_pub_file :: "fs \<Rightarrow> string \<Rightarrow> string \<Rightarrow> bool" where
  "is_pub_file f dir name \<longleftrightarrow>
     fs_read f (path_push dir name) \<noteq> None \<and> (case split_last_dot name of Some (stem, ext) \<Rightarrow> ext = ''pub'' | None \<Rightarrow> False)"

fun load_trusted_keys :: "'q tpm_crates \<Rightarrow> fs \<Rightarrow> string list \<Rightarrow> bytes set \<Rightarrow> bytes set" where
  "load_trusted_keys c f [] hashes = hashes"
| "load_trusted_keys c f (path # ps) hashes =
     (case load_and_hash_key c f path of
        Inr hash \<Rightarrow> load_trusted_keys c f ps (insert hash hashes)
      | Inl _ \<Rightarrow> load_trusted_keys c f ps hashes)"

text \<open>\<open>entries\<close> is what reading the directory gives: an error, or the names in the order of the directory, \<open>None\<close> for an entry
  that cannot be read.\<close>

definition tpm_verifier_new ::
  "'q tpm_crates \<Rightarrow> fs \<Rightarrow> (string \<Rightarrow> string option list option) \<Rightarrow> tpm_verifier_config option \<Rightarrow> bytes set anyhow" where
  "tpm_verifier_new c f read_dir config =
     (let config = (case config of Some cfg \<Rightarrow> cfg | None \<Rightarrow> tpm_config_default); keys_dir = tpc_trusted_ak_keys_dir config in
      and_then (ok_or (read_dir keys_dir) ''Failed to read trusted AK keys directory'') (\<lambda>dir_entries.
      let trusted_keys = take (tpc_max_trusted_ak_keys config) (filter (is_pub_file f keys_dir) (List.map_filter (\<lambda>e. e) dir_entries)) in
        Inr (load_trusted_keys c f (map (path_push keys_dir) trusted_keys) {})))"

definition tpm_verifier_default :: "'q tpm_crates \<Rightarrow> fs \<Rightarrow> (string \<Rightarrow> string option list option) \<Rightarrow> bytes set anyhow" where
  "tpm_verifier_default c f read_dir = unwrap_or_else (tpm_verifier_new c f read_dir (Some tpm_config_default)) (\<lambda>_. {})"

subsection \<open>Verification\<close>

definition tpm_verify_signature :: "'q tpm_crates \<Rightarrow> 'q \<Rightarrow> string \<Rightarrow> unit anyhow" where
  "tpm_verify_signature c quote ak_public =
     and_then (ok_or (tpx_b64_decode c ak_public) ''Base64 decode of AK public failed'') (\<lambda>pub_bytes.
     and_then (ok_or (tpx_public_key_from_der c pub_bytes) ''Failed to parse AK public key'') (\<lambda>ak_pub.
       ensure (tpx_verify_signature c quote ak_pub) ''TPM quote signature verification failed''))"

definition tpm_verify_pcrs :: "'q tpm_crates \<Rightarrow> 'q \<Rightarrow> unit anyhow" where
  "tpm_verify_pcrs c quote = ensure (tpx_verify_pcrs c quote) ''Digest of PCRs does not match digest in Quote''"

text \<open>\<^verbatim>\<open>Vec::resize\<close> pads with zeros or cuts.\<close>

definition tpm_verify_nonce :: "'q tpm_crates \<Rightarrow> 'q \<Rightarrow> bytes \<Rightarrow> unit anyhow" where
  "tpm_verify_nonce c quote expected_report_data =
     and_then (ok_or (tpx_nonce c quote) ''quote'') (\<lambda>nonce.
     let padded_expected = take TPM_REPORT_DATA_SIZE expected_report_data @
           replicate (TPM_REPORT_DATA_SIZE - length expected_report_data) 0 in
       ensure (nonce = padded_expected) ''TPM quote nonce doesn't match expected report_data'')"

definition tpm_verify_init_data :: "'q tpm_crates \<Rightarrow> init_data_hash \<Rightarrow> 'q \<Rightarrow> unit anyhow" where
  "tpm_verify_init_data c expected quote =
     (case expected of
        IdValue expected_init_data_hash \<Rightarrow>
          if length expected_init_data_hash \<noteq> 32 then panic ''source slice length does not match destination slice length''
          else
            let digest = tpx_sha256 c (replicate 32 0 @ expected_init_data_hash) in
            and_then (index_at (tpx_pcrs_sha256 c quote) TPM_INITDATA_PCR) (\<lambda>init_data_pcr.
              ensure (digest = init_data_pcr) ''TPM PCR[8] doesn't match expected initdata hash'')
      | IdNotProvided \<Rightarrow> Inr ())"

definition tpm_extend_claim :: "'q tpm_crates \<Rightarrow> json \<Rightarrow> 'q \<Rightarrow> json anyhow" where
  "tpm_extend_claim c claim quote =
     (case claim of
        JObject m \<Rightarrow> Inr (JObject (insert_all (map (\<lambda>(i, pcr). (''pcr'' @ pad_zero 2 (fmt_dec i), JString (tpx_hex_encode c pcr)))
          (enumerate 0 (tpx_pcrs_sha256 c quote))) m))
      | _ \<Rightarrow> bail ''failed to extend the claim, not an object'')"

definition tpm_parse_tee_evidence :: "'q tpm_crates \<Rightarrow> 'q \<Rightarrow> json anyhow" where
  "tpm_parse_tee_evidence c quote =
     and_then (index_at (tpx_pcrs_sha256 c quote) TPM_INITDATA_PCR) (\<lambda>init_data_pcr.
       Inr (json_object [(''init_data'', JString (tpx_hex_encode c init_data_pcr)),
         (''report_data'', JString (tpx_hex_encode c (case tpx_nonce c quote of Some n \<Rightarrow> n | None \<Rightarrow> [])))]))"

definition tpm_evaluate ::
  "'q tpm_crates \<Rightarrow> bytes set \<Rightarrow> json \<Rightarrow> report_data \<Rightarrow> init_data_hash \<Rightarrow> (json \<times> tee_class) list anyhow" where
  "tpm_evaluate c trusted_ak_hashes evidence expected_report_data expected_init_data_hash =
     and_then (ok_or (tpx_from_value c evidence) ''Failed to deserialize TPM Evidence'') (\<lambda>guest_ev.
     and_then (with_context ''Failed to convert quote from string format'' (to_quote c (tp_tpm_quote guest_ev))) (\<lambda>quote.
     let ak_public = tp_ak_public guest_ev in
     and_then (ok_or (tpx_b64_decode c ak_public) ''base64'') (\<lambda>ak_public_bytes.
     and_then (ensure (tpx_sha256 c ak_public_bytes \<in> trusted_ak_hashes)
         ''The provided AK public key is not in the list of trusted keys'') (\<lambda>_.
     and_then (tpm_verify_signature c quote ak_public) (\<lambda>_.
     and_then (tpm_verify_pcrs c quote) (\<lambda>_.
     and_then (case expected_report_data of RdValue report_data \<Rightarrow> tpm_verify_nonce c quote report_data | RdNotProvided \<Rightarrow> Inr ()) (\<lambda>_.
     and_then (tpm_verify_init_data c expected_init_data_hash quote) (\<lambda>_.
     and_then (tpm_parse_tee_evidence c quote) (\<lambda>claims.
     and_then (tpm_extend_claim c claims quote) (\<lambda>claims.
       Inr [(claims, ''cpu'')]))))))))))"

definition tpm_verifier :: "'q tpm_crates \<Rightarrow> bytes set \<Rightarrow> verifier" where
  "tpm_verifier c trusted = \<lparr>ve_evaluate = tpm_evaluate c trusted,
     ve_generate_supplemental_challenge = default_supplemental_challenge\<rparr>"

subsection \<open>What accepted evidence carries\<close>

lemma resize_regularize: "take n d @ replicate (n - length d) 0 = regularize_data d n"
  by (simp add: regularize_data_def)

lemma load_trusted_keys_iff:
  "h \<in> load_trusted_keys c f ps hashes \<longleftrightarrow> h \<in> hashes \<or> (\<exists>p \<in> set ps. load_and_hash_key c f p = Inr h)"
  by (induction ps arbitrary: hashes) (auto split: sum.splits)

text \<open>The names of the keys that are loaded from the directory.\<close>

definition key_files :: "fs \<Rightarrow> (string \<Rightarrow> string option list option) \<Rightarrow> tpm_verifier_config \<Rightarrow> string list" where
  "key_files f read_dir cfg =
     (case read_dir (tpc_trusted_ak_keys_dir cfg) of
        None \<Rightarrow> []
      | Some es \<Rightarrow> take (tpc_max_trusted_ak_keys cfg) (filter (is_pub_file f (tpc_trusted_ak_keys_dir cfg)) (List.map_filter (\<lambda>e. e) es)))"

lemma tpm_verifier_new_Inr:
  assumes "tpm_verifier_new c f read_dir (Some cfg) = Inr trusted"
  shows "h \<in> trusted \<longleftrightarrow> (\<exists>n \<in> set (key_files f read_dir cfg). load_and_hash_key c f (path_push (tpc_trusted_ak_keys_dir cfg) n) = Inr h)"
  using assms by (auto simp: tpm_verifier_new_def key_files_def Let_def result_simps load_trusted_keys_iff)

text \<open>The quote of the evidence, of a trusted key and with consistent PCRs.\<close>

definition tpm_quoted_by :: "'q tpm_crates \<Rightarrow> bytes set \<Rightarrow> json \<Rightarrow> 'q \<Rightarrow> bytes \<Rightarrow> bool" where
  "tpm_quoted_by c trusted evidence quote der \<longleftrightarrow>
     (\<exists>e key. tpx_from_value c evidence = Some e \<and> to_quote c (tp_tpm_quote e) = Inr quote \<and>
        tpx_b64_decode c (tp_ak_public e) = Some der \<and> tpx_sha256 c der \<in> trusted \<and> tpx_public_key_from_der c der = Some key \<and>
        tpx_verify_signature c quote key) \<and>
     tpx_verify_pcrs c quote"

definition tpm_pcr_holds :: "'q tpm_crates \<Rightarrow> 'q \<Rightarrow> bytes \<Rightarrow> bool" where
  "tpm_pcr_holds c quote h \<longleftrightarrow> length h = 32 \<and> 8 < length (tpx_pcrs_sha256 c quote) \<and>
     tpx_pcrs_sha256 c quote ! 8 = tpx_sha256 c (replicate 32 0 @ h)"

definition tpm_claims :: "'q tpm_crates \<Rightarrow> 'q \<Rightarrow> json" where
  "tpm_claims c quote = JObject (insert_all (map (\<lambda>(i, pcr). (''pcr'' @ pad_zero 2 (fmt_dec i), JString (tpx_hex_encode c pcr)))
       (enumerate 0 (tpx_pcrs_sha256 c quote)))
     (insert_all [(''init_data'', JString (tpx_hex_encode c (tpx_pcrs_sha256 c quote ! 8))),
       (''report_data'', JString (tpx_hex_encode c (case tpx_nonce c quote of Some n \<Rightarrow> n | None \<Rightarrow> [])))] []))"

lemma tpm_tail:
  "and_then (tpm_parse_tee_evidence c quote) (\<lambda>claims. and_then (tpm_extend_claim c claims quote) (\<lambda>claims. Inr [(claims, ''cpu'')])) =
     (if 8 < length (tpx_pcrs_sha256 c quote) then Inr [(tpm_claims c quote, ''cpu'')] else panic ''index out of bounds'')"
  by (simp add: tpm_parse_tee_evidence_def tpm_extend_claim_def TPM_INITDATA_PCR_def index_at_def tpm_claims_def json_object_def insert_all_def)

lemma tpm_init_Inr: "tpm_verify_init_data c idh quote = Inr u \<longleftrightarrow> (\<forall>h. idh = IdValue h \<longrightarrow> tpm_pcr_holds c quote h)"
  by (cases idh) (auto simp: tpm_verify_init_data_def tpm_pcr_holds_def TPM_INITDATA_PCR_def Let_def result_simps)

lemma tpm_init_panics:
  "panics (tpm_verify_init_data c idh quote) \<longleftrightarrow> (\<exists>h. idh = IdValue h \<and> (length h \<noteq> 32 \<or> length (tpx_pcrs_sha256 c quote) \<le> 8))"
  by (cases idh) (auto simp: tpm_verify_init_data_def TPM_INITDATA_PCR_def Let_def)

definition nonce_ok :: "'q tpm_crates \<Rightarrow> report_data \<Rightarrow> 'q \<Rightarrow> bool" where
  "nonce_ok c rd quote \<longleftrightarrow> (\<forall>d. rd = RdValue d \<longrightarrow> tpx_nonce c quote = Some (regularize_data d 64))"

lemma tpm_nonce_Inr:
  "(case rd of RdValue d \<Rightarrow> tpm_verify_nonce c quote d | RdNotProvided \<Rightarrow> Inr ()) = Inr u \<longleftrightarrow> nonce_ok c rd quote"
  by (cases rd) (auto simp: tpm_verify_nonce_def nonce_ok_def resize_regularize TPM_REPORT_DATA_SIZE_def Let_def result_simps)

lemma tpm_evaluate_tail:
  assumes "tpm_quoted_by c trusted evidence quote der" and "nonce_ok c rd quote"
  shows "tpm_evaluate c trusted evidence rd idh = and_then (tpm_verify_init_data c idh quote) (\<lambda>_.
    if 8 < length (tpx_pcrs_sha256 c quote) then Inr [(tpm_claims c quote, ''cpu'')] else panic ''index out of bounds'')"
proof -
  from assms(1) obtain e key where e: "tpx_from_value c evidence = Some e" "to_quote c (tp_tpm_quote e) = Inr quote"
    "tpx_b64_decode c (tp_ak_public e) = Some der" "tpx_sha256 c der \<in> trusted" "tpx_public_key_from_der c der = Some key"
    "tpx_verify_signature c quote key" "tpx_verify_pcrs c quote" by (auto simp: tpm_quoted_by_def)
  have "with_context m (to_quote c (tp_tpm_quote e)) = Inr quote" for m by (simp add: e(2))
  with e tpm_nonce_Inr [where c = c and quote = quote and rd = rd and u = "()"] assms(2) show ?thesis
    by (simp add: tpm_evaluate_def tpm_verify_signature_def tpm_verify_pcrs_def tpm_tail)
qed

lemma tpm_evaluate_Inr:
  assumes "tpm_evaluate c trusted evidence rd idh = Inr claims"
  obtains quote der where "tpm_quoted_by c trusted evidence quote der" and "nonce_ok c rd quote"
proof -
  from assms obtain e quote der u where "tpx_from_value c evidence = Some e" "to_quote c (tp_tpm_quote e) = Inr quote"
    "tpx_b64_decode c (tp_ak_public e) = Some der" "tpx_sha256 c der \<in> trusted" "tpm_verify_signature c quote (tp_ak_public e) = Inr u"
    "tpx_verify_pcrs c quote" "nonce_ok c rd quote"
    unfolding tpm_evaluate_def Let_def and_then_eq_Inr_iff ok_or_eq_Inr_iff ensure_simps with_context_eq_Inr tpm_nonce_Inr tpm_verify_pcrs_def
    by (elim exE conjE) (rule that, assumption+)
  then show thesis using that by (fastforce simp: tpm_quoted_by_def tpm_verify_signature_def result_simps)
qed

definition tpm_carried :: "'q tpm_crates \<Rightarrow> bytes set \<Rightarrow> carried" where
  "tpm_carried c trusted = \<lparr>
     ca_report = (\<lambda>evidence d. \<exists>quote der. tpm_quoted_by c trusted evidence quote der \<and> tpx_nonce c quote = Some (regularize_data d 64)),
     ca_init = (\<lambda>evidence h. \<exists>quote der. tpm_quoted_by c trusted evidence quote der \<and> tpm_pcr_holds c quote h)\<rparr>"

lemma tpm_evaluate_iff:
  "tpm_evaluate c trusted evidence rd idh = Inr claims \<longleftrightarrow>
     (\<exists>quote der. tpm_quoted_by c trusted evidence quote der \<and> nonce_ok c rd quote \<and> 8 < length (tpx_pcrs_sha256 c quote) \<and>
        (\<forall>h. idh = IdValue h \<longrightarrow> tpm_pcr_holds c quote h) \<and> claims = [(tpm_claims c quote, ''cpu'')])"
proof
  assume a: "tpm_evaluate c trusted evidence rd idh = Inr claims"
  from a obtain quote der where q: "tpm_quoted_by c trusted evidence quote der" "nonce_ok c rd quote" by (rule tpm_evaluate_Inr)
  with a show "\<exists>quote der. tpm_quoted_by c trusted evidence quote der \<and> nonce_ok c rd quote \<and> 8 < length (tpx_pcrs_sha256 c quote) \<and>
      (\<forall>h. idh = IdValue h \<longrightarrow> tpm_pcr_holds c quote h) \<and> claims = [(tpm_claims c quote, ''cpu'')]"
    by (auto simp: tpm_evaluate_tail and_then_eq_Inr_iff tpm_init_Inr split: if_splits)
qed (auto simp: tpm_evaluate_tail and_then_eq_Inr_iff tpm_init_Inr)

interpretation tpm: evidence_verifier "tpm_verifier c trusted" "tpm_carried c trusted" for c trusted
  by unfold_locales (auto simp: tpm_verifier_def tpm_carried_def tpm_evaluate_iff nonce_ok_def)

subsection \<open>A guest\<close>

text \<open>A quote is its nonce. The directory holds one key; a hash of a text is its length.\<close>

definition sample_tpm :: "nat \<Rightarrow> bytes tpm_crates" where
  "sample_tpm n = \<lparr>
     tpx_from_value = (\<lambda>_. Some \<lparr>tp_ak_public = ''k'', tp_tpm_quote = \<lparr>tq_signature = '''', tq_message = '''', tq_pcrs = []\<rparr>\<rparr>),
     tpx_b64_decode = (\<lambda>s. Some (as_bytes s)), tpx_hex_decode = (\<lambda>_. None), tpx_hex_encode = string_of_bytes,
     tpx_unmarshall = (\<lambda>_. Some (RsaSsa [])), tpx_quote_from_value = (\<lambda>_. Some (regularize_data [1] 64)), tpx_public_key_from_der = Some,
     tpx_public_key_from_pem = Some, tpx_public_key_to_der = Some, tpx_verify_signature = (\<lambda>_ k. length k = 1),
     tpx_verify_pcrs = (\<lambda>_. True), tpx_nonce = Some, tpx_pcrs_sha256 = (\<lambda>_. replicate n [64]), tpx_sha256 = (\<lambda>b. [of_nat (length b)])\<rparr>"

definition sample_tpm_config :: tpm_verifier_config where
  "sample_tpm_config = \<lparr>tpc_trusted_ak_keys_dir = ''/k'', tpc_max_trusted_ak_keys = 1\<rparr>"

definition sample_tpm_fs :: fs where
  "sample_tpm_fs = [[] \<mapsto> Dir, [''k''] \<mapsto> Dir, [''k'', ''a.pub''] \<mapsto> File [65]]"

definition sample_read_dir :: "string \<Rightarrow> string option list option" where
  "sample_read_dir _ = Some [None, Some ''a.pub'']"

lemma sample_tpm_new: "tpm_verifier_new (sample_tpm n) sample_tpm_fs sample_read_dir (Some sample_tpm_config) = Inr {[1]}"
proof -
  have p: "path_push ''/k'' ''a.pub'' = ''/k/a.pub''" by (simp add: path_push_def)
  have r: "fs_read sample_tpm_fs ''/k/a.pub'' = Some [65]"
    by (simp add: fs_read_def resolve_def components_def sample_tpm_fs_def)
  have s: "split_last_dot ''a.pub'' = Some (''a'', ''pub'')" by (simp add: split_last_dot_def Let_def)
  have u: "from_utf8 [65] = Some ''A''" by code_simp
  show ?thesis
    by (simp add: tpm_verifier_new_def sample_tpm_config_def sample_read_dir_def List.map_filter_simps is_pub_file_def p r s
        load_and_hash_key_def u Let_def) (simp add: sample_tpm_def as_bytes_def)
qed

lemma sample_tpm_quoted: "tpm_quoted_by (sample_tpm n) {[1]} JNull (regularize_data [1] 64) (as_bytes ''k'')"
  by (simp add: tpm_quoted_by_def sample_tpm_def to_quote_def extract_raw_signature_bytes_def as_bytes_def)

subsection \<open>Properties\<close>

text \<open>C17. TPM evidence that a verifier made from a directory of keys accepts is genuine and bound: the quote is signed by an attestation key
  whose hash is that of a key in one of the first files of the directory with the suffix .pub, up to the configured number; its PCRs are
  those it digests; its nonce is the expected report data, padded with zeros or cut to 64 bytes; and PCR 8 holds the extension of an
  expected hash of the init data. The claims are those of the quote.\<close>

theorem tpm_evidence_sound:
  assumes "tpm_verifier_new c f read_dir (Some cfg) = Inr trusted" and "tpm_evaluate c trusted evidence (RdValue d) idh = Inr claims"
  shows "\<exists>quote der n. tpm_quoted_by c trusted evidence quote der \<and> n \<in> set (key_files f read_dir cfg) \<and>
    load_and_hash_key c f (path_push (tpc_trusted_ak_keys_dir cfg) n) = Inr (tpx_sha256 c der) \<and>
    tpx_nonce c quote = Some (regularize_data d 64) \<and> (\<forall>h. idh = IdValue h \<longrightarrow> tpm_pcr_holds c quote h) \<and>
    claims = [(tpm_claims c quote, ''cpu'')]"
proof -
  from assms(2) obtain quote der where q: "tpm_quoted_by c trusted evidence quote der" and n: "nonce_ok c (RdValue d) quote"
    "\<forall>h. idh = IdValue h \<longrightarrow> tpm_pcr_holds c quote h" "claims = [(tpm_claims c quote, ''cpu'')]" unfolding tpm_evaluate_iff by blast
  then have "tpx_sha256 c der \<in> trusted" by (auto simp: tpm_quoted_by_def)
  with tpm_verifier_new_Inr [OF assms(1)] q n show ?thesis by (fastforce simp: nonce_ok_def)
qed

theorem tpm_evidence_sound_witness:
  "\<exists>n. n \<in> set (key_files sample_tpm_fs sample_read_dir sample_tpm_config) \<and>
     load_and_hash_key (sample_tpm 24) sample_tpm_fs (path_push ''/k'' n) = Inr [1]"
proof -
  have "8 < length (tpx_pcrs_sha256 (sample_tpm 24) (regularize_data [1] 64))" "nonce_ok (sample_tpm 24) (RdValue [1]) (regularize_data [1] 64)"
    by (simp_all add: sample_tpm_def nonce_ok_def)
  then obtain claims where c: "tpm_evaluate (sample_tpm 24) {[1]} JNull (RdValue [1]) IdNotProvided = Inr claims"
    using tpm_evaluate_iff [of "sample_tpm 24" "{[1]}" JNull "RdValue [1]" IdNotProvided] sample_tpm_quoted [of 24] by blast
  from tpm_evidence_sound [OF sample_tpm_new c] show ?thesis by (auto simp: tpm_quoted_by_def sample_tpm_config_def)
qed

text \<open>On a quote of a trusted key with consistent PCRs and the expected nonce, the verifier panics exactly when the quote has no PCR 8 or
  the expected hash of the init data does not have 32 bytes.\<close>

theorem tpm_panics_iff:
  assumes "tpm_quoted_by c trusted evidence quote der" and "nonce_ok c rd quote"
  shows "panics (tpm_evaluate c trusted evidence rd idh) \<longleftrightarrow>
    (\<exists>h. idh = IdValue h \<and> length h \<noteq> 32) \<or> length (tpx_pcrs_sha256 c quote) \<le> 8"
  unfolding tpm_evaluate_tail [OF assms]
  by (cases idh) (auto simp: tpm_init_panics tpm_init_Inr tpm_pcr_holds_def)

theorem tpm_panics_iff_witness: "panics (tpm_evaluate (sample_tpm 4) {[1]} JNull RdNotProvided IdNotProvided)"
  using tpm_panics_iff [OF sample_tpm_quoted [of 4], of RdNotProvided IdNotProvided] by (simp add: nonce_ok_def) (simp add: sample_tpm_def)

end
