(* ===== verification/Hygon.thy ===== *)
theory Hygon
  imports Tdx
begin

text \<open>
  The verifiers of Hygon's CSV guests and DCU devices (\<^verbatim>\<open>deps/verifier/src/csv/mod.rs\<close>, \<^verbatim>\<open>hygon_dcu/mod.rs\<close>). The crate \<^verbatim>\<open>csv_rs\<close>, the
  files and HTTP are the records \<open>csv_crates\<close> and \<open>dcu_crates\<close>; \<open>'c\<close> is the type of certificates and \<open>'p\<close> that of policies. The
  accessors of a policy, whose types are the crate's, give JSON values by their name.
\<close>

subsection \<open>CSV evidence\<close>

text \<open>What the code reads of a report: the accessors of both versions, then the fields of each. The usage and the algorithm of the
  signature are given by their little-endian bytes.\<close>

record 'p csv_tee_info =
  ti_policy :: 'p
  ti_user_pubkey_digest :: bytes
  ti_vm_id :: bytes
  ti_vm_version :: bytes
  ti_report_data :: bytes
  ti_mnonce :: bytes
  ti_measure :: bytes
  ti_sig_usage :: bytes
  ti_sig_algo :: bytes

record csv_v2_info =
  v2_build :: json
  v2_rtmr_version :: json
  v2_reserved0 :: bytes
  v2_rtmr0 :: bytes
  v2_rtmr1 :: bytes
  v2_rtmr2 :: bytes
  v2_rtmr3 :: bytes
  v2_rtmr4 :: bytes
  v2_reserved1 :: bytes

datatype 'p csv_report = CsvV1 "'p csv_tee_info" u32 | CsvV2 "'p csv_tee_info" csv_v2_info

definition tee_info :: "'p csv_report \<Rightarrow> 'p csv_tee_info" where
  "tee_info r = (case r of CsvV1 t _ \<Rightarrow> t | CsvV2 t _ \<Rightarrow> t)"

record 'c csv_evidence =
  ce_attestation_report :: bytes
  ce_hsk_cek :: "('c \<times> 'c) option"
  ce_pek :: 'c
  ce_serial_number :: bytes
  ce_cc_eventlog :: "string option"

text \<open>\<open>cv_decode\<close> reads a certificate from the front of a text and gives the rest; \<open>cv_signed a b\<close> is \<^verbatim>\<open>(&a, &b).verify()\<close>.\<close>

record ('c, 'p) csv_crates =
  cv_from_value :: "json \<Rightarrow> 'c csv_evidence option"
  cv_report :: "bytes \<Rightarrow> 'p csv_report option"
  cv_read_file :: "string \<Rightarrow> bytes option"
  cv_http_get :: "string \<Rightarrow> (nat \<times> bytes option) option"
  cv_hrk :: bytes
  cv_decode_ca :: "bytes \<Rightarrow> ('c \<times> bytes) option"
  cv_decode_csv :: "bytes \<Rightarrow> ('c \<times> bytes) option"
  cv_signed :: "'c \<Rightarrow> 'c \<Rightarrow> bool"
  cv_report_signed :: "'c \<Rightarrow> 'p csv_tee_info \<Rightarrow> bool"
  cv_policy_xor :: "'p \<Rightarrow> u32 \<Rightarrow> 'p"
  cv_policy_get :: "'p \<Rightarrow> string \<Rightarrow> json"
  cv_b64_decode :: "string \<Rightarrow> bytes option"

definition DEFAULT_CSV_CERT_DIR :: string where
  "DEFAULT_CSV_CERT_DIR = ''/opt/hygon/csv''"

definition try_load_hskcek_offline :: "('c, 'p) csv_crates \<Rightarrow> string \<Rightarrow> bytes option" where
  "try_load_hskcek_offline v chip_id =
     cv_read_file v (DEFAULT_CSV_CERT_DIR @ ''/hsk_cek/'' @ chip_id @ ''/hsk_cek.cert'')"

definition download_hskcek_from_kds :: "('c, 'p) csv_crates \<Rightarrow> string \<Rightarrow> bytes anyhow" where
  "download_hskcek_from_kds v chip_id =
     and_then (ok_or (cv_http_get v (''https://cert.hygon.cn/hsk_cek?snumber='' @ chip_id)) ''Unable to send request for HSK_CEK'')
       (\<lambda>(status, body).
       if status = 200 then ok_or body ''Unable to parse HSK_CEK'' else bail ''Unable to fetch HSK_CEK from URL'')"

definition csv_verify_report_signature ::
  "('c, 'p) csv_crates \<Rightarrow> 'p csv_report \<Rightarrow> 'c \<Rightarrow> 'c \<Rightarrow> 'c \<Rightarrow> unit anyhow" where
  "csv_verify_report_signature v attestation_report hsk cek pek =
     and_then (ok_or (cv_decode_ca v (cv_hrk v)) ''IO error'') (\<lambda>(hrk, _).
     and_then (ensure (cv_signed v hrk hrk) ''HRK cert Signature verification failed'') (\<lambda>_.
     and_then (ensure (cv_signed v hrk hsk) ''HSK cert Signature validation failed'') (\<lambda>_.
     and_then (ensure (cv_signed v hsk cek) ''CEK cert Signature validation failed'') (\<lambda>_.
     and_then (ensure (cv_signed v cek pek) ''PEK cert Signature validation failed'') (\<lambda>_.
       ensure (cv_report_signed v pek (tee_info attestation_report)) ''Attestation Report Signature validation failed'')))))"

subsection \<open>Claims\<close>

definition policy_claims :: "('c, 'p) csv_crates \<Rightarrow> 'p \<Rightarrow> json" where
  "policy_claims v policy = json_object (map (\<lambda>n. (n, cv_policy_get v policy n))
     [''nodbg'', ''noks'', ''es'', ''nosend'', ''domain'', ''csv'', ''csv3'', ''asid_reuse'', ''hsk_version'', ''cek_version'',
      ''api_major'', ''api_minor''])"

definition hex_claim :: "crates \<Rightarrow> bytes \<Rightarrow> json" where
  "hex_claim c b = JString (hex_encode c b)"

definition tee_info_claims :: "crates \<Rightarrow> 'p csv_tee_info \<Rightarrow> (string \<times> json) list" where
  "tee_info_claims c t =
     [(''user_pubkey_digest'', hex_claim c (ti_user_pubkey_digest t)), (''vm_id'', hex_claim c (ti_vm_id t)),
      (''vm_version'', hex_claim c (ti_vm_version t)), (''report_data'', hex_claim c (ti_report_data t)),
      (''mnonce'', hex_claim c (ti_mnonce t)), (''measure'', hex_claim c (ti_measure t)),
      (''sig_usage'', hex_claim c (ti_sig_usage t)), (''sig_algo'', hex_claim c (ti_sig_algo t))]"

definition csv_v1_claims :: "('c, 'p) csv_crates \<Rightarrow> crates \<Rightarrow> 'p csv_tee_info \<Rightarrow> u32 \<Rightarrow> string \<Rightarrow> json" where
  "csv_v1_claims v c t anonce serial_number =
     json_object ([(''version'', JString ''1''), (''policy'', policy_claims v (cv_policy_xor v (ti_policy t) anonce))] @ tee_info_claims c t @
       [(''anonce'', hex_claim c (le_enc 4 (unat anonce))), (''serial_number'', JString serial_number)])"

definition csv_v2_claims :: "('c, 'p) csv_crates \<Rightarrow> crates \<Rightarrow> 'p csv_tee_info \<Rightarrow> csv_v2_info \<Rightarrow> string \<Rightarrow> (string \<times> json) list" where
  "csv_v2_claims v c t i serial_number =
     insert_all ([(''version'', JString ''2''), (''policy'', policy_claims v (ti_policy t))] @ tee_info_claims c t @
       [(''build'', v2_build i), (''rtmr_version'', v2_rtmr_version i), (''reserved0'', hex_claim c (v2_reserved0 i)),
        (''rtmr0'', hex_claim c (v2_rtmr0 i)), (''rtmr1'', hex_claim c (v2_rtmr1 i)), (''rtmr2'', hex_claim c (v2_rtmr2 i)),
        (''rtmr3'', hex_claim c (v2_rtmr3 i)), (''rtmr4'', hex_claim c (v2_rtmr4 i)), (''reserved1'', hex_claim c (v2_reserved1 i)),
        (''serial_number'', JString serial_number)]) []"

definition csv_references :: "csv_v2_info \<Rightarrow> reference_measurement list" where
  "csv_references i =
     [\<lparr>rm_index = 1, algorithm = Sm3, reference = v2_rtmr1 i\<rparr>, \<lparr>rm_index = 2, algorithm = Sm3, reference = v2_rtmr2 i\<rparr>,
      \<lparr>rm_index = 3, algorithm = Sm3, reference = v2_rtmr3 i\<rparr>, \<lparr>rm_index = 4, algorithm = Sm3, reference = v2_rtmr4 i\<rparr>]"

subsection \<open>The CSV verifier\<close>

definition csv_chain :: "('c, 'p) csv_crates \<Rightarrow> 'c csv_evidence \<Rightarrow> string \<Rightarrow> ('c \<times> 'c \<times> 'c) anyhow" where
  "csv_chain v e chip_id =
     (case ce_hsk_cek e of
        Some (hsk, cek) \<Rightarrow> Inr (hsk, cek, ce_pek e)
      | None \<Rightarrow>
          and_then (case try_load_hskcek_offline v chip_id of
              Some cert_data \<Rightarrow> Inr cert_data
            | None \<Rightarrow> download_hskcek_from_kds v chip_id) (\<lambda>cert_data.
          and_then (ok_or (cv_decode_ca v cert_data) ''decode'') (\<lambda>(hsk, reader).
          and_then (ok_or (cv_decode_csv v reader) ''decode'') (\<lambda>(cek, _).
            Inr (hsk, cek, ce_pek e)))))"

definition csv_v2_evaluate ::
  "('c, 'p) csv_crates \<Rightarrow> crates \<Rightarrow> bool \<Rightarrow> 'p csv_tee_info \<Rightarrow> csv_v2_info \<Rightarrow> string \<Rightarrow> string option \<Rightarrow> json anyhow" where
  "csv_v2_evaluate v c oc t i serial_number cc_eventlog =
     (let claims = csv_v2_claims v c t i serial_number in
      case cc_eventlog of
        None \<Rightarrow> Inr (JObject claims)
      | Some el \<Rightarrow>
          and_then (ok_or (cv_b64_decode v el) ''base64'') (\<lambda>ccel_data.
          and_then (parse_ccel c oc ccel_data) (\<lambda>ccel.
          and_then (replay_and_match c ccel (csv_references i)) (\<lambda>_.
            Inr (JObject (obj_insert ''uefi_event_logs'' (JArray (map (eventlog_entry_json c) (log ccel))) claims))))))"

definition csv_evaluate ::
  "('c, 'p) csv_crates \<Rightarrow> crates \<Rightarrow> bool \<Rightarrow> json \<Rightarrow> report_data \<Rightarrow> init_data_hash \<Rightarrow> (json \<times> tee_class) list anyhow" where
  "csv_evaluate v c oc evidence expected_report_data expected_init_data_hash =
     and_then (ok_or (cv_from_value v evidence) ''Deserialize Quote failed.'') (\<lambda>e.
     and_then (ok_or (cv_report v (ce_attestation_report e)) ''report'') (\<lambda>report.
     and_then (ok_or (from_utf8 (ce_serial_number e)) ''utf8'') (\<lambda>serial.
     let chip_id = trim_end_matches (CHR 0x00) serial in
     and_then (csv_chain v e chip_id) (\<lambda>(hsk, cek, pek).
     and_then (csv_verify_report_signature v report hsk cek pek) (\<lambda>_.
     and_then (check_report_data expected_report_data 64 (ti_report_data (tee_info report)) ''REPORT_DATA is different from that in CSV Quote'') (\<lambda>_.
     and_then (case report of
         CsvV1 t anonce \<Rightarrow> Inr (csv_v1_claims v c t anonce chip_id)
       | CsvV2 t i \<Rightarrow> csv_v2_evaluate v c oc t i chip_id (ce_cc_eventlog e)) (\<lambda>claims.
       Inr [(claims, ''cpu'')])))))))"

definition csv_verifier :: "('c, 'p) csv_crates \<Rightarrow> crates \<Rightarrow> bool \<Rightarrow> verifier" where
  "csv_verifier v c oc = \<lparr>ve_evaluate = csv_evaluate v c oc, ve_generate_supplemental_challenge = default_supplemental_challenge\<rparr>"

subsection \<open>DCU\<close>

record dcu_report =
  db_version :: json
  db_chip_id :: bytes
  db_user_data :: bytes
  db_measure :: bytes
  db_reserved :: bytes
  db_sig_usage :: nat
  db_sig_algo :: nat

record dcu_crates =
  dx_from_value :: "json \<Rightarrow> dcu_report list option"
  dx_verify_reports :: "dcu_report list \<Rightarrow> bytes \<Rightarrow> bool"
  dx_hex_encode :: "bytes \<Rightarrow> string"

definition dcu_report_claims :: "dcu_crates \<Rightarrow> dcu_report \<Rightarrow> json" where
  "dcu_report_claims x r =
     (let hex = (\<lambda>b. JString (dx_hex_encode x b)) in
      json_object
        [(''body'', json_object
            [(''version'', db_version r), (''chip_id'', hex (db_chip_id r)), (''user_data'', hex (db_user_data r)),
             (''measure'', hex (db_measure r)), (''reserved'', hex (db_reserved r)),
             (''sig_usage'', JString (fmt_hex (db_sig_usage r))), (''sig_algo'', JString (fmt_hex (db_sig_algo r)))]),
         (''report_data'', hex (db_user_data r))])"

definition dcu_parse_tee_evidence :: "dcu_crates \<Rightarrow> dcu_report list \<Rightarrow> json anyhow" where
  "dcu_parse_tee_evidence x reports =
     Inr (JObject (insert_all (map (\<lambda>(i, r). (fmt_dec i, dcu_report_claims x r)) (enumerate 0 reports)) []))"

definition dcu_evaluate ::
  "dcu_crates \<Rightarrow> json \<Rightarrow> report_data \<Rightarrow> init_data_hash \<Rightarrow> (json \<times> tee_class) list anyhow" where
  "dcu_evaluate x evidence expected_report_data expected_init_data_hash =
     and_then (ok_or (dx_from_value x evidence) ''json'') (\<lambda>reports.
     and_then (case expected_report_data of
         RdValue d \<Rightarrow> slice (regularize_data d 64) 0 64
       | RdNotProvided \<Rightarrow> bail ''DCU must check report data'') (\<lambda>user_data.
     and_then (ensure (dx_verify_reports x reports user_data) ''verify'') (\<lambda>_.
     and_then (dcu_parse_tee_evidence x reports) (\<lambda>claims.
       Inr [(claims, ''dcu'')]))))"

definition dcu_verifier :: "dcu_crates \<Rightarrow> verifier" where
  "dcu_verifier x = \<lparr>ve_evaluate = dcu_evaluate x, ve_generate_supplemental_challenge = default_supplemental_challenge\<rparr>"

subsection \<open>What accepted evidence carries\<close>

text \<open>The chain from the vendor's root to the key that signed the report.\<close>

definition csv_genuine :: "('c, 'p) csv_crates \<Rightarrow> 'p csv_report \<Rightarrow> 'c \<Rightarrow> bool" where
  "csv_genuine v report pek \<longleftrightarrow>
     (\<exists>hrk rest hsk cek. cv_decode_ca v (cv_hrk v) = Some (hrk, rest) \<and> cv_signed v hrk hrk \<and> cv_signed v hrk hsk \<and> cv_signed v hsk cek \<and>
        cv_signed v cek pek) \<and> cv_report_signed v pek (tee_info report)"

lemma csv_verify_report_signature_Inr:
  "csv_verify_report_signature v report hsk cek pek = Inr u \<Longrightarrow> csv_genuine v report pek"
  by (auto simp: csv_verify_report_signature_def csv_genuine_def result_simps)

lemma csv_chain_pek: "csv_chain v e chip_id = Inr (hsk, cek, pek) \<Longrightarrow> pek = ce_pek e"
  by (auto simp: csv_chain_def result_simps split: option.splits)

text \<open>An event log in evidence of version 2 replays to the registers of the report; version 1 ignores it.\<close>

definition csv_log_ok :: "('c, 'p) csv_crates \<Rightarrow> crates \<Rightarrow> bool \<Rightarrow> 'p csv_report \<Rightarrow> string option \<Rightarrow> bool" where
  "csv_log_ok v c oc report cc_eventlog \<longleftrightarrow>
     (\<forall>t i el. report = CsvV2 t i \<and> cc_eventlog = Some el \<longrightarrow>
        (\<exists>data lg. cv_b64_decode v el = Some data \<and> cc_event_log_try_from c oc data = Some (Inr lg) \<and>
           list_all (\<lambda>(n, ref). register_value c (log lg) n Sm3 = Some ref) [(1, v2_rtmr1 i), (2, v2_rtmr2 i), (3, v2_rtmr3 i), (4, v2_rtmr4 i)]))"

lemma csv_replay_iff:
  "replay_and_match c lg (csv_references i) = Inr u \<longleftrightarrow>
     list_all (\<lambda>(n, ref). register_value c (log lg) n Sm3 = Some ref) [(1, v2_rtmr1 i), (2, v2_rtmr2 i), (3, v2_rtmr3 i), (4, v2_rtmr4 i)]"
proof -
  have "replay_and_match c lg (csv_references i) = Inr () \<longleftrightarrow>
    list_all (\<lambda>r. register_value c (log lg) (rm_index r) (algorithm r) = Some (reference r)) (csv_references i)"
    unfolding replay_and_match_def by (rule match_references_iff)
  then show ?thesis by (cases u) (simp add: csv_references_def del: match_references.simps)
qed

lemma csv_v2_evaluate_Inr:
  assumes "csv_v2_evaluate v c oc t i serial el = Inr claims"
  shows "csv_log_ok v c oc (CsvV2 t i) el"
    and "\<exists>m. claims = JObject m \<and> map_of m ''report_data'' = Some (hex_claim c (ti_report_data t))"
proof -
  have s: "sorted_object (csv_v2_claims v c t i serial)" by (simp add: csv_v2_claims_def sorted_insert_all)
  have r: "map_of (csv_v2_claims v c t i serial) ''report_data'' = Some (hex_claim c (ti_report_data t))"
    by (simp add: csv_v2_claims_def map_of_insert_all tee_info_claims_def)
  show "csv_log_ok v c oc (CsvV2 t i) el"
    using assms
    by (cases el) (auto simp: csv_v2_evaluate_def csv_log_ok_def Let_def result_simps parse_ccel_Inr csv_replay_iff)
  show "\<exists>m. claims = JObject m \<and> map_of m ''report_data'' = Some (hex_claim c (ti_report_data t))"
    using assms r by (cases el) (auto simp: csv_v2_evaluate_def Let_def result_simps map_of_obj_insert [OF s])
qed

lemma csv_v1_claims_report:
  "\<exists>m. csv_v1_claims v c t anonce serial = JObject m \<and> map_of m ''report_data'' = Some (hex_claim c (ti_report_data t))"
  unfolding csv_v1_claims_def json_object_def insert_all_def [symmetric]
  by (simp add: map_of_insert_all tee_info_claims_def)

lemma csv_evaluate_Inr:
  assumes "csv_evaluate v c oc evidence rd idh = Inr claims"
  obtains e report m where "cv_from_value v evidence = Some e" and "cv_report v (ce_attestation_report e) = Some report"
    and "csv_genuine v report (ce_pek e)" and "\<And>d. rd = RdValue d \<Longrightarrow> ti_report_data (tee_info report) = regularize_data d 64"
    and "csv_log_ok v c oc report (ce_cc_eventlog e)" and "claims = [(JObject m, ''cpu'')]"
    and "map_of m ''report_data'' = Some (hex_claim c (ti_report_data (tee_info report)))"
proof -
  from assms obtain e report serial k u cl where e: "cv_from_value v evidence = Some e" "cv_report v (ce_attestation_report e) = Some report"
      "csv_chain v e (trim_end_matches (CHR 0x00) serial) = Inr k"
      "(case k of (hsk, cek, pek) \<Rightarrow> and_then (csv_verify_report_signature v report hsk cek pek) (\<lambda>_.
         and_then (check_report_data rd 64 (ti_report_data (tee_info report)) ''REPORT_DATA is different from that in CSV Quote'') (\<lambda>_.
         and_then (case report of CsvV1 t anonce \<Rightarrow> Inr (csv_v1_claims v c t anonce (trim_end_matches (CHR 0x00) serial))
           | CsvV2 t i \<Rightarrow> csv_v2_evaluate v c oc t i (trim_end_matches (CHR 0x00) serial) (ce_cc_eventlog e)) (\<lambda>claims.
           Inr [(claims, ''cpu'')])))) = Inr claims"
    unfolding csv_evaluate_def Let_def and_then_eq_Inr_iff ok_or_eq_Inr_iff by (elim exE conjE) (rule that, assumption+)
  obtain hsk cek pek where k: "k = (hsk, cek, pek)" by (cases k)
  from e(4) have g: "csv_genuine v report (ce_pek e)" and rd: "\<forall>d. rd = RdValue d \<longrightarrow> ti_report_data (tee_info report) = regularize_data d 64"
    using csv_chain_pek [OF e(3) [unfolded k]] csv_verify_report_signature_Inr [of v report hsk cek pek]
    by (auto simp: k and_then_eq_Inr_iff)
  show thesis
  proof (cases report)
    case (CsvV1 t anonce)
    then show thesis
      using that [OF e(1,2) g] rd e(4) csv_v1_claims_report [of v c t anonce "trim_end_matches (CHR 0x00) serial"]
      by (auto simp: k and_then_eq_Inr_iff tee_info_def csv_log_ok_def)
  next
    case (CsvV2 t i)
    then obtain cl where cl: "csv_v2_evaluate v c oc t i (trim_end_matches (CHR 0x00) serial) (ce_cc_eventlog e) = Inr cl" "claims = [(cl, ''cpu'')]"
      using e(4) by (auto simp: k and_then_eq_Inr_iff)
    then show thesis using that [OF e(1,2) g] rd csv_v2_evaluate_Inr [OF cl(1)] by (auto simp: CsvV2 tee_info_def)
  qed
qed

text \<open>Neither verifier looks at the init data.\<close>

definition csv_carried :: "('c, 'p) csv_crates \<Rightarrow> carried" where
  "csv_carried v = \<lparr>
     ca_report = (\<lambda>evidence d. \<exists>e report. cv_from_value v evidence = Some e \<and> cv_report v (ce_attestation_report e) = Some report \<and>
       csv_genuine v report (ce_pek e) \<and> ti_report_data (tee_info report) = regularize_data d 64),
     ca_init = (\<lambda>_ _. True)\<rparr>"

definition dcu_carried :: "dcu_crates \<Rightarrow> carried" where
  "dcu_carried x = \<lparr>
     ca_report = (\<lambda>evidence d. \<exists>reports. dx_from_value x evidence = Some reports \<and> dx_verify_reports x reports (regularize_data d 64)),
     ca_init = (\<lambda>_ _. True)\<rparr>"

interpretation csv: evidence_verifier "csv_verifier v c oc" "csv_carried v" for v c oc
  by unfold_locales (auto simp: csv_verifier_def csv_carried_def elim!: csv_evaluate_Inr)

interpretation dcu: evidence_verifier "dcu_verifier x" "dcu_carried x" for x
  by unfold_locales (auto simp: dcu_verifier_def dcu_carried_def dcu_evaluate_def result_simps)

subsection \<open>Properties\<close>

text \<open>C18. CSV evidence that is accepted is genuine and bound: the report is signed by the platform key of the evidence, which the chain of
  certificates from Hygon's self-signed root certifies; it carries the expected report data, padded with zeros or cut to 64 bytes, and
  the claims show the report data of this report; and an event log that comes with a report of version 2 parses and replays to its
  registers 1 to 4.\<close>

theorem csv_evidence_sound:
  assumes "csv_evaluate v c oc evidence (RdValue d) idh = Inr claims"
  shows "\<exists>e report m. cv_from_value v evidence = Some e \<and> cv_report v (ce_attestation_report e) = Some report \<and>
    csv_genuine v report (ce_pek e) \<and> ti_report_data (tee_info report) = regularize_data d 64 \<and>
    csv_log_ok v c oc report (ce_cc_eventlog e) \<and> claims = [(JObject m, ''cpu'')] \<and>
    map_of m ''report_data'' = Some (hex_claim c (regularize_data d 64))"
  using assms by (rule csv_evaluate_Inr) auto

text \<open>Certificates are numbers, each signed by the one before it; number 0 is the root.\<close>

definition sample_csv_report :: "unit csv_report" where
  "sample_csv_report = CsvV2 \<lparr>ti_policy = (), ti_user_pubkey_digest = [], ti_vm_id = [], ti_vm_version = [], ti_report_data = regularize_data [1] 64,
     ti_mnonce = [], ti_measure = [], ti_sig_usage = [], ti_sig_algo = []\<rparr>
     \<lparr>v2_build = JNull, v2_rtmr_version = JNull, v2_reserved0 = [], v2_rtmr0 = [], v2_rtmr1 = [], v2_rtmr2 = [], v2_rtmr3 = [],
      v2_rtmr4 = [], v2_reserved1 = []\<rparr>"

definition sample_csv :: "(nat, unit) csv_crates" where
  "sample_csv = \<lparr>
     cv_from_value = (\<lambda>_. Some \<lparr>ce_attestation_report = [], ce_hsk_cek = None, ce_pek = 3, ce_serial_number = [0x41, 0], ce_cc_eventlog = None\<rparr>),
     cv_report = (\<lambda>_. Some sample_csv_report), cv_read_file = (\<lambda>_. Some [1]), cv_http_get = (\<lambda>_. None), cv_hrk = [],
     cv_decode_ca = (\<lambda>b. Some (length b, [1, 2])), cv_decode_csv = (\<lambda>b. Some (length b, [])), cv_signed = (\<lambda>a b. b = 0 \<or> b = a + 1),
     cv_report_signed = (\<lambda>k _. k = 3), cv_policy_xor = (\<lambda>_ _. ()), cv_policy_get = (\<lambda>_ _. JNull), cv_b64_decode = (\<lambda>_. None)\<rparr>"

lemma sample_csv_accepts: "\<exists>claims. csv_evaluate sample_csv sample_crates True JNull (RdValue [1]) IdNotProvided = Inr claims"
proof -
  have "from_utf8 [0x41, 0] \<noteq> None" by code_simp
  then obtain s where s: "from_utf8 [0x41, 0] = Some s" by blast
  show ?thesis
    by (simp add: csv_evaluate_def csv_chain_def try_load_hskcek_offline_def csv_verify_report_signature_def check_report_data_def
        csv_v2_evaluate_def sample_csv_def sample_csv_report_def tee_info_def s Let_def)
qed

theorem csv_evidence_sound_witness: "csv_genuine sample_csv sample_csv_report 3"
proof -
  obtain claims where "csv_evaluate sample_csv sample_crates True JNull (RdValue [1]) IdNotProvided = Inr claims" using sample_csv_accepts ..
  from csv_evidence_sound [OF this] show ?thesis by (auto simp: sample_csv_def)
qed

end
