(* ===== verification/Spec2Isabelle.thy ===== *)
theory Spec2Isabelle
  imports Event_Log Kbs_Handshake Kbs_Storage Kbs_Backends Kbs_Policy Kbs_Api Rvps As_Token As_Service Tdx Sgx Snp Az_Vtpm Nvidia Tpm Hygon
begin

text \<open>
  Trustee is the server side of confidential containers. A confidential guest attests itself to the \<^bold>\<open>key broker
  service\<close> (\<^verbatim>\<open>src/kbs\<close>) and fetches secrets from it; the \<^bold>\<open>attestation service\<close> (\<^verbatim>\<open>src/attestation-service\<close>) verifies
  the evidence with a \<^bold>\<open>verifier\<close> of the platform (\<^verbatim>\<open>src/deps/verifier\<close>, \<^verbatim>\<open>src/deps/eventlog\<close>), judges it by policies against
  the values of the \<^bold>\<open>reference value provider\<close> (\<^verbatim>\<open>src/rvps\<close>) and issues a token; the broker releases a resource to the
  holder of such a token when the resource policy allows it.

  \<^bold>\<open>Language.\<close> \<open>Rust_Prelude\<close> (results with panics, \<^verbatim>\<open>usize\<close> in both build profiles, slices, little-endian integers),
  \<open>Rust_Text\<close> (UTF-8 and UTF-16, formatting, splitting), \<open>Json\<close> (\<^verbatim>\<open>serde_json::Value\<close>), \<open>Effects\<close> (stateful handlers
  \<open>'s \<Rightarrow> result \<times> 's\<close>), \<open>File_System\<close> (paths and a tree of files), \<open>Struct_Layout\<close> (C structures read with scroll).
  A function that can fail returns \<open>error + value\<close>, where the error side tells an error value from a panic. Third-party
  crates are records of functions that the definitions take as arguments; what the code relies on is a named predicate
  (\<open>scroll_le\<close>, \<open>array_reader\<close>, \<open>digest_sizes\<close>, \<open>gcm_law\<close>, \<open>wire_law\<close>, ...) and every property with such a hypothesis is
  instantiated in its witness by a concrete function. Texts of errors are the static part of the outermost message.

  \<^bold>\<open>Event log\<close> (\<^verbatim>\<open>deps/eventlog\<close>). \<open>Tcg_Enum\<close>, \<open>Event_Parsers\<close>, \<open>Device_Paths\<close> and \<open>Event_Log\<close> model the enumerations, one
  parser per event type, the printers of device paths, and \<^verbatim>\<open>CcEventLog::try_from\<close> with the replay. The loop over entries
  is a \<open>partial_function\<close>; it is shown to return on every input, to invert the encoding of the TCG format, and the
  replay accepts exactly the values of the hash chain.

  \<^bold>\<open>Key broker.\<close> \<open>Kbs_Session\<close> and \<open>Kbs_Handshake\<close> (\<^verbatim>\<open>attestation/session.rs\<close>, \<^verbatim>\<open>backend.rs\<close>): sessions, the two halves of an
  attest request with the lock released between them, and the step relation \<open>kbs_step\<close> of interleaved requests, whose
  invariants give the origin of every token. \<open>Kbs_Storage\<close> (\<^verbatim>\<open>plugins/implementations/resource\<close>): descriptors, the resource
  plugin and three locales of backends, each extending the one before: \<open>readable_backend\<close> (reads change nothing),
  \<open>partial_backend\<close> (what is accepted is read back) and \<open>storage_backend\<close> (everything is accepted), which the file system
  implements, so that the plugin on it refines a map. \<open>Kbs_Backends\<close> (\<^verbatim>\<open>vault_kv.rs\<close>, \<^verbatim>\<open>aliyun_kms.rs\<close>, \<^verbatim>\<open>pkcs11.rs\<close>) has the
  other stores: a Vault server that serves is a partial backend for UTF-8, and posts to a PKCS\#11 token are not seen by
  reads of a resource it has. \<open>Kbs_Policy\<close>, \<open>Kbs_Token\<close>, \<open>Kbs_Jwe\<close>,
  \<open>Kbs_Api\<close>: the resource policy, verification of tokens, encryption of responses, and the router with its metrics.

  \<^bold>\<open>Attestation service.\<close> \<open>As_Policy\<close> (the directory of policies), \<open>As_Token\<close> (claims, Simple and EAR tokens), \<open>As_Service\<close>
  (\<^verbatim>\<open>AttestationService::evaluate\<close>, the RESTful and gRPC front ends, and the two adapters of the broker, which are shown
  equivalent). \<open>Rvps\<close>: extractors, both storages and the service, which refines a map.

  \<^bold>\<open>Verifiers.\<close> \<open>Verifier_Core\<close> has the interface, the sample verifiers and the locale \<open>evidence_verifier\<close>: a verifier accepts
  only evidence that carries the expected report data and init data. It is interpreted for every verifier that is
  modelled, with what evidence of that platform can carry: \<open>Tdx\<close> and \<open>Sgx\<close> over \<open>Intel_Dcap\<close>, \<open>Snp\<close>, \<open>Az_Vtpm\<close> (SNP and TDX
  guests on Azure), \<open>Nvidia\<close> over the SPDM messages of \<open>Nvidia_Spdm\<close>, \<open>Tpm\<close> and \<open>Hygon\<close> (CSV and DCU). Each of these theories
  shows what accepted evidence proves of the chain from the vendor's root to the report, and where its parsers panic.
  The end to end property of this theory takes these facts through the service and the handshake.

  \<^bold>\<open>Bounds and fuel.\<close> No definition takes fuel. Loops are structural recursions over the input, functions with a
  termination proof, or \<open>partial_function (option)\<close>, for which returning is a theorem. Machine integers are words, or
  natural numbers with the bound \<open>2 ^ 64\<close> written out where \<^verbatim>\<open>usize\<close> can overflow; the flag \<open>oc\<close> says whether overflow
  checks are compiled in.

  \<^bold>\<open>Not modelled.\<close> Sockets, TLS and the start of the servers; command line tools (\<^verbatim>\<open>tools\<close>, the \<^verbatim>\<open>main\<close> functions) and
  reading of configuration files, which are input and output around library calls. The verifiers of CCA and IBM SE, whose
  checks are in the crates \<^verbatim>\<open>ccatoken\<close> and \<^verbatim>\<open>pv\<close> or a remote service; the Intel Trust Authority client, which has a remote service verify
  the evidence; the Nebula CA plugin, which runs an external program; the in-toto extractor, which calls a verifier in Go.
  Of these the code around the foreign calls is left out as well. The arms of \<^verbatim>\<open>ResourceStorage::try_from\<close> for Aliyun and Vault,
  which only call the constructors of \<open>Kbs_Backends\<close>; generated gRPC code; logging and the printing of structures for it.
\<close>

section \<open>The key broker over its built-in attestation service\<close>


subsection \<open>A handshake over the sample verifier\<close>

definition e2e_impl :: "(string \<times> bytes) list service_state attest_impl" where
  "e2e_impl = builtin_attest sample_wire_kbs sample_service"

definition e2e_authed :: "(string \<times> bytes) list service_state attestation_service" where
  "e2e_authed = snd (as_auth sample_wire_kbs e2e_impl ''id'' sample_entropy 0 [1] (as_new sample_service_state 5))"

lemma e2e_auth:
  "as_auth sample_wire_kbs e2e_impl ''id'' sample_entropy 0 [1] (as_new sample_service_state 5) =
     (Inr \<lparr>hr_status = 200, hr_content_type = Some ''application/json'', hr_body = ''n'',
        hr_cookie = Some \<lparr>ck_value = ''id'', ck_expires = 300\<rparr>\<rparr>, e2e_authed)"
  "session_map e2e_authed = [''id'' \<mapsto> Authed sample_request \<lparr>ch_nonce = ''n'', ch_extra_params = JString ''''\<rparr> ''id'' 300]"
  "as_inner e2e_authed = sample_service_state"
  by (simp_all add: e2e_authed_def e2e_impl_def builtin_attest_def builtin_generate_challenge_def sample_wire_kbs_def as_auth_def
      prog_simps innerP_apply sample_defs session_auth_def session_insert_def Let_def)

lemma e2e_begin:
  "attest_begin sample_wire_kbs 10 (Some ''id'') [1] e2e_authed =
     (Inr (Inr sample_pending), upd_metrics inc_attestation_requests e2e_authed)"
  by (simp add: attest_begin_def prog_simps e2e_auth is_expired_def sample_wire_kbs_def sample_defs evidence_list_def sample_pending_def)

lemma e2e_finish:
  assumes "session_map a = session_map e2e_authed" and "as_inner a = sample_service_state"
  shows "\<exists>a'. attest_finish sample_wire_kbs e2e_impl sample_pending a =
     (Inr (token_response (Attested ''token'' ''id'' 300) ''{}''), a') \<and> session_map a' = [''id'' \<mapsto> Attested ''token'' ''id'' 300]"
proof -
  have "fst (ai_verify e2e_impl (pd_evidence sample_pending) sample_service_state) = Inr ''token''"
    by (simp add: e2e_impl_def builtin_attest_def sample_builtin_verify sample_pending_def)
  with assms show ?thesis
    by (simp add: attest_finish_def prog_simps e2e_auth innerP_apply token_body_def sample_wire_kbs_def sample_defs
      trim_quotes_tee [simplified] sample_pending_def Let_def)
qed

lemma e2e_reachable:
  "\<exists>c. kbs_reachable sample_wire_kbs e2e_impl c \<and> get_attest_token_from_session 20 (Some ''id'') (cf_as c) = Inr ''token''"
proof -
  let ?c0 = "conf_init sample_service_state 5"
  let ?c1 = "?c0\<lparr>cf_as := e2e_authed, cf_opened := {} \<union> opened_by Map.empty (session_map e2e_authed)\<rparr>"
  let ?c2 = "?c1\<lparr>cf_as := upd_metrics inc_attestation_requests e2e_authed, cf_pending := [sample_pending]\<rparr>"
  obtain a' where a': "attest_finish sample_wire_kbs e2e_impl sample_pending (cf_as ?c2) =
      (Inr (token_response (Attested ''token'' ''id'' 300) ''{}''), a')" "session_map a' = [''id'' \<mapsto> Attested ''token'' ''id'' 300]"
    using e2e_finish [of "upd_metrics inc_attestation_requests e2e_authed"] e2e_auth(3) by (auto simp: upd_metrics_def)
  have "kbs_step sample_wire_kbs e2e_impl ?c0 ?c1"
    using kbs_step.step_auth [of sample_wire_kbs e2e_impl "''id''" sample_entropy 0 "[1]" ?c0] e2e_auth(1)
    by (simp add: conf_init_def as_new_def)
  moreover have "kbs_step sample_wire_kbs e2e_impl ?c1 ?c2"
    using kbs_step.step_begin [of sample_wire_kbs 10 "Some ''id''" "[1]" ?c1 _ _ e2e_impl] e2e_begin
    by (simp add: conf_init_def)
  moreover have "kbs_step sample_wire_kbs e2e_impl ?c2 (?c2\<lparr>cf_as := a', cf_pending := remove1 sample_pending (cf_pending ?c2),
      cf_verified := cf_verified ?c2 \<union> verified_by e2e_impl sample_pending (cf_as ?c2)\<rparr>)"
    by (rule kbs_step.step_finish [OF _ a'(1)]) simp
  ultimately have "kbs_reachable sample_wire_kbs e2e_impl (?c2\<lparr>cf_as := a', cf_pending := remove1 sample_pending (cf_pending ?c2),
      cf_verified := cf_verified ?c2 \<union> verified_by e2e_impl sample_pending (cf_as ?c2)\<rparr>)" by (blast intro: reach_init reach_step)
  with a'(2) show ?thesis by (fastforce simp: get_token_eq_Inr_iff)
qed


text \<open>C2. What the admin stores is what an attested client receives: after the admin has posted a resource, a client whose token's claims
  the resource policy allows gets, from a GET of the same resource, a response that the holder of the TEE key in these claims
  decrypts to exactly the bytes that were posted.\<close>

theorem posted_resource_delivered:
  assumes "hq_base_path post = Some bp" and "hq_additional_path post = Some (CHR ''/'' # resource_desc_fmt d)"
    and "hq_method post = ''POST''" and "admin_ok en post s" and "api en cx post secret s = (res, s')"
    and "hq_base_path get = Some bp" and "hq_additional_path get = Some (CHR ''/'' # resource_desc_fmt d)"
    and "hq_method get = ''GET''" and "claims_allowed en cx' get (bp @ CHR ''/'' # resource_desc_fmt d) s' claims"
    and "plugin_manager s bp = Some (ResourcePlugin dir)" and "repo_inv dir (api_fs s)" and "desc_ok d"
    and "\<not> is_handshake bp ''POST''" and "\<not> is_admin_endpoint bp ''POST''" and "\<not> is_admin_endpoint bp ''GET''"
    and "extract_tee_public_key (en_token en) (api_token_verifier s) claims = Inr key" and "receives (en_jwe en) r key"
    and "jwe (en_jwe en) (cx_jwe cx') key secret = Inr j" and "en_jwe_to_string en j = Some text"
  shows "(\<exists>resp. res = Inr resp) \<and> fst (api en cx' get body s') = Inr (http_ok (Some ''application/json'') text) \<and>
    jwe_decrypt (en_jwe en) r j = Some secret"
proof -
  have p: "(\<exists>resp. res = Inr resp) \<and> plugin_manager s' = plugin_manager s \<and> api_token_verifier s' = api_token_verifier s \<and>
      fst (local_fs_read dir d (api_fs s')) = Inr secret"
    by (rule api_resource_post [OF assms(1,2,10,3,12,13,14,4,11,5)])
  then have q: "plugin_manager s' bp = Some (ResourcePlugin dir)" "fst (local_fs_read dir d (api_fs s')) = Inr secret"
    "extract_tee_public_key (en_token en) (api_token_verifier s') claims = Inr key"
    using assms(10,16) by auto
  have "fst (api en cx' get body s') = Inr (http_ok (Some ''application/json'') text)"
    by (rule api_resource_get [OF assms(6,7) q(1) assms(8,12,15,9) q(2,3) assms(18,19)])
  with p jwe_decrypts [OF assms(17,18)] show ?thesis by blast
qed

subsection \<open>A resource that is posted and fetched\<close>

definition e2e_server :: "unit api_server" where
  "e2e_server = sample_server\<lparr>plugin_manager := [''resource'' \<mapsto> ResourcePlugin ''r''], admin_auth := \<lparr>public_key = None\<rparr>,
     api_storage := (api_storage sample_server)\<lparr>st_backend := [[] \<mapsto> Dir, [''p''] \<mapsto> File (as_bytes ''allow''), [''r''] \<mapsto> Dir]\<rparr>\<rparr>"

definition e2e_post :: http_request where
  "e2e_post = sample_get\<lparr>hq_method := ''POST''\<rparr>"

definition e2e_posted :: "unit api_server" where
  "e2e_posted = snd (api sample_env sample_ctx e2e_post [104, 105] e2e_server)"

lemma e2e_repo: "repo_inv ''r'' (api_fs e2e_server)"
  by (simp add: repo_inv_def api_fs_def e2e_server_def components_def plain_def)

lemma e2e_posted_eq:
  "e2e_posted = e2e_server\<lparr>api_storage := \<lparr>st_backend = [[] \<mapsto> Dir, [''p''] \<mapsto> File (as_bytes ''allow''), [''r''] \<mapsto> Dir, [''r'', ''a''] \<mapsto> Dir,
     [''r'', ''a'', ''b''] \<mapsto> Dir, [''r'', ''a'', ''b'', ''c''] \<mapsto> File [104, 105]], resource_reads_total = (\<lambda>_. 0),
     resource_writes_total = (\<lambda>_. 0)(''a/b/c'' := 1)\<rparr>\<rparr>"
  by (simp add: e2e_posted_def e2e_post_def sample_get_def e2e_server_def sample_server_def api_def api_plugin_def prog_simps
      plugin_validate_auth_def resource_validate_auth_def adminP_def admin_validate_auth_def plugin_handle_def storageP_apply
      resource_handle_def strip_prefix_def resource_desc_try_from_def segment_ok_def word_char_def set_secret_resource_def
      backendP_apply local_fs_ops_sel local_fs_write_def fs_exists_def resolve_def components_def path_push_def create_dir_allF_def
      fs_create_dir_all_def writeF_def fs_write_def resource_desc_fmt_def bindP_eq Let_def)

lemma e2e_policy_text: "from_utf8 (as_bytes ''allow'') = Some ''allow''"
  by code_simp

lemma e2e_allowed: "claims_allowed sample_env sample_ctx sample_get e e2e_posted (JString ''tok'')"
  unfolding claims_allowed_def
  by (rule exI [of _ "''tok''"], rule exI [of _ "''{}''"])
    (simp add: e2e_posted_eq e2e_server_def sample_get_def sample_server_def get_attestation_token_def get_attest_token_from_session_def
      token_verifier_verify_def jwk_verify_def sample_env_def sample_token_crates_def get_verification_jwk_def
      sample_kbs_def policy_engine_evaluate_def api_fs_def opa_evaluate_def fs_read_def resolve_def components_def sample_rego_def
      e2e_policy_text)

lemma e2e_receives: "receives sample_jwe sample_receiver (TeeRSA ''RSA-OAEP-256'' '''' '''')"
  by (auto simp: receives_def gcm_law_def rsa_law_def sample_jwe_def sample_receiver_def key_byte_def as_bytes_def comp_def)

theorem posted_resource_delivered_witness:
  "\<exists>j. fst (api sample_env sample_ctx sample_get [] e2e_posted) =
       Inr (http_ok (Some ''application/json'') (string_of_bytes (jw_ciphertext j))) \<and>
     jwe_decrypt sample_jwe sample_receiver j = Some [104, 105]"
proof -
  let ?key = "TeeRSA ''RSA-OAEP-256'' '''' ''''"
  obtain res where res: "api sample_env sample_ctx e2e_post [104, 105] e2e_server = (res, e2e_posted)"
    by (metis e2e_posted_def prod.collapse)
  obtain j where j: "jwe (en_jwe sample_env) (cx_jwe sample_ctx) ?key [104, 105] = Inr j"
    by (simp add: jwe_def rsa_oaep256_def sample_sel sample_jwe_def sample_random_def Let_def)
  have p: "hq_base_path e2e_post = Some ''resource''" "hq_additional_path e2e_post = Some (CHR ''/'' # resource_desc_fmt sample_desc)"
    "hq_method e2e_post = ''POST''" "admin_ok sample_env e2e_post e2e_server" "plugin_manager e2e_server ''resource'' = Some (ResourcePlugin ''r'')"
    "\<not> is_handshake ''resource'' ''POST''" "\<not> is_admin_endpoint ''resource'' ''POST''"
    by (simp_all add: e2e_post_def sample_get_def sample_desc_ok e2e_server_def admin_ok_def admin_validate_auth_def is_handshake_def
        is_admin_endpoint_def)
  have g: "hq_additional_path sample_get = Some (CHR ''/'' # resource_desc_fmt sample_desc)" by (simp add: sample_sel sample_desc_ok)
  have k: "extract_tee_public_key (en_token sample_env) (api_token_verifier e2e_server) (JString ''tok'') = Inr ?key"
    by (simp add: sample_env_def e2e_server_def sample_server_def sample_token_crates_def extract_tee_public_key_def)
  have r: "receives (en_jwe sample_env) sample_receiver ?key" using e2e_receives by (simp add: sample_sel)
  from posted_resource_delivered [OF p(1-4) res sample_sel(1) g sample_sel(3) e2e_allowed p(5) e2e_repo sample_desc_ok(1) p(6,7)
      sample_sel(8) k r j sample_sel(5)]
  show ?thesis by (auto simp: sample_sel)
qed

end
